(* ===== verification/Prelude.thy ===== *)
theory Prelude
  imports Main "HOL-Library.AList" "HOL-Library.Sublist" "HOL-Library.Code_Target_Numeral"
begin

text \<open>
  What every component shares: the outcome of a Go call that may panic, the
  collections of rewrite rules the component theories add to, and the generic
  lemmas on lists that the wire format needs.
\<close>

named_theorems go_string \<comment> \<open>facts about the string functions of the Go library\<close>
named_theorems go_number \<comment> \<open>facts about printing and parsing numbers\<close>
named_theorems wire \<comment> \<open>facts about the fixed-width fields of a frame\<close>

section \<open>Outcomes\<close>

text \<open>
  A Go function that returns \<open>(value, error)\<close> and may panic: \<open>Panicked\<close> is a run-time
  panic (nil dereference, failed type assertion, slice bounds), \<open>Failed e\<close> a non-nil
  error, \<open>Returned v\<close> a value with a nil error.
\<close>

datatype (discs_sels) ('e, 'a) outcome = Panicked | Failed 'e | Returned 'a

fun bind_outcome :: "('e, 'a) outcome \<Rightarrow> ('a \<Rightarrow> ('e, 'b) outcome) \<Rightarrow> ('e, 'b) outcome" where
  "bind_outcome Panicked f = Panicked"
| "bind_outcome (Failed e) f = Failed e"
| "bind_outcome (Returned a) f = f a"

lemma bind_outcome_Returned_iff:
  "bind_outcome m f = Returned b \<longleftrightarrow> (\<exists>a. m = Returned a \<and> f a = Returned b)"
  by (cases m) auto

lemma bind_outcome_Panicked_iff:
  "bind_outcome m f = Panicked \<longleftrightarrow> m = Panicked \<or> (\<exists>a. m = Returned a \<and> f a = Panicked)"
  by (cases m) auto

lemma bind_outcome_Failed_iff:
  "bind_outcome m f = Failed e \<longleftrightarrow> m = Failed e \<or> (\<exists>a. m = Returned a \<and> f a = Failed e)"
  by (cases m) auto

lemma guard_Returned_iff: "(if c then Failed e else k) = Returned v \<longleftrightarrow> \<not> c \<and> k = Returned v"
  by simp

text \<open>\<open>option\<close> as the outcome of code that can panic but returns no error.\<close>

definition no_panic :: "'a option \<Rightarrow> ('e, 'a) outcome" where
  "no_panic x = (case x of None \<Rightarrow> Panicked | Some v \<Rightarrow> Returned v)"

lemma no_panic_simps [simp]:
  "no_panic None = Panicked" "no_panic (Some v) = Returned v"
  by (simp_all add: no_panic_def)

section \<open>Slices of byte strings\<close>

text \<open>
  \<open>s[a:b]\<close> of Go: it panics unless \<open>0 \<le> a \<le> b \<le> len(s)\<close>. The lengths in a frame are
  untrusted integers, so the bounds are an \<open>int\<close> check here.
\<close>

definition slice :: "'a list \<Rightarrow> int \<Rightarrow> int \<Rightarrow> 'a list option" where
  "slice s a b =
     (if 0 \<le> a \<and> a \<le> b \<and> b \<le> int (length s)
      then Some (take (nat (b - a)) (drop (nat a) s)) else None)"

lemma slice_eq_None_iff:
  "slice s a b = None \<longleftrightarrow> \<not> (0 \<le> a \<and> a \<le> b \<and> b \<le> int (length s))"
  by (simp add: slice_def)

lemma length_slice: "slice s a b = Some t \<Longrightarrow> int (length t) = b - a"
  by (auto simp: slice_def split: if_splits)

lemma slice_append3:
  assumes "int (length x) = a" and "int (length y) = b - a"
  shows "slice (x @ y @ z) a b = Some y"
proof -
  have "a = int (length x)" and "nat (b - a) = length y" using assms by auto
  with assms show ?thesis by (simp add: slice_def)
qed

lemma slice_append2:
  assumes "int (length x) = a" and "int (length y) = b - a"
  shows "slice (x @ y) a b = Some y"
  using slice_append3 [of x a y b "[]"] assms by simp

section \<open>Association lists as Go maps\<close>

text \<open>
  A \<open>map[string]T\<close> is an association list with distinct keys: \<open>map_of m k\<close> is the
  two-valued lookup \<open>v, ok := m[k]\<close>, \<open>AList.update k v m\<close> the assignment. The list order
  stands for the order of insertion; Go's \<open>range\<close> visits the pairs in some order the
  language leaves open, which the model takes as an argument.
\<close>

definition get_or :: "'v \<Rightarrow> ('k \<times> 'v) list \<Rightarrow> 'k \<Rightarrow> 'v" where
  "get_or d m k = (case map_of m k of None \<Rightarrow> d | Some v \<Rightarrow> v)"

lemma map_of_update [simp]: "map_of (AList.update k v m) k' = (if k' = k then Some v else map_of m k')"
  by (simp add: update_conv)

fun first_of :: "('k \<times> 'v) list \<Rightarrow> 'k list \<Rightarrow> 'v option" where
  "first_of m [] = None"
| "first_of m (k # ks) = (case map_of m k of Some v \<Rightarrow> Some v | None \<Rightarrow> first_of m ks)"

lemma first_of_Some: "first_of m ks = Some v \<Longrightarrow> \<exists>k \<in> set ks. map_of m k = Some v"
  by (induction ks) (auto split: option.splits)

lemma first_of_None: "first_of m ks = None \<longleftrightarrow> (\<forall>k \<in> set ks. map_of m k = None)"
  by (induction ks) (auto split: option.splits)

section \<open>Lists\<close>

lemma takeWhile_dropWhile_last:
  "xs = [] \<or> \<not> P (last xs) \<Longrightarrow> rev (dropWhile P (rev xs)) = xs"
  by (induction xs rule: rev_induct) auto

lemma length_filter_eq_iff: "length (filter P xs) = length xs \<longleftrightarrow> (\<forall>x \<in> set xs. P x)"
  by (metis filter_True length_filter_less less_irrefl_nat)

end
