(* ===== verification/GoStrings.thy ===== *)
theory GoStrings
  imports Prelude
begin

text \<open>
  The part of Go's \<open>strings\<close>, \<open>unicode\<close> and \<open>utf8\<close> packages the client uses, over byte
  strings: a Go \<open>string\<close> or \<open>[]byte\<close> is a \<open>char list\<close> whose characters are its bytes.
\<close>

abbreviation code :: "char \<Rightarrow> nat" where
  "code c \<equiv> of_char c"

abbreviation TAB :: char where "TAB \<equiv> CHR 0x09"
abbreviation NL :: char where "NL \<equiv> CHR 0x0A"
abbreviation NUL :: char where "NUL \<equiv> CHR 0x00"

section \<open>Searching and cutting\<close>

fun HasPrefix :: "string \<Rightarrow> string \<Rightarrow> bool" where
  "HasPrefix s [] = True"
| "HasPrefix [] (p # ps) = False"
| "HasPrefix (c # cs) (p # ps) = (c = p \<and> HasPrefix cs ps)"

lemma HasPrefix_iff: "HasPrefix s p \<longleftrightarrow> (\<exists>r. s = p @ r)"
  by (induction s p rule: HasPrefix.induct) auto

lemma HasPrefix_append [simp]: "HasPrefix (p @ r) p"
  by (auto simp: HasPrefix_iff)

definition CutPrefix :: "string \<Rightarrow> string \<Rightarrow> string option" where
  "CutPrefix s p = (if HasPrefix s p then Some (drop (length p) s) else None)"

fun IndexByte :: "string \<Rightarrow> char \<Rightarrow> nat option" where
  "IndexByte [] c = None"
| "IndexByte (x # xs) c = (if x = c then Some 0 else map_option Suc (IndexByte xs c))"

fun Index :: "string \<Rightarrow> string \<Rightarrow> nat option" where
  "Index s sub = (if HasPrefix s sub then Some 0
     else (case s of [] \<Rightarrow> None | _ # t \<Rightarrow> map_option Suc (Index t sub)))"

declare Index.simps [simp del]

definition Contains :: "string \<Rightarrow> string \<Rightarrow> bool" where
  "Contains s sub = (Index s sub \<noteq> None)"

text \<open>
  Where a pattern is found: with its last byte nowhere before it, or its first byte nowhere
  inside it and no earlier occurrence, it is found at its own position.
\<close>

lemma Index_at_last:
  assumes "c \<notin> set a" and "c \<notin> set q"
  shows "Index (a @ q @ c # r) (q @ [c]) = Some (length a)"
  using assms(1)
proof (induction a)
  case Nil
  show ?case using HasPrefix_append [of "q @ [c]" r] by (subst Index.simps) simp
next
  case (Cons x a)
  have "\<not> HasPrefix (x # a @ q @ c # r) (q @ [c])"
  proof
    assume "HasPrefix (x # a @ q @ c # r) (q @ [c])"
    then obtain t where t: "x # a @ q @ c # r = (q @ [c]) @ t" by (auto simp: HasPrefix_iff)
    then have "(x # a @ q @ c # r) ! length q = c" by (simp add: nth_append)
    moreover have "(x # a @ q @ c # r) ! length q \<in> set (x # a @ q)"
    proof -
      have "(x # a @ q @ c # r) ! length q = (x # a @ q) ! length q"
        using nth_append [of "x # a @ q" "c # r" "length q"] by simp
      moreover have "(x # a @ q) ! length q \<in> set (x # a @ q)" by (rule nth_mem) simp
      ultimately show ?thesis by simp
    qed
    ultimately show False using Cons.prems assms(2) by auto
  qed
  then show ?case using Cons by (subst Index.simps) simp
qed

lemma Index_at_first:
  assumes "Index a (c # q) = None" and "c \<notin> set q"
  shows "Index (a @ c # q @ r) (c # q) = Some (length a)"
  using assms(1)
proof (induction a)
  case Nil
  show ?case using HasPrefix_append [of "c # q" r] by (subst Index.simps) simp
next
  case (Cons x a)
  from Cons.prems have np: "\<not> HasPrefix (x # a) (c # q)" and none: "Index a (c # q) = None"
    by (subst (asm) Index.simps, simp split: if_splits)+
  have "\<not> HasPrefix (x # a @ c # q @ r) (c # q)"
  proof
    assume "HasPrefix (x # a @ c # q @ r) (c # q)"
    then obtain t where t: "x # a @ c # q @ r = c # q @ t" by (auto simp: HasPrefix_iff)
    show False
    proof (cases "length q \<le> length a")
      case True
      with t have "\<exists>u. a = q @ u" by (auto simp: append_eq_append_conv2)
      with t have "HasPrefix (x # a) (c # q)" by auto
      with np show False ..
    next
      case False
      with t have "q ! length a = c"
        by (metis append_Cons list.inject not_le nth_append nth_append_length)
      with False assms(2) show False by (metis not_le nth_mem)
    qed
  qed
  then show ?case using Cons.IH none by (subst Index.simps) simp
qed

lemma Index_absent: "c \<in> set q \<Longrightarrow> c \<notin> set a \<Longrightarrow> Index a q = None"
proof (induction a)
  case Nil
  then show ?case by (cases q) (auto simp: Index.simps [of "[]"])
next
  case (Cons x a)
  have "\<not> HasPrefix (x # a) q"
  proof
    assume "HasPrefix (x # a) q"
    then obtain t where "x # a = q @ t" by (auto simp: HasPrefix_iff)
    then have "set q \<subseteq> set (x # a)" by (metis Un_upper1 set_append)
    with Cons.prems show False by auto
  qed
  then show ?case using Cons by (subst Index.simps) simp
qed

text \<open>\<open>strings.ReplaceAll\<close> of a non-empty pattern: left to right, without overlap.\<close>

function ReplaceAll :: "string \<Rightarrow> string \<Rightarrow> string \<Rightarrow> string" where
  "ReplaceAll s old new =
     (case s of [] \<Rightarrow> []
      | c # cs \<Rightarrow> if old \<noteq> [] \<and> HasPrefix s old then new @ ReplaceAll (drop (length old) s) old new
                  else c # ReplaceAll cs old new)"
  by pat_completeness auto
termination
  by (relation "measure (\<lambda>(s, old, new). length s)") auto

declare ReplaceAll.simps [simp del]

lemma ReplaceAll_Nil [simp]: "ReplaceAll [] old new = []"
  by (simp add: ReplaceAll.simps)

lemma ReplaceAll_Cons:
  "\<not> HasPrefix (c # cs) old \<Longrightarrow> ReplaceAll (c # cs) old new = c # ReplaceAll cs old new"
  by (subst ReplaceAll.simps) simp

lemma ReplaceAll_absent: "Index s old = None \<Longrightarrow> ReplaceAll s old new = s"
proof (induction s)
  case (Cons c s)
  from Cons.prems have "\<not> HasPrefix (c # s) old" "Index s old = None"
    by (subst (asm) Index.simps, simp split: if_splits)+
  with Cons show ?case by (simp add: ReplaceAll_Cons)
qed simp

text \<open>A pattern that begins with a byte absent from the text before it is found right after.\<close>

lemma ReplaceAll_at_first:
  assumes "c \<notin> set a"
  shows "ReplaceAll (a @ c # q @ r) (c # q) new = a @ new @ ReplaceAll r (c # q) new"
  using assms
proof (induction a)
  case Nil
  show ?case using HasPrefix_append [of "c # q" r] by (subst ReplaceAll.simps) simp
next
  case (Cons x a)
  then show ?case using ReplaceAll_Cons [of x "a @ c # q @ r" "c # q" new] by auto
qed

lemma ReplaceAll_skip: "c \<notin> set a \<Longrightarrow> ReplaceAll (a @ r) (c # q) new = a @ ReplaceAll r (c # q) new"
proof (induction a)
  case (Cons x a)
  then show ?case using ReplaceAll_Cons [of x "a @ r" "c # q" new] by auto
qed simp

text \<open>\<open>strings.Cut\<close> at a one-byte separator: \<open>None\<close> when the separator is absent.\<close>

fun Cut :: "char \<Rightarrow> string \<Rightarrow> (string \<times> string) option" where
  "Cut c [] = None"
| "Cut c (x # xs) = (if x = c then Some ([], xs)
     else map_option (\<lambda>(a, b). (x # a, b)) (Cut c xs))"

lemma Cut_None_iff [go_string]: "Cut c s = None \<longleftrightarrow> c \<notin> set s"
  by (induction s) auto

lemma Cut_Some: "Cut c s = Some (a, b) \<Longrightarrow> s = a @ c # b \<and> c \<notin> set a"
  by (induction s arbitrary: a) (auto split: if_splits)

lemma Cut_append [go_string]: "c \<notin> set a \<Longrightarrow> Cut c (a @ c # b) = Some (a, b)"
  by (induction a) auto

lemma length_Cut: "Cut c s = Some (a, b) \<Longrightarrow> length s = Suc (length a + length b)"
  by (auto dest: Cut_Some)

lemma IndexByte_Cut: "IndexByte s c = map_option (\<lambda>(a, b). length a) (Cut c s)"
proof (induction s)
  case (Cons x s)
  then show ?case by (cases "Cut c s") auto
qed simp

text \<open>\<open>strings.Split\<close> and \<open>strings.SplitN\<close> at a one-byte separator.\<close>

fun Split :: "char \<Rightarrow> string \<Rightarrow> string list" where
  "Split c [] = [[]]"
| "Split c (x # xs) = (if x = c then [] # Split c xs
     else (case Split c xs of [] \<Rightarrow> [[x]] | y # ys \<Rightarrow> (x # y) # ys))"

lemma Split_not_Nil [simp]: "Split c s \<noteq> []"
  by (induction s) (auto split: list.splits)

lemma Split_no_sep: "c \<notin> set s \<Longrightarrow> Split c s = [s]"
  by (induction s) auto

lemma Split_append: "c \<notin> set a \<Longrightarrow> Split c (a @ c # b) = a # Split c b"
  by (induction a) auto

lemma Split_append_sep: "Split c (a @ c # b) = Split c a @ Split c b"
  by (induction a) (auto split: list.splits)

lemma Split_elem: "p \<in> set (Split c s) \<Longrightarrow> c \<notin> set p"
  by (induction s arbitrary: p) (auto split: if_splits list.splits)

fun SplitN :: "nat \<Rightarrow> char \<Rightarrow> string \<Rightarrow> string list" where
  "SplitN 0 c s = []"
| "SplitN (Suc 0) c s = [s]"
| "SplitN (Suc (Suc n)) c s =
     (case Cut c s of None \<Rightarrow> [s] | Some (a, b) \<Rightarrow> a # SplitN (Suc n) c b)"

lemma SplitN_append [go_string]:
  "c \<notin> set a \<Longrightarrow> SplitN (Suc (Suc n)) c (a @ c # b) = a # SplitN (Suc n) c b"
  by (simp add: Cut_append)

lemma SplitN_no_sep [go_string]: "c \<notin> set a \<Longrightarrow> SplitN (Suc n) c a = [a]"
  using Cut_None_iff [of c a] by (cases n) auto

fun Join :: "string \<Rightarrow> string list \<Rightarrow> string" where
  "Join sep [] = []"
| "Join sep [x] = x"
| "Join sep (x # y # ys) = x @ sep @ Join sep (y # ys)"

lemma Join_Cons: "xs \<noteq> [] \<Longrightarrow> Join sep (x # xs) = x @ sep @ Join sep xs"
  by (cases xs) auto

lemma Join_concat: "Join [] xs = concat xs"
  by (induction "[] :: string" xs rule: Join.induct) auto

lemma Split_Join:
  "xs \<noteq> [] \<Longrightarrow> (\<And>x. x \<in> set xs \<Longrightarrow> c \<notin> set x) \<Longrightarrow> Split c (Join [c] xs) = xs"
proof (induction xs)
  case (Cons x xs)
  then show ?case by (cases xs) (auto simp: Split_no_sep Split_append)
qed simp

lemma Join_Split: "Join [c] (Split c s) = s"
proof (induction s)
  case (Cons x xs)
  then show ?case by (cases "Split c xs"; cases "tl (Split c xs)") auto
qed simp

section \<open>Trimming\<close>

definition TrimRightByte :: "char \<Rightarrow> string \<Rightarrow> string" where
  "TrimRightByte c s = rev (dropWhile (\<lambda>x. x = c) (rev s))"

lemma TrimRightByte_id: "s = [] \<or> last s \<noteq> c \<Longrightarrow> TrimRightByte c s = s"
  unfolding TrimRightByte_def by (rule takeWhile_dropWhile_last) auto

lemma TrimRightByte_snoc: "TrimRightByte c (s @ [x]) = (if x = c then TrimRightByte c s else s @ [x])"
  by (simp add: TrimRightByte_def)

text \<open>
  \<open>unicode.IsSpace\<close> holds for the six ASCII blanks and for a few runes beyond ASCII. Their
  UTF-8 encodings are listed; \<open>strings.TrimSpace\<close> drops them from both ends. No encoding is
  a proper suffix or prefix of another rune's encoding, so matching the bytes from either end
  is what decoding the first or the last rune does.
\<close>

definition space_encodings :: "string list" where
  "space_encodings =
     [[CHR 0x09], [CHR 0x0A], [CHR 0x0B], [CHR 0x0C], [CHR 0x0D], [CHR 0x20],
      [CHR 0xC2, CHR 0x85], [CHR 0xC2, CHR 0xA0], [CHR 0xE1, CHR 0x9A, CHR 0x80],
      [CHR 0xE2, CHR 0x80, CHR 0x80], [CHR 0xE2, CHR 0x80, CHR 0x81],
      [CHR 0xE2, CHR 0x80, CHR 0x82], [CHR 0xE2, CHR 0x80, CHR 0x83],
      [CHR 0xE2, CHR 0x80, CHR 0x84], [CHR 0xE2, CHR 0x80, CHR 0x85],
      [CHR 0xE2, CHR 0x80, CHR 0x86], [CHR 0xE2, CHR 0x80, CHR 0x87],
      [CHR 0xE2, CHR 0x80, CHR 0x88], [CHR 0xE2, CHR 0x80, CHR 0x89],
      [CHR 0xE2, CHR 0x80, CHR 0x8A], [CHR 0xE2, CHR 0x80, CHR 0xA8],
      [CHR 0xE2, CHR 0x80, CHR 0xA9], [CHR 0xE2, CHR 0x80, CHR 0xAF],
      [CHR 0xE2, CHR 0x81, CHR 0x9F], [CHR 0xE3, CHR 0x80, CHR 0x80]]"

fun leading :: "string list \<Rightarrow> string \<Rightarrow> nat" where
  "leading [] s = 0"
| "leading (e # es) s = (if HasPrefix s e then length e else leading es s)"

function trim_with :: "string list \<Rightarrow> string \<Rightarrow> string" where
  "trim_with es s = (if leading es s = 0 \<or> s = [] then s else trim_with es (drop (leading es s) s))"
  by pat_completeness auto
termination
  by (relation "measure (\<lambda>(es, s). length s)") auto

declare trim_with.simps [simp del]

definition TrimSpace :: "string \<Rightarrow> string" where
  "TrimSpace s = rev (trim_with (map rev space_encodings) (rev (trim_with space_encodings s)))"

text \<open>Printable ASCII other than the blank: no blank's encoding begins or ends with it.\<close>

definition graphic :: "char \<Rightarrow> bool" where
  "graphic c \<longleftrightarrow> 33 \<le> code c \<and> code c \<le> 126"

lemma leading_hd:
  "(\<And>e. e \<in> set es \<Longrightarrow> e \<noteq> [] \<and> hd e \<noteq> c) \<Longrightarrow> leading es (c # s) = 0"
proof (induction es)
  case (Cons e es)
  then have "e \<noteq> []" "hd e \<noteq> c" by auto
  then have "\<not> HasPrefix (c # s) e" by (cases e) auto
  then show ?case using Cons by auto
qed simp

lemma space_ends_not_graphic:
  "e \<in> set space_encodings \<Longrightarrow> e \<noteq> [] \<and> \<not> graphic (hd e) \<and> \<not> graphic (last e)"
  unfolding space_encodings_def by (auto simp: graphic_def)

lemma trim_with_graphic:
  assumes "s = [] \<or> graphic (hd s)"
  shows "trim_with space_encodings s = s" and "trim_with (map rev space_encodings) s = s"
proof -
  have *: "leading es s = 0 \<or> s = []"
    if "\<And>e. e \<in> set es \<Longrightarrow> e \<noteq> [] \<and> \<not> graphic (hd e)" for es
  proof (cases s)
    case (Cons c t)
    with assms that show ?thesis by (auto intro!: leading_hd)
  qed simp
  show "trim_with space_encodings s = s"
    using * [of space_encodings] space_ends_not_graphic by (subst trim_with.simps) auto
  have "leading (map rev space_encodings) s = 0 \<or> s = []"
    by (rule *) (use space_ends_not_graphic in \<open>auto simp: hd_rev\<close>)
  then show "trim_with (map rev space_encodings) s = s"
    by (subst trim_with.simps) auto
qed

lemma TrimSpace_graphic [go_string]:
  "s = [] \<or> graphic (hd s) \<and> graphic (last s) \<Longrightarrow> TrimSpace s = s"
  unfolding TrimSpace_def by (subst trim_with_graphic, force)+ (auto simp: hd_rev trim_with_graphic)

section \<open>Letter case\<close>

definition lower_byte :: "char \<Rightarrow> char" where
  "lower_byte c = (if 65 \<le> code c \<and> code c \<le> 90 then char_of (code c + 32) else c)"

text \<open>
  \<open>strings.EqualFold\<close> against a text whose letters fold to no rune beyond ASCII (none of
  \<open>k\<close>, \<open>s\<close>), which are the only texts the client compares with.
\<close>

definition EqualFold :: "string \<Rightarrow> string \<Rightarrow> bool" where
  "EqualFold s t = (map lower_byte s = map lower_byte t)"

section \<open>Runes\<close>

text \<open>\<open>utf8.DecodeRuneInString\<close>: the rune and its width; an invalid byte is \<open>U+FFFD\<close>, width 1.\<close>

definition cont_byte :: "nat \<Rightarrow> nat \<Rightarrow> char \<Rightarrow> bool" where
  "cont_byte lo hi c \<longleftrightarrow> lo \<le> code c \<and> code c \<le> hi"

definition rune2 :: "nat \<Rightarrow> nat \<Rightarrow> nat" where
  "rune2 b d = (b mod 32) * 64 + d mod 64"

definition rune3 :: "nat \<Rightarrow> nat \<Rightarrow> nat \<Rightarrow> nat" where
  "rune3 b d e = (b mod 16) * 4096 + (d mod 64) * 64 + e mod 64"

definition rune4 :: "nat \<Rightarrow> nat \<Rightarrow> nat \<Rightarrow> nat \<Rightarrow> nat" where
  "rune4 b d e f = (b mod 8) * 262144 + (d mod 64) * 4096 + (e mod 64) * 64 + f mod 64"

definition decode_tail :: "nat \<Rightarrow> string \<Rightarrow> (nat \<times> nat) option" where
  "decode_tail b s = (case s of [] \<Rightarrow> None | d # cs \<Rightarrow>
     (if 194 \<le> b \<and> b \<le> 223 then
        (if cont_byte 128 191 d then Some (rune2 b (code d), 2) else None)
      else case cs of [] \<Rightarrow> None | e # cs' \<Rightarrow>
        (if 224 \<le> b \<and> b \<le> 239 then
           (if cont_byte (if b = 224 then 160 else 128) (if b = 237 then 159 else 191) d
               \<and> cont_byte 128 191 e
            then Some (rune3 b (code d) (code e), 3) else None)
         else case cs' of [] \<Rightarrow> None | f # _ \<Rightarrow>
           (if 240 \<le> b \<and> b \<le> 244
               \<and> cont_byte (if b = 240 then 144 else 128) (if b = 244 then 143 else 191) d
               \<and> cont_byte 128 191 e \<and> cont_byte 128 191 f
            then Some (rune4 b (code d) (code e) (code f), 4) else None))))"

fun decode_rune :: "string \<Rightarrow> nat \<times> nat" where
  "decode_rune [] = (65533, 0)"
| "decode_rune (c # cs) =
     (if code c < 128 then (code c, 1)
      else case decode_tail (code c) cs of Some r \<Rightarrow> r | None \<Rightarrow> (65533, 1))"

lemma mod_in_block: "k * q \<le> b \<Longrightarrow> b < k * q + k \<Longrightarrow> b mod k = b - k * (q::nat)"
  by (metis add.commute le_add_diff_inverse less_diff_conv2 mod_less mod_mult_self2)

lemma rune2_bound: "194 \<le> b \<Longrightarrow> b \<le> 223 \<Longrightarrow> 128 \<le> rune2 b d"
  unfolding rune2_def using mod_in_block [of 32 6 b] by linarith

lemma rune3_bound:
  assumes "224 \<le> b" "b \<le> 239" "b = 224 \<longrightarrow> 160 \<le> d" "128 \<le> d" "d \<le> 191"
  shows "128 \<le> rune3 b d e"
  unfolding rune3_def using assms mod_in_block [of 16 14 b] mod_in_block [of 64 2 d]
  by (cases "b = 224") linarith+

lemma rune4_bound:
  assumes "240 \<le> b" "b \<le> 244" "b = 240 \<longrightarrow> 144 \<le> d" "128 \<le> d" "d \<le> 191"
  shows "128 \<le> rune4 b d e f"
  unfolding rune4_def using assms mod_in_block [of 8 30 b] mod_in_block [of 64 2 d]
  by (cases "b = 240") linarith+

lemma decode_tail_cases:
  assumes "decode_tail b cs = Some (r, w)"
  obtains (two) d t where "cs = d # t" "194 \<le> b" "b \<le> 223" "cont_byte 128 191 d"
      "r = rune2 b (code d)" "w = Suc (Suc 0)"
  | (three) d e t where "cs = d # e # t" "224 \<le> b" "b \<le> 239" "cont_byte 128 191 d"
      "b = 224 \<longrightarrow> 160 \<le> code d" "cont_byte 128 191 e" "r = rune3 b (code d) (code e)" "w = Suc (Suc (Suc 0))"
  | (four) d e f t where "cs = d # e # f # t" "240 \<le> b" "b \<le> 244" "cont_byte 128 191 d"
      "b = 240 \<longrightarrow> 144 \<le> code d" "cont_byte 128 191 e" "cont_byte 128 191 f"
      "r = rune4 b (code d) (code e) (code f)" "w = Suc (Suc (Suc (Suc 0)))"
proof -
  obtain d t where cs: "cs = d # t" using assms by (cases cs) (auto simp: decode_tail_def)
  note assms = assms [unfolded decode_tail_def]
  show thesis
  proof (cases "194 \<le> b \<and> b \<le> 223")
    case True
    with assms cs two show thesis by (simp split: if_splits)
  next
    case False
    with assms cs obtain e t' where t: "t = e # t'" by (cases t) auto
    show thesis
    proof (cases "224 \<le> b \<and> b \<le> 239")
      case True
      with assms cs t False have *: "cont_byte (if b = 224 then 160 else 128) (if b = 237 then 159 else 191) d"
        "cont_byte 128 191 e" "r = rune3 b (code d) (code e)" "w = Suc (Suc (Suc 0))"
        by (simp_all split: if_splits)
      then have "cont_byte 128 191 d" "b = 224 \<longrightarrow> 160 \<le> code d"
        by (auto simp: cont_byte_def split: if_splits)
      with * True cs t three show thesis by blast
    next
      case F2: False
      with assms cs t False obtain f t'' where t': "t' = f # t''" by (cases t') auto
      have *: "240 \<le> b" "b \<le> 244" "cont_byte (if b = 240 then 144 else 128) (if b = 244 then 143 else 191) d"
        "cont_byte 128 191 e" "cont_byte 128 191 f" "r = rune4 b (code d) (code e) (code f)" "w = Suc (Suc (Suc (Suc 0)))"
        using assms cs t t' False F2 by (simp_all split: if_splits)
      then have "cont_byte 128 191 d" "b = 240 \<longrightarrow> 144 \<le> code d"
        by (auto simp: cont_byte_def split: if_splits)
      with * cs t t' four show thesis by blast
    qed
  qed
qed

lemma decode_rune_width: "s \<noteq> [] \<Longrightarrow> 0 < snd (decode_rune s)"
  by (cases s) (auto split: option.splits elim: decode_tail_cases)

text \<open>\<open>for _, r := range s\<close> visits the runes in order.\<close>

function runes :: "string \<Rightarrow> nat list" where
  "runes s = (if s = [] then [] else fst (decode_rune s) # runes (drop (snd (decode_rune s)) s))"
  by pat_completeness auto
termination
proof (relation "measure length")
  fix s :: string assume "s \<noteq> []"
  then show "(drop (snd (decode_rune s)) s, s) \<in> measure length"
    using decode_rune_width [of s] by (simp add: diff_less)
qed simp

declare runes.simps [simp del]

definition is_ascii :: "char \<Rightarrow> bool" where
  "is_ascii c \<longleftrightarrow> code c < 128"

lemma decode_rune_ascii: "is_ascii c \<Longrightarrow> decode_rune (c # s) = (code c, 1)"
  by (simp add: is_ascii_def)

lemma cont_byte_not_ascii: "cont_byte 128 191 c \<Longrightarrow> \<not> is_ascii c"
  by (simp add: cont_byte_def is_ascii_def)

lemma cont_byte_le: "cont_byte 128 191 c \<Longrightarrow> 128 \<le> code c \<and> code c \<le> 191"
  by (simp add: cont_byte_def)

text \<open>
  Either the first byte is ASCII and is the rune, or the rune is beyond ASCII and so is
  every byte it consumes.
\<close>

lemma decode_rune_non_ascii:
  assumes "\<not> is_ascii c"
  shows "128 \<le> fst (decode_rune (c # s))
    \<and> (\<forall>x \<in> set (take (snd (decode_rune (c # s))) (c # s)). \<not> is_ascii x)"
proof (cases "decode_tail (code c) s")
  case None
  with assms show ?thesis by (simp add: is_ascii_def)
next
  case (Some p)
  obtain r w where p: "p = (r, w)" by (cases p)
  from Some p have "decode_tail (code c) s = Some (r, w)" by simp
  moreover from assms Some p have eq: "decode_rune (c # s) = (r, w)" by (simp add: is_ascii_def)
  ultimately show ?thesis
    by (elim decode_tail_cases)
      (simp_all del: decode_rune.simps add: assms eq cont_byte_not_ascii rune2_bound rune3_bound
        rune4_bound cont_byte_le)
qed

end
