(* ===== verification/GoNumbers.thy ===== *)
theory GoNumbers
  imports GoStrings
begin

text \<open>
  The part of Go's \<open>strconv\<close> and of \<open>fmt\<close>'s integer verbs the client uses. A Go \<open>int\<close> is an
  \<open>int\<close> of the model; the parsers return Go's pair of a value and an error, because several
  callers keep the value and drop the error.
\<close>

section \<open>Printing\<close>

definition digit_char :: "nat \<Rightarrow> char" where
  "digit_char d = (if d < 10 then char_of (48 + d) else char_of (87 + d))"

text \<open>Digits of \<open>n\<close> in base \<open>b\<close>, most significant first; \<open>0\<close> is one digit.\<close>

function digits :: "nat \<Rightarrow> nat \<Rightarrow> string" where
  "digits b n = (if n < b \<or> b < 2 then [digit_char n] else digits b (n div b) @ [digit_char (n mod b)])"
  by pat_completeness auto
termination
  by (relation "measure snd") auto

declare digits.simps [simp del]

definition itoa :: "int \<Rightarrow> string" where
  "itoa i = (if i < 0 then CHR ''-'' # digits 10 (nat (- i)) else digits 10 (nat i))"

definition pad0 :: "nat \<Rightarrow> string \<Rightarrow> string" where
  "pad0 w s = replicate (w - length s) (CHR ''0'') @ s"

text \<open>\<open>%08x\<close> of a length, and \<open>%09d\<close>, whose width counts the sign.\<close>

definition hex8 :: "nat \<Rightarrow> string" where
  "hex8 n = pad0 8 (digits 16 n)"

definition dec9 :: "int \<Rightarrow> string" where
  "dec9 i = (if i < 0 then CHR ''-'' # pad0 8 (digits 10 (nat (- i))) else pad0 9 (digits 10 (nat i)))"

section \<open>Parsing\<close>

datatype num_error = ErrSyntax | ErrRange

definition digit_val :: "char \<Rightarrow> nat option" where
  "digit_val c = (let k = code c in
     if 48 \<le> k \<and> k \<le> 57 then Some (k - 48)
     else if 97 \<le> k \<and> k \<le> 122 then Some (k - 87)
     else if 65 \<le> k \<and> k \<le> 90 then Some (k - 55)
     else None)"

text \<open>
  The loop of \<open>ParseUint\<close>: a byte that is no digit of the base ends it with a syntax error and
  the value \<open>0\<close>, the first overflow with a range error and the largest value.
\<close>

fun parse_digits :: "nat \<Rightarrow> nat \<Rightarrow> string \<Rightarrow> nat \<Rightarrow> nat \<times> num_error option" where
  "parse_digits b mx [] n = (n, None)"
| "parse_digits b mx (c # cs) n =
     (case digit_val c of
        None \<Rightarrow> (0, Some ErrSyntax)
      | Some d \<Rightarrow>
          if b \<le> d then (0, Some ErrSyntax)
          else if mx < n * b + d then (mx, Some ErrRange)
          else parse_digits b mx cs (n * b + d))"

definition ParseUint :: "nat \<Rightarrow> nat \<Rightarrow> string \<Rightarrow> nat \<times> num_error option" where
  "ParseUint b bits s = (if s = [] then (0, Some ErrSyntax) else parse_digits b (2 ^ bits - 1) s 0)"

definition ParseInt :: "nat \<Rightarrow> nat \<Rightarrow> string \<Rightarrow> int \<times> num_error option" where
  "ParseInt b bits s =
     (case s of [] \<Rightarrow> (0, Some ErrSyntax)
      | c # cs \<Rightarrow>
          (let neg = (c = CHR ''-'');
               u = (if c = CHR ''-'' \<or> c = CHR ''+'' then cs else s)
           in case ParseUint b bits u of
                (_, Some ErrSyntax) \<Rightarrow> (0, Some ErrSyntax)
              | (un, _) \<Rightarrow>
                  if \<not> neg \<and> 2 ^ (bits - 1) \<le> un then (2 ^ (bits - 1) - 1, Some ErrRange)
                  else if neg \<and> 2 ^ (bits - 1) < un then (- (2 ^ (bits - 1)), Some ErrRange)
                  else (if neg then - int un else int un, None)))"

text \<open>\<open>strconv.Atoi\<close> on a 64-bit platform.\<close>

definition Atoi :: "string \<Rightarrow> int \<times> num_error option" where
  "Atoi s = ParseInt 10 64 s"

text \<open>
  \<open>if n, err := strconv.Atoi(s); err == nil\<close> keeps the value only without an error, while
  \<open>n, _ = strconv.Atoi(s)\<close> keeps the clamped value of a range error too.
\<close>

definition Atoi_ok :: "string \<Rightarrow> int option" where
  "Atoi_ok s = (case Atoi s of (n, None) \<Rightarrow> Some n | _ \<Rightarrow> None)"

definition Atoi_value :: "string \<Rightarrow> int" where
  "Atoi_value s = fst (Atoi s)"

section \<open>Error texts\<close>

text \<open>
  \<open>strconv.Quote\<close>, which the text of a \<open>NumError\<close> uses. Which runes beyond ASCII are printable
  is Go's Unicode table, the argument \<open>prt\<close>.
\<close>

definition hex_pad :: "nat \<Rightarrow> nat \<Rightarrow> string" where
  "hex_pad w n = pad0 w (digits 16 n)"

definition quote_rune :: "(nat \<Rightarrow> bool) \<Rightarrow> nat \<Rightarrow> string \<Rightarrow> string" where
  "quote_rune prt r bytes =
     (if r = 65533 \<and> length bytes = 1 then CHR 0x5C # CHR ''x'' # hex_pad 2 (code (hd bytes))
      else if r = 34 \<or> r = 92 then CHR 0x5C # bytes
      else if 32 \<le> r \<and> r < 127 \<or> 128 \<le> r \<and> prt r then bytes
      else if r = 7 then CHR 0x5C # ''a''
      else if r = 8 then CHR 0x5C # ''b''
      else if r = 12 then CHR 0x5C # ''f''
      else if r = 10 then CHR 0x5C # ''n''
      else if r = 13 then CHR 0x5C # ''r''
      else if r = 9 then CHR 0x5C # ''t''
      else if r = 11 then CHR 0x5C # ''v''
      else if r < 32 \<or> r = 127 then CHR 0x5C # CHR ''x'' # hex_pad 2 r
      else if r < 65536 then CHR 0x5C # CHR ''u'' # hex_pad 4 r
      else CHR 0x5C # CHR ''U'' # hex_pad 8 r)"

function quote_runes :: "(nat \<Rightarrow> bool) \<Rightarrow> string \<Rightarrow> string" where
  "quote_runes prt s = (if s = [] then [] else
     (let (r, w) = decode_rune s in quote_rune prt r (take w s) @ quote_runes prt (drop w s)))"
  by pat_completeness auto
termination
proof (relation "measure (\<lambda>(p, s). length s)", goal_cases)
  case (2 prt s x r w)
  then show ?case using decode_rune_width [of s] by (cases "decode_rune s") auto
qed simp

declare quote_runes.simps [simp del]

definition Quote :: "(nat \<Rightarrow> bool) \<Rightarrow> string \<Rightarrow> string" where
  "Quote prt s = CHR 0x22 # quote_runes prt s @ [CHR 0x22]"

definition num_error_text :: "(nat \<Rightarrow> bool) \<Rightarrow> string \<Rightarrow> string \<Rightarrow> num_error \<Rightarrow> string" where
  "num_error_text prt fn s e = ''strconv.'' @ fn @ '': parsing '' @ Quote prt s @ '': '' @
     (case e of ErrSyntax \<Rightarrow> ''invalid syntax'' | ErrRange \<Rightarrow> ''value out of range'')"

section \<open>Facts\<close>

lemma code_char_of: "n < 256 \<Longrightarrow> code (char_of n) = n"
  by simp

lemma digit_val_digit_char: "d < 36 \<Longrightarrow> digit_val (digit_char d) = Some d"
  by (simp add: digit_val_def digit_char_def Let_def)

lemma digit_char_graphic: "d < 36 \<Longrightarrow> graphic (digit_char d)"
  by (simp add: graphic_def digit_char_def)

lemma digit_char_code: "d < 36 \<Longrightarrow> code (digit_char d) = (if d < 10 then 48 + d else 87 + d)"
  by (simp add: digit_char_def)

lemma digits_not_Nil [simp]: "digits b n \<noteq> []"
  by (subst digits.simps) simp

lemma digits_small: "n < b \<Longrightarrow> digits b n = [digit_char n]"
  by (subst digits.simps) simp

lemma digits_step: "b \<le> n \<Longrightarrow> 2 \<le> b \<Longrightarrow> digits b n = digits b (n div b) @ [digit_char (n mod b)]"
  by (subst digits.simps) auto

lemma digits_set: "2 \<le> b \<Longrightarrow> c \<in> set (digits b n) \<Longrightarrow> \<exists>d < b. c = digit_char d"
proof (induction b n rule: digits.induct)
  case (1 b n)
  then show ?case
  proof (cases "n < b")
    case True
    with 1 show ?thesis by (auto simp: digits_small)
  next
    case False
    with 1 have "c \<in> set (digits b (n div b)) \<or> c = digit_char (n mod b)"
      by (auto simp: digits_step)
    moreover have "n mod b < b" using 1 by simp
    ultimately show ?thesis using 1 False by fastforce
  qed
qed

lemma digits_graphic: "2 \<le> b \<Longrightarrow> b \<le> 36 \<Longrightarrow> c \<in> set (digits b n) \<Longrightarrow> graphic c"
  using digits_set [of b c n] digit_char_graphic by fastforce

lemma digits_code: "2 \<le> b \<Longrightarrow> b \<le> 36 \<Longrightarrow> c \<in> set (digits b n) \<Longrightarrow> 48 \<le> code c \<and> code c \<le> 122"
  using digits_set [of b c n] digit_char_code by fastforce

lemma length_digits_le: "2 \<le> b \<Longrightarrow> length (digits b n) \<le> Suc k \<longleftrightarrow> n < b ^ Suc k"
proof (induction k arbitrary: n)
  case 0
  show ?case
  proof (cases "n < b")
    case False
    then have "digits b n = digits b (n div b) @ [digit_char (n mod b)]" using 0 by (simp add: digits_step)
    moreover have "length (digits b (n div b)) > 0" by simp
    ultimately show ?thesis using False by simp
  qed (simp add: digits_small)
next
  case (Suc k)
  show ?case
  proof (cases "n < b")
    case True
    have "b ^ 1 \<le> b ^ Suc (Suc k)" using Suc.prems by (intro power_increasing) auto
    then have "n < b ^ Suc (Suc k)" using True by (metis less_le_trans power_one_right)
    with True show ?thesis by (simp only: digits_small) simp
  next
    case False
    then have "length (digits b n) = Suc (length (digits b (n div b)))"
      using Suc.prems by (simp add: digits_step)
    moreover have "n div b < b ^ Suc k \<longleftrightarrow> n < b ^ Suc (Suc k)"
      using Suc.prems by (simp add: less_mult_imp_div_less div_less_iff_less_mult mult.commute)
    ultimately show ?thesis using Suc by simp
  qed
qed

lemma parse_digits_append:
  "parse_digits b mx (xs @ ys) n =
     (case parse_digits b mx xs n of (m, None) \<Rightarrow> parse_digits b mx ys m | r \<Rightarrow> r)"
  by (induction xs arbitrary: n) (auto split: option.splits)

lemma parse_digits_zeros:
  "1 \<le> b \<Longrightarrow> parse_digits b mx (replicate k (CHR ''0'') @ s) 0 = parse_digits b mx s 0"
  by (induction k) (auto simp: digit_val_def)

lemma parse_digits_digits:
  assumes "2 \<le> b" "b \<le> 36"
  shows "parse_digits b mx (digits b n) 0 = (if n \<le> mx then (n, None) else (mx, Some ErrRange))"
  using assms
proof (induction b n rule: digits.induct)
  case (1 b n)
  show ?case
  proof (cases "n < b")
    case True
    then show ?thesis using 1 by (simp add: digits_small digit_val_digit_char)
  next
    case False
    have m: "n mod b < b" "n mod b < 36" using 1 by (auto intro: less_le_trans [of _ b])
    have IH: "parse_digits b mx (digits b (n div b)) 0
        = (if n div b \<le> mx then (n div b, None) else (mx, Some ErrRange))"
      using 1 False by simp
    have le: "n \<le> mx \<Longrightarrow> n div b \<le> mx"
      by (metis div_le_dividend order_trans)
    have nb: "(b \<le> n mod b) = False" using m by simp
    show ?thesis
      using 1 False m(2) le by (auto simp: digits_step parse_digits_append IH digit_val_digit_char nb)
  qed
qed

lemma ParseUint_digits [go_number]:
  assumes "2 \<le> b" "b \<le> 36"
  shows "ParseUint b bits (replicate k (CHR ''0'') @ digits b n)
     = (if n < 2 ^ bits then (n, None) else (2 ^ bits - 1, Some ErrRange))"
proof -
  have "n \<le> 2 ^ bits - 1 \<longleftrightarrow> n < 2 ^ bits"
    using zero_less_power [of "2::nat" bits] by linarith
  then show ?thesis
    using assms by (simp add: ParseUint_def parse_digits_zeros parse_digits_digits)
qed

lemma sign_not_digit: "2 \<le> b \<Longrightarrow> b \<le> 36 \<Longrightarrow> c \<in> set (replicate k (CHR ''0'') @ digits b n)
   \<Longrightarrow> c \<noteq> CHR ''-'' \<and> c \<noteq> CHR ''+''"
  using digits_code [of b c n] by (fastforce split: if_splits)

lemma ParseInt_digits [go_number]:
  assumes "2 \<le> b" "b \<le> 36" and "1 \<le> bits"
  shows "ParseInt b bits (replicate k (CHR ''0'') @ digits b n)
     = (if n < 2 ^ (bits - 1) then (int n, None) else (2 ^ (bits - 1) - 1, Some ErrRange))"
proof -
  let ?s = "replicate k (CHR ''0'') @ digits b n"
  obtain c cs where s: "?s = c # cs" by (cases ?s) auto
  then have "c \<in> set ?s" by simp
  then have sign: "c \<noteq> CHR ''-''" "c \<noteq> CHR ''+''" using sign_not_digit assms by blast+
  have "ParseUint b bits (c # cs) = (if n < 2 ^ bits then (n, None) else (2 ^ bits - 1, Some ErrRange))"
    using ParseUint_digits [of b bits k n] assms s by simp
  moreover have "(2::nat) ^ (bits - 1) \<le> 2 ^ bits - 1"
    using assms(3) by (cases bits) (auto simp: Suc_le_eq)
  moreover have "n < 2 ^ (bits - 1) \<Longrightarrow> n < 2 ^ bits"
    using assms(3) by (meson diff_le_self le_less_trans less_le_trans one_le_numeral power_increasing)
  ultimately show ?thesis
    by (simp add: s ParseInt_def Let_def sign)
qed

lemma ParseInt_neg_digits [go_number]:
  assumes "2 \<le> b" "b \<le> 36" and "n < 2 ^ (bits - 1)" and "1 \<le> bits"
  shows "ParseInt b bits (CHR ''-'' # replicate k (CHR ''0'') @ digits b n) = (- int n, None)"
proof -
  have "n < 2 ^ bits"
    using assms by (meson diff_le_self less_le_trans one_le_numeral power_increasing)
  then show ?thesis
    using assms ParseUint_digits [of b bits k n] by (simp add: ParseInt_def Let_def)
qed

lemma Atoi_itoa [go_number]: "- (2 ^ 63) < i \<Longrightarrow> i < 2 ^ 63 \<Longrightarrow> Atoi (itoa i) = (i, None)"
  using ParseInt_digits [of 10 64 0 "nat i"] ParseInt_neg_digits [of 10 "nat (- i)" 64 0]
  by (auto simp: Atoi_def itoa_def nat_less_iff)

lemma Atoi_dec9 [go_number]: "- (2 ^ 63) < i \<Longrightarrow> i < 2 ^ 63 \<Longrightarrow> Atoi (dec9 i) = (i, None)"
  using ParseInt_digits [of 10 64 _ "nat i"] ParseInt_neg_digits [of 10 "nat (- i)" 64]
  by (auto simp: Atoi_def dec9_def pad0_def nat_less_iff)

lemma length_pad0: "length (pad0 w s) = max w (length s)"
  by (simp add: pad0_def)

lemma length_hex8 [wire]: "length (hex8 n) = 8 \<longleftrightarrow> n < 2 ^ 32"
  using length_digits_le [of 16 n 7] by (auto simp: hex8_def length_pad0 max_def)

lemma length_dec9 [wire]: "- (10 ^ 8) < i \<Longrightarrow> i < 10 ^ 9 \<Longrightarrow> length (dec9 i) = 9"
proof (cases "i < 0")
  case True
  moreover assume "- (10 ^ 8) < i"
  ultimately have "length (digits 10 (nat (- i))) \<le> Suc 7"
    by (subst length_digits_le) (auto simp: nat_less_iff)
  then show ?thesis using True by (simp add: dec9_def length_pad0)
next
  case False
  moreover assume "i < 10 ^ 9"
  ultimately have "length (digits 10 (nat i)) \<le> Suc 8"
    by (subst length_digits_le) (auto simp: nat_less_iff)
  then show ?thesis using False by (simp add: dec9_def length_pad0)
qed

lemma ParseInt_hex8 [go_number]:
  "ParseInt 16 32 (hex8 n) = (if n < 2 ^ 31 then (int n, None) else (2 ^ 31 - 1, Some ErrRange))"
  using ParseInt_digits [of 16 32 _ n] by (simp add: hex8_def pad0_def)

lemma hex8_graphic: "c \<in> set (hex8 n) \<Longrightarrow> graphic c"
  using digits_graphic [of 16 c n] by (auto simp: hex8_def pad0_def graphic_def split: if_splits)

lemma dec9_graphic: "c \<in> set (dec9 i) \<Longrightarrow> graphic c"
  using digits_graphic [of 10 c "nat i"] digits_graphic [of 10 c "nat (- i)"]
  by (auto simp: dec9_def pad0_def graphic_def split: if_splits)

lemma itoa_graphic: "c \<in> set (itoa i) \<Longrightarrow> graphic c"
  using digits_graphic [of 10 c "nat i"] digits_graphic [of 10 c "nat (- i)"]
  by (auto simp: itoa_def graphic_def split: if_splits)

lemma hex8_not_Nil [simp]: "hex8 n \<noteq> []" and dec9_not_Nil [simp]: "dec9 i \<noteq> []"
  and itoa_not_Nil [simp]: "itoa i \<noteq> []"
  by (simp_all add: hex8_def pad0_def dec9_def itoa_def)

lemma TrimSpace_all_graphic [go_string]: "(\<And>c. c \<in> set s \<Longrightarrow> graphic c) \<Longrightarrow> TrimSpace s = s"
  by (rule TrimSpace_graphic) (cases s, auto)

lemma graphic_not_NUL: "graphic c \<Longrightarrow> c \<noteq> NUL"
  by (auto simp: graphic_def)

lemma graphic_is_ascii: "graphic c \<Longrightarrow> is_ascii c"
  by (simp add: graphic_def is_ascii_def)

lemma TrimRightByte_all_graphic [go_string]:
  "(\<And>c. c \<in> set s \<Longrightarrow> graphic c) \<Longrightarrow> TrimRightByte NUL s = s"
  by (rule TrimRightByte_id) (metis graphic_not_NUL last_in_set)

end
