(* ===== verification/Types.thy ===== *)
theory Types
  imports GoNumbers
begin

text \<open>
  The data of the message package (\<open>message/types.go\<close>, \<open>message/errors.go\<close>): every struct is a
  record with the fields of the source, a pointer field an \<open>option\<close> (\<open>None\<close> is nil). A slice
  field is a list; where the code tells a nil slice from an empty one (through \<open>reflect\<close>'s
  \<open>IsZero\<close>) it is an \<open>option\<close> of a list. Field names carry a prefix for their struct, since record
  fields are global names. \<open>zero_X\<close> is Go's zero value of struct \<open>X\<close>.
\<close>

section \<open>Numbers\<close>

text \<open>
  A \<open>float64\<close>: the client only asks whether it is zero, NaN or infinite and hands it to the
  formatting routines of the library.
\<close>

datatype f64 = F64NaN | F64Inf bool | F64Fin bool nat int

definition zero_f64 :: f64 where
  "zero_f64 = F64Fin False 0 0"

fun f64_eq_zero :: "f64 \<Rightarrow> bool" where
  "f64_eq_zero (F64Fin s m e) = (m = 0)"
| "f64_eq_zero _ = False"

fun IsNaN :: "f64 \<Rightarrow> bool" where
  "IsNaN F64NaN = True"
| "IsNaN _ = False"

fun IsInf :: "f64 \<Rightarrow> bool" where
  "IsInf (F64Inf s) = True"
| "IsInf _ = False"

text \<open>\<open>reflect.Value.IsZero\<close> of a \<open>float64\<close> looks at the bits: negative zero is not the zero value.\<close>

fun f64_is_zero_value :: "f64 \<Rightarrow> bool" where
  "f64_is_zero_value (F64Fin s m e) = (m = 0 \<and> \<not> s)"
| "f64_is_zero_value _ = False"

text \<open>
  What the model takes from the Go library without translating it: the decimal rendering and
  parsing of floating-point numbers (\<open>strconv.FormatFloat(x, 'f', -1, 64)\<close>, the same at 32 bits,
  \<open>fmt\<close>'s \<open>%v\<close>, \<open>strconv.ParseFloat\<close>) and the Unicode table of printable runes.
\<close>

record golib =
  FormatFloat64 :: "f64 \<Rightarrow> string"
  FormatFloat32 :: "f64 \<Rightarrow> string"
  Sprint_f64 :: "f64 \<Rightarrow> string"
  ParseFloat :: "string \<Rightarrow> f64 option"
  IsPrint :: "nat \<Rightarrow> bool"

record NullInt =
  ni_Value :: int
  ni_Valid :: bool

definition NullInt_String :: "NullInt \<Rightarrow> string" where
  "NullInt_String n = (if \<not> ni_Valid n then ''Not Set'' else itoa (ni_Value n))"

definition NullInt_Int :: "NullInt \<Rightarrow> int" where
  "NullInt_Int n = (if \<not> ni_Valid n then 0 else ni_Value n)"

record DateTimeObject =
  dt_Year :: int
  dt_Month :: int
  dt_Day :: int
  dt_Hour :: int
  dt_Minute :: int
  dt_Second :: int
  dt_Microsecond :: int

definition zero_DateTimeObject :: DateTimeObject where
  "zero_DateTimeObject = \<lparr>dt_Year = 0, dt_Month = 0, dt_Day = 0, dt_Hour = 0, dt_Minute = 0,
     dt_Second = 0, dt_Microsecond = 0\<rparr>"

section \<open>Intents and frames\<close>

record Intent =
  in_Name :: string
  in_RoutingMessageType :: string
  in_NeuralMemoryCommand :: string
  in_MessageType :: int

definition zero_Intent :: Intent where
  "zero_Intent = \<lparr>in_Name = [], in_RoutingMessageType = [], in_NeuralMemoryCommand = [], in_MessageType = 0\<rparr>"

record SocketMessage =
  sm_MessageBytes :: string
  sm_Header :: string

section \<open>Tags\<close>

text \<open>
  The dynamic value of a tag. The integer constructors stand for all widths, which the code
  prints the same way. A value of any other type is known to the code only by what
  \<open>json.Marshal\<close> (which may fail) and \<open>%v\<close> make of it: the constructor carries the two.
\<close>

datatype tag_value =
    VNil
  | VString string
  | VInt int
  | VUint nat
  | VFloat32 f64
  | VFloat64 f64
  | VBool bool
  | VBytes string
  | VOther "string option" string

record Tag =
  tag_Frequency :: int
  tag_Key :: string
  tag_Value :: tag_value
  tag_Timestamp :: string
  tag_Id :: string
  tag_Owner :: string
  tag_OwnerUniqueID :: string

type_synonym TagList = "Tag list"

record TagOutput =
  to_Frequency :: int
  to_Category :: string
  to_Key :: string
  to_Value :: string
  to_Owner :: string
  to_OwnerUniqueID :: string
  to_Timestamp :: string
  to_TagNumber :: int
  to_TargetTagId :: string

definition zero_TagOutput :: TagOutput where
  "zero_TagOutput = \<lparr>to_Frequency = 0, to_Category = [], to_Key = [], to_Value = [], to_Owner = [],
     to_OwnerUniqueID = [], to_Timestamp = [], to_TagNumber = 0, to_TargetTagId = []\<rparr>"

definition BoolValue :: "Tag \<Rightarrow> bool \<times> bool" where
  "BoolValue t = (case tag_Value t of VBool b \<Rightarrow> (b, True) | _ \<Rightarrow> (False, False))"

section \<open>Events and links\<close>

record Linked =
  ld_Id :: string
  ld_UniqueId :: string
  ld_SourceId :: string
  ld_SourceUniqueId :: string
  ld_TargetId :: string
  ld_TargetUniqueId :: string
  ld_Strength :: f64
  ld_Category :: string
  ld_Tags :: "TagOutput list"
  ld_TargetTags :: "TagOutput list"

definition zero_Linked :: Linked where
  "zero_Linked = \<lparr>ld_Id = [], ld_UniqueId = [], ld_SourceId = [], ld_SourceUniqueId = [], ld_TargetId = [],
     ld_TargetUniqueId = [], ld_Strength = zero_f64, ld_Category = [], ld_Tags = [], ld_TargetTags = []\<rparr>"

text \<open>
  The payload description inside an event. Its \<open>Data\<close> member is not modelled: the package neither
  reads nor writes it there.
\<close>

record PayloadMeta =
  pm_DataType :: int
  pm_MimeType :: string
  pm_DataSize :: int

record EventFields =
  ev_UniqueId :: string
  ev_Id :: string
  ev_LocalId :: string
  ev_Owner :: string
  ev_OwnerUniqueID :: string
  ev_Timestamp :: string
  ev_DateTime :: DateTimeObject
  ev_Location :: string
  ev_LocationSeparator :: string
  ev_Type :: string
  ev_Tags :: "TagOutput list option"
  ev_Links :: "Linked list option"
  ev_PayloadData :: PayloadMeta
  ev_Status :: string
  ev_Hits :: int

definition zero_EventFields :: EventFields where
  "zero_EventFields = \<lparr>ev_UniqueId = [], ev_Id = [], ev_LocalId = [], ev_Owner = [], ev_OwnerUniqueID = [],
     ev_Timestamp = [], ev_DateTime = zero_DateTimeObject, ev_Location = [], ev_LocationSeparator = [],
     ev_Type = [], ev_Tags = None, ev_Links = None,
     ev_PayloadData = \<lparr>pm_DataType = 0, pm_MimeType = [], pm_DataSize = 0\<rparr>, ev_Status = [], ev_Hits = 0\<rparr>"

record LinkFields =
  lk_UniqueId :: string
  lk_Id :: string
  lk_LocalId :: string
  lk_Owner :: string
  lk_Timestamp :: string
  lk_DateTime :: DateTimeObject
  lk_Location :: string
  lk_LocationSeparator :: string
  lk_EventA :: string
  lk_EventB :: string
  lk_UniqueIdA :: string
  lk_UniqueIdB :: string
  lk_StrengthA :: f64
  lk_StrengthB :: f64
  lk_Category :: string
  lk_Type :: string
  lk_OwnerUniqueID :: string
  lk_OwnerID :: string
  lk_Tags :: "TagOutput list option"
  lk_TargetTags :: "TagOutput list option"
  lk_Status :: string
  lk_Message :: string

definition zero_LinkFields :: LinkFields where
  "zero_LinkFields = \<lparr>lk_UniqueId = [], lk_Id = [], lk_LocalId = [], lk_Owner = [], lk_Timestamp = [],
     lk_DateTime = zero_DateTimeObject, lk_Location = [], lk_LocationSeparator = [], lk_EventA = [],
     lk_EventB = [], lk_UniqueIdA = [], lk_UniqueIdB = [], lk_StrengthA = zero_f64, lk_StrengthB = zero_f64,
     lk_Category = [], lk_Type = [], lk_OwnerUniqueID = [], lk_OwnerID = [], lk_Tags = None,
     lk_TargetTags = None, lk_Status = [], lk_Message = []\<rparr>"

record BatchEventSpec =
  be_Event :: EventFields
  be_Tags :: TagList

record BatchLinkEventSpec =
  bl_Event :: EventFields
  bl_Link :: LinkFields

section \<open>Payloads\<close>

text \<open>
  The dynamic value of \<open>Payload.Data\<close>: nil, the types the encoder asks for by name, and
  \<open>AOther k\<close> for a value of any other type whose \<open>reflect\<close> kind is \<open>k\<close>.
\<close>

datatype kind = KString | KSlice | KArray | KOther

datatype any =
    ANil
  | AString string
  | ABytes string
  | AStrings "string list"
  | ABatchEvents "BatchEventSpec list"
  | ABatchLinks "BatchLinkEventSpec list"
  | ATagList TagList
  | ATagSlice "Tag list"
  | AOther kind

record PayloadFields =
  pl_Data :: any
  pl_DataType :: int
  pl_MimeType :: string
  pl_DataSize :: int

definition zero_PayloadFields :: PayloadFields where
  "zero_PayloadFields = \<lparr>pl_Data = ANil, pl_DataType = 0, pl_MimeType = [], pl_DataSize = 0\<rparr>"

section \<open>Options of the retrieval intents\<close>

datatype TagOwnerOutput = TagOwnerNone | TagOwnerEventKey | TagOwnerUniqueID | TagOwnerInvalid string

record GetEventOptions =
  ge_SendData :: bool
  ge_LocalIdOnly :: bool
  ge_TagFormat :: NullInt
  ge_RequestFormat :: int
  ge_FirstLink :: int
  ge_LinkCount :: int
  ge_GetTags :: bool
  ge_GetLinks :: bool
  ge_GetLinkTags :: bool
  ge_GetTargetTags :: bool
  ge_EventFacetFilter :: string
  ge_LinkFacetFilter :: string
  ge_TargetFacetFilter :: string
  ge_CategoryFilter :: string
  ge_TagFilter :: string
  ge_TagOwnerOutput :: TagOwnerOutput

record GetEventsForTagsOptions =
  gt_EventPattern :: string
  gt_EventPatternHigh :: string
  gt_IncludeBriefHits :: bool
  gt_GetAllData :: bool
  gt_FirstLink :: int
  gt_LinkCount :: int
  gt_EventsPerMessage :: int
  gt_StartResult :: int
  gt_EndResult :: int
  gt_MinEventHits :: int
  gt_CountOnly :: bool
  gt_GetMatchLinks :: bool
  gt_CountMatchLinks :: bool
  gt_GetLinkTags :: bool
  gt_GetTargetTags :: bool
  gt_LinkTagFilter :: string
  gt_LinkedEventsFilter :: string
  gt_LinkCategory :: string
  gt_Owner :: string
  gt_OwnerUniqueID :: string
  gt_GetEventObjectCount :: bool
  gt_BufferResults :: bool
  gt_IncludeTagStats :: bool
  gt_InvertHitTagFilter :: bool
  gt_HitTagFilter :: string
  gt_BufferFormat :: string
  gt_TagOwnerOutput :: TagOwnerOutput

record SearchOptions =
  so_Clause :: string
  so_Parameters :: string
  so_BufferResults :: bool
  so_IncludeTagStats :: bool
  so_InvertHitTagFilter :: bool
  so_HitTagFilter :: string
  so_BufferFormat :: string

record NeuralMemoryFields =
  nm_GetEvent :: "GetEventOptions option"
  nm_GetEventsForTags :: "GetEventsForTagsOptions option"
  nm_Search :: "SearchOptions option"
  nm_Link :: "LinkFields option"
  nm_BatchLinks :: "BatchLinkEventSpec list"
  nm_Unlink :: "LinkFields option"
  nm_Tags :: TagList
  nm_BatchEvents :: "BatchEventSpec list"

definition zero_NeuralMemoryFields :: NeuralMemoryFields where
  "zero_NeuralMemoryFields = \<lparr>nm_GetEvent = None, nm_GetEventsForTags = None, nm_Search = None,
     nm_Link = None, nm_BatchLinks = [], nm_Unlink = None, nm_Tags = [], nm_BatchEvents = []\<rparr>"

section \<open>Responses\<close>

record StoreBatchEventRecord =
  sb_Status :: string
  sb_Message :: string
  sb_EventCount :: int
  sb_EventResults :: "EventFields list"

record StoreLinkBatchEventRecord =
  sl_Status :: string
  sl_Message :: string
  sl_TotalLinkRequestsFound :: int
  sl_LinksOk :: int
  sl_LinksWithErrors :: int
  sl_LinkResults :: "LinkFields list"

record BriefHitRecord =
  bh_EventId :: string
  bh_TotalHits :: int

record ResponseFields =
  rs_Status :: string
  rs_Message :: string
  rs_TagCount :: int
  rs_LinkCount :: int
  rs_LinkId :: string
  rs_DateTime :: DateTimeObject
  rs_TotalEvents :: int
  rs_ReturnedEvents :: int
  rs_StartResult :: int
  rs_EndResult :: int
  rs_StorageErrorCount :: int
  rs_StorageSuccessCount :: int
  rs_EventRecords :: "EventFields list"
  rs_StoreLinkBatchEventRecord :: StoreLinkBatchEventRecord
  rs_StoreBatchEventRecord :: StoreBatchEventRecord
  rs_MatchTermCount :: int
  rs_IsBuffered :: bool
  rs_BriefHits :: "BriefHitRecord list"

definition zero_StoreBatchEventRecord :: StoreBatchEventRecord where
  "zero_StoreBatchEventRecord = \<lparr>sb_Status = [], sb_Message = [], sb_EventCount = 0, sb_EventResults = []\<rparr>"

definition zero_StoreLinkBatchEventRecord :: StoreLinkBatchEventRecord where
  "zero_StoreLinkBatchEventRecord = \<lparr>sl_Status = [], sl_Message = [], sl_TotalLinkRequestsFound = 0,
     sl_LinksOk = 0, sl_LinksWithErrors = 0, sl_LinkResults = []\<rparr>"

definition zero_ResponseFields :: ResponseFields where
  "zero_ResponseFields = \<lparr>rs_Status = [], rs_Message = [], rs_TagCount = 0, rs_LinkCount = 0, rs_LinkId = [],
     rs_DateTime = zero_DateTimeObject, rs_TotalEvents = 0, rs_ReturnedEvents = 0, rs_StartResult = 0,
     rs_EndResult = 0, rs_StorageErrorCount = 0, rs_StorageSuccessCount = 0, rs_EventRecords = [],
     rs_StoreLinkBatchEventRecord = zero_StoreLinkBatchEventRecord,
     rs_StoreBatchEventRecord = zero_StoreBatchEventRecord, rs_MatchTermCount = 0, rs_IsBuffered = False,
     rs_BriefHits = []\<rparr>"

section \<open>Messages\<close>

text \<open>
  The embedded \<open>Envelope\<close> is flattened, as Go's field promotion does. \<open>PublicKey\<close>, which nothing
  in the repository reads, is left out.
\<close>

record Message =
  m_To :: string
  m_From :: string
  m_Intent :: Intent
  m_ClientName :: string
  m_MessageId :: string
  m_Passcode :: string
  m_UserName :: string
  m_Event :: "EventFields option"
  m_Payload :: "PayloadFields option"
  m_NeuralMemory :: "NeuralMemoryFields option"
  m_Response :: "ResponseFields option"

definition zero_Message :: Message where
  "zero_Message = \<lparr>m_To = [], m_From = [], m_Intent = zero_Intent, m_ClientName = [], m_MessageId = [],
     m_Passcode = [], m_UserName = [], m_Event = None, m_Payload = None, m_NeuralMemory = None,
     m_Response = None\<rparr>"

definition GetEventOpts :: "Message \<Rightarrow> GetEventOptions option" where
  "GetEventOpts m = (case m_NeuralMemory m of Some nm \<Rightarrow> nm_GetEvent nm | None \<Rightarrow> None)"

definition GetEventsForTagsOpts :: "Message \<Rightarrow> GetEventsForTagsOptions option" where
  "GetEventsForTagsOpts m = (case m_NeuralMemory m of Some nm \<Rightarrow> nm_GetEventsForTags nm | None \<Rightarrow> None)"

definition EventId :: "Message \<Rightarrow> string" where
  "EventId m = (case m_Event m of Some e \<Rightarrow> ev_Id e | None \<Rightarrow> [])"

definition EventUniqueId :: "Message \<Rightarrow> string" where
  "EventUniqueId m = (case m_Event m of Some e \<Rightarrow> ev_UniqueId e | None \<Rightarrow> [])"

definition PayloadData :: "Message \<Rightarrow> any" where
  "PayloadData m = (case m_Payload m of Some p \<Rightarrow> pl_Data p | None \<Rightarrow> ANil)"

definition PayloadMimeType :: "Message \<Rightarrow> string" where
  "PayloadMimeType m = (case m_Payload m of Some p \<Rightarrow> pl_MimeType p | None \<Rightarrow> [])"

definition ProcessingStatus :: "Message \<Rightarrow> string" where
  "ProcessingStatus m = (case m_Response m of Some r \<Rightarrow> rs_Status r | None \<Rightarrow> [])"

definition ProcessingMessage :: "Message \<Rightarrow> string" where
  "ProcessingMessage m = (case m_Response m of Some r \<Rightarrow> rs_Message r | None \<Rightarrow> [])"

definition Tags :: "Message \<Rightarrow> TagList" where
  "Tags m = (case m_NeuralMemory m of Some nm \<Rightarrow> nm_Tags nm | None \<Rightarrow> [])"

definition Link :: "Message \<Rightarrow> LinkFields option" where
  "Link m = (case m_NeuralMemory m of Some nm \<Rightarrow> nm_Link nm | None \<Rightarrow> None)"

section \<open>Errors\<close>

datatype ErrCode =
    ErrCodeDecodeMessageTooShort
  | ErrCodeDecodeInvalidSizeParam
  | ErrCodeDecodeInvalidHeader
  | ErrCodeDecodeInvalidMessageType
  | ErrCodeDecodeInvalidDataType
  | ErrCodeDecodePayloadTooLarge
  | ErrCodeDecodeHeaderTransformationFailed
  | ErrCodeEncodeNilMessage
  | ErrCodeEncodePayloadTooLarge
  | ErrCodeEncodeInvalidData
  | ErrCodeEncodeInvalidFromAddress
  | ErrCodeEncodeInvalidGatewayName
  | ErrCodeEncodeInvalidActorName
  | ErrCodeEncodeInvalidDomainName
  | ErrCodeEncodeInvalidToAddress

fun ErrCode_value :: "ErrCode \<Rightarrow> int" where
  "ErrCode_value ErrCodeDecodeMessageTooShort = 1000"
| "ErrCode_value ErrCodeDecodeInvalidSizeParam = 1001"
| "ErrCode_value ErrCodeDecodeInvalidHeader = 1002"
| "ErrCode_value ErrCodeDecodeInvalidMessageType = 1003"
| "ErrCode_value ErrCodeDecodeInvalidDataType = 1004"
| "ErrCode_value ErrCodeDecodePayloadTooLarge = 1005"
| "ErrCode_value ErrCodeDecodeHeaderTransformationFailed = 1006"
| "ErrCode_value ErrCodeEncodeNilMessage = 1007"
| "ErrCode_value ErrCodeEncodePayloadTooLarge = 1008"
| "ErrCode_value ErrCodeEncodeInvalidData = 1009"
| "ErrCode_value ErrCodeEncodeInvalidFromAddress = 1010"
| "ErrCode_value ErrCodeEncodeInvalidGatewayName = 1011"
| "ErrCode_value ErrCodeEncodeInvalidActorName = 1012"
| "ErrCode_value ErrCodeEncodeInvalidDomainName = 1013"
| "ErrCode_value ErrCodeEncodeInvalidToAddress = 1014"

text \<open>The wrapped error of a decode error is always a \<open>NumError\<close>: its function, input and cause.\<close>

record DecodeError =
  de_Code :: ErrCode
  de_Message :: string
  de_Field :: string
  de_Err :: "(string \<times> string \<times> num_error) option"

definition DecodeErrorWithField :: "ErrCode \<Rightarrow> string \<Rightarrow> string \<Rightarrow> DecodeError" where
  "DecodeErrorWithField c msg f = \<lparr>de_Code = c, de_Message = msg, de_Field = f, de_Err = None\<rparr>"

definition WrapDecodeError :: "ErrCode \<Rightarrow> string \<Rightarrow> string \<times> string \<times> num_error \<Rightarrow> DecodeError" where
  "WrapDecodeError c msg e = \<lparr>de_Code = c, de_Message = msg, de_Field = [], de_Err = Some e\<rparr>"

definition DecodeError_Error :: "DecodeError \<Rightarrow> string" where
  "DecodeError_Error e =
     (if de_Field e \<noteq> [] then
        ''decode error ['' @ itoa (ErrCode_value (de_Code e)) @ '']: '' @ de_Message e
          @ '' (field: '' @ de_Field e @ '')''
      else ''decode error ['' @ itoa (ErrCode_value (de_Code e)) @ '']: '' @ de_Message e)"

record EncodeError =
  ee_Code :: ErrCode
  ee_Message :: string
  ee_Field :: string

definition NewEncodeError :: "ErrCode \<Rightarrow> string \<Rightarrow> EncodeError" where
  "NewEncodeError c msg = \<lparr>ee_Code = c, ee_Message = msg, ee_Field = []\<rparr>"

definition EncodeErrorWithField :: "ErrCode \<Rightarrow> string \<Rightarrow> string \<Rightarrow> EncodeError" where
  "EncodeErrorWithField c msg f = \<lparr>ee_Code = c, ee_Message = msg, ee_Field = f\<rparr>"

definition EncodeError_Error :: "EncodeError \<Rightarrow> string" where
  "EncodeError_Error e =
     (if ee_Field e \<noteq> [] then
        ''encode error ['' @ itoa (ErrCode_value (ee_Code e)) @ '']: '' @ ee_Message e
          @ '' (field: '' @ ee_Field e @ '')''
      else ''encode error ['' @ itoa (ErrCode_value (ee_Code e)) @ '']: '' @ ee_Message e)"

text \<open>The numeric codes order the error codes as the source's \<open>iota\<close> does.\<close>

lemma ErrCode_value_inj: "ErrCode_value a = ErrCode_value b \<Longrightarrow> a = b"
  by (cases a; cases b) simp_all

instantiation ErrCode :: linorder
begin

definition less_eq_ErrCode :: "ErrCode \<Rightarrow> ErrCode \<Rightarrow> bool" where
  "less_eq_ErrCode a b = (ErrCode_value a \<le> ErrCode_value b)"

definition less_ErrCode :: "ErrCode \<Rightarrow> ErrCode \<Rightarrow> bool" where
  "less_ErrCode a b = (ErrCode_value a < ErrCode_value b)"

instance
  by standard (auto simp: less_eq_ErrCode_def less_ErrCode_def dest: ErrCode_value_inj)

end

end
