(* ===== verification/Serialize.thy ===== *)
theory Serialize
  imports Types
begin

text \<open>
  The leaves of the encoder (\<open>message/encoder.go\<close>, \<open>message/utils.go\<close>): dropping what is not
  ASCII, printing tag values and timestamps, and the payload lines of the batch intents, whose
  fields the source reads off the struct tags of \<open>EventFields\<close> and \<open>LinkFields\<close> with \<open>reflect\<close>.
\<close>

section \<open>ASCII\<close>

text \<open>\<open>forceASCII\<close> loops over the runes of the string and keeps those up to 127.\<close>

definition forceASCII :: "string \<Rightarrow> string" where
  "forceASCII s = map char_of (filter (\<lambda>r. r \<le> 127) (runes s))"

lemma forceASCII_filter: "forceASCII s = filter is_ascii s"
proof (induction "length s" arbitrary: s rule: less_induct)
  case less
  show ?case
  proof (cases s)
    case Nil
    then show ?thesis by (simp add: forceASCII_def runes.simps)
  next
    case (Cons c t)
    let ?w = "snd (decode_rune s)" and ?r = "fst (decode_rune s)"
    have step: "runes s = ?r # runes (drop ?w s)"
      using Cons by (subst runes.simps) simp
    have "0 < ?w" using Cons decode_rune_width [of s] by simp
    then have "length (drop ?w s) < length s" using Cons by simp
    then have IH: "forceASCII (drop ?w s) = filter is_ascii (drop ?w s)" by (rule less)
    show ?thesis
    proof (cases "is_ascii c")
      case True
      then have "decode_rune s = (code c, 1)" using Cons decode_rune_ascii by simp
      with True IH step Cons show ?thesis
        by (simp add: forceASCII_def is_ascii_def)
    next
      case False
      then have "128 \<le> ?r" and na: "\<forall>x \<in> set (take ?w s). \<not> is_ascii x"
        using Cons decode_rune_non_ascii [of c t] by simp_all
      then have "forceASCII s = forceASCII (drop ?w s)" using step by (simp add: forceASCII_def)
      also have "\<dots> = filter is_ascii (take ?w s @ drop ?w s)" using IH na
        by (simp add: filter_empty_conv del: append_take_drop_id)
      finally show ?thesis by simp
    qed
  qed
qed

lemma forceASCII_id: "(\<And>c. c \<in> set s \<Longrightarrow> is_ascii c) \<Longrightarrow> forceASCII s = s"
  by (simp add: forceASCII_filter)

lemma set_forceASCII: "c \<in> set (forceASCII s) \<longleftrightarrow> c \<in> set s \<and> is_ascii c"
  by (auto simp: forceASCII_filter)

lemma length_forceASCII: "length (forceASCII s) = length s \<longleftrightarrow> (\<forall>c \<in> set s. is_ascii c)"
  by (simp add: forceASCII_filter length_filter_eq_iff)

section \<open>Tag values\<close>

definition base64_char :: "nat \<Rightarrow> char" where
  "base64_char n =
     (if n < 26 then char_of (65 + n) else if n < 52 then char_of (71 + n)
      else if n < 62 then char_of (n - 4) else if n = 62 then CHR ''+'' else CHR ''/'')"

fun base64 :: "string \<Rightarrow> string" where
  "base64 [] = []"
| "base64 [a] = (let v = code a * 65536 in
     [base64_char (v div 262144), base64_char (v div 4096 mod 64), CHR ''='', CHR ''=''])"
| "base64 [a, b] = (let v = code a * 65536 + code b * 256 in
     [base64_char (v div 262144), base64_char (v div 4096 mod 64), base64_char (v div 64 mod 64), CHR ''=''])"
| "base64 (a # b # c # s) = (let v = code a * 65536 + code b * 256 + code c in
     [base64_char (v div 262144), base64_char (v div 4096 mod 64), base64_char (v div 64 mod 64),
      base64_char (v mod 64)] @ base64 s)"

fun SerializeTagValue :: "golib \<Rightarrow> tag_value \<Rightarrow> string" where
  "SerializeTagValue G VNil = []"
| "SerializeTagValue G (VString s) = s"
| "SerializeTagValue G (VInt i) = itoa i"
| "SerializeTagValue G (VUint n) = digits 10 n"
| "SerializeTagValue G (VFloat32 f) = FormatFloat32 G f"
| "SerializeTagValue G (VFloat64 f) = FormatFloat64 G f"
| "SerializeTagValue G (VBool b) = (if b then ''true'' else ''false'')"
| "SerializeTagValue G (VBytes b) = base64 b"
| "SerializeTagValue G (VOther (Some json) v) = json"
| "SerializeTagValue G (VOther None v) = v"

section \<open>Timestamps\<close>

text \<open>
  \<open>GetTimeStampFromTime\<close> prints \<open>float64(UnixMicro()) / 1e6\<close> with \<open>%.6f\<close> and a sign. Below
  \<open>2 ^ 33\<close> seconds the quotient is within half a microsecond of the exact value, so the six
  decimals are those of the microsecond count, which is what is printed here.
\<close>

definition GetTimeStampFromTime :: "int \<Rightarrow> string" where
  "GetTimeStampFromTime micros =
     (let a = nat \<bar>micros\<bar>;
          body = digits 10 (a div 1000000) @ CHR ''.'' # pad0 6 (digits 10 (a mod 1000000))
      in if 0 < micros then CHR ''+'' # body else if micros < 0 then CHR ''-'' # body else body)"

text \<open>\<open>GetTimestamp\<close> applies it to the clock, which the header functions take as an argument.\<close>

definition GetTimestamp :: "int \<Rightarrow> string" where
  "GetTimestamp now = GetTimeStampFromTime now"

section \<open>Batch payload lines\<close>

text \<open>
  \<open>formatFieldValue\<close> prints a string field as it is and anything else with \<open>%v\<close>: an integer in
  decimal, a struct as its fields in braces, a slice as its elements in brackets.
\<close>

definition Sprint_TagOutput :: "TagOutput \<Rightarrow> string" where
  "Sprint_TagOutput t = CHR ''{'' # Join '' '' [itoa (to_Frequency t), to_Category t, to_Key t, to_Value t,
     to_Owner t, to_OwnerUniqueID t, to_Timestamp t, itoa (to_TagNumber t), to_TargetTagId t] @ ''}''"

definition Sprint_slice :: "('a \<Rightarrow> string) \<Rightarrow> 'a list \<Rightarrow> string" where
  "Sprint_slice f xs = CHR ''['' # Join '' '' (map f xs) @ '']''"

definition Sprint_Linked :: "golib \<Rightarrow> Linked \<Rightarrow> string" where
  "Sprint_Linked G l = CHR ''{'' # Join '' '' [ld_Id l, ld_UniqueId l, ld_SourceId l, ld_SourceUniqueId l,
     ld_TargetId l, ld_TargetUniqueId l, Sprint_f64 G (ld_Strength l), ld_Category l,
     Sprint_slice Sprint_TagOutput (ld_Tags l), Sprint_slice Sprint_TagOutput (ld_TargetTags l)] @ ''}''"

text \<open>
  A tagged field as the loop over the struct sees it: its socket name, whether the value is the
  zero value, and its text.
\<close>

type_synonym tagged_field = "string \<times> bool \<times> string"

definition field_string :: "string \<Rightarrow> string \<Rightarrow> tagged_field" where
  "field_string n v = (n, v = [], v)"

definition field_int :: "string \<Rightarrow> int \<Rightarrow> tagged_field" where
  "field_int n v = (n, v = 0, itoa v)"

definition field_f64 :: "golib \<Rightarrow> string \<Rightarrow> f64 \<Rightarrow> tagged_field" where
  "field_f64 G n v = (n, f64_is_zero_value v, Sprint_f64 G v)"

definition field_slice :: "('a \<Rightarrow> string) \<Rightarrow> string \<Rightarrow> 'a list option \<Rightarrow> tagged_field" where
  "field_slice f n v = (n, v = None, Sprint_slice f (case v of None \<Rightarrow> [] | Some xs \<Rightarrow> xs))"

text \<open>The tagged fields of the two structs, in declaration order.\<close>

definition event_struct_fields :: "golib \<Rightarrow> EventFields \<Rightarrow> tagged_field list" where
  "event_struct_fields G e =
     [field_string ''unique_id'' (ev_UniqueId e), field_string ''event_id'' (ev_Id e),
      field_string ''owner'' (ev_Owner e), field_string ''owner_unique_id'' (ev_OwnerUniqueID e),
      field_string ''timestamp'' (ev_Timestamp e), field_string ''loc'' (ev_Location e),
      field_string ''loc_delim'' (ev_LocationSeparator e), field_string ''type'' (ev_Type e),
      field_slice Sprint_TagOutput ''tags'' (ev_Tags e), field_slice (Sprint_Linked G) ''links'' (ev_Links e),
      field_string ''_status'' (ev_Status e), field_int ''_hits'' (ev_Hits e)]"

definition link_struct_fields :: "golib \<Rightarrow> LinkFields \<Rightarrow> tagged_field list" where
  "link_struct_fields G l =
     [field_string ''unique_id'' (lk_UniqueId l), field_string ''event_id'' (lk_Id l),
      field_string ''owner'' (lk_Owner l), field_string ''timestamp'' (lk_Timestamp l),
      field_string ''loc'' (lk_Location l), field_string ''loc_delim'' (lk_LocationSeparator l),
      field_string ''event_id_a'' (lk_EventA l), field_string ''event_id_b'' (lk_EventB l),
      field_string ''unique_id_a'' (lk_UniqueIdA l), field_string ''unique_id_b'' (lk_UniqueIdB l),
      field_f64 G ''strength_a'' (lk_StrengthA l), field_f64 G ''strength_b'' (lk_StrengthB l),
      field_string ''category'' (lk_Category l), field_string ''type'' (lk_Type l),
      field_string ''owner_unique_id'' (lk_OwnerUniqueID l), field_string ''owner_event_id'' (lk_OwnerID l),
      field_slice Sprint_TagOutput ''tags'' (lk_Tags l),
      field_slice Sprint_TagOutput ''target_tags'' (lk_TargetTags l),
      field_string ''_status'' (lk_Status l), field_string ''_msg'' (lk_Message l)]"

text \<open>The loop over the fields skips zero values and empty texts.\<close>

fun struct_fields :: "tagged_field list \<Rightarrow> string list" where
  "struct_fields [] = []"
| "struct_fields ((name, is_zero, text) # fs) =
     (if is_zero \<or> text = [] then struct_fields fs
      else (name @ ''='' @ text) # struct_fields fs)"

definition formatBatchEventSpecFields :: "golib \<Rightarrow> BatchEventSpec \<Rightarrow> string list" where
  "formatBatchEventSpecFields G spec = struct_fields (event_struct_fields G (be_Event spec))"

definition formatBatchLinkEventSpecFields :: "golib \<Rightarrow> BatchLinkEventSpec \<Rightarrow> string list" where
  "formatBatchLinkEventSpecFields G spec =
     struct_fields (event_struct_fields G (bl_Event spec)) @ struct_fields (link_struct_fields G (bl_Link spec))"

fun tag_fields :: "golib \<Rightarrow> int \<Rightarrow> TagList \<Rightarrow> string list" where
  "tag_fields G i [] = []"
| "tag_fields G i (t # ts) =
     (''tag_'' @ itoa (i + 1) @ ''='' @ itoa (tag_Frequency t) @ '':'' @ tag_Key t @ ''=''
        @ SerializeTagValue G (tag_Value t)) # tag_fields G (i + 1) ts"

definition formatTagsForBatchPayload :: "golib \<Rightarrow> TagList \<Rightarrow> string" where
  "formatTagsForBatchPayload G tags =
     (if tags = [] then [] else TAB # Join [TAB] (tag_fields G 0 tags))"

definition batch_event_line :: "golib \<Rightarrow> BatchEventSpec \<Rightarrow> string" where
  "batch_event_line G spec = Join [TAB] (formatBatchEventSpecFields G spec)
     @ (if be_Tags spec \<noteq> [] then formatTagsForBatchPayload G (be_Tags spec) else [])"

definition FormatBatchEventsPayload :: "golib \<Rightarrow> BatchEventSpec list \<Rightarrow> string" where
  "FormatBatchEventsPayload G events =
     (if events = [] then [] else Join [NL] (map (batch_event_line G) events))"

definition linkStrengthRejected :: "f64 \<Rightarrow> bool" where
  "linkStrengthRejected v = (f64_eq_zero v \<or> IsNaN v \<or> IsInf v)"

text \<open>\<open>requireLinkWireFields\<close>: the error, or none.\<close>

definition requireLinkWireFields :: "LinkFields option \<Rightarrow> string \<Rightarrow> EncodeError option" where
  "requireLinkWireFields link place =
     (case link of
        None \<Rightarrow> Some (EncodeErrorWithField ErrCodeEncodeInvalidData
          (place @ '': link is missing; strength_a, strength_b, and category are required'') ''link'')
      | Some l \<Rightarrow>
          if linkStrengthRejected (lk_StrengthA l) then
            Some (EncodeErrorWithField ErrCodeEncodeInvalidData
              (place @ '': strength_a must be a finite non-zero number (positive and negative values are allowed)'')
              ''strength_a'')
          else if linkStrengthRejected (lk_StrengthB l) then
            Some (EncodeErrorWithField ErrCodeEncodeInvalidData
              (place @ '': strength_b must be a finite non-zero number (positive and negative values are allowed)'')
              ''strength_b'')
          else if lk_Category l = [] then
            Some (EncodeErrorWithField ErrCodeEncodeInvalidData (place @ '': category is required'') ''category'')
          else None)"

text \<open>The loop of \<open>FormatBatchLinkEventsPayload\<close> stops at the first rejected link.\<close>

fun batch_link_lines :: "golib \<Rightarrow> int \<Rightarrow> BatchLinkEventSpec list \<Rightarrow> (EncodeError, string list) outcome" where
  "batch_link_lines G i [] = Returned []"
| "batch_link_lines G i (e # es) =
     (case requireLinkWireFields (Some (bl_Link e)) (''batch link '' @ itoa i) of
        Some err \<Rightarrow> Failed err
      | None \<Rightarrow> bind_outcome (batch_link_lines G (i + 1) es)
          (\<lambda>ls. Returned (Join [TAB] (formatBatchLinkEventSpecFields G e) # ls)))"

definition FormatBatchLinkEventsPayload :: "golib \<Rightarrow> BatchLinkEventSpec list \<Rightarrow> (EncodeError, string) outcome" where
  "FormatBatchLinkEventsPayload G events =
     bind_outcome (batch_link_lines G 0 events) (\<lambda>ls. Returned (Join [NL] ls))"

definition batch_tag_line :: "golib \<Rightarrow> Tag \<Rightarrow> string" where
  "batch_tag_line G t =
     itoa (tag_Frequency t) @ ''='' @ tag_Key t @ ''='' @ SerializeTagValue G (tag_Value t)"

definition FormatBatchTagsPayload :: "golib \<Rightarrow> TagList \<Rightarrow> string" where
  "FormatBatchTagsPayload G tags = Join [NL] (map (batch_tag_line G) tags)"

section \<open>Facts\<close>

definition link_ok :: "LinkFields \<Rightarrow> bool" where
  "link_ok l \<longleftrightarrow> \<not> linkStrengthRejected (lk_StrengthA l) \<and> \<not> linkStrengthRejected (lk_StrengthB l)
     \<and> lk_Category l \<noteq> []"

lemma requireLinkWireFields_None_iff: "requireLinkWireFields (Some l) w = None \<longleftrightarrow> link_ok l"
  by (simp add: requireLinkWireFields_def link_ok_def)

lemma requireLinkWireFields_code:
  "requireLinkWireFields l w = Some e \<Longrightarrow> ee_Code e = ErrCodeEncodeInvalidData"
  by (auto simp: requireLinkWireFields_def EncodeErrorWithField_def split: option.splits if_splits)

lemma batch_link_lines_no_panic: "batch_link_lines G i es \<noteq> Panicked"
  by (induction es arbitrary: i) (auto simp: bind_outcome_Panicked_iff split: option.splits)

lemma batch_link_lines_Returned_iff:
  "batch_link_lines G i es = Returned ls \<longleftrightarrow>
     (\<forall>e \<in> set es. link_ok (bl_Link e)) \<and> ls = map (\<lambda>e. Join [TAB] (formatBatchLinkEventSpecFields G e)) es"
proof (induction es arbitrary: i ls)
  case (Cons e es)
  show ?case
  proof (cases "link_ok (bl_Link e)")
    case True
    then have "requireLinkWireFields (Some (bl_Link e)) w = None" for w
      by (simp add: requireLinkWireFields_None_iff)
    with True Cons show ?thesis by (auto simp: bind_outcome_Returned_iff)
  next
    case False
    then obtain err where "requireLinkWireFields (Some (bl_Link e)) (''batch link '' @ itoa i) = Some err"
      using requireLinkWireFields_None_iff by blast
    with False show ?thesis by (simp del: append.simps)
  qed
qed auto

lemma FormatBatchLinkEventsPayload_no_panic: "FormatBatchLinkEventsPayload G es \<noteq> Panicked"
  by (simp add: FormatBatchLinkEventsPayload_def bind_outcome_Panicked_iff batch_link_lines_no_panic)

lemma FormatBatchLinkEventsPayload_Returned_iff:
  "FormatBatchLinkEventsPayload G es = Returned s \<longleftrightarrow>
     (\<forall>e \<in> set es. link_ok (bl_Link e)) \<and>
     s = Join [NL] (map (\<lambda>e. Join [TAB] (formatBatchLinkEventSpecFields G e)) es)"
  by (auto simp: FormatBatchLinkEventsPayload_def bind_outcome_Returned_iff batch_link_lines_Returned_iff)

end
