(* ===== verification/WireFields.thy ===== *)
theory WireFields
  imports Types Serialize
begin

text \<open>
  The leaves of the decoder (\<open>message/decoder.go\<close>): the 9-byte size field, the header and the
  tab-delimited lines as maps, and the fields of an event or a link taken from such a map.
\<close>

section \<open>Size fields\<close>

text \<open>
  \<open>decodeMessageSizeParam\<close> strips trailing NULs and blanks; an empty field is \<open>0\<close>, a leading
  \<open>x\<close> announces hexadecimal. The error carries the text that was parsed.
\<close>

definition ParseInt_err :: "nat \<Rightarrow> string \<Rightarrow> int \<times> (string \<times> num_error) option" where
  "ParseInt_err b s = (case ParseInt b 32 s of (n, e) \<Rightarrow> (n, map_option (\<lambda>x. (s, x)) e))"

definition decodeMessageSizeParam :: "string \<Rightarrow> int \<times> (string \<times> num_error) option" where
  "decodeMessageSizeParam param =
     (case TrimSpace (TrimRightByte NUL param) of
        [] \<Rightarrow> (0, None)
      | c # cs \<Rightarrow> if c = CHR ''x'' then ParseInt_err 16 cs else ParseInt_err 10 (c # cs))"

lemma decodeMessageSizeParam_hex [go_number, wire]:
  "decodeMessageSizeParam (CHR ''x'' # hex8 n)
     = (if n < 2 ^ 31 then (int n, None) else (2 ^ 31 - 1, Some (hex8 n, ErrRange)))"
proof -
  have g: "graphic c" if "c \<in> set (CHR ''x'' # hex8 n)" for c
    using that hex8_graphic [of c n] by (auto simp: graphic_def)
  have "TrimSpace (TrimRightByte NUL (CHR ''x'' # hex8 n)) = CHR ''x'' # hex8 n"
    by (subst TrimRightByte_all_graphic, erule g) (rule TrimSpace_all_graphic, erule g)
  then show ?thesis
    by (simp add: decodeMessageSizeParam_def ParseInt_err_def ParseInt_hex8)
qed

lemma TrimSpace_dec9: "TrimSpace (TrimRightByte NUL (dec9 i)) = dec9 i"
  using dec9_graphic by (simp add: TrimRightByte_all_graphic TrimSpace_all_graphic)

lemma ParseInt_dec9:
  assumes "- (2 ^ 31) < i" "i < 2 ^ 31"
  shows "ParseInt 10 32 (dec9 i) = (i, None)"
  using ParseInt_digits [of 10 32 _ "nat i"] ParseInt_neg_digits [of 10 "nat (- i)" 32] assms
  by (auto simp: dec9_def pad0_def nat_less_iff)

lemma hd_dec9: "hd (dec9 i) \<noteq> CHR ''x''"
proof (cases "i < 0")
  case False
  let ?s = "replicate (9 - length (digits 10 (nat i))) (CHR ''0'') @ digits 10 (nat i)"
  have eq: "dec9 i = ?s" using False by (simp add: dec9_def pad0_def)
  have "hd ?s \<in> set ?s" by (rule hd_in_set) simp
  then have "hd ?s = CHR ''0'' \<or> (\<exists>d < 10. hd ?s = digit_char d)"
    using digits_set [of 10 "hd ?s" "nat i"] by (auto split: if_splits)
  then have "code (hd ?s) < 58" using digit_char_code by auto
  then show ?thesis unfolding eq by auto
qed (simp add: dec9_def)

lemma decodeMessageSizeParam_dec9 [go_number, wire]:
  assumes "- (2 ^ 31) < i" "i < 2 ^ 31"
  shows "decodeMessageSizeParam (dec9 i) = (i, None)"
proof -
  obtain c cs where s: "dec9 i = c # cs" by (cases "dec9 i") auto
  then show ?thesis
    using hd_dec9 [of i] TrimSpace_dec9 [of i] ParseInt_dec9 [OF assms]
    by (simp add: decodeMessageSizeParam_def ParseInt_err_def)
qed

section \<open>Headers and lines as maps\<close>

type_synonym strmap = "(string \<times> string) list"

fun header_pairs :: "string list \<Rightarrow> strmap \<Rightarrow> strmap" where
  "header_pairs [] h = h"
| "header_pairs (str # strs) h =
     (case SplitN 2 (CHR ''='') str of
        [k, v] \<Rightarrow> header_pairs strs (AList.update (TrimSpace k) (TrimSpace v) h)
      | _ \<Rightarrow> header_pairs strs h)"

definition decodeHeader :: "string \<Rightarrow> strmap" where
  "decodeHeader s = header_pairs (Split TAB s) []"

fun line_pairs :: "string list \<Rightarrow> strmap \<Rightarrow> strmap" where
  "line_pairs [] h = h"
| "line_pairs (f # fs) h =
     (if f = [] then line_pairs fs h
      else case SplitN 2 (CHR ''='') f of
             [k, v] \<Rightarrow> line_pairs fs (AList.update k v h)
           | _ \<Rightarrow> line_pairs fs h)"

definition parseTabDelimitedLine :: "string \<Rightarrow> strmap" where
  "parseTabDelimitedLine line = line_pairs (Split TAB line) []"

section \<open>Event and link fields\<close>

definition set_if :: "'v option \<Rightarrow> ('v \<Rightarrow> 'r \<Rightarrow> 'r) \<Rightarrow> 'r \<Rightarrow> 'r" where
  "set_if v f r = (case v of None \<Rightarrow> r | Some x \<Rightarrow> f x r)"

definition set_int :: "string option \<Rightarrow> (int \<Rightarrow> 'r \<Rightarrow> 'r) \<Rightarrow> 'r \<Rightarrow> 'r" where
  "set_int v f r = set_if (Option.bind v Atoi_ok) f r"

definition int_of_key :: "strmap \<Rightarrow> string list \<Rightarrow> int" where
  "int_of_key m ks = (case first_of m ks of None \<Rightarrow> 0 | Some s \<Rightarrow> Atoi_value s)"

definition decode_date_time :: "strmap \<Rightarrow> DateTimeObject" where
  "decode_date_time m =
     \<lparr>dt_Year = int_of_key m [''event_year'', ''_event_year''],
      dt_Month = int_of_key m [''event_mon'', ''_event_month''],
      dt_Day = int_of_key m [''event_day'', ''_event_day''],
      dt_Hour = int_of_key m [''event_hour'', ''_event_hour''],
      dt_Minute = int_of_key m [''event_min'', ''_event_min''],
      dt_Second = int_of_key m [''event_sec'', ''_event_sec''],
      dt_Microsecond = int_of_key m [''event_usec'', ''_event_usec'']\<rparr>"

text \<open>The loop over the nine coordinates, each followed by a bar; trailing bars are cut.\<close>

definition coordinate :: "strmap \<Rightarrow> int \<Rightarrow> string" where
  "coordinate m i =
     (case first_of m [''_coordinate_0'' @ itoa i, ''coordinate_0'' @ itoa i] of
        None \<Rightarrow> [] | Some c \<Rightarrow> c @ ''|'')"

definition decode_location :: "strmap \<Rightarrow> string" where
  "decode_location m = TrimRightByte (CHR ''|'') (concat (map (coordinate m) [1, 2, 3, 4, 5, 6, 7, 8, 9]))"

definition decodeEventFields :: "strmap \<Rightarrow> EventFields \<Rightarrow> EventFields" where
  "decodeEventFields m event =
     (let e1 = set_if (first_of m [''_event_id'', ''event_id'']) (\<lambda>v e. e\<lparr>ev_Id := forceASCII v\<rparr>) event;
          e2 = set_if (map_of m ''local_id'') (\<lambda>v e. e\<lparr>ev_LocalId := v\<rparr>) e1;
          e3 = set_if (map_of m ''_event_local_id'') (\<lambda>v e. e\<lparr>ev_LocalId := v\<rparr>) e2;
          e4 = set_if (first_of m [''unique_id'', ''_unique_id'', ''tag:1:_unique_id''])
                 (\<lambda>v e. e\<lparr>ev_UniqueId := v\<rparr>) e3;
          e5 = set_if (first_of m [''event_type'', ''_type'', ''type'']) (\<lambda>v e. e\<lparr>ev_Type := v\<rparr>) e4;
          e6 = set_if (first_of m [''_owner_id'', ''owner'', ''_event_owner'']) (\<lambda>v e. e\<lparr>ev_Owner := v\<rparr>) e5;
          e7 = e6\<lparr>ev_DateTime := decode_date_time m\<rparr>;
          e8 = set_if (first_of m [''timestamp'', ''_timestamp'']) (\<lambda>v e. e\<lparr>ev_Timestamp := v\<rparr>) e7;
          e9 = set_int (map_of m ''_hits'') (\<lambda>v e. e\<lparr>ev_Hits := v\<rparr>) e8
      in e9\<lparr>ev_Location := decode_location m, ev_LocationSeparator := ''|''\<rparr>)"

definition decodeLinkEventFields :: "strmap \<Rightarrow> LinkFields \<Rightarrow> LinkFields" where
  "decodeLinkEventFields m link =
     (let l1 = set_if (first_of m [''_event_id'', ''event_id'']) (\<lambda>v l. l\<lparr>lk_Id := forceASCII v\<rparr>) link;
          l2 = set_if (first_of m [''local_id'', ''_event_local_id'']) (\<lambda>v l. l\<lparr>lk_LocalId := v\<rparr>) l1;
          l3 = set_if (first_of m [''unique_id'', ''_unique_id'']) (\<lambda>v l. l\<lparr>lk_UniqueId := v\<rparr>) l2;
          l4 = set_if (first_of m [''event_type'', ''_type'']) (\<lambda>v l. l\<lparr>lk_Type := v\<rparr>) l3;
          l5 = set_if (map_of m ''_user'') (\<lambda>v l. l\<lparr>lk_Owner := v\<rparr>) l4;
          l6 = set_if (map_of m ''_owner_id'') (\<lambda>v l. l\<lparr>lk_Owner := v\<rparr>) l5;
          l7 = l6\<lparr>lk_DateTime := decode_date_time m\<rparr>;
          l8 = set_if (first_of m [''timestamp'', ''_timestamp'']) (\<lambda>v l. l\<lparr>lk_Timestamp := v\<rparr>) l7
      in l8\<lparr>lk_Location := decode_location m, lk_LocationSeparator := ''|''\<rparr>)"

section \<open>Facts\<close>

lemma set_if_simps [simp]: "set_if None f r = r" "set_if (Some x) f r = f x r"
  by (simp_all add: set_if_def)

text \<open>
  A clean field: what \<open>key=value\<close> becomes when the key has no \<open>=\<close>, neither has a tab and both are
  unchanged by trimming.
\<close>

definition clean_key :: "string \<Rightarrow> bool" where
  "clean_key k \<longleftrightarrow> CHR ''='' \<notin> set k \<and> TAB \<notin> set k \<and> TrimSpace k = k"

definition clean_value :: "string \<Rightarrow> bool" where
  "clean_value v \<longleftrightarrow> TAB \<notin> set v \<and> TrimSpace v = v"

definition field_text :: "string \<times> string \<Rightarrow> string" where
  "field_text f = fst f @ CHR ''='' # snd f"

definition update_all :: "strmap \<Rightarrow> strmap \<Rightarrow> strmap" where
  "update_all fs h = foldl (\<lambda>h (k, v). AList.update k v h) h fs"

lemma map_of_update_all:
  "map_of (update_all fs h) k = (case map_of (rev fs) k of Some v \<Rightarrow> Some v | None \<Rightarrow> map_of h k)"
  unfolding update_all_def by (induction fs arbitrary: h) (auto simp: map_add_def split: option.splits)

lemma SplitN_field: "CHR ''='' \<notin> set k \<Longrightarrow> SplitN 2 (CHR ''='') (k @ CHR ''='' # v) = [k, v]"
  by (simp add: numeral_2_eq_2 Cut_append)

lemma header_pairs_fields:
  assumes "\<And>k v. (k, v) \<in> set fs \<Longrightarrow> clean_key k \<and> clean_value v"
  shows "header_pairs (map field_text fs) h = update_all fs h"
  using assms
proof (induction fs arbitrary: h)
  case (Cons f fs)
  obtain k v where f: "f = (k, v)" by (cases f)
  with Cons.prems have "clean_key k" "clean_value v" by auto
  then show ?case
    using Cons f by (auto simp: field_text_def SplitN_field clean_key_def clean_value_def update_all_def)
qed (simp add: update_all_def)

lemma header_pairs_append: "header_pairs (xs @ ys) h = header_pairs ys (header_pairs xs h)"
  by (induction xs arbitrary: h) (auto split: list.splits)

lemma header_pairs_Nil_field [simp]: "header_pairs [[]] h = h"
  by (simp add: numeral_2_eq_2)

text \<open>
  The header text \<open>k1=v1 TAB k2=v2 TAB ...\<close> decodes to its fields, whether or not the last field
  is followed by a tab.
\<close>

lemma Split_concat_fields:
  assumes "\<And>k v. (k, v) \<in> set fs \<Longrightarrow> clean_key k \<and> clean_value v"
  shows "Split TAB (concat (map (\<lambda>f. field_text f @ [TAB]) fs) @ r) = map field_text fs @ Split TAB r"
  using assms
proof (induction fs)
  case (Cons f fs)
  obtain k v where f: "f = (k, v)" by (cases f)
  with Cons.prems have "TAB \<notin> set (field_text f)"
    by (auto simp: clean_key_def clean_value_def field_text_def)
  moreover have "Split TAB (concat (map (\<lambda>f. field_text f @ [TAB]) fs) @ r) = map field_text fs @ Split TAB r"
    using Cons by (meson list.set_intros(2))
  ultimately show ?case using Split_append [of TAB "field_text f"] by simp
qed simp

lemma decodeHeader_fields:
  assumes "\<And>k v. (k, v) \<in> set fs \<Longrightarrow> clean_key k \<and> clean_value v"
  shows "decodeHeader (concat (map (\<lambda>f. field_text f @ [TAB]) fs)) = update_all fs []"
proof -
  have "Split TAB (concat (map (\<lambda>f. field_text f @ [TAB]) fs)) = map field_text fs @ [[]]"
    using Split_concat_fields [of fs "[]"] assms by simp
  then show ?thesis
    using header_pairs_fields [of fs] assms
    by (simp only: decodeHeader_def header_pairs_append header_pairs_Nil_field)
qed

lemma decodeHeader_fields_tail:
  assumes "\<And>k v. (k, v) \<in> set fs \<Longrightarrow> clean_key k \<and> clean_value v"
    and "clean_key k'" "clean_value v'"
  shows "decodeHeader (concat (map (\<lambda>f. field_text f @ [TAB]) fs) @ field_text (k', v'))
       = update_all (fs @ [(k', v')]) []"
proof -
  have "TAB \<notin> set (field_text (k', v'))"
    using assms(2,3) by (auto simp: clean_key_def clean_value_def field_text_def)
  then have "Split TAB (concat (map (\<lambda>f. field_text f @ [TAB]) fs) @ field_text (k', v'))
      = map field_text (fs @ [(k', v')])"
    using Split_concat_fields [of fs] assms(1) by (simp add: Split_no_sep)
  then show ?thesis
    unfolding decodeHeader_def using header_pairs_fields [of "fs @ [(k', v')]"] assms by auto
qed

end
