(* ===== verification/TagFormat.thy ===== *)
theory TagFormat
  imports WireFields
begin

text \<open>
  Tags as responses report them (\<open>message/tag_format.go\<close>): the \<open>event_tag:\<close> header fields and
  their order, the repair of tag lines whose owner was written after the line break, Pod-OS
  timestamps, and moving decoded owners to the unique-id field.
\<close>

section \<open>Tag headers\<close>

definition nullOwnerKeyPrefix :: string where
  "nullOwnerKeyPrefix = ''+0000000000.000000''"

definition normalizeTagOwner :: "string \<Rightarrow> string" where
  "normalizeTagOwner owner =
     (if owner = ''NULL'' \<or> HasPrefix owner nullOwnerKeyPrefix then [] else owner)"

definition splitTagKeyValue :: "string \<Rightarrow> string \<times> string" where
  "splitTagKeyValue s =
     (case IndexByte s (CHR ''='') of
        Some i \<Rightarrow> if 0 < i then (take i s, drop (Suc i) s) else ([], s)
      | None \<Rightarrow> ([], s))"

definition parseEventTagHeader :: "string \<Rightarrow> string \<Rightarrow> TagOutput option" where
  "parseEventTagHeader name value =
     (case CutPrefix name ''event_tag:'' of
        None \<Rightarrow> None
      | Some rest \<Rightarrow>
          (let parts = SplitN 4 (CHR '':'') rest in
           if length parts < 2 then None
           else
             (let t1 = zero_TagOutput\<lparr>to_Frequency := 1, to_TagNumber := Atoi_value (parts ! 0)\<rparr>;
                  t2 = set_if (Atoi_ok (parts ! 1)) (\<lambda>f t. t\<lparr>to_Frequency := f\<rparr>) t1;
                  t3 = (if 3 \<le> length parts then t2\<lparr>to_Timestamp := parts ! 2\<rparr> else t2);
                  t4 = (if length parts = 4 then t3\<lparr>to_Owner := normalizeTagOwner (parts ! 3)\<rparr> else t3);
                  (k, v) = splitTagKeyValue value
              in Some (t4\<lparr>to_Key := k, to_Value := v\<rparr>))))"

definition sortTagsByNumber :: "TagOutput list \<Rightarrow> TagOutput list" where
  "sortTagsByNumber tags = sort_key to_TagNumber tags"

text \<open>
  \<open>parseEventTagHeaders\<close> ranges over the header map; \<open>pairs\<close> are its pairs in the order the range
  visits them, which Go leaves open.
\<close>

definition parseEventTagHeaders :: "strmap \<Rightarrow> TagOutput list" where
  "parseEventTagHeaders pairs =
     sortTagsByNumber (List.map_filter (\<lambda>(k, v). parseEventTagHeader k v) pairs)"

section \<open>Tag lines with trailing owners\<close>

definition owner_marker :: string where
  "owner_marker = TAB # ''owner=''"

function repair_owners :: "string \<Rightarrow> string" where
  "repair_owners payload =
     (case Index payload owner_marker of
        None \<Rightarrow> payload
      | Some i \<Rightarrow>
          (let done = take (i + length owner_marker) payload;
               rest = drop (i + length owner_marker) payload;
               owner = takeWhile (\<lambda>c. c \<noteq> TAB \<and> c \<noteq> NL) rest
           in case Index owner ''_event_tag='' of
                None \<Rightarrow> done @ repair_owners rest
              | Some j \<Rightarrow> done @ take j rest @ NL # repair_owners (drop j rest)))"
  by pat_completeness auto

lemma Index_Some_length: "Index s p = Some i \<Longrightarrow> i + length p \<le> length s"
proof (induction s arbitrary: i)
  case Nil
  then show ?case by (subst (asm) Index.simps) (auto simp: HasPrefix_iff split: if_splits)
next
  case (Cons c s)
  show ?case
  proof (cases "HasPrefix (c # s) p")
    case True
    then obtain r where "c # s = p @ r" by (auto simp: HasPrefix_iff)
    moreover have "i = 0" using True Cons.prems by (subst (asm) Index.simps) simp
    moreover have "length (c # s) = length p + length r"
      using \<open>c # s = p @ r\<close> by (metis length_append)
    ultimately show ?thesis by simp
  next
    case False
    then show ?thesis using Cons.prems Cons.IH by (subst (asm) Index.simps) auto
  qed
qed

termination repair_owners
  by (relation "measure length") (auto dest!: Index_Some_length simp: owner_marker_def)

declare repair_owners.simps [simp del]

definition normalizeTagOwnerLines :: "string \<Rightarrow> string" where
  "normalizeTagOwnerLines payload =
     (if \<not> Contains payload (NL # owner_marker) then payload
      else repair_owners (ReplaceAll payload (NL # owner_marker) owner_marker))"

section \<open>Payload tag lines\<close>

definition parseEventTagPayloadField :: "strmap \<Rightarrow> TagOutput" where
  "parseEventTagPayloadField m =
     (let t1 = set_int (map_of m ''tag_freq'') (\<lambda>f t. t\<lparr>to_Frequency := f\<rparr>) zero_TagOutput;
          t2 = set_if (map_of m ''tag_value'')
                 (\<lambda>v t. t\<lparr>to_Key := fst (splitTagKeyValue v), to_Value := snd (splitTagKeyValue v)\<rparr>) t1
      in t2\<lparr>to_Timestamp := get_or [] m ''tag_timestamp'',
            to_Owner := normalizeTagOwner (get_or [] m ''owner'')\<rparr>)"

definition parseEventTagLine :: "string \<Rightarrow> (string \<times> TagOutput) option" where
  "parseEventTagLine line =
     (let m = parseTabDelimitedLine line; key = get_or [] m ''_event_tag'' in
      if key = [] then None else Some (key, parseEventTagPayloadField m))"

section \<open>Timestamps\<close>

text \<open>\<open>parsePosixTimestamp\<close>: the instant as microseconds since 1970, or none.\<close>

definition frac_digits :: "string \<Rightarrow> string" where
  "frac_digits f = (let f' = take 6 f in f' @ replicate (6 - length f') (CHR ''0''))"

definition parsePosixTimestamp :: "string \<Rightarrow> int option" where
  "parsePosixTimestamp s =
     (case s of [] \<Rightarrow> None
      | c # cs \<Rightarrow>
          (let neg = (c = CHR ''-'');
               u = (if c = CHR ''+'' \<or> c = CHR ''-'' then cs else s);
               (secStr, fracStr) = (case Cut (CHR ''.'') u of Some p \<Rightarrow> p | None \<Rightarrow> (u, []))
           in case ParseInt 10 64 secStr of
                (sec, Some e) \<Rightarrow> None
              | (sec, None) \<Rightarrow>
                  (case (if fracStr = [] then (0, None) else ParseInt 10 64 (frac_digits fracStr)) of
                     (usec, Some e) \<Rightarrow> None
                   | (usec, None) \<Rightarrow>
                       Some (if neg then - sec * 1000000 - usec else sec * 1000000 + usec))))"

definition TagOutput_Time :: "TagOutput \<Rightarrow> int option" where
  "TagOutput_Time t = parsePosixTimestamp (to_Timestamp t)"

section \<open>Owners by unique id\<close>

definition tagOwnerOutputOf :: "Message \<Rightarrow> TagOwnerOutput" where
  "tagOwnerOutputOf m =
     (if in_Name (m_Intent m) = ''GetEvent'' then
        (case GetEventOpts m of Some o' \<Rightarrow> ge_TagOwnerOutput o' | None \<Rightarrow> TagOwnerNone)
      else if in_Name (m_Intent m) = ''GetEventsForTags'' then
        (case GetEventsForTagsOpts m of Some o' \<Rightarrow> gt_TagOwnerOutput o' | None \<Rightarrow> TagOwnerNone)
      else TagOwnerNone)"

definition move_owner :: "TagOutput \<Rightarrow> TagOutput" where
  "move_owner t = (if to_Owner t \<noteq> [] then t\<lparr>to_OwnerUniqueID := to_Owner t, to_Owner := []\<rparr> else t)"

definition move_event_owners :: "EventFields \<Rightarrow> EventFields" where
  "move_event_owners e = e\<lparr>ev_Tags := map_option (map move_owner) (ev_Tags e)\<rparr>"

definition ApplyTagOwnerOutput :: "Message option \<Rightarrow> Message option \<Rightarrow> Message option" where
  "ApplyTagOwnerOutput req resp =
     (case (req, resp) of
        (Some q, Some r) \<Rightarrow>
          if tagOwnerOutputOf q \<noteq> TagOwnerUniqueID then Some r
          else Some (r\<lparr>m_Event := map_option move_event_owners (m_Event r),
                       m_Response := map_option
                         (\<lambda>rs. rs\<lparr>rs_EventRecords := map move_event_owners (rs_EventRecords rs)\<rparr>) (m_Response r)\<rparr>)
      | _ \<Rightarrow> resp)"

section \<open>Facts\<close>

lemma splitTagKeyValue_Cut:
  "splitTagKeyValue s = (case Cut (CHR ''='') s of Some (k, v) \<Rightarrow> if k \<noteq> [] then (k, v) else ([], s) | None \<Rightarrow> ([], s))"
proof (cases "Cut (CHR ''='') s")
  case (Some p)
  obtain k v where "p = (k, v)" by (cases p)
  with Some show ?thesis by (auto simp: splitTagKeyValue_def IndexByte_Cut dest!: Cut_Some)
qed (simp add: splitTagKeyValue_def IndexByte_Cut)

lemma splitTagKeyValue_pair: "k \<noteq> [] \<Longrightarrow> CHR ''='' \<notin> set k \<Longrightarrow> splitTagKeyValue (k @ CHR ''='' # v) = (k, v)"
  by (simp add: splitTagKeyValue_Cut Cut_append)

text \<open>
  The broken form of a list of tag lines with owners, and the documented form the repair restores.
\<close>

fun broken_lines :: "(string \<times> string) list \<Rightarrow> string" where
  "broken_lines [] = []"
| "broken_lines ((l, own) # rs) = l @ NL # owner_marker @ own @ broken_lines rs"

definition documented_line :: "string \<times> string \<Rightarrow> string" where
  "documented_line r = fst r @ owner_marker @ snd r"

definition tag_line_ok :: "string \<Rightarrow> bool" where
  "tag_line_ok l \<longleftrightarrow> HasPrefix l ''_event_tag='' \<and> NL \<notin> set l \<and> Index l owner_marker = None"

definition owner_ok :: "string \<Rightarrow> bool" where
  "owner_ok own \<longleftrightarrow> TAB \<notin> set own \<and> NL \<notin> set own \<and> CHR ''='' \<notin> set own"

fun joined_lines :: "(string \<times> string) list \<Rightarrow> string" where
  "joined_lines [] = []"
| "joined_lines ((l, own) # rs) = l @ owner_marker @ own @ joined_lines rs"

lemma ReplaceAll_broken:
  "\<forall>(l, own) \<in> set rs. NL \<notin> set l \<and> NL \<notin> set own \<Longrightarrow>
     ReplaceAll (broken_lines rs) (NL # owner_marker) owner_marker = joined_lines rs"
  by (induction rs rule: broken_lines.induct) (simp_all add: ReplaceAll_skip ReplaceAll_at_first [where a = "[]", simplified])

lemma Index_marker: "Index l owner_marker = None \<Longrightarrow> Index (l @ owner_marker @ r) owner_marker = Some (length l)"
  unfolding owner_marker_def using Index_at_first [of l TAB "''owner=''" r] by simp

lemma repair_step:
  assumes "Index l owner_marker = None" and "owner_ok own"
  shows "repair_owners (l @ owner_marker @ own @ rest) =
     (case Index (own @ takeWhile (\<lambda>c. c \<noteq> TAB \<and> c \<noteq> NL) rest) ''_event_tag='' of
        None \<Rightarrow> l @ owner_marker @ repair_owners (own @ rest)
      | Some j \<Rightarrow> l @ owner_marker @ take j (own @ rest) @ NL # repair_owners (drop j (own @ rest)))"
proof -
  have "takeWhile (\<lambda>c. c \<noteq> TAB \<and> c \<noteq> NL) (own @ rest) = own @ takeWhile (\<lambda>c. c \<noteq> TAB \<and> c \<noteq> NL) rest"
    using assms(2) by (intro takeWhile_append2) (auto simp: owner_ok_def)
  then show ?thesis
    using Index_marker [OF assms(1), of "own @ rest"]
    by (subst repair_owners.simps) (simp add: Let_def split: option.splits)
qed

lemma repair_joined:
  assumes "rs \<noteq> []" and "\<forall>(l, own) \<in> set rs. tag_line_ok l \<and> owner_ok own"
  shows "repair_owners (joined_lines rs) = Join [NL] (map documented_line rs)"
  using assms
proof (induction rs rule: joined_lines.induct)
  case (2 l own rs)
  then have l: "Index l owner_marker = None" and own: "owner_ok own" by (auto simp: tag_line_ok_def)
  show ?case
  proof (cases rs)
    case Nil
    have e: "Index own ''_event_tag='' = None"
      using own by (intro Index_absent [of "CHR ''=''"]) (auto simp: owner_ok_def)
    have "Index own owner_marker = None"
      using own by (intro Index_absent [of TAB]) (auto simp: owner_ok_def owner_marker_def)
    then have "repair_owners own = own" by (subst repair_owners.simps) simp
    then show ?thesis using Nil repair_step [OF l own, of "[]"] e by (simp add: documented_line_def)
  next
    case (Cons r rs')
    obtain l2 own2 where r: "r = (l2, own2)" by (cases r)
    then obtain u where u: "l2 = ''_event_tag='' @ u"
      using 2 Cons by (auto simp: tag_line_ok_def HasPrefix_iff)
    have tw: "\<exists>w. takeWhile (\<lambda>c. c \<noteq> TAB \<and> c \<noteq> NL) (joined_lines rs) = ''_event_tag='' @ w"
      using Cons r u by simp
    then obtain w where w: "takeWhile (\<lambda>c. c \<noteq> TAB \<and> c \<noteq> NL) (joined_lines rs) = ''_event_tag='' @ w" ..
    have "Index (own @ ''_event_tag'' @ CHR ''='' # w) (''_event_tag'' @ [CHR ''='']) = Some (length own)"
      using own by (intro Index_at_last) (auto simp: owner_ok_def)
    then have j: "Index (own @ takeWhile (\<lambda>c. c \<noteq> TAB \<and> c \<noteq> NL) (joined_lines rs)) ''_event_tag='' = Some (length own)"
      unfolding w by simp
    have IH: "repair_owners (joined_lines rs) = Join [NL] (map documented_line rs)"
      using 2 Cons by auto
    show ?thesis
      using repair_step [OF l own, of "joined_lines rs"] j IH Cons
      by (simp add: documented_line_def [abs_def] del: takeWhile.simps)
  qed
qed simp

lemma sorted_sortTagsByNumber: "sorted (map to_TagNumber (sortTagsByNumber tags))"
  by (simp add: sortTagsByNumber_def)

end
