(* ===== verification/Responses.thy ===== *)
theory Responses
  imports TagFormat
begin

text \<open>
  The payload parsers of the responses (\<open>message/responses.go\<close>, \<open>message/batch_status.go\<close>): tags,
  the buffered answer of GetEventsForTags, the batch records of StoreBatchEvents and
  StoreBatchLinks, and the links of GetEvent. Go maps are association lists; the one \<open>range\<close> over
  a map whose order reaches the result takes that order as an argument.
\<close>

section \<open>Tags of a payload\<close>

definition freq_or_1 :: "string \<Rightarrow> int" where
  "freq_or_1 s = (case Atoi_ok (TrimSpace s) of Some n \<Rightarrow> n | None \<Rightarrow> 1)"

definition payload_tag :: "string \<Rightarrow> TagOutput option" where
  "payload_tag line =
     (let line' = TrimSpace line; fs = Split TAB line' in
      if line' = [] then None
      else if 3 \<le> length fs then
        Some (zero_TagOutput\<lparr>to_Frequency := freq_or_1 (fs ! 0), to_Category := TrimSpace (fs ! 1),
                to_Value := TrimSpace (fs ! 2)\<rparr>)
      else if length fs = 2 then
        Some (zero_TagOutput\<lparr>to_Frequency := freq_or_1 (fs ! 0), to_Value := TrimSpace (fs ! 1)\<rparr>)
      else None)"

definition ParseTagsFromPayload :: "string \<Rightarrow> TagOutput list" where
  "ParseTagsFromPayload payload = List.map_filter payload_tag (Split NL payload)"

section \<open>Lines of GetEventsForTags\<close>

definition blank_line :: "string \<Rightarrow> bool" where
  "blank_line line \<longleftrightarrow> line = [] \<or> line = [CHR 0x0F] \<or> line = [NUL]"

definition uniqueIdFromTags :: "TagOutput list \<Rightarrow> string" where
  "uniqueIdFromTags tags =
     (case find (\<lambda>t. to_Key t = ''_unique_id'' \<or> to_Key t = ''unique_id'') tags of
        Some t \<Rightarrow> to_Value t | None \<Rightarrow> [])"

definition tags_of :: "EventFields \<Rightarrow> TagOutput list" where
  "tags_of e = (case ev_Tags e of Some ts \<Rightarrow> ts | None \<Rightarrow> [])"

text \<open>\<open>append(event.Tags, ts...)\<close>: appending nothing leaves a nil slice nil.\<close>

definition append_tags :: "TagOutput list \<Rightarrow> EventFields \<Rightarrow> EventFields" where
  "append_tags ts e = (if ts = [] then e else e\<lparr>ev_Tags := Some (tags_of e @ ts)\<rparr>)"

text \<open>One inline \<open>tag:freq:key=value\<close> field of an event line.\<close>

definition inline_tag :: "string \<Rightarrow> TagOutput option" where
  "inline_tag field =
     (case Cut (CHR ''='') field of
        None \<Rightarrow> None
      | Some (name, value) \<Rightarrow>
          if \<not> HasPrefix name ''tag:'' then None
          else (case Split (CHR '':'') name of
                  [_, freq, key] \<Rightarrow>
                    Some (zero_TagOutput\<lparr>to_Frequency := Atoi_value freq, to_Key := key, to_Value := value\<rparr>)
                | _ \<Rightarrow> None))"

definition parseEventIdLine :: "string \<Rightarrow> (string \<times> EventFields) option" where
  "parseEventIdLine line =
     (let m = parseTabDelimitedLine line in
      case map_of m ''_event_id'' of
        None \<Rightarrow> None
      | Some eventId \<Rightarrow>
          (let e1 = decodeEventFields m (zero_EventFields\<lparr>ev_Id := eventId\<rparr>);
               e2 = set_int (map_of m ''_datasize'')
                      (\<lambda>n e. e\<lparr>ev_PayloadData := (ev_PayloadData e)\<lparr>pm_DataSize := n\<rparr>\<rparr>) e1;
               e3 = set_if (map_of m ''_mimetype'')
                      (\<lambda>v e. e\<lparr>ev_PayloadData := (ev_PayloadData e)\<lparr>pm_MimeType := v\<rparr>\<rparr>) e2;
               e4 = append_tags (List.map_filter inline_tag (Split TAB line)) e3;
               e5 = (if map_of m ''_event_tag'' \<noteq> None then append_tags [parseEventTagPayloadField m] e4 else e4);
               uid = uniqueIdFromTags (tags_of e5)
           in Some (eventId, if uid \<noteq> [] then e5\<lparr>ev_UniqueId := uid\<rparr> else e5)))"

definition parseBriefHitLine :: "string \<Rightarrow> BriefHitRecord option" where
  "parseBriefHitLine line =
     (let m = parseTabDelimitedLine line in
      case map_of m ''_brief_hit'' of
        None \<Rightarrow> None
      | Some h \<Rightarrow> Some \<lparr>bh_EventId = h, bh_TotalHits = int_of_key m [''_hits'']\<rparr>)"

definition set_strength :: "golib \<Rightarrow> string option \<Rightarrow> (f64 \<Rightarrow> 'r \<Rightarrow> 'r) \<Rightarrow> 'r \<Rightarrow> 'r" where
  "set_strength G v f r = set_if (Option.bind v (ParseFloat G)) f r"

definition parseLinkLine :: "golib \<Rightarrow> string \<Rightarrow> (string \<times> Linked) option" where
  "parseLinkLine G line =
     (let m = parseTabDelimitedLine line in
      case map_of m ''_link'' of
        None \<Rightarrow> None
      | Some linkId \<Rightarrow>
          (let l0 = zero_Linked\<lparr>ld_Id := linkId\<rparr>;
               l1 = l0\<lparr>ld_SourceId := get_or [] m ''source'', ld_TargetId := get_or [] m ''target'',
                       ld_UniqueId := get_or [] m ''unique_id'',
                       ld_SourceUniqueId := get_or [] m ''source_unique_id'',
                       ld_TargetUniqueId := get_or [] m ''target_unique_id''\<rparr>;
               l2 = set_strength G (map_of m ''strength'') (\<lambda>s l. l\<lparr>ld_Strength := s\<rparr>) l1
           in Some (linkId, l2\<lparr>ld_Category := get_or [] m ''category''\<rparr>)))"

text \<open>The \<open>freq\<close>, \<open>value\<close>, \<open>owner\<close> and \<open>timestamp\<close> fields of a link-tag or target-tag line.\<close>

definition freq_value_tag :: "strmap \<Rightarrow> TagOutput \<Rightarrow> TagOutput" where
  "freq_value_tag m t =
     (let t1 = set_if (map_of m ''freq'') (\<lambda>f t. t\<lparr>to_Frequency := Atoi_value f\<rparr>) t
      in set_if (map_of m ''value'')
           (\<lambda>v t. t\<lparr>to_Key := fst (splitTagKeyValue v), to_Value := snd (splitTagKeyValue v)\<rparr>) t1)"

definition owner_timestamp_tag :: "strmap \<Rightarrow> TagOutput \<Rightarrow> TagOutput" where
  "owner_timestamp_tag m t =
     set_if (map_of m ''timestamp'') (\<lambda>v t. t\<lparr>to_Timestamp := v\<rparr>)
       (set_if (map_of m ''owner'') (\<lambda>v t. t\<lparr>to_Owner := v\<rparr>) t)"

definition parseLinkTagLine :: "string \<Rightarrow> (string \<times> TagOutput) option" where
  "parseLinkTagLine line =
     (let m = parseTabDelimitedLine line in
      case map_of m ''_linktag'' of
        None \<Rightarrow> None
      | Some k \<Rightarrow> Some (k, owner_timestamp_tag m (freq_value_tag m zero_TagOutput)))"

definition parseTargetTagLine :: "string \<Rightarrow> (string \<times> TagOutput) option" where
  "parseTargetTagLine line =
     (let m = parseTabDelimitedLine line in
      case map_of m ''_targettag'' of
        None \<Rightarrow> None
      | Some k \<Rightarrow> Some (k, owner_timestamp_tag m (freq_value_tag m (zero_TagOutput\<lparr>to_TargetTagId := k\<rparr>))))"

section \<open>The buffered payload of GetEventsForTags\<close>

text \<open>The indices the single pass builds.\<close>

record gft_index =
  gx_eventsMap :: "(string \<times> EventFields) list"
  gx_eventOrder :: "string list"
  gx_linksMap :: "(string \<times> Linked) list"
  gx_linksBySource :: "(string \<times> string list) list"
  gx_linkTagsMap :: "(string \<times> TagOutput list) list"
  gx_targetTagsMap :: "(string \<times> TagOutput list) list"
  gx_eventTagsMap :: "(string \<times> TagOutput list) list"

definition empty_gft_index :: gft_index where
  "empty_gft_index = \<lparr>gx_eventsMap = [], gx_eventOrder = [], gx_linksMap = [], gx_linksBySource = [],
     gx_linkTagsMap = [], gx_targetTagsMap = [], gx_eventTagsMap = []\<rparr>"

definition append_at :: "string \<Rightarrow> 'v \<Rightarrow> (string \<times> 'v list) list \<Rightarrow> (string \<times> 'v list) list" where
  "append_at k v m = AList.update k (get_or [] m k @ [v]) m"

definition index_line :: "golib \<Rightarrow> string \<Rightarrow> gft_index \<Rightarrow> gft_index" where
  "index_line G raw x =
     (let line = TrimRightByte NUL raw in
      if blank_line line then x
      else if HasPrefix line ''_event_id='' then
        (case parseEventIdLine line of
           Some (eventId, event) \<Rightarrow>
             if eventId = [] then x
             else x\<lparr>gx_eventsMap := AList.update eventId event (gx_eventsMap x),
                    gx_eventOrder := gx_eventOrder x @ [eventId]\<rparr>
         | None \<Rightarrow> x)
      else if HasPrefix line ''_event_tag='' then
        (case parseEventTagLine line of
           Some (key, tag) \<Rightarrow> x\<lparr>gx_eventTagsMap := append_at key tag (gx_eventTagsMap x)\<rparr>
         | None \<Rightarrow> x)
      else if HasPrefix line ''_link='' then
        (case parseLinkLine G line of
           Some (linkId, link) \<Rightarrow>
             if linkId = [] then x
             else (let mapKey = (if ld_UniqueId link \<noteq> [] then ''u:'' @ ld_UniqueId link else linkId);
                       x' = x\<lparr>gx_linksMap := AList.update mapKey link (gx_linksMap x)\<rparr>
                   in if ld_SourceId link \<noteq> []
                      then x'\<lparr>gx_linksBySource := append_at (ld_SourceId link) mapKey (gx_linksBySource x')\<rparr>
                      else x')
         | None \<Rightarrow> x)
      else if HasPrefix line ''_linktag='' then
        (case parseLinkTagLine line of
           Some (linkId, tag) \<Rightarrow>
             if linkId = [] then x else x\<lparr>gx_linkTagsMap := append_at linkId tag (gx_linkTagsMap x)\<rparr>
         | None \<Rightarrow> x)
      else if HasPrefix line ''_targettag='' then
        (case parseTargetTagLine line of
           Some (targetId, tag) \<Rightarrow>
             if targetId = [] then x else x\<lparr>gx_targetTagsMap := append_at targetId tag (gx_targetTagsMap x)\<rparr>
         | None \<Rightarrow> x)
      else x)"

text \<open>Attaching the tags and the source of a link while its event is assembled.\<close>

definition finish_link :: "gft_index \<Rightarrow> EventFields \<Rightarrow> string \<Rightarrow> Linked \<Rightarrow> Linked" where
  "finish_link x event mapKey link =
     (let l1 = set_if (first_of (gx_linkTagsMap x) [ld_Id link, mapKey]) (\<lambda>ts l. l\<lparr>ld_Tags := ts\<rparr>) link;
          l2 = (if ld_TargetId l1 \<noteq> [] then
                  set_if (map_of (gx_targetTagsMap x) (ld_TargetId l1)) (\<lambda>ts l. l\<lparr>ld_TargetTags := ts\<rparr>) l1
                else l1);
          l3 = (if ld_SourceUniqueId l2 = [] \<and> ev_UniqueId event \<noteq> []
                then l2\<lparr>ld_SourceUniqueId := ev_UniqueId event\<rparr> else l2)
      in if ld_SourceId l3 = [] then l3\<lparr>ld_SourceId := ev_Id event\<rparr> else l3)"

text \<open>
  The links of one event. The link objects are shared through their pointers, so the updated
  link goes back into the map.
\<close>

fun assemble_links :: "gft_index \<Rightarrow> EventFields \<Rightarrow> string list \<Rightarrow> (string \<times> Linked) list
    \<Rightarrow> Linked list \<times> (string \<times> Linked) list" where
  "assemble_links x event [] lm = ([], lm)"
| "assemble_links x event (k # ks) lm =
     (case map_of lm k of
        None \<Rightarrow> assemble_links x event ks lm
      | Some link \<Rightarrow>
          (let link' = finish_link x event k link;
               (ls, lm') = assemble_links x event ks (AList.update k link' lm)
           in (link' # ls, lm')))"

text \<open>
  The event objects are shared too: an id that occurs twice in the order is assembled twice from
  the same, already extended, object.
\<close>

fun assemble_events :: "gft_index \<Rightarrow> string list \<Rightarrow> (string \<times> EventFields) list \<Rightarrow> (string \<times> Linked) list
    \<Rightarrow> EventFields list" where
  "assemble_events x [] em lm = []"
| "assemble_events x (k # ks) em lm =
     (case map_of em k of
        None \<Rightarrow> assemble_events x ks em lm
      | Some event \<Rightarrow>
          (let e1 = (case map_of (gx_eventTagsMap x) k of
                       None \<Rightarrow> event
                     | Some tags \<Rightarrow>
                         (let e = append_tags tags event in
                          if ev_UniqueId e = [] then e\<lparr>ev_UniqueId := uniqueIdFromTags (tags_of e)\<rparr> else e));
               (ls, lm') = assemble_links x e1 (get_or [] (gx_linksBySource x) k) lm;
               e2 = e1\<lparr>ev_Links := Some ls\<rparr>
           in e2 # assemble_events x ks (AList.update k e2 em) lm'))"

text \<open>
  \<open>parseGetEventsForTagsPayload\<close>: the event records and the response with the brief hits added.
\<close>

definition parseGetEventsForTagsPayload ::
  "golib \<Rightarrow> any \<Rightarrow> ResponseFields \<Rightarrow> (EventFields list \<times> bool) \<times> ResponseFields" where
  "parseGetEventsForTagsPayload G d resp =
     (case d of
        AString payload \<Rightarrow>
          (let lines = Split NL (normalizeTagOwnerLines payload);
               trimmed = filter (\<lambda>l. \<not> blank_line l) (map (TrimRightByte NUL) lines)
           in if trimmed \<noteq> [] \<and> HasPrefix (hd trimmed) ''_brief_hit='' then
                (([], True), resp\<lparr>rs_BriefHits := rs_BriefHits resp @
                   List.map_filter parseBriefHitLine (filter (\<lambda>l. HasPrefix l ''_brief_hit='') trimmed)\<rparr>)
              else
                (let x = fold (index_line G) lines empty_gft_index
                 in ((assemble_events x (gx_eventOrder x) (gx_eventsMap x) (gx_linksMap x), True), resp)))
      | _ \<Rightarrow> (([], False), resp))"

section \<open>Batch records\<close>

text \<open>The lines before an end marker, without the empty ones.\<close>

fun batch_lines :: "string list \<Rightarrow> string list" where
  "batch_lines [] = []"
| "batch_lines (raw # raws) =
     (let line = TrimRightByte NUL raw in
      if line = [] then batch_lines raws
      else if line = [CHR 0x0F] then []
      else if line = [NUL] then []
      else line # batch_lines raws)"

text \<open>A field counts only when it holds exactly one \<open>=\<close>.\<close>

fun strict_pairs :: "string list \<Rightarrow> strmap \<Rightarrow> strmap" where
  "strict_pairs [] h = h"
| "strict_pairs (f # fs) h =
     (if f = [] then strict_pairs fs h
      else case Split (CHR ''='') f of
             [k, v] \<Rightarrow> strict_pairs fs (AList.update k v h)
           | _ \<Rightarrow> strict_pairs fs h)"

definition batch_event_step :: "string \<Rightarrow> StoreBatchEventRecord \<Rightarrow> StoreBatchEventRecord" where
  "batch_event_step line r =
     (let m = strict_pairs (Split TAB line) [];
          r1 = (if sb_Status r = [] then set_if (map_of m ''_status'') (\<lambda>v r. r\<lparr>sb_Status := v\<rparr>) r else r);
          r2 = (if sb_Message r1 = [] then set_if (map_of m ''_msg'') (\<lambda>v r. r\<lparr>sb_Message := v\<rparr>) r1 else r1);
          r3 = (if sb_EventCount r2 = 0 then set_int (map_of m ''_count'') (\<lambda>n r. r\<lparr>sb_EventCount := n\<rparr>) r2 else r2)
      in r3\<lparr>sb_EventResults := sb_EventResults r3 @ [decodeEventFields m zero_EventFields]\<rparr>)"

text \<open>The type assertion to \<open>string\<close> is unchecked: any other payload panics (\<open>None\<close>).\<close>

definition parseStoreBatchEventsPayload :: "any \<Rightarrow> StoreBatchEventRecord option" where
  "parseStoreBatchEventsPayload d =
     (case d of
        AString payload \<Rightarrow>
          (let r = fold batch_event_step (batch_lines (Split NL payload)) zero_StoreBatchEventRecord
           in Some (if sb_EventCount r = 0 then r\<lparr>sb_EventCount := int (length (sb_EventResults r))\<rparr> else r))
      | _ \<Rightarrow> None)"

definition batch_link_fields :: "golib \<Rightarrow> strmap \<Rightarrow> LinkFields" where
  "batch_link_fields G m =
     (let l0 = zero_LinkFields\<lparr>lk_UniqueId := get_or [] m ''unique_id'', lk_Id := get_or [] m ''event_id'',
                 lk_OwnerUniqueID := get_or [] m ''owner_unique_id''\<rparr>;
          l1 = set_if (first_of m [''owner_id'', ''owner_event_id'']) (\<lambda>v l. l\<lparr>lk_OwnerID := v\<rparr>) l0;
          l2 = l1\<lparr>lk_Owner := get_or [] m ''owner'', lk_Timestamp := get_or [] m ''timestamp'',
                  lk_Location := get_or [] m ''loc'', lk_LocationSeparator := get_or [] m ''loc_delim'',
                  lk_Type := get_or [] m ''type'', lk_EventA := get_or [] m ''event_id_a'',
                  lk_EventB := get_or [] m ''event_id_b'', lk_UniqueIdA := get_or [] m ''unique_id_a'',
                  lk_UniqueIdB := get_or [] m ''unique_id_b''\<rparr>;
          l3 = set_strength G (map_of m ''strength_a'') (\<lambda>s l. l\<lparr>lk_StrengthA := s\<rparr>) l2;
          l4 = set_strength G (map_of m ''strength_b'') (\<lambda>s l. l\<lparr>lk_StrengthB := s\<rparr>) l3
      in l4\<lparr>lk_Category := get_or [] m ''category''\<rparr>)"

definition batch_link_step :: "golib \<Rightarrow> string \<Rightarrow> StoreLinkBatchEventRecord \<Rightarrow> StoreLinkBatchEventRecord" where
  "batch_link_step G line r =
     (let m = parseTabDelimitedLine line;
          r1 = (if sl_Status r = [] then set_if (map_of m ''_status'') (\<lambda>v r. r\<lparr>sl_Status := v\<rparr>) r else r);
          r2 = (if sl_Message r1 = [] then
                  set_if (first_of m [''_status_info'', ''_msg'']) (\<lambda>v r. r\<lparr>sl_Message := v\<rparr>) r1 else r1);
          r3 = (if sl_TotalLinkRequestsFound r2 = 0 then
                  set_int (map_of m ''_total_link_requests_found'') (\<lambda>n r. r\<lparr>sl_TotalLinkRequestsFound := n\<rparr>) r2
                else r2);
          r4 = (if sl_LinksOk r3 = 0 then
                  set_int (map_of m ''_links_ok'') (\<lambda>n r. r\<lparr>sl_LinksOk := n\<rparr>) r3 else r3);
          r5 = (if sl_LinksWithErrors r4 = 0 then
                  set_int (map_of m ''_links_with_errors'') (\<lambda>n r. r\<lparr>sl_LinksWithErrors := n\<rparr>) r4 else r4)
      in r5\<lparr>sl_LinkResults := sl_LinkResults r5 @ [batch_link_fields G m]\<rparr>)"

definition parseLinkEventBatchPayload :: "golib \<Rightarrow> any \<Rightarrow> StoreLinkBatchEventRecord option" where
  "parseLinkEventBatchPayload G d =
     (case d of
        AString payload \<Rightarrow> Some (fold (batch_link_step G) (batch_lines (Split NL payload)) zero_StoreLinkBatchEventRecord)
      | _ \<Rightarrow> None)"

section \<open>Links of GetEvent\<close>

definition getEventLinkMapKey :: "Linked \<Rightarrow> string" where
  "getEventLinkMapKey l = (if ld_UniqueId l \<noteq> [] then ''u:'' @ ld_UniqueId l else ''i:'' @ ld_Id l)"

definition parseGetEventLinkLine :: "golib \<Rightarrow> string \<Rightarrow> strmap \<Rightarrow> EventFields option \<Rightarrow> Linked option" where
  "parseGetEventLinkLine G line headerMap request =
     (let m = parseTabDelimitedLine line in
      case map_of m ''_link'' of
        None \<Rightarrow> None
      | Some linkId \<Rightarrow>
          if linkId = [] then None
          else
            (let l0 = zero_Linked\<lparr>ld_Id := linkId, ld_TargetId := get_or [] m ''target_event'',
                        ld_TargetUniqueId := get_or [] m ''target_unique_id'',
                        ld_UniqueId := get_or [] m ''unique_id''\<rparr>;
                 l1 = set_strength G (map_of m ''strength'') (\<lambda>s l. l\<lparr>ld_Strength := s\<rparr>) l0;
                 l2 = l1\<lparr>ld_Category := get_or [] m ''category''\<rparr>;
                 l3 = (case request of None \<Rightarrow> l2
                       | Some e \<Rightarrow> l2\<lparr>ld_SourceId := ev_Id e, ld_SourceUniqueId := ev_UniqueId e\<rparr>);
                 l4 = (if ld_SourceId l3 = [] then
                         set_if (first_of headerMap [''event_id'', ''_event_id'']) (\<lambda>v l. l\<lparr>ld_SourceId := v\<rparr>) l3
                       else l3)
             in Some (if ld_SourceUniqueId l4 = [] then
                  set_if (first_of headerMap [''_unique_id'', ''unique_id'']) (\<lambda>v l. l\<lparr>ld_SourceUniqueId := v\<rparr>) l4
                else l4)))"

definition parseGetEventLinkTagLine :: "string \<Rightarrow> (string \<times> string \<times> TagOutput) option" where
  "parseGetEventLinkTagLine line =
     (let m = parseTabDelimitedLine line;
          linkId = get_or [] m ''event_id''; uniqueId = get_or [] m ''unique''
      in if linkId = [] \<and> uniqueId = [] then None
         else Some (linkId, uniqueId, freq_value_tag m zero_TagOutput))"

definition parseGetEventTargetTagLine :: "string \<Rightarrow> (string \<times> TagOutput) option" where
  "parseGetEventTargetTagLine line =
     (let m = parseTabDelimitedLine line; k = get_or [] m ''event_id'' in
      if k = [] then None else Some (k, freq_value_tag m zero_TagOutput))"

record ge_index =
  gy_linkMap :: "(string \<times> Linked) list"
  gy_linkTagsByUnique :: "(string \<times> TagOutput list) list"
  gy_linkTagsById :: "(string \<times> TagOutput list) list"
  gy_targetTagsMap :: "(string \<times> TagOutput list) list"

definition empty_ge_index :: ge_index where
  "empty_ge_index = \<lparr>gy_linkMap = [], gy_linkTagsByUnique = [], gy_linkTagsById = [], gy_targetTagsMap = []\<rparr>"

definition add_ge_link :: "Linked option \<Rightarrow> ge_index \<Rightarrow> ge_index" where
  "add_ge_link link y = set_if link (\<lambda>l y. y\<lparr>gy_linkMap := AList.update (getEventLinkMapKey l) l (gy_linkMap y)\<rparr>) y"

definition ge_index_line :: "golib \<Rightarrow> strmap \<Rightarrow> EventFields option \<Rightarrow> string \<Rightarrow> ge_index \<Rightarrow> ge_index" where
  "ge_index_line G headerMap event raw y =
     (let line = TrimSpace (TrimRightByte NUL raw) in
      if blank_line line then y
      else if HasPrefix line ''_link='' then add_ge_link (parseGetEventLinkLine G line headerMap event) y
      else if HasPrefix line (''_linktag'' @ [TAB]) \<or> line = ''_linktag'' then
        (case parseGetEventLinkTagLine line of
           None \<Rightarrow> y
         | Some (linkId, uniqueId, tag) \<Rightarrow>
             if uniqueId \<noteq> [] then y\<lparr>gy_linkTagsByUnique := append_at uniqueId tag (gy_linkTagsByUnique y)\<rparr>
             else if linkId \<noteq> [] then y\<lparr>gy_linkTagsById := append_at linkId tag (gy_linkTagsById y)\<rparr>
             else y)
      else if HasPrefix line (''_target_event_tag'' @ [TAB]) \<or> line = ''_target_event_tag'' then
        (case parseGetEventTargetTagLine line of
           None \<Rightarrow> y
         | Some (k, tag) \<Rightarrow> y\<lparr>gy_targetTagsMap := append_at k tag (gy_targetTagsMap y)\<rparr>)
      else if get_or [] (parseTabDelimitedLine line) ''_link'' \<noteq> [] then
        add_ge_link (parseGetEventLinkLine G line headerMap event) y
      else y)"

definition ge_finish_link :: "ge_index \<Rightarrow> EventFields option \<Rightarrow> Linked \<Rightarrow> Linked" where
  "ge_finish_link y event link =
     (let l1 = (if ld_UniqueId link \<noteq> [] then
                  set_if (map_of (gy_linkTagsByUnique y) (ld_UniqueId link)) (\<lambda>ts l. l\<lparr>ld_Tags := ts\<rparr>) link
                else set_if (map_of (gy_linkTagsById y) (ld_Id link)) (\<lambda>ts l. l\<lparr>ld_Tags := ts\<rparr>) link);
          l2 = (if ld_TargetId l1 \<noteq> [] then
                  set_if (map_of (gy_targetTagsMap y) (ld_TargetId l1)) (\<lambda>ts l. l\<lparr>ld_TargetTags := ts\<rparr>) l1
                else l1)
      in case event of
           None \<Rightarrow> l2
         | Some e \<Rightarrow>
             (let l3 = (if ld_SourceUniqueId l2 = [] \<and> ev_UniqueId e \<noteq> []
                        then l2\<lparr>ld_SourceUniqueId := ev_UniqueId e\<rparr> else l2)
              in if ld_SourceId l3 = [] \<and> ev_Id e \<noteq> [] then l3\<lparr>ld_SourceId := ev_Id e\<rparr> else l3))"

text \<open>
  \<open>parseGetEventResponse\<close> ranges over the header map (tags) and over the link map: the argument
  gives the order of each. It fails only without a response.
\<close>

record range_order =
  ro_header :: "strmap \<Rightarrow> strmap"
  ro_links :: "(string \<times> Linked) list \<Rightarrow> (string \<times> Linked) list"

definition text_of :: "any \<Rightarrow> string option" where
  "text_of d = (case d of AString s \<Rightarrow> Some s | ABytes s \<Rightarrow> Some s | _ \<Rightarrow> None)"

definition parseGetEventResponse ::
  "golib \<Rightarrow> range_order \<Rightarrow> Message \<Rightarrow> any \<Rightarrow> strmap \<Rightarrow> (TagOutput list \<times> Linked list) option" where
  "parseGetEventResponse G ro m d headerMap =
     (if m_Response m = None then None
      else
        (let tags = parseEventTagHeaders (ro_header ro headerMap) in
         case text_of d of
           None \<Rightarrow> Some (tags, [])
         | Some payload \<Rightarrow>
             if payload = [] then Some (tags, [])
             else (let y = fold (ge_index_line G headerMap (m_Event m)) (Split NL payload) empty_ge_index
                   in Some (tags, map (\<lambda>(k, l). ge_finish_link y (m_Event m) l) (ro_links ro (gy_linkMap y))))))"

definition parseEventTagField :: "string \<Rightarrow> TagOutput option" where
  "parseEventTagField fld =
     (let f = (if HasPrefix fld ''event_tag:'' then fld else ''event_tag:'' @ fld) in
      case Cut (CHR ''='') f of None \<Rightarrow> None | Some (name, value) \<Rightarrow> parseEventTagHeader name value)"

definition link_tag_field :: "string \<Rightarrow> TagOutput \<Rightarrow> TagOutput" where
  "link_tag_field f t =
     (if HasPrefix f ''freq='' then set_if (Atoi_ok (drop 5 f)) (\<lambda>n t. t\<lparr>to_Frequency := n\<rparr>) t
      else if HasPrefix f ''value='' then
        (let (k, v) = splitTagKeyValue (drop 6 f) in
         if k \<noteq> [] then t\<lparr>to_Key := k, to_Value := v\<rparr> else t\<lparr>to_Value := v\<rparr>)
      else t)"

definition parseLinkTagFields :: "string list \<Rightarrow> TagOutput" where
  "parseLinkTagFields fs = fold link_tag_field fs zero_TagOutput"

section \<open>Batch status\<close>

text \<open>\<open>BatchLinksFailed\<close> and \<open>BatchEventsFailed\<close>: the text of the error, if any.\<close>

definition batch_text :: "string \<Rightarrow> string \<Rightarrow> string" where
  "batch_text msg default_text = (if TrimSpace msg = [] then default_text else TrimSpace msg)"

definition BatchLinksFailed :: "Message option \<Rightarrow> string option" where
  "BatchLinksFailed msg =
     (case Option.bind msg m_Response of
        None \<Rightarrow> None
      | Some r \<Rightarrow>
          (let rec = rs_StoreLinkBatchEventRecord r in
           if EqualFold (TrimSpace (sl_Status rec)) ''ERROR'' \<or> 0 < sl_LinksWithErrors rec
           then Some (batch_text (sl_Message rec) ''link store failed'') else None))"

definition BatchEventsFailed :: "Message option \<Rightarrow> string option" where
  "BatchEventsFailed msg =
     (case Option.bind msg m_Response of
        None \<Rightarrow> None
      | Some r \<Rightarrow>
          (let rec = rs_StoreBatchEventRecord r in
           if EqualFold (TrimSpace (sb_Status rec)) ''ERROR''
           then Some (batch_text (sb_Message rec) ''batch event store failed'') else None))"

end
