(* ===== verification/Intents.thy ===== *)
theory Intents
  imports Types
begin

text \<open>
  The intents of the protocol (\<open>message/intents.go\<close>): one constant \<open>IT_X\<close> per field of
  \<open>IntentType\<close>, the tables from commands to intents and the lookups of the decoder.
\<close>

section \<open>The table of intents\<close>

definition mk_intent :: "string \<Rightarrow> string \<Rightarrow> int \<Rightarrow> string \<Rightarrow> Intent" where
  "mk_intent name cmd ty route =
     \<lparr>in_Name = name, in_RoutingMessageType = route, in_NeuralMemoryCommand = cmd, in_MessageType = ty\<rparr>"

definition IT_StoreEvent :: Intent where
  "IT_StoreEvent = mk_intent ''StoreEvent'' ''store'' 1000 ''MEM_REQ''"

definition IT_StoreData :: Intent where
  "IT_StoreData = mk_intent ''StoreData'' ''store_data'' 1000 ''MEM_REQ''"

definition IT_StoreBatchEvents :: Intent where
  "IT_StoreBatchEvents = mk_intent ''StoreBatchEvents'' ''store_batch'' 1000 ''MEM_REQ''"

definition IT_StoreBatchTags :: Intent where
  "IT_StoreBatchTags = mk_intent ''StoreBatchTags'' ''tag_store_batch'' 1000 ''MEM_REQ''"

definition IT_GetEvent :: Intent where
  "IT_GetEvent = mk_intent ''GetEvent'' ''get'' 1000 ''MEM_REQ''"

definition IT_GetEventsForTags :: Intent where
  "IT_GetEventsForTags = mk_intent ''GetEventsForTags'' ''events_for_tag'' 1000 ''MEM_REQ''"

definition IT_LinkEvent :: Intent where
  "IT_LinkEvent = mk_intent ''LinkEvent'' ''link'' 1000 ''MEM_REQ''"

definition IT_UnlinkEvent :: Intent where
  "IT_UnlinkEvent = mk_intent ''UnlinkEvent'' ''unlink'' 1000 ''MEM_REQ''"

definition IT_StoreBatchLinks :: Intent where
  "IT_StoreBatchLinks = mk_intent ''StoreBatchLinks'' ''link_batch'' 1000 ''MEM_REQ''"

definition IT_StoreEventResponse :: Intent where
  "IT_StoreEventResponse = mk_intent ''StoreEventResponse'' ''store'' 1001 ''MEM_REPLY''"

definition IT_StoreDataResponse :: Intent where
  "IT_StoreDataResponse = mk_intent ''StoreDataResponse'' ''store_data'' 1001 ''MEM_REPLY''"

definition IT_StoreBatchEventsResponse :: Intent where
  "IT_StoreBatchEventsResponse = mk_intent ''StoreBatchEventsResponse'' ''store_batch'' 1001 ''MEM_REPLY''"

definition IT_StoreBatchTagsResponse :: Intent where
  "IT_StoreBatchTagsResponse = mk_intent ''StoreBatchTagsResponse'' ''tag_store_batch'' 1001 ''MEM_REPLY''"

definition IT_GetEventResponse :: Intent where
  "IT_GetEventResponse = mk_intent ''GetEventResponse'' ''get'' 1001 ''MEM_REPLY''"

definition IT_GetEventsForTagsResponse :: Intent where
  "IT_GetEventsForTagsResponse = mk_intent ''GetEventsForTagsResponse'' ''events_for_tags'' 1001 ''MEM_REPLY''"

definition IT_LinkEventResponse :: Intent where
  "IT_LinkEventResponse = mk_intent ''LinkEventResponse'' ''link'' 1001 ''MEM_REPLY''"

definition IT_UnlinkEventResponse :: Intent where
  "IT_UnlinkEventResponse = mk_intent ''UnlinkEventResponse'' ''unlink'' 1001 ''MEM_REPLY''"

definition IT_StoreBatchLinksResponse :: Intent where
  "IT_StoreBatchLinksResponse = mk_intent ''StoreBatchLinksResponse'' ''link_batch'' 1001 ''MEM_REPLY''"

definition IT_ActorEcho :: Intent where
  "IT_ActorEcho = mk_intent ''ActorEcho'' [] 2 ''ECHO''"

definition IT_ActorHalt :: Intent where
  "IT_ActorHalt = mk_intent ''ActorHalt'' [] 99 ''HALT''"

definition IT_ActorStart :: Intent where
  "IT_ActorStart = mk_intent ''ActorStart'' [] 1 ''START''"

definition IT_Status :: Intent where
  "IT_Status = mk_intent ''Status'' [] 3 ''STATUS''"

definition IT_StatusRequest :: Intent where
  "IT_StatusRequest = mk_intent ''StatusRequest'' [] 110 ''STATUS_REQ''"

definition IT_ActorRequest :: Intent where
  "IT_ActorRequest = mk_intent ''ActorRequest'' [] 4 ''REQUEST''"

definition IT_ActorResponse :: Intent where
  "IT_ActorResponse = mk_intent ''ActorResponse'' [] 30 ''REPLY''"

definition IT_GatewayId :: Intent where
  "IT_GatewayId = mk_intent ''GatewayId'' [] 5 ''ID''"

definition IT_GatewayDisconnect :: Intent where
  "IT_GatewayDisconnect = mk_intent ''GatewayDisconnect'' [] 6 ''DISCONNECT''"

definition IT_GatewaySendNext :: Intent where
  "IT_GatewaySendNext = mk_intent ''GatewaySendNext'' [] 7 ''NEXT''"

definition IT_GatewayNoSend :: Intent where
  "IT_GatewayNoSend = mk_intent ''GatewayNoSend'' [] 8 ''NO_SEND''"

definition IT_GatewayStreamOff :: Intent where
  "IT_GatewayStreamOff = mk_intent ''GatewayStreamOff'' [] 9 ''STREAM_OFF''"

definition IT_GatewayStreamOn :: Intent where
  "IT_GatewayStreamOn = mk_intent ''GatewayStreamOn'' [] 10 ''STREAM_ON''"

definition IT_GatewayStatus :: Intent where
  "IT_GatewayStatus = mk_intent ''GatewayStatus'' [] 3 ''STATUS''"

definition IT_ActorRecord :: Intent where
  "IT_ActorRecord = mk_intent ''ActorRecord'' [] 11 ''RECORD''"

definition IT_GatewayBatchStart :: Intent where
  "IT_GatewayBatchStart = mk_intent ''GatewayBatchStart'' [] 12 ''BATCH_START''"

definition IT_GatewayBatchEnd :: Intent where
  "IT_GatewayBatchEnd = mk_intent ''GatewayBatchEnd'' [] 13 ''BATCH_END''"

definition IT_QueueNextRequest :: Intent where
  "IT_QueueNextRequest = mk_intent ''QueueNextRequest'' [] 14 ''QUEUE_NEXT''"

definition IT_QueueAllRequest :: Intent where
  "IT_QueueAllRequest = mk_intent ''QueueAllRequest'' [] 15 ''QUEUE_ALL''"

definition IT_QueueCountRequest :: Intent where
  "IT_QueueCountRequest = mk_intent ''QueueCountRequest'' [] 16 ''QUEUE_COUNT''"

definition IT_QueueEmpty :: Intent where
  "IT_QueueEmpty = mk_intent ''QueueEmpty'' [] 17 ''QUEUE_EMPTY''"

definition IT_Keepalive :: Intent where
  "IT_Keepalive = mk_intent ''Keepalive'' [] 18 ''KEEPALIVE''"

definition IT_ActorReport :: Intent where
  "IT_ActorReport = mk_intent ''ActorReport'' [] 19 ''REPORT''"

definition IT_ReportRequest :: Intent where
  "IT_ReportRequest = mk_intent ''ReportRequest'' [] 20 ''REPORT_REQUEST''"

definition IT_InformationReport :: Intent where
  "IT_InformationReport = mk_intent ''InformationReport'' [] 21 ''INFO_REPORT''"

definition IT_AuthAddUser :: Intent where
  "IT_AuthAddUser = mk_intent ''AuthAddUser'' [] 100 ''AUTH_ADD_USER''"

definition IT_AuthUpdateUser :: Intent where
  "IT_AuthUpdateUser = mk_intent ''AuthUpdateUser'' [] 101 ''AUTH_UPDATE_USER''"

definition IT_AuthUserList :: Intent where
  "IT_AuthUserList = mk_intent ''AuthUserList'' [] 102 ''AUTH_USER_LIST''"

definition IT_AuthDisableUser :: Intent where
  "IT_AuthDisableUser = mk_intent ''AuthDisableUser'' [] 103 ''AUTH_DISABLE_USER''"

definition IT_ActorUser :: Intent where
  "IT_ActorUser = mk_intent ''ActorUser'' [] 65536 ''USER''"

definition IT_RouteAnyMessage :: Intent where
  "IT_RouteAnyMessage = mk_intent ''RouteAnyMessage'' [] 0 ''ANY''"

definition IT_RouteUserOnlyMessage :: Intent where
  "IT_RouteUserOnlyMessage = mk_intent ''RouteUserOnlyMessage'' [] 0 ''USERONLY''"

lemmas IT_defs = mk_intent_def
  IT_StoreEvent_def IT_StoreData_def IT_StoreBatchEvents_def IT_StoreBatchTags_def
  IT_GetEvent_def IT_GetEventsForTags_def IT_LinkEvent_def IT_UnlinkEvent_def
  IT_StoreBatchLinks_def IT_StoreEventResponse_def IT_StoreDataResponse_def IT_StoreBatchEventsResponse_def
  IT_StoreBatchTagsResponse_def IT_GetEventResponse_def IT_GetEventsForTagsResponse_def IT_LinkEventResponse_def
  IT_UnlinkEventResponse_def IT_StoreBatchLinksResponse_def IT_ActorEcho_def IT_ActorHalt_def
  IT_ActorStart_def IT_Status_def IT_StatusRequest_def IT_ActorRequest_def
  IT_ActorResponse_def IT_GatewayId_def IT_GatewayDisconnect_def IT_GatewaySendNext_def
  IT_GatewayNoSend_def IT_GatewayStreamOff_def IT_GatewayStreamOn_def IT_GatewayStatus_def
  IT_ActorRecord_def IT_GatewayBatchStart_def IT_GatewayBatchEnd_def IT_QueueNextRequest_def
  IT_QueueAllRequest_def IT_QueueCountRequest_def IT_QueueEmpty_def IT_Keepalive_def
  IT_ActorReport_def IT_ReportRequest_def IT_InformationReport_def IT_AuthAddUser_def
  IT_AuthUpdateUser_def IT_AuthUserList_def IT_AuthDisableUser_def IT_ActorUser_def
  IT_RouteAnyMessage_def IT_RouteUserOnlyMessage_def

section \<open>Lookups\<close>

text \<open>The two package-level maps from \<open>NeuralMemoryCommand\<close> strings.\<close>

definition commandToIntent :: "(string \<times> Intent) list" where
  "commandToIntent =
     [(''store'', IT_StoreEvent), (''store_data'', IT_StoreData), (''store_batch'', IT_StoreBatchEvents),
      (''tag_store_batch'', IT_StoreBatchTags), (''get'', IT_GetEvent),
      (''events_for_tag'', IT_GetEventsForTags), (''link'', IT_LinkEvent), (''unlink'', IT_UnlinkEvent),
      (''link_batch'', IT_StoreBatchLinks)]"

definition commandToResponseIntent :: "(string \<times> Intent) list" where
  "commandToResponseIntent =
     [(''store'', IT_StoreEventResponse), (''store_data'', IT_StoreDataResponse),
      (''store_batch'', IT_StoreBatchEventsResponse), (''tag_store_batch'', IT_StoreBatchTagsResponse),
      (''get'', IT_GetEventResponse), (''events_for_tag'', IT_GetEventsForTagsResponse),
      (''events_for_tags'', IT_GetEventsForTagsResponse), (''link'', IT_LinkEventResponse),
      (''unlink'', IT_UnlinkEventResponse), (''link_batch'', IT_StoreBatchLinksResponse)]"

definition IntentFromCommand :: "string \<Rightarrow> Intent option" where
  "IntentFromCommand c = map_of commandToIntent c"

definition IntentFromResponseCommand :: "string \<Rightarrow> Intent option" where
  "IntentFromResponseCommand c = map_of commandToResponseIntent c"

definition allIntents :: "Intent list" where
  "allIntents =
     [IT_StoreEvent, IT_StoreData, IT_StoreBatchEvents, IT_StoreBatchTags,
      IT_GetEvent, IT_GetEventsForTags, IT_LinkEvent, IT_UnlinkEvent,
      IT_StoreBatchLinks, IT_StoreEventResponse, IT_StoreDataResponse, IT_StoreBatchEventsResponse,
      IT_StoreBatchTagsResponse, IT_GetEventResponse, IT_GetEventsForTagsResponse, IT_LinkEventResponse,
      IT_UnlinkEventResponse, IT_StoreBatchLinksResponse, IT_ActorEcho, IT_ActorHalt,
      IT_ActorStart, IT_GatewayStatus, IT_Status, IT_StatusRequest,
      IT_ActorRequest, IT_GatewayId, IT_GatewayDisconnect, IT_GatewaySendNext,
      IT_GatewayNoSend, IT_GatewayStreamOff, IT_GatewayStreamOn, IT_ActorRecord,
      IT_GatewayBatchStart, IT_GatewayBatchEnd, IT_QueueNextRequest, IT_QueueAllRequest,
      IT_QueueCountRequest, IT_QueueEmpty, IT_Keepalive, IT_ActorReport,
      IT_ReportRequest, IT_InformationReport, IT_AuthAddUser, IT_AuthUpdateUser,
      IT_AuthUserList, IT_AuthDisableUser, IT_ActorUser]"

definition intentFromMessageTypeInt :: "int \<Rightarrow> Intent option" where
  "intentFromMessageTypeInt t = find (\<lambda>i. in_MessageType i = t) allIntents"

definition IntentFromMessageTypeAndCommand :: "int \<Rightarrow> string \<Rightarrow> Intent option" where
  "IntentFromMessageTypeAndCommand t c =
     (if t = 1000 then IntentFromCommand c
      else if t = 1001 then IntentFromResponseCommand c
      else if t = 11 then
        (case IntentFromResponseCommand c of Some i \<Rightarrow> Some i | None \<Rightarrow> intentFromMessageTypeInt t)
      else intentFromMessageTypeInt t)"

text \<open>
  The lookup of \<open>DecodeMessage\<close>: type and command first, then the type alone.
\<close>

definition lookup_intent :: "int \<Rightarrow> string \<Rightarrow> Intent option" where
  "lookup_intent t c = (case IntentFromMessageTypeAndCommand t c of Some i \<Rightarrow> Some i
     | None \<Rightarrow> intentFromMessageTypeInt t)"

text \<open>The dynamic argument of \<open>IntentFromMessageType\<close>; a pointer is its target or nil.\<close>

datatype type_or_command = TInt int | TIntPtr "int option" | TString string | TStringPtr "string option" | TOtherType

fun IntentFromMessageType :: "type_or_command \<Rightarrow> Intent option" where
  "IntentFromMessageType (TInt v) = intentFromMessageTypeInt v"
| "IntentFromMessageType (TIntPtr None) = None"
| "IntentFromMessageType (TIntPtr (Some v)) = intentFromMessageTypeInt v"
| "IntentFromMessageType (TString v) = IntentFromCommand v"
| "IntentFromMessageType (TStringPtr None) = None"
| "IntentFromMessageType (TStringPtr (Some v)) = IntentFromCommand v"
| "IntentFromMessageType TOtherType = None"

section \<open>Facts\<close>

lemma intentFromMessageTypeInt_type: "intentFromMessageTypeInt t = Some i \<Longrightarrow> in_MessageType i = t"
  by (auto simp: intentFromMessageTypeInt_def find_Some_iff)

lemma IntentFromCommand_type:
  "IntentFromCommand c = Some i \<Longrightarrow> in_MessageType i = 1000 \<and> in_NeuralMemoryCommand i = c"
  by (auto simp: IntentFromCommand_def commandToIntent_def IT_defs split: if_splits)

lemma IntentFromResponseCommand_type:
  "IntentFromResponseCommand c = Some i \<Longrightarrow> in_MessageType i = 1001"
  by (auto simp: IntentFromResponseCommand_def commandToResponseIntent_def IT_defs split: if_splits)

end
