(* ===== verification/Header.thy ===== *)
theory Header
  imports Serialize Intents
begin

text \<open>
  The wire header (\<open>message/header.go\<close>): tab-separated \<open>key=value\<close> fields, one function per
  intent. A header function that dereferences \<open>msg.Event\<close> or \<open>msg.NeuralMemory.Link\<close> without a nil
  check panics when it is nil: those return an \<open>option\<close>, \<open>None\<close> being the panic. \<open>now\<close> is the
  clock in microseconds.
\<close>

definition kv :: "string \<Rightarrow> string \<Rightarrow> string" where
  "kv k v = k @ CHR ''='' # v @ [TAB]"

definition kv_if :: "bool \<Rightarrow> string \<Rightarrow> string \<Rightarrow> string" where
  "kv_if b k v = (if b then kv k v else [])"

definition kv_nonempty :: "string \<Rightarrow> string \<Rightarrow> string" where
  "kv_nonempty k v = kv_if (v \<noteq> []) k v"

text \<open>The trailing \<open>_msg_id=\<close> field, written without a tab when there is a message id.\<close>

definition msg_id_tail :: "Message \<Rightarrow> string" where
  "msg_id_tail m = (if m_MessageId m \<noteq> [] then ''_msg_id='' @ m_MessageId m else [])"

section \<open>Gateway and actor headers\<close>

definition GatewayIdentifyConnectionHeader :: "Message \<Rightarrow> string" where
  "GatewayIdentifyConnectionHeader m =
     (if m_Passcode m \<noteq> [] \<and> m_UserName m \<noteq> []
      then kv ''id:passcode'' (m_Passcode m) @ kv ''id:user'' (m_UserName m) else [])
     @ kv ''id:name'' (m_ClientName m) @ msg_id_tail m"

definition ActorHaltHeader :: "Message \<Rightarrow> string" where
  "ActorHaltHeader m = msg_id_tail m"

definition GatewayStreamOnHeader :: "Message \<Rightarrow> string" where
  "GatewayStreamOnHeader m = msg_id_tail m"

definition GatewayDisconnectHeader :: "Message \<Rightarrow> string" where
  "GatewayDisconnectHeader m = msg_id_tail m"

definition GatewayStreamOffHeader :: "Message \<Rightarrow> string" where
  "GatewayStreamOffHeader m = msg_id_tail m"

definition ActorRequestHeader :: "Message \<Rightarrow> string" where
  "ActorRequestHeader m = kv ''_type'' ''status'' @ msg_id_tail m"

definition StatusRequestHeader :: "Message \<Rightarrow> string" where
  "StatusRequestHeader m = msg_id_tail m"

definition StatusHeader :: "Message \<Rightarrow> string" where
  "StatusHeader m =
     (let status = (case m_Response m of Some r \<Rightarrow> if rs_Status r \<noteq> [] then rs_Status r else ''OK''
                     | None \<Rightarrow> ''OK'');
          text = (case m_Response m of Some r \<Rightarrow> rs_Message r | None \<Rightarrow> [])
      in kv ''_status'' status @ kv_nonempty ''_msg'' text @ msg_id_tail m)"

definition ActorEchoHeader :: "Message \<Rightarrow> string" where
  "ActorEchoHeader m = ''_msg_id='' @ m_MessageId m"

section \<open>Neural-memory headers\<close>

definition timestamp_or_now :: "int \<Rightarrow> string \<Rightarrow> string" where
  "timestamp_or_now now ts = kv ''timestamp'' (if ts \<noteq> [] then ts else GetTimestamp now)"

text \<open>The tags of a stored event, numbered from 1 with at least four digits (\<open>tag_%04d\<close>).\<close>

fun header_tags :: "golib \<Rightarrow> nat \<Rightarrow> TagList \<Rightarrow> string" where
  "header_tags G i [] = []"
| "header_tags G i (t # ts) =
     kv (''tag_'' @ pad0 4 (digits 10 (i + 1)))
        (itoa (tag_Frequency t) @ '':'' @ tag_Key t @ ''='' @ SerializeTagValue G (tag_Value t))
     @ header_tags G (i + 1) ts"

definition StoreEventMessageHeader :: "golib \<Rightarrow> int \<Rightarrow> Message \<Rightarrow> string option" where
  "StoreEventMessageHeader G now m =
     (case m_Event m of None \<Rightarrow> None | Some e \<Rightarrow> Some
       (kv ''_db_cmd'' ''store''
        @ kv_nonempty ''unique_id'' (ev_UniqueId e)
        @ kv_if (ev_Id e \<noteq> []) ''event_id'' (forceASCII (ev_Id e))
        @ kv_nonempty ''owner'' (ev_Owner e)
        @ timestamp_or_now now (ev_Timestamp e)
        @ kv ''loc_delim'' (ev_LocationSeparator e)
        @ kv ''loc'' (ev_Location e)
        @ kv ''type'' (if ev_Type e \<noteq> [] then ev_Type e else ''store event'')
        @ kv ''mime'' (PayloadMimeType m)
        @ header_tags G 0 (Tags m)
        @ msg_id_tail m))"

definition StoreDataMessageHeader :: "int \<Rightarrow> Message \<Rightarrow> string option" where
  "StoreDataMessageHeader now m =
     (case m_Event m of None \<Rightarrow> None | Some e \<Rightarrow> Some
       (kv ''_db_cmd'' ''store_data''
        @ (if ev_UniqueId e \<noteq> [] then kv ''unique_id'' (ev_UniqueId e)
           else kv_if (ev_Id e \<noteq> []) ''event_id'' (forceASCII (ev_Id e)))
        @ timestamp_or_now now (ev_Timestamp e)
        @ kv ''loc_delim'' (ev_LocationSeparator e)
        @ kv ''loc'' (ev_Location e)
        @ kv ''mime'' (PayloadMimeType m)
        @ msg_id_tail m))"

definition StoreBatchEventsMessageHeader :: "Message \<Rightarrow> string" where
  "StoreBatchEventsMessageHeader m = kv ''_db_cmd'' ''store_batch'' @ kv_nonempty ''_msg_id'' (m_MessageId m)"

definition StoreBatchTagsMessageHeader :: "Message \<Rightarrow> string option" where
  "StoreBatchTagsMessageHeader m =
     (case m_Event m of None \<Rightarrow> None | Some e \<Rightarrow> Some
       (kv ''_db_cmd'' ''tag_store_batch''
        @ (if ev_UniqueId e \<noteq> [] then kv ''unique_id'' (ev_UniqueId e)
           else kv_if (ev_Id e \<noteq> []) ''event_id'' (forceASCII (ev_Id e)))
        @ (if ev_Owner e \<noteq> [] then kv ''owner'' (ev_Owner e)
           else kv_nonempty ''owner_unique_id'' (ev_OwnerUniqueID e))
        @ msg_id_tail m))"

definition flag :: "bool \<Rightarrow> string \<Rightarrow> string" where
  "flag b k = kv_if b k ''Y''"

definition kv_positive :: "string \<Rightarrow> int \<Rightarrow> string" where
  "kv_positive k i = kv_if (0 < i) k (itoa i)"

definition get_event_options :: "GetEventOptions \<Rightarrow> string" where
  "get_event_options opts =
     flag (ge_SendData opts) ''send_data''
     @ flag (ge_LocalIdOnly opts) ''local_id_only''
     @ flag (ge_GetTags opts) ''get_tags''
     @ flag (ge_GetLinks opts) ''get_links''
     @ flag (ge_GetLinkTags opts) ''get_link_tags''
     @ flag (ge_GetTargetTags opts) ''get_target_tags''
     @ kv_nonempty ''event_facet_filter'' (ge_EventFacetFilter opts)
     @ kv_nonempty ''link_facet_filter'' (ge_LinkFacetFilter opts)
     @ kv_nonempty ''target_facet_filter'' (ge_TargetFacetFilter opts)
     @ kv_nonempty ''category_filter'' (ge_CategoryFilter opts)
     @ kv_nonempty ''tag_filter'' (ge_TagFilter opts)
     @ kv ''tag_format'' (itoa (if ni_Valid (ge_TagFormat opts) then ni_Value (ge_TagFormat opts) else 0))
     @ (case ge_TagOwnerOutput opts of
          TagOwnerEventKey \<Rightarrow> kv ''output_tag_owner'' ''Y''
        | TagOwnerUniqueID \<Rightarrow> kv ''output_tag_owner'' ''N''
        | _ \<Rightarrow> [])
     @ kv ''request_format'' ''0''
     @ kv_positive ''first_link'' (ge_FirstLink opts)
     @ kv_positive ''link_count'' (ge_LinkCount opts)"

definition GetEventMessageHeader :: "Message \<Rightarrow> string" where
  "GetEventMessageHeader m =
     kv ''_db_cmd'' ''get''
     @ (case m_Event m of None \<Rightarrow> []
        | Some e \<Rightarrow> kv_if (ev_Id e \<noteq> []) ''event_id'' (forceASCII (ev_Id e))
                    @ kv_if (ev_UniqueId e \<noteq> []) ''unique_id'' (forceASCII (ev_UniqueId e)))
     @ (case GetEventOpts m of None \<Rightarrow> [] | Some opts \<Rightarrow> get_event_options opts)
     @ msg_id_tail m"

definition ascii_if :: "string \<Rightarrow> string \<Rightarrow> string" where
  "ascii_if k v = kv_if (v \<noteq> []) k (forceASCII v)"

definition get_events_for_tags_options :: "GetEventsForTagsOptions \<Rightarrow> string" where
  "get_events_for_tags_options opts =
     flag (gt_IncludeBriefHits opts) ''include_brief_hits''
     @ flag (gt_GetAllData opts) ''get_all_data''
     @ flag (gt_CountOnly opts) ''count_only''
     @ flag (gt_GetMatchLinks opts) ''get_match_links''
     @ flag (gt_CountMatchLinks opts) ''count_match_links''
     @ flag (gt_GetLinkTags opts) ''get_link_tags''
     @ flag (gt_GetTargetTags opts) ''get_target_tags''
     @ flag (gt_GetEventObjectCount opts) ''get_eo_count''
     @ flag (gt_InvertHitTagFilter opts) ''invert_hit_tag_filter''
     @ ascii_if ''event'' (gt_EventPattern opts)
     @ ascii_if ''event_high'' (gt_EventPatternHigh opts)
     @ ascii_if ''link_tag_pattern'' (gt_LinkTagFilter opts)
     @ ascii_if ''linked_events_tag_filter'' (gt_LinkedEventsFilter opts)
     @ kv_nonempty ''link_category'' (gt_LinkCategory opts)
     @ (if gt_Owner opts \<noteq> [] then kv ''owner'' (forceASCII (gt_Owner opts))
        else kv_nonempty ''owner_unique_id'' (gt_OwnerUniqueID opts))
     @ (case gt_TagOwnerOutput opts of
          TagOwnerEventKey \<Rightarrow> kv ''get_tag_owner'' ''Y''
        | TagOwnerUniqueID \<Rightarrow> kv ''get_tag_owner_unique_id'' ''Y''
        | _ \<Rightarrow> [])
     @ ascii_if ''hit_tag_filter'' (gt_HitTagFilter opts)
     @ kv_positive ''first_link'' (gt_FirstLink opts)
     @ kv_positive ''link_count'' (gt_LinkCount opts)
     @ kv_if (gt_EventsPerMessage opts \<noteq> 0) ''events_per_message'' (itoa (gt_EventsPerMessage opts))
     @ kv_positive ''start_result'' (gt_StartResult opts)
     @ kv_positive ''end_result'' (gt_EndResult opts)
     @ kv_positive ''min_event_hits'' (gt_MinEventHits opts)"

definition GetEventsForTagMessageHeader :: "Message \<Rightarrow> string" where
  "GetEventsForTagMessageHeader m =
     (let opts = GetEventsForTagsOpts m;
          bufferFormat = (case opts of Some o' \<Rightarrow> if gt_BufferFormat o' \<noteq> [] then gt_BufferFormat o' else ''0''
                          | None \<Rightarrow> ''0'')
      in kv ''_db_cmd'' ''events_for_tag''
         @ kv ''buffer_results'' (if (case opts of Some o' \<Rightarrow> gt_BufferResults o' | None \<Rightarrow> False) then ''Y'' else ''N'')
         @ flag (case opts of Some o' \<Rightarrow> gt_IncludeTagStats o' | None \<Rightarrow> False) ''include_tag_stats''
         @ (case opts of Some o' \<Rightarrow> get_events_for_tags_options o' | None \<Rightarrow> [])
         @ kv ''buffer_format'' (if bufferFormat \<noteq> [] then bufferFormat else ''1'')
         @ msg_id_tail m)"

definition LinkEventsMessageHeader :: "golib \<Rightarrow> Message \<Rightarrow> string option" where
  "LinkEventsMessageHeader G m =
     (case (m_Event m, Link m) of
        (Some e, Some l) \<Rightarrow> Some
          (kv ''_db_cmd'' ''link''
           @ (if ev_Id e \<noteq> [] then kv ''event_id'' (forceASCII (ev_Id e))
              else kv_nonempty ''unique_id'' (ev_UniqueId e))
           @ kv_nonempty ''owner'' (ev_Owner e)
           @ kv_nonempty ''_msg_id'' (m_MessageId m)
           @ (if lk_UniqueIdA l \<noteq> [] \<and> lk_UniqueIdB l \<noteq> [] then
                kv ''unique_id_a'' (lk_UniqueIdA l) @ kv ''unique_id_b'' (lk_UniqueIdB l)
              else if lk_EventA l \<noteq> [] \<and> lk_EventB l \<noteq> [] then
                kv ''event_id_a'' (forceASCII (lk_EventA l)) @ kv ''event_id_b'' (forceASCII (lk_EventB l))
              else [])
           @ kv ''strength_a'' (FormatFloat64 G (lk_StrengthA l))
           @ kv ''strength_b'' (FormatFloat64 G (lk_StrengthB l))
           @ kv ''category'' (lk_Category l)
           @ kv ''loc_delim'' (lk_LocationSeparator l)
           @ kv ''loc'' (lk_Location l)
           @ kv ''type'' (lk_Type l)
           @ kv ''mime'' (PayloadMimeType m)
           @ kv ''timestamp'' (lk_Timestamp l)
           @ (if lk_OwnerID l \<noteq> [] then kv ''owner_event_id'' (lk_OwnerID l)
              else kv_nonempty ''owner_unique_id'' (lk_OwnerUniqueID l)))
      | _ \<Rightarrow> None)"

definition BatchLinkEventsMessageHeader :: "Message \<Rightarrow> string" where
  "BatchLinkEventsMessageHeader m = kv ''_db_cmd'' ''link_batch'' @ msg_id_tail m"

definition UnlinkEventsMessageHeader :: "Message \<Rightarrow> string option" where
  "UnlinkEventsMessageHeader m =
     (case Link m of None \<Rightarrow> None | Some l \<Rightarrow> Some
       (kv ''_db_cmd'' ''unlink''
        @ kv_nonempty ''owner'' (lk_Owner l)
        @ (if lk_Id l \<noteq> [] then kv ''event_id'' (forceASCII (lk_Id l))
           else kv_nonempty ''unique_id'' (lk_UniqueId l))
        @ kv_nonempty ''loc_delim'' (lk_LocationSeparator l)
        @ kv_nonempty ''loc'' (lk_Location l)
        @ kv_nonempty ''timestamp'' (lk_Timestamp l)
        @ kv_nonempty ''_msg_id'' (m_MessageId m)))"

section \<open>Dispatch\<close>

definition ConstructHeader :: "golib \<Rightarrow> int \<Rightarrow> Message \<Rightarrow> Intent \<Rightarrow> string option" where
  "ConstructHeader G now m intent =
     (let n = in_Name intent in
      if n = ''GatewayId'' then Some (GatewayIdentifyConnectionHeader m)
      else if n = ''GatewayStreamOn'' then Some (GatewayStreamOnHeader m)
      else if n = ''GatewayDisconnect'' then Some (GatewayDisconnectHeader m)
      else if n = ''ActorEcho'' then Some (ActorEchoHeader m)
      else if n = ''StoreEvent'' then StoreEventMessageHeader G now m
      else if n = ''StoreData'' then StoreDataMessageHeader now m
      else if n = ''LinkEvent'' then LinkEventsMessageHeader G m
      else if n = ''UnlinkEvent'' then UnlinkEventsMessageHeader m
      else if n = ''GetEvent'' then Some (GetEventMessageHeader m)
      else if n = ''GetEventsForTags'' then Some (GetEventsForTagMessageHeader m)
      else if n = ''StoreBatchEvents'' then Some (StoreBatchEventsMessageHeader m)
      else if n = ''StoreBatchTags'' \<or> n = ''BatchStoreTags'' then StoreBatchTagsMessageHeader m
      else if n = ''StoreBatchLinks'' then Some (BatchLinkEventsMessageHeader m)
      else if n = ''ActorStreamOff'' then Some (GatewayStreamOffHeader m)
      else if n = ''ActorRequest'' then Some (ActorRequestHeader m)
      else if n = ''StatusRequest'' then Some (StatusRequestHeader m)
      else if n = ''Status'' then Some (StatusHeader m)
      else Some [])"

section \<open>Facts\<close>

text \<open>Which intents need which pointers: the panics of \<open>ConstructHeader\<close>.\<close>

definition header_needs_event :: "string list" where
  "header_needs_event = [''StoreEvent'', ''StoreData'', ''LinkEvent'', ''StoreBatchTags'', ''BatchStoreTags'']"

definition header_needs_link :: "string list" where
  "header_needs_link = [''LinkEvent'', ''UnlinkEvent'']"

lemma ConstructHeader_None_iff:
  "ConstructHeader G now m intent = None \<longleftrightarrow>
     in_Name intent \<in> set header_needs_event \<and> m_Event m = None
     \<or> in_Name intent \<in> set header_needs_link \<and> Link m = None"
  unfolding ConstructHeader_def Let_def header_needs_event_def header_needs_link_def
  by (simp add: StoreEventMessageHeader_def StoreDataMessageHeader_def LinkEventsMessageHeader_def
    UnlinkEventsMessageHeader_def StoreBatchTagsMessageHeader_def split: option.splits)

end
