(* ===== verification/Encoder.thy ===== *)
theory Encoder
  imports Header
begin

text \<open>
  \<open>EncodeMessage\<close> (\<open>message/encoder.go\<close>): the checks, the payload bytes of each intent and the
  frame, seven 9-byte fields followed by To, From, the header and the payload. The error branches
  keep the source's order; a failed type assertion or nil dereference is \<open>Panicked\<close>.
\<close>

definition MaxMessageSizeBytes :: int where
  "MaxMessageSizeBytes = 2 * 1024 * 1024 * 1024"

section \<open>Checks\<close>

text \<open>The early bound on the payload: the error when it is exceeded.\<close>

definition check_payload_size :: "any \<Rightarrow> EncodeError option" where
  "check_payload_size d =
     (let too_large = (\<lambda>what n. Some (EncodeErrorWithField ErrCodeEncodePayloadTooLarge
            (what @ itoa n @ '' bytes exceeds maximum '' @ itoa MaxMessageSizeBytes @ '' bytes'') ''PayloadData''))
      in case d of
           AString s \<Rightarrow> if int (length s) > MaxMessageSizeBytes
                        then too_large ''payload size '' (int (length s)) else None
         | ABytes s \<Rightarrow> if int (length s) > MaxMessageSizeBytes
                        then too_large ''payload size '' (int (length s)) else None
         | ABatchEvents es \<Rightarrow> if int (length es) * 500 > MaxMessageSizeBytes
                        then too_large ''estimated payload size '' (int (length es) * 500) else None
         | _ \<Rightarrow> None)"

definition check_link_event :: "Message \<Rightarrow> EncodeError option" where
  "check_link_event m =
     (if in_Name (m_Intent m) = in_Name IT_LinkEvent then
        (case Link m of
           None \<Rightarrow> Some (EncodeErrorWithField ErrCodeEncodeInvalidData
                     ''LinkEvent requires strength_a, strength_b, and category'' ''link'')
         | Some l \<Rightarrow> requireLinkWireFields (Some l) ''LinkEvent'')
      else None)"

definition check_to :: "Message \<Rightarrow> EncodeError option" where
  "check_to m =
     (let parts = Split (CHR ''@'') (m_To m) in
      if CHR ''@'' \<notin> set (m_To m) then
        Some (NewEncodeError ErrCodeEncodeInvalidToAddress
          (''To address is required and must be in the format of <ClientName>@<GatewayName>.<Domain Name>. The To address is: '' @ m_To m))
      else if parts ! 0 = [] then
        Some (NewEncodeError ErrCodeEncodeInvalidActorName
          ''Actor is required and must be in the format of <ClientName>@<GatewayName>.<Domain Name>'')
      else if parts ! 1 = [] then
        Some (NewEncodeError ErrCodeEncodeInvalidGatewayName
          ''GatewayName is required and must be in the format of <ClientName>@<GatewayName>.<Domain Name>'')
      else None)"

definition check_from :: "Message \<Rightarrow> EncodeError option" where
  "check_from m =
     (let parts = Split (CHR ''@'') (m_From m) in
      if CHR ''@'' \<notin> set (m_From m) then
        Some (NewEncodeError ErrCodeEncodeInvalidFromAddress
          (''From address is required and must be in the format of <ClientName>@<GatewayName>.<Domain Name>. The To address is: '' @ m_To m))
      else if m_From m = [] then
        Some (NewEncodeError ErrCodeEncodeInvalidFromAddress
          ''From address is required and must be in the format of <ClientName>@<GatewayName>'')
      else if parts ! 0 = [] then
        Some (NewEncodeError ErrCodeEncodeInvalidFromAddress
          ''Client name, acting as an Actor, is required and must be in the format of <ClientName>@<GatewayName>'')
      else if parts ! 1 = [] then
        Some (NewEncodeError ErrCodeEncodeInvalidGatewayName
          ''GatewayName is required and must be in the format of <ClientName>@<GatewayName>'')
      else None)"

section \<open>Payload bytes\<close>

fun payload_store_batch_events :: "golib \<Rightarrow> any \<Rightarrow> string" where
  "payload_store_batch_events G (ABatchEvents es) = FormatBatchEventsPayload G es"
| "payload_store_batch_events G (AString s) = s"
| "payload_store_batch_events G (AStrings ss) = Join [] ss"
| "payload_store_batch_events G _ = []"

fun payload_store_batch_links :: "golib \<Rightarrow> any \<Rightarrow> (EncodeError, string) outcome" where
  "payload_store_batch_links G (ABatchLinks ls) = FormatBatchLinkEventsPayload G ls"
| "payload_store_batch_links G (AString s) = Returned s"
| "payload_store_batch_links G _ = Returned []"

fun payload_store_batch_tags :: "golib \<Rightarrow> any \<Rightarrow> TagList \<Rightarrow> string" where
  "payload_store_batch_tags G (ATagList ts) nm_tags = FormatBatchTagsPayload G ts"
| "payload_store_batch_tags G (ATagSlice ts) nm_tags = FormatBatchTagsPayload G ts"
| "payload_store_batch_tags G (AString s) nm_tags = s"
| "payload_store_batch_tags G ANil nm_tags = (if nm_tags \<noteq> [] then FormatBatchTagsPayload G nm_tags else [])"
| "payload_store_batch_tags G _ nm_tags = []"

text \<open>
  The general branch switches on the kind but asserts \<open>string\<close> or \<open>[]string\<close>: any other type of
  kind string, slice or array, and everything in the default branch, panics.
\<close>

fun payload_general :: "any \<Rightarrow> string option" where
  "payload_general ANil = Some []"
| "payload_general (AString s) = Some s"
| "payload_general (AStrings ss) = Some (Join [] ss)"
| "payload_general _ = None"

definition encode_payload :: "golib \<Rightarrow> Message \<Rightarrow> (EncodeError, string) outcome" where
  "encode_payload G m =
     (let n = in_Name (m_Intent m); d = PayloadData m in
      if n = in_Name IT_GatewayId then Returned []
      else if n = in_Name IT_GatewayStreamOn then Returned []
      else if n = in_Name IT_StoreBatchEvents then Returned (payload_store_batch_events G d)
      else if n = in_Name IT_StoreBatchLinks then payload_store_batch_links G d
      else if n = in_Name IT_StoreBatchTags then Returned (payload_store_batch_tags G d (Tags m))
      else no_panic (payload_general d))"

section \<open>The frame\<close>

definition payloadDataType :: "Message \<Rightarrow> int" where
  "payloadDataType m = (case m_Payload m of Some p \<Rightarrow> pl_DataType p | None \<Rightarrow> 0)"

definition hex_field :: "nat \<Rightarrow> string" where
  "hex_field n = CHR ''x'' # hex8 n"

definition total_length :: "Message \<Rightarrow> string \<Rightarrow> string \<Rightarrow> nat" where
  "total_length m header data =
     length (m_To m) + 9 + length (m_From m) + 9 + length header + 9
       + length (dec9 (in_MessageType (m_Intent m))) + length (dec9 (payloadDataType m)) + length data + 9 + 9"

definition frame :: "Message \<Rightarrow> string \<Rightarrow> string \<Rightarrow> SocketMessage" where
  "frame m header data =
     \<lparr>sm_MessageBytes =
        forceASCII (hex_field (total_length m header data))
        @ forceASCII (hex_field (length (m_To m)))
        @ forceASCII (hex_field (length (m_From m)))
        @ forceASCII (hex_field (length header))
        @ forceASCII (dec9 (in_MessageType (m_Intent m)))
        @ forceASCII (dec9 (payloadDataType m))
        @ forceASCII (hex_field (length data))
        @ forceASCII (m_To m) @ forceASCII (m_From m) @ forceASCII header
        @ data,
      sm_Header = header\<rparr>"

definition encode_frame :: "Message \<Rightarrow> string \<Rightarrow> string \<Rightarrow> (EncodeError, SocketMessage) outcome" where
  "encode_frame m header data =
     (if int (total_length m header data) > MaxMessageSizeBytes then
        Failed (EncodeErrorWithField ErrCodeEncodePayloadTooLarge
          (''encoded message size '' @ itoa (int (total_length m header data)) @ '' bytes exceeds maximum ''
            @ itoa MaxMessageSizeBytes @ '' bytes'') ''message'')
      else Returned (frame m header data))"

definition fail_or :: "EncodeError option \<Rightarrow> (EncodeError, 'a) outcome \<Rightarrow> (EncodeError, 'a) outcome" where
  "fail_or err k = (case err of Some e \<Rightarrow> Failed e | None \<Rightarrow> k)"

fun EncodeMessage :: "golib \<Rightarrow> int \<Rightarrow> Message option \<Rightarrow> (EncodeError, SocketMessage) outcome" where
  "EncodeMessage G now None = Failed (NewEncodeError ErrCodeEncodeNilMessage ''message cannot be nil'')"
| "EncodeMessage G now (Some m) =
     fail_or (check_payload_size (PayloadData m))
     (fail_or (check_link_event m)
     (bind_outcome (no_panic (ConstructHeader G now m (m_Intent m))) (\<lambda>header.
      fail_or (check_to m)
     (fail_or (check_from m)
     (bind_outcome (encode_payload G m) (\<lambda>data.
      encode_frame m header data))))))"

declare EncodeMessage.simps(2) [simp del]

section \<open>Facts\<close>

lemma fail_or_Returned_iff: "fail_or e k = Returned x \<longleftrightarrow> e = None \<and> k = Returned x"
  by (cases e) (simp_all add: fail_or_def)

lemma fail_or_Panicked_iff: "fail_or e k = Panicked \<longleftrightarrow> e = None \<and> k = Panicked"
  by (cases e) (simp_all add: fail_or_def)

lemma no_panic_Panicked_iff: "no_panic x = Panicked \<longleftrightarrow> x = None"
  by (cases x) simp_all

lemma no_panic_Returned_iff: "no_panic x = Returned v \<longleftrightarrow> x = Some v"
  by (cases x) simp_all

lemma no_panic_not_Failed [simp]: "no_panic x \<noteq> Failed e"
  by (cases x) simp_all

lemma encode_frame_Returned_iff:
  "encode_frame m h d = Returned sm \<longleftrightarrow> int (total_length m h d) \<le> MaxMessageSizeBytes \<and> sm = frame m h d"
  by (auto simp: encode_frame_def)

text \<open>An encoded message passed every check and is the frame of its header and payload.\<close>

lemma EncodeMessage_Returned_iff:
  "EncodeMessage G now (Some m) = Returned sm \<longleftrightarrow>
     check_payload_size (PayloadData m) = None \<and> check_link_event m = None
     \<and> check_to m = None \<and> check_from m = None
     \<and> (\<exists>header data. ConstructHeader G now m (m_Intent m) = Some header \<and> encode_payload G m = Returned data
          \<and> int (total_length m header data) \<le> MaxMessageSizeBytes \<and> sm = frame m header data)"
  by (auto simp: EncodeMessage.simps(2) fail_or_Returned_iff bind_outcome_Returned_iff
      no_panic_Returned_iff encode_frame_Returned_iff)

lemmas encode_simps = EncodeMessage.simps(2) fail_or_Returned_iff fail_or_Panicked_iff bind_outcome_Returned_iff
  bind_outcome_Panicked_iff no_panic_Panicked_iff no_panic_Returned_iff

text \<open>Addresses the checks accept: a name, an \<open>@\<close> and something other than a second one.\<close>

definition address_ok :: "string \<Rightarrow> bool" where
  "address_ok s = (case Cut (CHR ''@'') s of None \<Rightarrow> False
     | Some (name, rest) \<Rightarrow> name \<noteq> [] \<and> rest \<noteq> [] \<and> hd rest \<noteq> CHR ''@'')"

lemma Split_first_empty: "hd (Split c s) = [] \<longleftrightarrow> s = [] \<or> hd s = c"
  by (cases s) (auto split: list.splits)

lemma address_parts:
  assumes "CHR ''@'' \<in> set s"
  shows "address_ok s \<longleftrightarrow> Split (CHR ''@'') s ! 0 \<noteq> [] \<and> Split (CHR ''@'') s ! 1 \<noteq> []"
proof -
  obtain a b where c: "Cut (CHR ''@'') s = Some (a, b)"
    using assms Cut_None_iff [of "CHR ''@''" s] by (cases "Cut (CHR ''@'') s") auto
  then have s: "s = a @ CHR ''@'' # b" "CHR ''@'' \<notin> set a" by (auto dest: Cut_Some)
  have "Split (CHR ''@'') s = a # Split (CHR ''@'') b" using s by (simp add: Split_append)
  moreover have "Split (CHR ''@'') b ! 0 = hd (Split (CHR ''@'') b)" by (simp add: hd_conv_nth)
  ultimately show ?thesis by (auto simp: address_ok_def c Split_first_empty)
qed

lemma address_no_at: "CHR ''@'' \<notin> set s \<Longrightarrow> \<not> address_ok s"
  using Cut_None_iff [of "CHR ''@''" s] by (simp add: address_ok_def)

lemma check_to_None_iff: "check_to m = None \<longleftrightarrow> address_ok (m_To m)"
proof (cases "CHR ''@'' \<in> set (m_To m)")
  case True
  then show ?thesis by (auto simp: check_to_def Let_def address_parts)
next
  case False
  then show ?thesis by (auto simp: check_to_def Let_def address_no_at)
qed

lemma check_from_None_iff: "check_from m = None \<longleftrightarrow> address_ok (m_From m)"
proof (cases "CHR ''@'' \<in> set (m_From m)")
  case True
  then show ?thesis by (auto simp: check_from_def Let_def address_parts)
next
  case False
  then show ?thesis by (auto simp: check_from_def Let_def address_no_at)
qed

lemma check_link_event_None_iff:
  "check_link_event m = None \<longleftrightarrow>
     (in_Name (m_Intent m) = ''LinkEvent'' \<longrightarrow> (\<exists>l. Link m = Some l \<and> link_ok l))"
  by (auto simp: check_link_event_def IT_LinkEvent_def mk_intent_def requireLinkWireFields_None_iff
      split: option.splits)

text \<open>The lengths the frame announces agree with its layout when the texts are ASCII.\<close>

definition ascii_text :: "string \<Rightarrow> bool" where
  "ascii_text s \<longleftrightarrow> (\<forall>c \<in> set s. is_ascii c)"

lemma forceASCII_ascii_text [simp]: "ascii_text s \<Longrightarrow> forceASCII s = s"
  by (simp add: ascii_text_def forceASCII_id)

lemma ascii_text_hex_field [simp]: "ascii_text (hex_field n)"
  using hex8_graphic graphic_is_ascii by (auto simp: ascii_text_def hex_field_def is_ascii_def)

lemma ascii_text_dec9 [simp]: "ascii_text (dec9 i)"
  using dec9_graphic graphic_is_ascii by (auto simp: ascii_text_def)

lemma length_hex_field [wire]: "n < 2 ^ 32 \<Longrightarrow> length (hex_field n) = 9"
  by (simp add: hex_field_def length_hex8)

lemma payload_general_None_iff:
  "payload_general d = None \<longleftrightarrow> (\<forall>s. d \<noteq> AString s) \<and> (\<forall>ss. d \<noteq> AStrings ss) \<and> d \<noteq> ANil"
  by (cases d) auto

end
