(* ===== verification/Decoder.thy ===== *)
theory Decoder
  imports Responses Encoder
begin

text \<open>
  \<open>DecodeMessage\<close> (\<open>message/decoder.go\<close>). The result is the message, always returned, and the
  error if there is one; \<open>None\<close> stands for a panic. Each error branch keeps its position, its text
  and the state of the message it leaves behind. Logging is left out.
\<close>

section \<open>The header in the message\<close>

definition ensureEvent :: "Message \<Rightarrow> EventFields" where
  "ensureEvent m = (case m_Event m of Some e \<Rightarrow> e | None \<Rightarrow> zero_EventFields)"

definition ensurePayload :: "Message \<Rightarrow> PayloadFields" where
  "ensurePayload m = (case m_Payload m of Some p \<Rightarrow> p | None \<Rightarrow> zero_PayloadFields)"

definition ensureResponse :: "Message \<Rightarrow> ResponseFields" where
  "ensureResponse m = (case m_Response m of Some r \<Rightarrow> r | None \<Rightarrow> zero_ResponseFields)"

definition header_response :: "strmap \<Rightarrow> ResponseFields \<Rightarrow> ResponseFields" where
  "header_response h r =
     (let r1 = set_if (map_of h ''_status'') (\<lambda>v r. r\<lparr>rs_Status := v\<rparr>) r;
          r2 = set_if (map_of h ''_msg'') (\<lambda>v r. r\<lparr>rs_Message := v\<rparr>) r1;
          r3 = set_int (first_of h [''_total_event_hits'', ''_count'', ''total_link_requests_found'',
                 ''_total_link_requests_found'']) (\<lambda>n r. r\<lparr>rs_TotalEvents := n\<rparr>) r2;
          r4 = set_int (first_of h [''links_ok'', ''_links_ok'']) (\<lambda>n r. r\<lparr>rs_StorageSuccessCount := n\<rparr>) r3;
          r5 = set_int (first_of h [''links_with_errors'', ''_links_with_errors''])
                 (\<lambda>n r. r\<lparr>rs_StorageErrorCount := n\<rparr>) r4;
          r6 = set_int (map_of h ''_start_result'') (\<lambda>n r. r\<lparr>rs_StartResult := n\<rparr>) r5;
          r7 = set_int (map_of h ''_end_result'') (\<lambda>n r. r\<lparr>rs_EndResult := n\<rparr>) r6;
          r8 = set_int (map_of h ''_returned_event_hits'') (\<lambda>n r. r\<lparr>rs_ReturnedEvents := n\<rparr>) r7;
          r9 = set_int (first_of h [''_set_link_count'', ''_link_count'']) (\<lambda>n r. r\<lparr>rs_LinkCount := n\<rparr>) r8;
          r10 = set_int (map_of h ''_tag_count'') (\<lambda>n r. r\<lparr>rs_TagCount := n\<rparr>) r9
      in set_if (map_of h ''link_event'') (\<lambda>v r. r\<lparr>rs_LinkId := v\<rparr>) r10)"

definition header_payload :: "strmap \<Rightarrow> PayloadFields \<Rightarrow> PayloadFields" where
  "header_payload h p =
     (let p1 = set_if (first_of h [''mime'', ''_mimetype'']) (\<lambda>v p. p\<lparr>pl_MimeType := v\<rparr>) p;
          p2 = set_int (map_of h ''data_type'') (\<lambda>n p. p\<lparr>pl_DataType := n\<rparr>) p1
      in set_int (map_of h ''_datasize'') (\<lambda>n p. p\<lparr>pl_DataSize := n\<rparr>) p2)"

definition transformHeaderMaptoMessageStruct :: "strmap \<Rightarrow> Message \<Rightarrow> Message" where
  "transformHeaderMaptoMessageStruct h m =
     (let m1 = set_if (map_of h ''_msg_id'') (\<lambda>v m. m\<lparr>m_MessageId := v\<rparr>) m
      in m1\<lparr>m_Response := Some (header_response h (ensureResponse m)),
            m_Event := Some (decodeEventFields h (ensureEvent m)),
            m_Payload := Some (header_payload h (ensurePayload m))\<rparr>)"

section \<open>Length fields\<close>

definition setResponseError :: "Message \<Rightarrow> string \<Rightarrow> Message" where
  "setResponseError m e = m\<lparr>m_Response := Some ((ensureResponse m)\<lparr>rs_Status := ''ERROR'', rs_Message := e\<rparr>)\<rparr>"

type_synonym decoded = "Message \<times> DecodeError option"

definition decode_failed :: "Message \<Rightarrow> DecodeError \<Rightarrow> decoded" where
  "decode_failed m e = (setResponseError m (de_Message e), Some e)"

text \<open>Fields 0 to 6 of the length block, nine bytes each.\<close>

definition length_field :: "string \<Rightarrow> nat \<Rightarrow> string" where
  "length_field raw i = take 9 (drop (9 * i) raw)"

definition size_field :: "golib \<Rightarrow> string \<Rightarrow> nat \<Rightarrow> string \<Rightarrow> (DecodeError, int) outcome" where
  "size_field G raw i name =
     (case decodeMessageSizeParam (length_field raw i) of
        (n, None) \<Rightarrow> Returned n
      | (n, Some (s, e)) \<Rightarrow> Failed (WrapDecodeError ErrCodeDecodeInvalidSizeParam
          (''failed to decode '' @ name @ '': '' @ num_error_text (IsPrint G) ''ParseInt'' s e) (''ParseInt'', s, e)))"

definition bounded_field :: "golib \<Rightarrow> string \<Rightarrow> nat \<Rightarrow> string \<Rightarrow> (DecodeError, int) outcome" where
  "bounded_field G raw i name =
     bind_outcome (size_field G raw i name) (\<lambda>n.
       if n < 0 \<or> n > MaxMessageSizeBytes then
         Failed (DecodeErrorWithField ErrCodeDecodeInvalidSizeParam
           (''invalid '' @ name @ '': '' @ itoa n @ '' (must be between 0 and '' @ itoa MaxMessageSizeBytes @ '')'') name)
       else Returned n)"

record Lengths =
  len_to :: int
  len_from :: int
  len_header :: int
  len_payload :: int

definition decode_lengths :: "golib \<Rightarrow> string \<Rightarrow> (DecodeError, Lengths) outcome" where
  "decode_lengths G raw =
     (if int (length raw) > MaxMessageSizeBytes then
        Failed (DecodeErrorWithField ErrCodeDecodePayloadTooLarge
          (''message size '' @ itoa (int (length raw)) @ '' bytes exceeds maximum allowed ''
            @ itoa MaxMessageSizeBytes @ '' bytes'') ''message'')
      else if length raw < 63 then
        Failed (DecodeErrorWithField ErrCodeDecodeMessageTooShort
          (''message too short, expected at least 63 bytes, got '' @ itoa (int (length raw)) @ '' bytes'') ''message'')
      else
        bind_outcome (size_field G raw 0 ''totalLength'') (\<lambda>total.
        if total \<le> 0 then
          Failed (DecodeErrorWithField ErrCodeDecodeInvalidSizeParam
            (''invalid totalLength: '' @ itoa total @ '' (must be positive)'') ''totalLength'')
        else if total > MaxMessageSizeBytes then
          Failed (DecodeErrorWithField ErrCodeDecodePayloadTooLarge
            (''totalLength '' @ itoa total @ '' bytes exceeds maximum allowed '' @ itoa MaxMessageSizeBytes @ '' bytes'')
            ''message'')
        else
        bind_outcome (bounded_field G raw 1 ''toLength'') (\<lambda>to.
        bind_outcome (bounded_field G raw 2 ''fromLength'') (\<lambda>fr.
        bind_outcome (bounded_field G raw 3 ''headerLength'') (\<lambda>hd.
        bind_outcome (size_field G raw 4 ''messageType'') (\<lambda>_.
        bind_outcome (size_field G raw 5 ''dataType'') (\<lambda>_.
        bind_outcome (bounded_field G raw 6 ''payloadDataLength'') (\<lambda>pl.
        Returned \<lparr>len_to = to, len_from = fr, len_header = hd, len_payload = pl\<rparr>))))))))"

definition too_short :: "string \<Rightarrow> int \<Rightarrow> string \<Rightarrow> string \<Rightarrow> DecodeError" where
  "too_short what need raw fld = DecodeErrorWithField ErrCodeDecodeMessageTooShort
     (''message too short for '' @ what @ '', expected at least '' @ itoa need @ '' bytes, got ''
       @ itoa (int (length raw)) @ '' bytes'') fld"

text \<open>\<open>strconv.Atoi\<close> of a trimmed 9-byte field, with the wrapped error.\<close>

definition atoi_field :: "golib \<Rightarrow> string \<Rightarrow> nat \<Rightarrow> string \<Rightarrow> ErrCode \<Rightarrow> (DecodeError, int) outcome" where
  "atoi_field G raw i name c =
     (let s = TrimSpace (TrimRightByte NUL (length_field raw i)) in
      case Atoi s of
        (n, None) \<Rightarrow> Returned n
      | (n, Some e) \<Rightarrow> Failed (WrapDecodeError c
          (''failed to parse '' @ name @ '': '' @ num_error_text (IsPrint G) ''Atoi'' s e) (''Atoi'', s, e)))"

section \<open>Payload\<close>

definition payloadContainsLinkRecords :: "any \<Rightarrow> bool" where
  "payloadContainsLinkRecords d =
     (case d of AString s \<Rightarrow> HasPrefix s ''_link='' | ABytes s \<Rightarrow> HasPrefix s ''_link='' | _ \<Rightarrow> False)"

definition octet_stream :: string where
  "octet_stream = ''application/octet-stream''"

text \<open>
  The tags and links of a GetEvent answer go to the event and to its copy in the records. The tag
  list is a nil slice when the header has no tags.
\<close>

definition tag_slice :: "TagOutput list \<Rightarrow> TagOutput list option" where
  "tag_slice tags = (if tags = [] then None else Some tags)"

definition append_event_record :: "TagOutput list \<Rightarrow> Linked list \<Rightarrow> EventFields \<Rightarrow> ResponseFields \<Rightarrow> ResponseFields" where
  "append_event_record tags links e r =
     (case rs_EventRecords r @ [e] of
        [] \<Rightarrow> r
      | e0 # es \<Rightarrow> r\<lparr>rs_EventRecords := e0\<lparr>ev_Tags := tag_slice tags, ev_Links := Some links\<rparr> # es\<rparr>)"

definition get_event_payload :: "golib \<Rightarrow> range_order \<Rightarrow> strmap \<Rightarrow> Message \<Rightarrow> Message" where
  "get_event_payload G ro h m =
     (if PayloadMimeType m \<noteq> octet_stream \<or> payloadContainsLinkRecords (PayloadData m) then
        (case parseGetEventResponse G ro m (PayloadData m) h of
           None \<Rightarrow> m
         | Some (tags, links) \<Rightarrow>
             (case m_Event m of
                None \<Rightarrow> m
              | Some e \<Rightarrow>
                  (let e' = e\<lparr>ev_Tags := tag_slice tags, ev_Links := Some links\<rparr>
                   in m\<lparr>m_Event := Some e',
                        m_Response := map_option (append_event_record tags links e') (m_Response m)\<rparr>)))
      else m)"

definition parse_payload :: "golib \<Rightarrow> range_order \<Rightarrow> strmap \<Rightarrow> Message \<Rightarrow> Message option" where
  "parse_payload G ro h m =
     (let n = in_Name (m_Intent m); d = PayloadData m; r = ensureResponse m in
      if n = ''GetEvent'' \<or> n = ''GetEventResponse'' then Some (get_event_payload G ro h m)
      else if n = ''GetEventsForTags'' \<or> n = ''GetEventsForTagsResponse'' then
        (let ((events, ok), r') = parseGetEventsForTagsPayload G d r
         in Some (m\<lparr>m_Response := Some (r'\<lparr>rs_EventRecords := events\<rparr>)\<rparr>))
      else if n = ''StoreBatchEvents'' \<or> n = ''StoreBatchEventsResponse'' then
        (case parseStoreBatchEventsPayload d of
           None \<Rightarrow> None
         | Some rec \<Rightarrow> Some (m\<lparr>m_Response := Some (r\<lparr>rs_StoreBatchEventRecord := rec\<rparr>)\<rparr>))
      else if n = ''StoreBatchLinks'' \<or> n = ''StoreBatchLinksResponse'' then
        (case parseLinkEventBatchPayload G d of
           None \<Rightarrow> Some m
         | Some rec \<Rightarrow> Some (m\<lparr>m_Response := Some (r\<lparr>rs_StoreLinkBatchEventRecord := rec\<rparr>)\<rparr>))
      else Some m)"

definition payload_value :: "string \<Rightarrow> string \<Rightarrow> any" where
  "payload_value mime bytes = (if mime = octet_stream then ABytes bytes else AString bytes)"

section \<open>DecodeMessage\<close>

definition set_payload :: "(PayloadFields \<Rightarrow> PayloadFields) \<Rightarrow> Message \<Rightarrow> Message" where
  "set_payload f m = m\<lparr>m_Payload := map_option f (m_Payload m)\<rparr>"

definition decode_from :: "string \<Rightarrow> string" where
  "decode_from s = (case IndexByte s (CHR ''|'') of Some i \<Rightarrow> take i s | None \<Rightarrow> s)"

definition decode_command :: "strmap \<Rightarrow> string" where
  "decode_command h = (case first_of h [''_type'', ''_command'', ''_db_cmd''] of Some c \<Rightarrow> c | None \<Rightarrow> [])"

definition segment :: "string \<Rightarrow> int \<Rightarrow> int \<Rightarrow> string" where
  "segment raw a n = take (nat n) (drop (nat a) raw)"

text \<open>The part after the header: data type, payload and the parsers of the intent.\<close>

definition decode_payload ::
  "golib \<Rightarrow> range_order \<Rightarrow> string \<Rightarrow> int \<Rightarrow> int \<Rightarrow> strmap \<Rightarrow> Message \<Rightarrow> decoded option" where
  "decode_payload G ro raw headerEnd payloadLen h m =
     (if 0 < payloadLen then
        (if int (length raw) < headerEnd + payloadLen then
           Some (decode_failed m (too_short ''payload'' (headerEnd + payloadLen) raw ''payload''))
         else
           (let m1 = set_payload (\<lambda>p. p\<lparr>pl_Data := payload_value (pl_MimeType p) (segment raw headerEnd payloadLen)\<rparr>) m
            in map_option (\<lambda>m2. (m2, None)) (parse_payload G ro h m1)))
      else if in_Name (m_Intent m) = ''GetEvent'' \<or> in_Name (m_Intent m) = ''GetEventResponse'' then
        Some (get_event_payload G ro h m, None)
      else Some (m, None))"

definition decode_body ::
  "golib \<Rightarrow> range_order \<Rightarrow> string \<Rightarrow> int \<Rightarrow> int \<Rightarrow> strmap \<Rightarrow> Message \<Rightarrow> decoded option" where
  "decode_body G ro raw headerEnd payloadLen h m0 =
     (case atoi_field G raw 4 ''messageType'' ErrCodeDecodeInvalidMessageType of
        Panicked \<Rightarrow> None
      | Failed e \<Rightarrow> Some (decode_failed m0 e)
      | Returned messageType \<Rightarrow>
          (let m1 = transformHeaderMaptoMessageStruct h m0; command = decode_command h in
           case lookup_intent messageType command of
             None \<Rightarrow> Some (decode_failed m1 (DecodeErrorWithField ErrCodeDecodeInvalidMessageType
               (''unknown messageType: '' @ itoa messageType @ '' with command: '' @ command) ''messageType''))
           | Some intent \<Rightarrow>
               (let m2 = m1\<lparr>m_Intent := intent\<rparr> in
                case atoi_field G raw 5 ''dataType'' ErrCodeDecodeInvalidDataType of
                  Panicked \<Rightarrow> None
                | Failed e \<Rightarrow> Some (decode_failed m2 e)
                | Returned dt \<Rightarrow>
                    decode_payload G ro raw headerEnd payloadLen h (set_payload (\<lambda>p. p\<lparr>pl_DataType := dt\<rparr>) m2))))"

definition DecodeMessage :: "golib \<Rightarrow> range_order \<Rightarrow> string \<Rightarrow> decoded option" where
  "DecodeMessage G ro raw =
     (case decode_lengths G raw of
        Panicked \<Rightarrow> None
      | Failed e \<Rightarrow> Some (decode_failed zero_Message e)
      | Returned L \<Rightarrow>
          (let toEnd = 63 + len_to L; fromEnd = toEnd + len_from L; headerEnd = fromEnd + len_header L;
               n = int (length raw)
           in if n < toEnd then Some (decode_failed zero_Message (too_short ''to field'' toEnd raw ''to''))
              else if n < fromEnd then Some (decode_failed zero_Message (too_short ''from field'' fromEnd raw ''from''))
              else if n < headerEnd then Some (decode_failed zero_Message (too_short ''header'' headerEnd raw ''header''))
              else
                (case (slice raw 63 toEnd, slice raw toEnd fromEnd, slice raw fromEnd headerEnd) of
                   (Some to, Some from, Some header) \<Rightarrow>
                     decode_body G ro raw headerEnd (len_payload L) (decodeHeader header)
                       (zero_Message\<lparr>m_To := to, m_From := decode_from from\<rparr>)
                 | _ \<Rightarrow> None)))"

section \<open>Facts\<close>

lemma size_field_no_panic [simp]: "size_field G raw i name \<noteq> Panicked"
  by (simp add: size_field_def split: prod.splits option.splits)

lemma bounded_field_no_panic [simp]: "bounded_field G raw i name \<noteq> Panicked"
  by (simp add: bounded_field_def bind_outcome_Panicked_iff)

lemma atoi_field_no_panic [simp]: "atoi_field G raw i name c \<noteq> Panicked"
  by (simp add: atoi_field_def Let_def split: prod.splits option.splits)

lemma size_field_Returned_iff:
  "size_field G raw i name = Returned n \<longleftrightarrow> decodeMessageSizeParam (length_field raw i) = (n, None)"
  by (auto simp: size_field_def split: prod.splits option.splits)

lemma bounded_field_Returned_iff:
  "bounded_field G raw i name = Returned n \<longleftrightarrow>
     decodeMessageSizeParam (length_field raw i) = (n, None) \<and> 0 \<le> n \<and> n \<le> MaxMessageSizeBytes"
  unfolding bounded_field_def bind_outcome_Returned_iff size_field_Returned_iff guard_Returned_iff
  by auto

lemma decode_lengths_no_panic: "decode_lengths G raw \<noteq> Panicked"
  by (simp add: decode_lengths_def bind_outcome_Panicked_iff)

lemma decode_lengths_Returned_iff:
  "decode_lengths G raw = Returned L \<longleftrightarrow>
     63 \<le> length raw \<and> int (length raw) \<le> MaxMessageSizeBytes
     \<and> (\<exists>total. decodeMessageSizeParam (length_field raw 0) = (total, None) \<and> 0 < total \<and> total \<le> MaxMessageSizeBytes)
     \<and> decodeMessageSizeParam (length_field raw 1) = (len_to L, None) \<and> 0 \<le> len_to L \<and> len_to L \<le> MaxMessageSizeBytes
     \<and> decodeMessageSizeParam (length_field raw 2) = (len_from L, None) \<and> 0 \<le> len_from L \<and> len_from L \<le> MaxMessageSizeBytes
     \<and> decodeMessageSizeParam (length_field raw 3) = (len_header L, None) \<and> 0 \<le> len_header L \<and> len_header L \<le> MaxMessageSizeBytes
     \<and> (\<exists>n. decodeMessageSizeParam (length_field raw 4) = (n, None))
     \<and> (\<exists>n. decodeMessageSizeParam (length_field raw 5) = (n, None))
     \<and> decodeMessageSizeParam (length_field raw 6) = (len_payload L, None) \<and> 0 \<le> len_payload L \<and> len_payload L \<le> MaxMessageSizeBytes"
  (is "?l = ?r")
proof -
  have L: "\<lparr>len_to = a, len_from = b, len_header = c, len_payload = d\<rparr> = L \<longleftrightarrow>
     a = len_to L \<and> b = len_from L \<and> c = len_header L \<and> d = len_payload L" for a b c d
    by (cases L) auto
  show ?thesis
    unfolding decode_lengths_def guard_Returned_iff bind_outcome_Returned_iff size_field_Returned_iff
      bounded_field_Returned_iff outcome.inject L
    by (auto simp: not_less)
qed

text \<open>The three slices of a frame that passed the length checks are in bounds.\<close>

lemma frame_slices:
  assumes "decode_lengths G raw = Returned L"
    and "63 + len_to L + len_from L + len_header L \<le> int (length raw)"
  shows "\<exists>to fr h. slice raw 63 (63 + len_to L) = Some to
    \<and> slice raw (63 + len_to L) (63 + len_to L + len_from L) = Some fr
    \<and> slice raw (63 + len_to L + len_from L) (63 + len_to L + len_from L + len_header L) = Some h"
  using assms by (auto simp: decode_lengths_Returned_iff slice_def)

lemma setResponseError_status:
  "ProcessingStatus (setResponseError m e) = ''ERROR''" "ProcessingMessage (setResponseError m e) = e"
  by (simp_all add: setResponseError_def ProcessingStatus_def ProcessingMessage_def)

lemma set_payload_simps [simp]:
  "m_Event (set_payload f m) = m_Event m" "m_Response (set_payload f m) = m_Response m"
  "m_Intent (set_payload f m) = m_Intent m" "m_Payload (set_payload f m) = map_option f (m_Payload m)"
  "m_To (set_payload f m) = m_To m" "m_From (set_payload f m) = m_From m"
  "m_MessageId (set_payload f m) = m_MessageId m"
  by (simp_all add: set_payload_def)

lemma transform_simps [simp]:
  "m_Event (transformHeaderMaptoMessageStruct h m) \<noteq> None"
  "m_Payload (transformHeaderMaptoMessageStruct h m) \<noteq> None"
  "m_Response (transformHeaderMaptoMessageStruct h m) \<noteq> None"
  "m_To (transformHeaderMaptoMessageStruct h m) = m_To m"
  "m_From (transformHeaderMaptoMessageStruct h m) = m_From m"
  by (simp_all add: transformHeaderMaptoMessageStruct_def Let_def set_if_def split: option.splits)

text \<open>What the payload parsers leave alone.\<close>

definition decoded_ok :: "Message \<Rightarrow> bool" where
  "decoded_ok m \<longleftrightarrow> m_Event m \<noteq> None \<and> m_Payload m \<noteq> None \<and> m_Response m \<noteq> None"

definition same_envelope :: "Message \<Rightarrow> Message \<Rightarrow> bool" where
  "same_envelope a b \<longleftrightarrow> m_To a = m_To b \<and> m_From a = m_From b \<and> m_Intent a = m_Intent b
     \<and> m_MessageId a = m_MessageId b \<and> m_Payload a = m_Payload b"

lemma get_event_payload_keeps:
  "same_envelope (get_event_payload G ro h m) m \<and> (decoded_ok m \<longrightarrow> decoded_ok (get_event_payload G ro h m))"
  unfolding get_event_payload_def same_envelope_def decoded_ok_def Let_def
  by (auto split: option.splits prod.splits)

lemma parse_payload_keeps:
  "parse_payload G ro h m = Some m' \<Longrightarrow> same_envelope m' m \<and> (decoded_ok m \<longrightarrow> decoded_ok m')"
  using get_event_payload_keeps [of G ro h m]
  by (auto simp: parse_payload_def Let_def same_envelope_def decoded_ok_def
      split: if_splits option.splits prod.splits)

lemma parse_payload_None_iff:
  "parse_payload G ro h m = None \<longleftrightarrow>
     in_Name (m_Intent m) \<in> {''StoreBatchEvents'', ''StoreBatchEventsResponse''}
     \<and> (\<forall>s. PayloadData m \<noteq> AString s)"
  by (auto simp: parse_payload_def Let_def parseStoreBatchEventsPayload_def
      split: if_splits option.splits prod.splits any.splits)

end
