(* ===== verification/Codec.thy ===== *)
theory Codec
  imports Decoder
begin

text \<open>
  Encoder and decoder against each other. The length block of a frame is an instance of a
  fixed-width interface; on it rest the position of every part of an encoded frame and the round
  trip of a whole message.
\<close>

section \<open>Fixed-width fields\<close>

text \<open>
  A writer and a reader of fields of one width: what is printed for an admissible value has the
  width and reads back.
\<close>

locale fixed_width_fields =
  fixes width :: nat
    and print :: "'f \<Rightarrow> string"
    and parse :: "string \<Rightarrow> 'v"
    and meaning :: "'f \<Rightarrow> 'v"
    and admissible :: "'f \<Rightarrow> bool"
  assumes print_width: "admissible f \<Longrightarrow> length (print f) = width"
    and parse_print: "admissible f \<Longrightarrow> parse (print f) = meaning f"
begin

lemma block_length: "list_all admissible fs \<Longrightarrow> length (concat (map print fs)) = width * length fs"
  by (induction fs) (simp_all add: print_width)

text \<open>Field \<open>i\<close> of a block, whatever follows the block.\<close>

lemma field_at:
  "list_all admissible fs \<Longrightarrow> i < length fs \<Longrightarrow>
     parse (take width (drop (width * i) (concat (map print fs) @ rest))) = meaning (fs ! i)"
proof (induction fs arbitrary: i)
  case (Cons f fs)
  show ?case
  proof (cases i)
    case 0
    then show ?thesis using Cons.prems by (simp add: print_width parse_print)
  next
    case (Suc j)
    then show ?thesis using Cons by (simp add: print_width)
  qed
qed simp

lemma after_block: "list_all admissible fs \<Longrightarrow> drop (width * length fs) (concat (map print fs) @ rest) = rest"
  by (simp add: block_length [symmetric])

end

text \<open>The two kinds of field of the frame: \<open>x%08x\<close> and \<open>%09d\<close>.\<close>

datatype frame_field = HexField nat | DecField int

fun print_field :: "frame_field \<Rightarrow> string" where
  "print_field (HexField n) = hex_field n"
| "print_field (DecField i) = dec9 i"

fun field_meaning :: "frame_field \<Rightarrow> int \<times> (string \<times> num_error) option" where
  "field_meaning (HexField n) = (int n, None)"
| "field_meaning (DecField i) = (i, None)"

fun field_admissible :: "frame_field \<Rightarrow> bool" where
  "field_admissible (HexField n) = (n < 2 ^ 31)"
| "field_admissible (DecField i) = (- (10 ^ 8) < i \<and> i < 10 ^ 9)"

interpretation size: fixed_width_fields 9 print_field decodeMessageSizeParam field_meaning field_admissible
proof
  fix f assume "field_admissible f"
  then show "length (print_field f) = 9"
    by (cases f) (auto simp: length_hex_field length_dec9)
next
  fix f assume "field_admissible f"
  then show "decodeMessageSizeParam (print_field f) = field_meaning f"
    by (cases f) (auto simp: hex_field_def decodeMessageSizeParam_hex decodeMessageSizeParam_dec9)
qed

section \<open>The frame as a block\<close>

definition frame_fields :: "Message \<Rightarrow> string \<Rightarrow> string \<Rightarrow> frame_field list" where
  "frame_fields m header data =
     [HexField (total_length m header data), HexField (length (m_To m)), HexField (length (m_From m)),
      HexField (length header), DecField (in_MessageType (m_Intent m)), DecField (payloadDataType m),
      HexField (length data)]"

text \<open>
  The conditions under which the announced lengths and the layout agree and every length can be
  read back: ASCII texts, a total below \<open>2 ^ 31\<close> and types that fit their nine digits.
\<close>

definition codable :: "Message \<Rightarrow> string \<Rightarrow> string \<Rightarrow> bool" where
  "codable m header data \<longleftrightarrow>
     ascii_text (m_To m) \<and> ascii_text (m_From m) \<and> ascii_text header
     \<and> total_length m header data < 2 ^ 31
     \<and> - (10 ^ 8) < in_MessageType (m_Intent m) \<and> in_MessageType (m_Intent m) < 10 ^ 9
     \<and> - (10 ^ 8) < payloadDataType m \<and> payloadDataType m < 10 ^ 9"

lemma sm_Header_frame [simp]: "sm_Header (frame m h d) = h"
  by (simp add: frame_def)

lemma frame_fields_admissible: "codable m h d \<Longrightarrow> list_all field_admissible (frame_fields m h d)"
  by (auto simp: codable_def frame_fields_def total_length_def)

lemma frame_bytes:
  assumes "codable m h d"
  shows "sm_MessageBytes (frame m h d) =
     concat (map print_field (frame_fields m h d)) @ m_To m @ m_From m @ h @ d"
  using assms by (simp add: codable_def frame_def frame_fields_def)

lemma length_frame:
  assumes "codable m h d"
  shows "length (sm_MessageBytes (frame m h d)) = 63 + length (m_To m) + length (m_From m) + length h + length d"
  using size.block_length [OF frame_fields_admissible [OF assms]]
  by (simp add: frame_bytes [OF assms] frame_fields_def)

lemma total_length_eq:
  assumes "codable m h d"
  shows "total_length m h d = 63 + length (m_To m) + length (m_From m) + length h + length d"
  using assms by (simp add: total_length_def codable_def length_dec9)

lemma frame_field_at:
  assumes "codable m h d" and "i < 7"
  shows "decodeMessageSizeParam (length_field (sm_MessageBytes (frame m h d)) i)
     = field_meaning (frame_fields m h d ! i)"
  using size.field_at [OF frame_fields_admissible [OF assms(1)], of i "m_To m @ m_From m @ h @ d"] assms(2)
  by (simp add: length_field_def frame_bytes [OF assms(1)] frame_fields_def)

lemma frame_rest:
  assumes "codable m h d"
  shows "drop 63 (sm_MessageBytes (frame m h d)) = m_To m @ m_From m @ h @ d"
  using size.after_block [OF frame_fields_admissible [OF assms], of "m_To m @ m_From m @ h @ d"]
  by (simp add: frame_bytes [OF assms] frame_fields_def)

definition frame_lengths :: "Message \<Rightarrow> string \<Rightarrow> string \<Rightarrow> Lengths" where
  "frame_lengths m h d = \<lparr>len_to = int (length (m_To m)), len_from = int (length (m_From m)),
     len_header = int (length h), len_payload = int (length d)\<rparr>"

lemma decode_lengths_frame:
  assumes "codable m h d"
  shows "decode_lengths G (sm_MessageBytes (frame m h d)) = Returned (frame_lengths m h d)"
proof -
  have small: "total_length m h d < 2 ^ 31" using assms by (simp add: codable_def)
  have total: "total_length m h d = 63 + length (m_To m) + length (m_From m) + length h + length d"
    by (rule total_length_eq [OF assms])
  have field: "decodeMessageSizeParam (length_field (sm_MessageBytes (frame m h d)) i)
      = field_meaning (frame_fields m h d ! i)" if "i < 7" for i
    using assms that by (rule frame_field_at)
  show ?thesis
    unfolding decode_lengths_Returned_iff using small total length_frame [OF assms]
    by (simp add: field frame_fields_def frame_lengths_def MaxMessageSizeBytes_def)
qed

lemma frame_slices_eq:
  fixes m :: Message
  assumes "codable m h d"
  defines "raw \<equiv> sm_MessageBytes (frame m h d)"
  shows "slice raw 63 (63 + int (length (m_To m))) = Some (m_To m)"
    and "slice raw (63 + int (length (m_To m))) (63 + int (length (m_To m)) + int (length (m_From m))) = Some (m_From m)"
    and "slice raw (63 + int (length (m_To m)) + int (length (m_From m)))
           (63 + int (length (m_To m)) + int (length (m_From m)) + int (length h)) = Some h"
    and "segment raw (63 + int (length (m_To m)) + int (length (m_From m)) + int (length h)) (int (length d)) = d"
proof -
  obtain blk where raw: "raw = blk @ m_To m @ m_From m @ h @ d" and blk: "length blk = 63"
    using size.block_length [OF frame_fields_admissible [OF assms(1)]]
    by (simp add: raw_def frame_bytes [OF assms(1)] frame_fields_def)
  show "slice raw 63 (63 + int (length (m_To m))) = Some (m_To m)"
    unfolding raw using blk by (intro slice_append3) auto
  show "slice raw (63 + int (length (m_To m))) (63 + int (length (m_To m)) + int (length (m_From m))) = Some (m_From m)"
    using slice_append3 [of "blk @ m_To m" _ "m_From m" _ "h @ d"] blk by (simp add: raw)
  show "slice raw (63 + int (length (m_To m)) + int (length (m_From m)))
           (63 + int (length (m_To m)) + int (length (m_From m)) + int (length h)) = Some h"
    using slice_append3 [of "blk @ m_To m @ m_From m" _ h _ d] blk by (simp add: raw add.assoc)
  show "segment raw (63 + int (length (m_To m)) + int (length (m_From m)) + int (length h)) (int (length d)) = d"
    using blk by (simp add: segment_def raw nat_add_distrib)
qed

text \<open>Decoding an encoded frame reaches the body with exactly the parts that were encoded.\<close>

lemma DecodeMessage_frame:
  assumes "codable m h d"
  shows "DecodeMessage G ro (sm_MessageBytes (frame m h d)) =
     decode_body G ro (sm_MessageBytes (frame m h d))
       (63 + int (length (m_To m)) + int (length (m_From m)) + int (length h)) (int (length d))
       (decodeHeader h) (zero_Message\<lparr>m_To := m_To m, m_From := decode_from (m_From m)\<rparr>)"
  using length_frame [OF assms] frame_slices_eq [OF assms] decode_lengths_frame [OF assms, of G]
  by (simp add: DecodeMessage_def frame_lengths_def)

lemma atoi_field_frame:
  assumes "codable m h d" and "i = 4 \<and> v = in_MessageType (m_Intent m) \<or> i = 5 \<and> v = payloadDataType m"
  shows "atoi_field G (sm_MessageBytes (frame m h d)) i name c = Returned v"
proof -
  have 1: "length_field (sm_MessageBytes (frame m h d)) i = dec9 v"
  proof -
    have l: "length (print_field (frame_fields m h d ! j)) = 9" if "j < 7" for j
      using size.print_width frame_fields_admissible [OF assms(1)] that
      by (simp add: list_all_length frame_fields_def)
    from l [of 0] l [of 1] l [of 2] l [of 3] l [of 4] l [of 5] show ?thesis
      using assms(2)
      by (auto simp: length_field_def frame_bytes [OF assms(1)] frame_fields_def)
  qed
  have "Atoi (dec9 v) = (v, None)"
    using assms by (intro Atoi_dec9) (auto simp: codable_def)
  then show ?thesis by (simp add: atoi_field_def 1 TrimSpace_dec9)
qed

section \<open>Encoded messages\<close>

lemma lookup_intent_type_bounds: "lookup_intent t c = Some i \<Longrightarrow> 0 \<le> t \<and> t \<le> 65536"
proof -
  have all: "list_all (\<lambda>i. 0 \<le> in_MessageType i \<and> in_MessageType i \<le> 65536) allIntents"
    by (simp add: allIntents_def IT_defs)
  have int: "0 \<le> t \<and> t \<le> 65536" if "intentFromMessageTypeInt t = Some j" for j
    using that all by (auto simp: intentFromMessageTypeInt_def find_Some_iff list_all_length)
  assume "lookup_intent t c = Some i"
  then have "t \<in> {1000, 1001, 11} \<or> (\<exists>j. intentFromMessageTypeInt t = Some j)"
    by (auto simp: lookup_intent_def IntentFromMessageTypeAndCommand_def split: option.splits if_splits)
  then show ?thesis using int by auto
qed

text \<open>What an encoded message has to satisfy, stated on the message and the encoder's result.\<close>

definition wire_safe :: "Message \<Rightarrow> SocketMessage \<Rightarrow> bool" where
  "wire_safe m sm \<longleftrightarrow>
     ascii_text (m_To m) \<and> ascii_text (m_From m) \<and> ascii_text (sm_Header sm)
     \<and> length (sm_MessageBytes sm) < 2 ^ 31
     \<and> - (10 ^ 8) < payloadDataType m \<and> payloadDataType m < 10 ^ 9
     \<and> lookup_intent (in_MessageType (m_Intent m)) (decode_command (decodeHeader (sm_Header sm))) = Some (m_Intent m)"

lemma wire_safe_codable:
  assumes "int (total_length m h d) \<le> MaxMessageSizeBytes" and "wire_safe m (frame m h d)"
  shows "codable m h d"
proof -
  have ty: "0 \<le> in_MessageType (m_Intent m)" "in_MessageType (m_Intent m) \<le> 65536"
    using assms(2) lookup_intent_type_bounds by (auto simp: wire_safe_def)
  have dt: "- (10 ^ 8) < payloadDataType m" "payloadDataType m < 10 ^ 9"
    using assms(2) by (auto simp: wire_safe_def)
  have d9: "length (dec9 (in_MessageType (m_Intent m))) = 9" "length (dec9 (payloadDataType m)) = 9"
    using ty dt by (simp_all add: length_dec9)
  have total: "total_length m h d \<le> 2 ^ 31"
    using assms(1) by (simp add: MaxMessageSizeBytes_def)
  then have "length (m_To m) < 2 ^ 32" "length (m_From m) < 2 ^ 32" "length h < 2 ^ 32" "length d < 2 ^ 32"
    "total_length m h d < 2 ^ 32"
    by (simp_all add: total_length_def)
  then have "length (sm_MessageBytes (frame m h d)) = total_length m h d"
    using assms(2) d9 by (simp add: frame_def wire_safe_def length_hex_field total_length_def)
  then show ?thesis using assms(2) ty dt by (auto simp: wire_safe_def codable_def)
qed

text \<open>The message the decoder has before the payload parsers run.\<close>

definition decoded_envelope :: "Message \<Rightarrow> strmap \<Rightarrow> Message" where
  "decoded_envelope m h = set_payload (\<lambda>p. p\<lparr>pl_DataType := payloadDataType m\<rparr>)
     ((transformHeaderMaptoMessageStruct h (zero_Message\<lparr>m_To := m_To m, m_From := decode_from (m_From m)\<rparr>))
        \<lparr>m_Intent := m_Intent m\<rparr>)"

lemma DecodeMessage_encoded:
  assumes "codable m h d"
    and "lookup_intent (in_MessageType (m_Intent m)) (decode_command (decodeHeader h)) = Some (m_Intent m)"
  shows "DecodeMessage G ro (sm_MessageBytes (frame m h d)) =
     decode_payload G ro (sm_MessageBytes (frame m h d))
       (63 + int (length (m_To m)) + int (length (m_From m)) + int (length h)) (int (length d))
       (decodeHeader h) (decoded_envelope m (decodeHeader h))"
  using assms atoi_field_frame [OF assms(1)]
  by (simp add: DecodeMessage_frame decode_body_def decoded_envelope_def Let_def)

lemma decoded_envelope_simps:
  "m_To (decoded_envelope m h) = m_To m" "m_From (decoded_envelope m h) = decode_from (m_From m)"
  "m_Intent (decoded_envelope m h) = m_Intent m" "m_MessageId (decoded_envelope m h) = get_or [] h ''_msg_id''"
  "m_Event (decoded_envelope m h) = Some (decodeEventFields h zero_EventFields)"
  "m_Response (decoded_envelope m h) = Some (header_response h zero_ResponseFields)"
  "m_Payload (decoded_envelope m h) =
     Some ((header_payload h zero_PayloadFields)\<lparr>pl_DataType := payloadDataType m\<rparr>)"
  by (simp_all add: decoded_envelope_def transformHeaderMaptoMessageStruct_def Let_def set_if_def
      zero_Message_def ensureEvent_def ensurePayload_def ensureResponse_def get_or_def split: option.splits)

lemma decoded_envelope_ok: "decoded_ok (decoded_envelope m h)"
  by (simp add: decoded_ok_def decoded_envelope_simps)

lemma header_payload_mime: "pl_MimeType (header_payload h zero_PayloadFields) =
    (case first_of h [''mime'', ''_mimetype''] of Some v \<Rightarrow> v | None \<Rightarrow> [])"
  by (auto simp: header_payload_def Let_def set_int_def set_if_def zero_PayloadFields_def
      split: option.splits Option.bind_splits)

definition header_mime :: "strmap \<Rightarrow> string" where
  "header_mime h = (case first_of h [''mime'', ''_mimetype''] of Some v \<Rightarrow> v | None \<Rightarrow> [])"

lemma decode_payload_frame:
  assumes "codable m h d"
    and "in_Name (m_Intent m) \<in> {''StoreBatchEvents'', ''StoreBatchEventsResponse''} \<Longrightarrow>
           d = [] \<or> header_mime (decodeHeader h) \<noteq> octet_stream"
  shows "\<exists>r. decode_payload G ro (sm_MessageBytes (frame m h d))
       (63 + int (length (m_To m)) + int (length (m_From m)) + int (length h)) (int (length d))
       (decodeHeader h) (decoded_envelope m (decodeHeader h)) = Some (r, None)
     \<and> decoded_ok r \<and> m_To r = m_To m \<and> m_From r = decode_from (m_From m) \<and> m_Intent r = m_Intent m
     \<and> m_MessageId r = get_or [] (decodeHeader h) ''_msg_id''
     \<and> PayloadData r = (if d = [] then ANil else payload_value (header_mime (decodeHeader h)) d)"
proof (cases "d = []")
  case True
  let ?e = "decoded_envelope m (decodeHeader h)"
  have "PayloadData ?e = ANil"
    by (simp add: PayloadData_def decoded_envelope_simps header_payload_def Let_def set_int_def set_if_def
        zero_PayloadFields_def split: option.splits Option.bind_splits)
  then show ?thesis
    using get_event_payload_keeps [of G ro "decodeHeader h" ?e] decoded_envelope_ok [of m "decodeHeader h"] True
    by (auto simp: decode_payload_def same_envelope_def decoded_envelope_simps PayloadData_def)
next
  case False
  let ?e = "decoded_envelope m (decodeHeader h)"
  define e1 where "e1 = set_payload (\<lambda>p. p\<lparr>pl_Data := payload_value (pl_MimeType p) d\<rparr>) ?e"
  have seg: "segment (sm_MessageBytes (frame m h d))
       (63 + int (length (m_To m)) + int (length (m_From m)) + int (length h)) (int (length d)) = d"
    by (rule frame_slices_eq [OF assms(1)])
  have data: "PayloadData e1 = payload_value (header_mime (decodeHeader h)) d"
    by (simp add: PayloadData_def e1_def decoded_envelope_simps header_payload_mime header_mime_def)
  have "parse_payload G ro (decodeHeader h) e1 \<noteq> None"
    using assms(2) False unfolding parse_payload_None_iff data
    by (auto simp: e1_def decoded_envelope_simps payload_value_def)
  then obtain r where r: "parse_payload G ro (decodeHeader h) e1 = Some r" by auto
  have "decoded_ok e1"
    by (simp add: e1_def decoded_ok_def decoded_envelope_simps)
  with parse_payload_keeps [OF r] have "same_envelope r e1" "decoded_ok r" by auto
  moreover have "PayloadData r = PayloadData e1" using \<open>same_envelope r e1\<close>
    by (simp add: same_envelope_def PayloadData_def)
  ultimately show ?thesis
    using False r seg data length_frame [OF assms(1)]
    by (auto simp: decode_payload_def e1_def same_envelope_def decoded_envelope_simps)
qed

end
