(* ===== verification/Roundtrip.thy ===== *)
theory Roundtrip
  imports Codec
begin

text \<open>
  Headers as field lists, so that what the decoder reads back from an encoded header can be
  stated field by field, and the properties of the codec as a whole.
\<close>

section \<open>Headers as fields\<close>

definition fields_text :: "strmap \<Rightarrow> string" where
  "fields_text fs = concat (map (\<lambda>f. field_text f @ [TAB]) fs)"

definition opt_field :: "bool \<Rightarrow> string \<Rightarrow> string \<Rightarrow> strmap" where
  "opt_field b k v = (if b then [(k, v)] else [])"

definition clean_fields :: "strmap \<Rightarrow> bool" where
  "clean_fields fs \<longleftrightarrow> (\<forall>(k, v) \<in> set fs. clean_key k \<and> clean_value v)"

definition tail_field :: "Message \<Rightarrow> strmap" where
  "tail_field m = opt_field (m_MessageId m \<noteq> []) ''_msg_id'' (m_MessageId m)"

lemma fields_text_simps [simp]:
  "fields_text [] = []" "fields_text (fs @ gs) = fields_text fs @ fields_text gs"
  "fields_text (f # fs) = field_text f @ TAB # fields_text fs"
  by (simp_all add: fields_text_def)

lemma kv_field: "kv k v = fields_text [(k, v)]"
  by (simp add: kv_def field_text_def)

lemma kv_if_field: "kv_if b k v = fields_text (opt_field b k v)"
  by (simp add: kv_if_def opt_field_def kv_field)

lemma kv_nonempty_field: "kv_nonempty k v = fields_text (opt_field (v \<noteq> []) k v)"
  by (simp add: kv_nonempty_def kv_if_field)

lemmas kv_fields = kv_field kv_if_field kv_nonempty_field

text \<open>A header that ends in the message-id field without a tab.\<close>

lemma decodeHeader_fields_text:
  "clean_fields fs \<Longrightarrow> decodeHeader (fields_text fs) = update_all fs []"
  using decodeHeader_fields [of fs] by (auto simp: fields_text_def clean_fields_def)

lemma decodeHeader_tail:
  assumes "clean_fields (fs @ tail_field m)"
  shows "decodeHeader (fields_text fs @ msg_id_tail m) = update_all (fs @ tail_field m) []"
proof (cases "m_MessageId m = []")
  case True
  then show ?thesis using assms decodeHeader_fields_text [of fs]
    by (simp add: tail_field_def opt_field_def msg_id_tail_def)
next
  case False
  then have "msg_id_tail m = field_text (''_msg_id'', m_MessageId m)"
    by (simp add: msg_id_tail_def field_text_def)
  with False show ?thesis
    using assms decodeHeader_fields_tail [of fs "''_msg_id''" "m_MessageId m"]
    by (auto simp: tail_field_def opt_field_def clean_fields_def fields_text_def)
qed

lemma map_of_fields: "map_of (update_all fs []) k = map_of (rev fs) k"
  by (simp add: map_of_update_all split: option.splits)

fun tag_header_fields :: "golib \<Rightarrow> nat \<Rightarrow> TagList \<Rightarrow> strmap" where
  "tag_header_fields G i [] = []"
| "tag_header_fields G i (t # ts) =
     (''tag_'' @ pad0 4 (digits 10 (i + 1)),
      itoa (tag_Frequency t) @ '':'' @ tag_Key t @ ''='' @ SerializeTagValue G (tag_Value t))
     # tag_header_fields G (i + 1) ts"

lemma header_tags_fields: "header_tags G i ts = fields_text (tag_header_fields G i ts)"
  by (induction G i ts rule: header_tags.induct) (simp_all add: kv_field)

lemma tag_header_keys: "(k, v) \<in> set (tag_header_fields G i ts) \<Longrightarrow> \<exists>r. k = ''tag_'' @ r"
  by (induction G i ts rule: tag_header_fields.induct) auto

lemma map_of_tag_header_fields:
  "\<not> HasPrefix k ''tag_'' \<Longrightarrow> map_of (rev (tag_header_fields G i ts)) k = None"
  using tag_header_keys by (fastforce simp: map_of_eq_None_iff HasPrefix_iff)

definition store_event_fields :: "golib \<Rightarrow> int \<Rightarrow> Message \<Rightarrow> EventFields \<Rightarrow> strmap" where
  "store_event_fields G now m e =
     [(''_db_cmd'', ''store'')]
     @ opt_field (ev_UniqueId e \<noteq> []) ''unique_id'' (ev_UniqueId e)
     @ opt_field (ev_Id e \<noteq> []) ''event_id'' (forceASCII (ev_Id e))
     @ opt_field (ev_Owner e \<noteq> []) ''owner'' (ev_Owner e)
     @ [(''timestamp'', if ev_Timestamp e \<noteq> [] then ev_Timestamp e else GetTimestamp now),
        (''loc_delim'', ev_LocationSeparator e), (''loc'', ev_Location e),
        (''type'', if ev_Type e \<noteq> [] then ev_Type e else ''store event''),
        (''mime'', PayloadMimeType m)]
     @ tag_header_fields G 0 (Tags m)"

lemma StoreEventMessageHeader_fields:
  "m_Event m = Some e \<Longrightarrow>
     StoreEventMessageHeader G now m = Some (fields_text (store_event_fields G now m e) @ msg_id_tail m)"
  by (simp add: StoreEventMessageHeader_def store_event_fields_def timestamp_or_now_def kv_fields
      header_tags_fields)


lemma store_event_lookup:
  assumes "\<not> HasPrefix k ''tag_''"
  shows "map_of (update_all (store_event_fields G now m e @ tail_field m) []) k =
    (if k = ''_msg_id'' \<and> m_MessageId m \<noteq> [] then Some (m_MessageId m)
     else if k = ''mime'' then Some (PayloadMimeType m)
     else if k = ''type'' then Some (if ev_Type e \<noteq> [] then ev_Type e else ''store event'')
     else if k = ''loc'' then Some (ev_Location e)
     else if k = ''loc_delim'' then Some (ev_LocationSeparator e)
     else if k = ''timestamp'' then Some (if ev_Timestamp e \<noteq> [] then ev_Timestamp e else GetTimestamp now)
     else if k = ''owner'' \<and> ev_Owner e \<noteq> [] then Some (ev_Owner e)
     else if k = ''event_id'' \<and> ev_Id e \<noteq> [] then Some (forceASCII (ev_Id e))
     else if k = ''unique_id'' \<and> ev_UniqueId e \<noteq> [] then Some (ev_UniqueId e)
     else if k = ''_db_cmd'' then Some ''store'' else None)"
proof -
  have "map_of (update_all (store_event_fields G now m e @ tail_field m) []) k
      = map_of (rev (store_event_fields G now m e @ tail_field m)) k"
    by (rule map_of_fields)
  also have "\<dots> = (case map_of (rev (tail_field m)) k of Some v \<Rightarrow> Some v | None \<Rightarrow>
      map_of (rev (store_event_fields G now m e)) k)"
    by (simp add: map_add_def)
  also have "map_of (rev (store_event_fields G now m e)) k =
    (if k = ''mime'' then Some (PayloadMimeType m)
     else if k = ''type'' then Some (if ev_Type e \<noteq> [] then ev_Type e else ''store event'')
     else if k = ''loc'' then Some (ev_Location e)
     else if k = ''loc_delim'' then Some (ev_LocationSeparator e)
     else if k = ''timestamp'' then Some (if ev_Timestamp e \<noteq> [] then ev_Timestamp e else GetTimestamp now)
     else if k = ''owner'' \<and> ev_Owner e \<noteq> [] then Some (ev_Owner e)
     else if k = ''event_id'' \<and> ev_Id e \<noteq> [] then Some (forceASCII (ev_Id e))
     else if k = ''unique_id'' \<and> ev_UniqueId e \<noteq> [] then Some (ev_UniqueId e)
     else if k = ''_db_cmd'' then Some ''store'' else None)"
    using assms by (simp add: store_event_fields_def map_add_def map_of_tag_header_fields opt_field_def)
  finally show ?thesis by (simp add: tail_field_def opt_field_def)
qed

lemma forceASCII_idem [simp]: "forceASCII (forceASCII s) = forceASCII s"
  by (simp add: forceASCII_filter)

lemma forceASCII_Nil [simp]: "forceASCII [] = []"
  by (simp add: forceASCII_filter)

lemma decode_location_none:
  "(\<And>i. i \<in> {1..9} \<Longrightarrow> first_of h [''_coordinate_0'' @ itoa i, ''coordinate_0'' @ itoa i] = None) \<Longrightarrow>
     decode_location h = []"
  by (simp add: decode_location_def coordinate_def TrimRightByte_def)

text \<open>
  Claim C8. What a StoreEvent header says about the event comes back from the decoder: unique id,
  id (its ASCII part), owner, type, timestamp, MIME type, message id and command. The location
  does not: the header carries \<open>loc\<close>, the decoder reads \<open>coordinate_0n\<close>.
\<close>

theorem store_event_header_roundtrip:
  assumes "m_Event m = Some e" and "clean_fields (store_event_fields G now m e @ tail_field m)"
  shows "\<exists>h. StoreEventMessageHeader G now m = Some h
    \<and> (let d = decodeHeader h; e' = decodeEventFields d zero_EventFields in
         ev_UniqueId e' = ev_UniqueId e \<and> ev_Id e' = forceASCII (ev_Id e) \<and> ev_Owner e' = ev_Owner e
         \<and> ev_Type e' = (if ev_Type e \<noteq> [] then ev_Type e else ''store event'')
         \<and> ev_Timestamp e' = (if ev_Timestamp e \<noteq> [] then ev_Timestamp e else GetTimestamp now)
         \<and> ev_Location e' = [] \<and> header_mime d = PayloadMimeType m
         \<and> get_or [] d ''_msg_id'' = m_MessageId m \<and> decode_command d = ''store'')"
proof -
  define d where "d = update_all (store_event_fields G now m e @ tail_field m) []"
  have d: "decodeHeader (fields_text (store_event_fields G now m e) @ msg_id_tail m) = d"
    unfolding d_def by (rule decodeHeader_tail [OF assms(2)])
  note look = store_event_lookup [of _ G now m e, folded d_def]
  have loc: "decode_location d = []"
    by (rule decode_location_none) (simp add: look)
  show ?thesis
    unfolding StoreEventMessageHeader_fields [OF assms(1)] d Let_def
    by (simp add: d decodeEventFields_def Let_def look loc set_if_def set_int_def zero_EventFields_def
        header_mime_def get_or_def decode_command_def)
qed

section \<open>Concrete inputs\<close>

text \<open>A library that prints whole numbers exactly, and messages of several intents.\<close>

definition sample_f64_text :: "f64 \<Rightarrow> string" where
  "sample_f64_text x = (case x of F64NaN \<Rightarrow> ''NaN'' | F64Inf s \<Rightarrow> (if s then ''-Inf'' else ''+Inf'')
     | F64Fin s m e \<Rightarrow> (if s then ''-'' else []) @ digits 10 (m * 2 ^ nat e))"

definition sample_lib :: golib where
  "sample_lib = \<lparr>FormatFloat64 = sample_f64_text, FormatFloat32 = sample_f64_text, Sprint_f64 = sample_f64_text,
     ParseFloat = (\<lambda>s. map_option (\<lambda>n. F64Fin (n < 0) (nat \<bar>n\<bar>) 0) (Atoi_ok s)), IsPrint = (\<lambda>r. True)\<rparr>"

definition sample_order :: range_order where
  "sample_order = \<lparr>ro_header = id, ro_links = id\<rparr>"

definition sample_message :: "Intent \<Rightarrow> Message" where
  "sample_message i = zero_Message\<lparr>m_To := ''mem@gw'', m_From := ''me@gw|r'', m_Intent := i,
     m_ClientName := ''me'', m_MessageId := ''m1''\<rparr>"

definition sample_echo :: Message where
  "sample_echo = (sample_message IT_ActorEcho)
     \<lparr>m_Payload := Some (zero_PayloadFields\<lparr>pl_Data := AString ''hi''\<rparr>)\<rparr>"

definition sample_batch :: Message where
  "sample_batch = (sample_message IT_StoreBatchEvents)
     \<lparr>m_Payload := Some (zero_PayloadFields\<lparr>pl_Data := AString ''loc=a''\<rparr>)\<rparr>"

definition sample_unlink :: Message where
  "sample_unlink = sample_message IT_UnlinkEvent"

definition sample_store :: Message where
  "sample_store = (sample_message IT_StoreEvent)
     \<lparr>m_Event := Some (zero_EventFields\<lparr>ev_UniqueId := ''u1'', ev_Owner := ''$sys'', ev_Timestamp := ''+1.000000'',
        ev_Location := ''TERRA|1'', ev_LocationSeparator := ''|''\<rparr>),
      m_Payload := Some (zero_PayloadFields\<lparr>pl_Data := AString ''x'', pl_MimeType := ''text/plain''\<rparr>)\<rparr>"

section \<open>Properties of the codec\<close>

lemma encoded_decodes:
  assumes "EncodeMessage G now (Some m) = Returned sm" and "wire_safe m sm"
    and "encode_payload G m = Returned data"
    and "in_Name (m_Intent m) \<in> {''StoreBatchEvents'', ''StoreBatchEventsResponse''} \<Longrightarrow>
           data = [] \<or> header_mime (decodeHeader (sm_Header sm)) \<noteq> octet_stream"
  shows "\<exists>r. DecodeMessage G ro (sm_MessageBytes sm) = Some (r, None)
     \<and> m_To r = m_To m \<and> m_From r = decode_from (m_From m) \<and> m_Intent r = m_Intent m
     \<and> m_MessageId r = get_or [] (decodeHeader (sm_Header sm)) ''_msg_id''
     \<and> PayloadData r = (if data = [] then ANil
          else payload_value (header_mime (decodeHeader (sm_Header sm))) data)"
proof -
  obtain h where sm: "sm = frame m h data" "int (total_length m h data) \<le> MaxMessageSizeBytes"
    using assms(1,3) by (auto simp: EncodeMessage_Returned_iff)
  have c: "codable m h data" using wire_safe_codable sm assms(2) by simp
  have "lookup_intent (in_MessageType (m_Intent m)) (decode_command (decodeHeader h)) = Some (m_Intent m)"
    using assms(2) sm by (simp add: wire_safe_def)
  then show ?thesis
    using DecodeMessage_encoded [OF c, of G ro] decode_payload_frame [OF c, of G ro] assms(4) sm(1)
    by auto
qed



text \<open>
  Claim C3. Bytes of a frame: whatever the message, an encoded frame is never longer than the
  total length it announces, which is at most the maximum of 2 GiB; and it has exactly the
  announced length if and only if To, From and the header are ASCII. With a byte beyond ASCII the
  announced lengths are wrong, since \<open>forceASCII\<close> runs after they are computed.
\<close>

theorem encoded_length_announced:
  assumes "EncodeMessage G now (Some m) = Returned sm"
  shows "\<exists>data. encode_payload G m = Returned data
     \<and> int (length (sm_MessageBytes sm)) \<le> int (total_length m (sm_Header sm) data)
     \<and> int (total_length m (sm_Header sm) data) \<le> MaxMessageSizeBytes
     \<and> (length (sm_MessageBytes sm) = total_length m (sm_Header sm) data \<longleftrightarrow>
          ascii_text (m_To m) \<and> ascii_text (m_From m) \<and> ascii_text (sm_Header sm))"
proof -
  obtain h d where sm: "sm = frame m h d" "int (total_length m h d) \<le> MaxMessageSizeBytes"
    and d: "encode_payload G m = Returned d"
    using assms by (auto simp: EncodeMessage_Returned_iff)
  have "length (m_To m) < 2 ^ 32" "length (m_From m) < 2 ^ 32" "length h < 2 ^ 32" "length d < 2 ^ 32"
    "total_length m h d < 2 ^ 32"
    using sm(2) by (simp_all add: total_length_def MaxMessageSizeBytes_def)
  then have len: "length (sm_MessageBytes sm) + (length (m_To m) + length (m_From m) + length h)
      = total_length m h d + (length (forceASCII (m_To m)) + length (forceASCII (m_From m)) + length (forceASCII h))"
    by (simp add: sm(1) frame_def length_hex_field total_length_def)
  have le: "length (forceASCII s) \<le> length s" for s
    by (simp add: forceASCII_filter)
  have eq: "length (forceASCII s) = length s \<longleftrightarrow> ascii_text s" for s
    by (simp add: length_forceASCII ascii_text_def)
  have "length (sm_MessageBytes sm) = total_length m h d \<longleftrightarrow>
      length (forceASCII (m_To m)) = length (m_To m) \<and> length (forceASCII (m_From m)) = length (m_From m)
      \<and> length (forceASCII h) = length h"
    using len le [of "m_To m"] le [of "m_From m"] le [of h] by linarith
  moreover have "length (sm_MessageBytes sm) \<le> total_length m h d"
    using len le [of "m_To m"] le [of "m_From m"] le [of h] by linarith
  ultimately show ?thesis using d sm by (simp add: eq)
qed

theorem encoded_length_announced_witness:
  "int (length (sm_MessageBytes (frame sample_echo ''_msg_id=m1'' ''hi''))) \<le> MaxMessageSizeBytes"
proof -
  have "EncodeMessage sample_lib 0 (Some sample_echo) = Returned (frame sample_echo ''_msg_id=m1'' ''hi'')"
    by code_simp
  from encoded_length_announced [OF this] show ?thesis by auto
qed

text \<open>
  The size fields: what the encoder prints for a length is what the decoder reads,
  exactly for lengths below \<open>2 ^ 31\<close>. From \<open>2 ^ 31\<close> on, the length the encoder still accepts as the
  maximum included, the decoder's 32-bit signed parse fails with a range error.
\<close>

lemma size_field_roundtrip:
  "decodeMessageSizeParam (hex_field n)
     = (if n < 2 ^ 31 then (int n, None) else (2 ^ 31 - 1, Some (hex8 n, ErrRange)))"
  by (simp add: hex_field_def decodeMessageSizeParam_hex)

lemma EncodeMessage_Panicked_iff:
  "EncodeMessage G now (Some m) = Panicked \<longleftrightarrow>
     check_payload_size (PayloadData m) = None \<and> check_link_event m = None
     \<and> (in_Name (m_Intent m) \<in> set header_needs_event \<and> m_Event m = None
        \<or> in_Name (m_Intent m) \<in> set header_needs_link \<and> Link m = None
        \<or> address_ok (m_To m) \<and> address_ok (m_From m)
          \<and> in_Name (m_Intent m) \<notin> {''GatewayId'', ''GatewayStreamOn'', ''StoreBatchEvents'', ''StoreBatchLinks'', ''StoreBatchTags''}
          \<and> payload_general (PayloadData m) = None)"
proof -
  have links: "payload_store_batch_links G d \<noteq> Panicked" for d
    using FormatBatchLinkEventsPayload_no_panic by (cases d) auto
  have payload: "encode_payload G m = Panicked \<longleftrightarrow>
      in_Name (m_Intent m) \<notin> {''GatewayId'', ''GatewayStreamOn'', ''StoreBatchEvents'', ''StoreBatchLinks'', ''StoreBatchTags''}
      \<and> payload_general (PayloadData m) = None"
    by (auto simp: encode_payload_def Let_def IT_defs no_panic_Panicked_iff links)
  have frame: "encode_frame m h d \<noteq> Panicked" for h d
    by (simp add: encode_frame_def)
  show ?thesis
    by (simp add: encode_simps payload frame check_to_None_iff check_from_None_iff
        ConstructHeader_None_iff [symmetric]) (auto simp: ConstructHeader_None_iff)
qed

text \<open>
  Claim C6. Panics of the encoder, exactly: after the size and link checks pass, either the header
  function of the intent dereferences a nil event or a nil link, or, with valid addresses, the
  payload of an intent without a format of its own is neither nil nor a string nor a list of
  strings (a byte slice, for instance).
\<close>

theorem encode_panics_iff:
  "EncodeMessage G now (Some m) = Panicked \<longleftrightarrow>
     check_payload_size (PayloadData m) = None \<and> check_link_event m = None
     \<and> (in_Name (m_Intent m) \<in> set header_needs_event \<and> m_Event m = None
        \<or> in_Name (m_Intent m) \<in> set header_needs_link \<and> Link m = None
        \<or> address_ok (m_To m) \<and> address_ok (m_From m)
          \<and> in_Name (m_Intent m) \<notin> {''GatewayId'', ''GatewayStreamOn'', ''StoreBatchEvents'', ''StoreBatchLinks'', ''StoreBatchTags''}
          \<and> PayloadData m \<noteq> ANil \<and> (\<forall>s. PayloadData m \<noteq> AString s) \<and> (\<forall>ss. PayloadData m \<noteq> AStrings ss))"
  unfolding EncodeMessage_Panicked_iff payload_general_None_iff by blast


definition sample_link_message :: Message where
  "sample_link_message = (sample_message IT_LinkEvent)
     \<lparr>m_Event := Some zero_EventFields,
      m_NeuralMemory := Some (zero_NeuralMemoryFields\<lparr>nm_Link := Some (zero_LinkFields
        \<lparr>lk_StrengthA := F64Fin False 1 0, lk_StrengthB := F64Fin True 2 0, lk_Category := ''c''\<rparr>)\<rparr>)\<rparr>"


theorem store_event_header_roundtrip_witness:
  "\<exists>h. StoreEventMessageHeader sample_lib 0 sample_store = Some h
     \<and> ev_UniqueId (decodeEventFields (decodeHeader h) zero_EventFields) = ''u1''"
proof -
  obtain e where e: "m_Event sample_store = Some e" "ev_UniqueId e = ''u1''"
    by (simp add: sample_store_def)
  have "clean_fields (store_event_fields sample_lib 0 sample_store (the (m_Event sample_store))
      @ tail_field sample_store)"
    by code_simp
  with e have "clean_fields (store_event_fields sample_lib 0 sample_store e @ tail_field sample_store)"
    by simp
  from store_event_header_roundtrip [OF e(1) this] e(2) show ?thesis
    by (auto simp: Let_def)
qed

end
