(* ===== verification/DecodeSafety.thy ===== *)
theory DecodeSafety
  imports Roundtrip
begin

text \<open>
  What \<open>DecodeMessage\<close> guarantees on arbitrary bytes: when it can panic, what an error leaves in the
  message, and what a success always carries.
\<close>

section \<open>Panics\<close>

lemma transform_mime:
  "m_Payload m = None \<Longrightarrow>
     PayloadMimeType (transformHeaderMaptoMessageStruct h m) = header_mime h"
  by (simp add: transformHeaderMaptoMessageStruct_def Let_def PayloadMimeType_def ensurePayload_def
      header_payload_mime header_mime_def)

lemma PayloadMimeType_set:
  "PayloadMimeType (m\<lparr>m_Intent := i\<rparr>) = PayloadMimeType m"
  "(\<And>p. pl_MimeType (f p) = pl_MimeType p) \<Longrightarrow> PayloadMimeType (set_payload f m) = PayloadMimeType m"
  by (simp_all add: PayloadMimeType_def split: option.splits)

definition batch_event_names :: "string list" where
  "batch_event_names = [''StoreBatchEvents'', ''StoreBatchEventsResponse'']"

lemma decode_payload_None:
  assumes "decode_payload G ro raw he pl h m = None" and "m_Payload m \<noteq> None"
  shows "0 < pl \<and> in_Name (m_Intent m) \<in> set batch_event_names \<and> PayloadMimeType m = octet_stream"
proof -
  obtain p where p: "m_Payload m = Some p" using assms(2) by auto
  have pos: "0 < pl" using assms(1) by (auto simp: decode_payload_def split: if_splits)
  let ?m1 = "set_payload (\<lambda>p. p\<lparr>pl_Data := payload_value (pl_MimeType p) (segment raw he pl)\<rparr>) m"
  have "parse_payload G ro h ?m1 = None"
    using assms(1) pos by (auto simp: decode_payload_def Let_def split: if_splits)
  then have "in_Name (m_Intent m) \<in> set batch_event_names"
    and "\<forall>s. PayloadData ?m1 \<noteq> AString s"
    by (simp_all add: parse_payload_None_iff batch_event_names_def)
  then show ?thesis using pos p
    by (auto simp: PayloadData_def PayloadMimeType_def payload_value_def split: if_splits)
qed

lemma decode_body_None:
  assumes "decode_body G ro raw he pl h m0 = None" and "m_Payload m0 = None"
  shows "0 < pl \<and> header_mime h = octet_stream
    \<and> (\<exists>t i. lookup_intent t (decode_command h) = Some i \<and> in_Name i \<in> set batch_event_names)"
proof -
  obtain t i dt where "lookup_intent t (decode_command h) = Some i"
    and "decode_payload G ro raw he pl h (set_payload (\<lambda>p. p\<lparr>pl_DataType := dt\<rparr>)
       ((transformHeaderMaptoMessageStruct h m0)\<lparr>m_Intent := i\<rparr>)) = None"
    using assms(1)
    by (auto simp: decode_body_def Let_def split: outcome.splits option.splits)
  from decode_payload_None [OF this(2)] this(1) show ?thesis
    using transform_mime [OF assms(2), of h]
    by (auto simp: PayloadMimeType_set)
qed


definition panic_frame :: string where
  "panic_frame = sm_MessageBytes (frame (sample_message IT_StoreBatchEventsResponse)
     (''_command=store_batch'' @ [TAB] @ ''mime=application/octet-stream'') ''x'')"


section \<open>Errors and successes\<close>

definition coherent :: "decoded \<Rightarrow> bool" where
  "coherent r = (case r of
     (m, None) \<Rightarrow> decoded_ok m
   | (m, Some e) \<Rightarrow> ProcessingStatus m = ''ERROR'' \<and> ProcessingMessage m = de_Message e)"

lemma coherent_failed: "coherent (decode_failed m e)"
  by (simp add: coherent_def decode_failed_def setResponseError_status)

lemma coherent_payload:
  assumes "decoded_ok m" and "decode_payload G ro raw he pl h m = Some r"
  shows "coherent r"
proof -
  have "coherent (m2, None)" if "parse_payload G ro h (set_payload f m) = Some m2" for f m2
    using parse_payload_keeps [OF that] assms(1) by (simp add: coherent_def decoded_ok_def)
  moreover have "coherent (get_event_payload G ro h m, None)" "coherent (m, None)"
    using get_event_payload_keeps assms(1) by (auto simp: coherent_def)
  ultimately show ?thesis
    using assms(2) coherent_failed
    by (auto simp: decode_payload_def Let_def split: if_splits)
qed

lemma coherent_failedI: "decode_failed m e = r \<Longrightarrow> coherent r"
  using coherent_failed by blast

lemma coherent_body:
  assumes "decode_body G ro raw he pl h m0 = Some r"
  shows "coherent r"
proof (cases "atoi_field G raw 4 ''messageType'' ErrCodeDecodeInvalidMessageType")
  case (Returned t)
  let ?m1 = "transformHeaderMaptoMessageStruct h m0"
  show ?thesis
  proof (cases "lookup_intent t (decode_command h)")
    case None
    then show ?thesis using assms Returned by (auto simp: decode_body_def Let_def intro: coherent_failedI)
  next
    case (Some i)
    show ?thesis
    proof (cases "atoi_field G raw 5 ''dataType'' ErrCodeDecodeInvalidDataType")
      case (Returned dt)
      have "decoded_ok (set_payload (\<lambda>p. p\<lparr>pl_DataType := dt\<rparr>) (?m1\<lparr>m_Intent := i\<rparr>))"
        by (simp add: decoded_ok_def)
      moreover have "decode_payload G ro raw he pl h (set_payload (\<lambda>p. p\<lparr>pl_DataType := dt\<rparr>) (?m1\<lparr>m_Intent := i\<rparr>)) = Some r"
        using assms Some Returned \<open>atoi_field G raw 4 _ _ = Returned t\<close> by (simp add: decode_body_def Let_def)
      ultimately show ?thesis by (rule coherent_payload)
    qed (use assms Some Returned in \<open>auto simp: decode_body_def Let_def intro: coherent_failedI\<close>)
  qed
qed (use assms in \<open>auto simp: decode_body_def Let_def intro: coherent_failedI\<close>)

text \<open>
  Claim C5. Every result of the decoder is coherent: with an error, the returned message has the
  processing status \<open>ERROR\<close> and the error's text as its processing message; without one, event,
  payload and response are all present.
\<close>

theorem decode_result_coherent:
  assumes "DecodeMessage G ro raw = Some (m, err)"
  shows "(\<forall>e. err = Some e \<longrightarrow> ProcessingStatus m = ''ERROR'' \<and> ProcessingMessage m = de_Message e)
    \<and> (err = None \<longrightarrow> m_Event m \<noteq> None \<and> m_Payload m \<noteq> None \<and> m_Response m \<noteq> None)"
proof -
  have "coherent (m, err)"
  proof (cases "decode_lengths G raw")
    case Panicked
    then show ?thesis by (simp add: decode_lengths_no_panic)
  next
    case (Failed e)
    then show ?thesis using assms by (auto simp: DecodeMessage_def intro: coherent_failedI)
  next
    case (Returned L)
    then have "(\<exists>m' e. decode_failed m' e = (m, err)) \<or>
        (\<exists>he pl h m0. decode_body G ro raw he pl h m0 = Some (m, err))"
      using assms unfolding DecodeMessage_def Let_def
      by (auto split: if_splits option.splits)
    then show ?thesis using coherent_failedI coherent_body by metis
  qed
  then show ?thesis by (auto simp: coherent_def decoded_ok_def split: option.splits)
qed

theorem decode_result_coherent_witness:
  "\<exists>m e. DecodeMessage sample_lib sample_order ''short'' = Some (m, Some e) \<and> ProcessingStatus m = ''ERROR''"
proof -
  obtain m e where d: "DecodeMessage sample_lib sample_order ''short'' = Some (m, Some e)"
    by (simp add: DecodeMessage_def decode_lengths_def decode_failed_def MaxMessageSizeBytes_def)
  with decode_result_coherent [OF d] show ?thesis by blast
qed

end
