(* ===== verification/WireProperties.thy ===== *)
theory WireProperties
  imports DecodeSafety "HOL-Library.Multiset"
begin

text \<open>
  Properties of the parts below the frame: the table of intents, tag headers, the repair of owner
  lines, timestamps and the payload parsers.
\<close>

section \<open>Intents\<close>

text \<open>
  The intent table against the decoder's lookup: every intent the lookup knows is
  recovered from its own message type and command, except \<open>Status\<close>, which comes back as
  \<open>GatewayStatus\<close>; \<open>ActorResponse\<close> is missing from the lookup, so its frames are rejected.
\<close>

lemma intents_recovered_except_status:
  "filter (\<lambda>i. lookup_intent (in_MessageType i) (in_NeuralMemoryCommand i) \<noteq> Some i) allIntents = [IT_Status]
   \<and> lookup_intent (in_MessageType IT_Status) (in_NeuralMemoryCommand IT_Status) = Some IT_GatewayStatus
   \<and> lookup_intent (in_MessageType IT_ActorResponse) (in_NeuralMemoryCommand IT_ActorResponse) = None"
  by code_simp

section \<open>Tags\<close>

definition header_tag :: "string \<times> string \<Rightarrow> TagOutput option" where
  "header_tag p = parseEventTagHeader (fst p) (snd p)"

lemma parseEventTagHeaders_alt:
  "parseEventTagHeaders pairs = sort_key to_TagNumber (List.map_filter header_tag pairs)"
  by (simp add: parseEventTagHeaders_def sortTagsByNumber_def header_tag_def [abs_def] case_prod_unfold)

lemma map_filter_mset_eq: "mset xs = mset ys \<Longrightarrow> mset (List.map_filter f xs) = mset (List.map_filter f ys)"
  by (simp add: List.map_filter_def flip: mset_map mset_filter)
    (simp add: mset_map mset_filter)

text \<open>
  Order of decoded tags: whatever order Go visits the header map in, the tags come out
  in ascending tag number, and when the tag numbers of the header are distinct the result does not
  depend on that order at all.
\<close>

lemma event_tags_independent_of_map_order:
  assumes "mset pairs = mset pairs'"
    and "distinct (map to_TagNumber (List.map_filter header_tag pairs))"
  shows "parseEventTagHeaders pairs = parseEventTagHeaders pairs'
     \<and> sorted (map to_TagNumber (parseEventTagHeaders pairs))"
proof -
  let ?xs = "List.map_filter header_tag pairs" and ?ys = "List.map_filter header_tag pairs'"
  have m: "mset ?xs = mset ?ys" by (rule map_filter_mset_eq [OF assms(1)])
  then have set: "set ?xs = set ?ys" by (metis set_mset_mset)
  have "mset (map to_TagNumber ?xs) = mset (map to_TagNumber ?ys)" using m by simp
  then have d2: "distinct (map to_TagNumber ?ys)" using assms(2) by (metis mset_eq_imp_distinct_iff)
  have dist: "distinct (map to_TagNumber (sort_key to_TagNumber ?xs))"
    "distinct (map to_TagNumber (sort_key to_TagNumber ?ys))"
    using assms(2) d2 by (metis mset_eq_imp_distinct_iff mset_map mset_sort)+
  have "inj_on to_TagNumber (set ?xs)" using assms(2) by (simp add: distinct_map)
  then have "sort_key to_TagNumber ?xs = sort_key to_TagNumber ?ys"
    using dist set by (intro map_sorted_distinct_set_unique [of to_TagNumber]) auto
  then show ?thesis by (simp add: parseEventTagHeaders_alt)
qed

section \<open>Owner lines\<close>

lemma Contains_broken:
  assumes "rs \<noteq> []" and "\<forall>(l, own) \<in> set rs. tag_line_ok l \<and> owner_ok own"
  shows "Contains (broken_lines rs) (NL # owner_marker)"
proof -
  obtain l own rs' where rs: "rs = (l, own) # rs'" using assms(1) by (cases rs) auto
  then have "NL \<notin> set l" using assms(2) by (auto simp: tag_line_ok_def)
  then have "Index l (NL # owner_marker) = None" by (intro Index_absent [of NL]) auto
  then show ?thesis
    using Index_at_first [of l NL owner_marker "own @ broken_lines rs'"]
    by (simp add: Contains_def rs owner_marker_def)
qed

lemma Index_skip:
  "c \<notin> set a \<Longrightarrow> Index (a @ r) (c # q) = map_option (\<lambda>i. length a + i) (Index r (c # q))"
proof (induction a)
  case Nil
  show ?case by (cases "Index r (c # q)") simp_all
next
  case (Cons x a)
  then have "Index ((x # a) @ r) (c # q) = map_option Suc (Index (a @ r) (c # q))"
    by (subst Index.simps) auto
  with Cons show ?case by (cases "Index r (c # q)") simp_all
qed

lemma not_Contains_documented:
  assumes "\<forall>(l, own) \<in> set rs. tag_line_ok l \<and> owner_ok own"
  shows "Index (Join [NL] (map documented_line rs)) (NL # owner_marker) = None"
  using assms
proof (induction rs)
  case Nil
  then show ?case by (simp add: Index.simps)
next
  case (Cons r rs)
  obtain l own where r: "r = (l, own)" by (cases r)
  with Cons.prems have nl: "NL \<notin> set (documented_line r)"
    by (auto simp: documented_line_def tag_line_ok_def owner_ok_def owner_marker_def)
  show ?case
  proof (cases rs)
    case Nil
    then show ?thesis using nl by (simp add: Index_absent [of NL])
  next
    case (Cons r2 rs2)
    have "HasPrefix (fst r2) ''_event_tag=''"
      using Cons.prems Cons by (cases r2) (auto simp: tag_line_ok_def)
    then obtain u where "Join [NL] (map documented_line rs) = ''_event_tag='' @ u"
      using Cons by (cases rs2) (auto simp: documented_line_def HasPrefix_iff)
    then have "Index (NL # Join [NL] (map documented_line rs)) (NL # owner_marker)
        = map_option Suc (Index (Join [NL] (map documented_line rs)) (NL # owner_marker))"
      by (subst Index.simps) (simp add: owner_marker_def)
    then show ?thesis
      using Cons.IH Cons.prems Cons Index_skip [OF nl, of "NL # Join [NL] (map documented_line rs)" owner_marker]
      by simp
  qed
qed

text \<open>Tag lines whose owners came after the line break are repaired, and a repaired payload is left alone.\<close>

lemma owner_lines_repaired:
  assumes "rs \<noteq> []" and "\<forall>(l, own) \<in> set rs. tag_line_ok l \<and> owner_ok own"
  shows "normalizeTagOwnerLines (broken_lines rs) = Join [NL] (map documented_line rs)
     \<and> normalizeTagOwnerLines (Join [NL] (map documented_line rs)) = Join [NL] (map documented_line rs)"
proof -
  have "\<forall>(l, own) \<in> set rs. NL \<notin> set l \<and> NL \<notin> set own"
    using assms(2) by (auto simp: tag_line_ok_def owner_ok_def)
  then show ?thesis
    using Contains_broken [OF assms] ReplaceAll_broken repair_joined [OF assms]
      not_Contains_documented [OF assms(2)]
    by (simp add: normalizeTagOwnerLines_def Contains_def)
qed

section \<open>Timestamps\<close>

lemma pad0_code: "c \<in> set (pad0 w (digits 10 n)) \<Longrightarrow> 48 \<le> code c \<and> code c \<le> 57"
  using digits_set [of 10 c n] by (auto simp: pad0_def digit_char_code split: if_splits)

text \<open>
  Timestamps: what \<open>GetTimeStampFromTime\<close> prints is parsed back to the same microsecond
  by \<open>parsePosixTimestamp\<close>, before and after 1970, for every time less than \<open>2 ^ 33\<close> seconds away,
  where the floating-point quotient still prints every microsecond exactly.
\<close>

lemma timestamp_roundtrip:
  assumes "\<bar>us\<bar> < 2 ^ 33 * 1000000"
  shows "parsePosixTimestamp (GetTimeStampFromTime us) = Some us"
proof -
  define a where "a = nat \<bar>us\<bar>"
  define sec frac where "sec = digits 10 (a div 1000000)" and "frac = pad0 6 (digits 10 (a mod 1000000))"
  have a: "a < 2 ^ 63" using assms by (simp add: a_def nat_less_iff)
  have "a div 1000000 \<le> a" by simp
  then have "a div 1000000 < 2 ^ 63" using a by linarith
  then have psec: "ParseInt 10 64 sec = (int (a div 1000000), None)"
    using ParseInt_digits [of 10 64 0 "a div 1000000"] by (simp add: sec_def)
  have "a mod 1000000 < 10 ^ 6" by simp
  then have "length (digits 10 (a mod 1000000)) \<le> Suc 5" by (subst length_digits_le) simp_all
  then have lf: "length frac = 6" by (simp add: frac_def length_pad0)
  then have fd: "frac_digits frac = frac" "frac \<noteq> []" by (auto simp: frac_digits_def)
  have "a mod 1000000 < 2 ^ 63" by (rule less_trans [of _ 1000000]) simp_all
  then have pfrac: "ParseInt 10 64 frac = (int (a mod 1000000), None)"
    using ParseInt_digits [of 10 64 _ "a mod 1000000"] by (simp add: frac_def pad0_def)
  have dot: "CHR ''.'' \<notin> set sec" using digits_code [of 10 "CHR ''.''" "a div 1000000"] by (auto simp: sec_def)
  have cut: "Cut (CHR ''.'') (sec @ CHR ''.'' # frac) = Some (sec, frac)" by (rule Cut_append [OF dot])
  have us: "int (a div 1000000) * 1000000 + int (a mod 1000000) = int a"
    by (metis div_mult_mod_eq of_nat_add of_nat_mult of_nat_numeral)
  obtain c cs where s: "sec @ CHR ''.'' # frac = c # cs" "c \<in> set sec"
    by (cases sec) (auto simp: sec_def)
  then have c: "c \<noteq> CHR ''-''" "c \<noteq> CHR ''+''"
    using digits_code [of 10 c "a div 1000000"] by (auto simp: sec_def)
  have printed: "GetTimeStampFromTime us = (if 0 < us then CHR ''+'' # sec @ CHR ''.'' # frac
      else if us < 0 then CHR ''-'' # sec @ CHR ''.'' # frac else sec @ CHR ''.'' # frac)"
    by (simp add: GetTimeStampFromTime_def Let_def a_def sec_def frac_def)
  show ?thesis
    unfolding printed parsePosixTimestamp_def Let_def
    using cut [unfolded s(1)] c us psec pfrac fd
    by (auto simp: cut s(1) a_def)
qed

section \<open>The payload of GetEventsForTags\<close>

text \<open>The id of an event line, if the line is one.\<close>

definition event_line_id :: "string \<Rightarrow> string option" where
  "event_line_id raw =
     (let line = TrimRightByte NUL raw in
      if blank_line line \<or> \<not> HasPrefix line ''_event_id='' then None
      else case parseEventIdLine line of
             Some (k, _) \<Rightarrow> if k = [] then None else Some k
           | None \<Rightarrow> None)"

lemma ev_Id_set_if [simp]:
  "(\<And>v e. ev_Id (f v e) = ev_Id e) \<Longrightarrow> ev_Id (set_if v f e) = ev_Id e"
  "(\<And>v e. ev_Id (g v e) = ev_Id e) \<Longrightarrow> ev_Id (set_int w g e) = ev_Id e"
  by (simp_all add: set_if_def set_int_def split: option.splits)

lemma ev_Id_append_tags [simp]: "ev_Id (append_tags ts e) = ev_Id e"
  by (simp add: append_tags_def)

lemma ev_Id_decodeEventFields:
  "map_of m ''_event_id'' = Some k \<Longrightarrow> ev_Id (decodeEventFields m e) = forceASCII k"
  by (simp add: decodeEventFields_def Let_def)

lemma parseEventIdLine_id: "parseEventIdLine line = Some (k, e) \<Longrightarrow> ev_Id e = forceASCII k"
  by (auto simp: parseEventIdLine_def Let_def ev_Id_decodeEventFields split: option.splits if_splits)

definition gft_inv :: "gft_index \<Rightarrow> bool" where
  "gft_inv x \<longleftrightarrow> (\<forall>k \<in> set (gx_eventOrder x). map_of (gx_eventsMap x) k \<noteq> None)
     \<and> (\<forall>k e. map_of (gx_eventsMap x) k = Some e \<longrightarrow> ev_Id e = forceASCII k)"

lemma index_line_order:
  "gx_eventOrder (index_line G raw x) =
     gx_eventOrder x @ (case event_line_id raw of Some k \<Rightarrow> [k] | None \<Rightarrow> [])"
  by (auto simp: index_line_def event_line_id_def Let_def split: option.splits prod.splits)

lemma index_line_other:
  "\<not> HasPrefix (TrimRightByte NUL raw) ''_event_id='' \<Longrightarrow> gx_eventsMap (index_line G raw x) = gx_eventsMap x"
  by (simp add: index_line_def Let_def split: option.splits prod.splits)

lemma index_line_inv:
  assumes "gft_inv x"
  shows "gft_inv (index_line G raw x)"
proof (cases "event_line_id raw")
  case None
  then have "gx_eventsMap (index_line G raw x) = gx_eventsMap x"
    using index_line_other [of raw G x]
    by (auto simp: event_line_id_def index_line_def Let_def split: option.splits prod.splits if_splits)
  then show ?thesis using assms None by (simp add: gft_inv_def index_line_order)
next
  case (Some k)
  then obtain e where "parseEventIdLine (TrimRightByte NUL raw) = Some (k, e)"
    and "gx_eventsMap (index_line G raw x) = AList.update k e (gx_eventsMap x)"
    by (auto simp: event_line_id_def index_line_def Let_def split: option.splits prod.splits if_splits)
  then show ?thesis using assms Some parseEventIdLine_id [of _ k e] by (auto simp: gft_inv_def index_line_order)
qed

lemma fold_index_line:
  "gft_inv x \<Longrightarrow> gft_inv (fold (index_line G) raws x)
     \<and> gx_eventOrder (fold (index_line G) raws x) = gx_eventOrder x @ List.map_filter event_line_id raws"
  by (induction raws arbitrary: x)
    (auto simp: index_line_order index_line_inv List.map_filter_simps split: option.splits)

lemma assemble_events_ids:
  assumes "\<forall>k \<in> set ks. map_of em k \<noteq> None" and "\<forall>k e. map_of em k = Some e \<longrightarrow> ev_Id e = forceASCII k"
  shows "map ev_Id (assemble_events x ks em lm) = map forceASCII ks"
  using assms
proof (induction ks arbitrary: em lm)
  case (Cons k ks)
  then obtain event where e: "map_of em k = Some event" by auto
  define e1 where "e1 = (case map_of (gx_eventTagsMap x) k of None \<Rightarrow> event
     | Some tags \<Rightarrow> (let e = append_tags tags event in
         if ev_UniqueId e = [] then e\<lparr>ev_UniqueId := uniqueIdFromTags (tags_of e)\<rparr> else e))"
  obtain ls lm' where l: "assemble_links x e1 (get_or [] (gx_linksBySource x) k) lm = (ls, lm')" by fastforce
  have id: "ev_Id (e1\<lparr>ev_Links := Some ls\<rparr>) = forceASCII k"
    using Cons.prems(2) e by (simp add: e1_def Let_def split: option.splits)
  have "map ev_Id (assemble_events x ks (AList.update k (e1\<lparr>ev_Links := Some ls\<rparr>) em) lm') = map forceASCII ks"
    using Cons.prems id by (intro Cons.IH) auto
  then show ?case using id e l by (simp add: e1_def Let_def)
qed simp

definition is_brief :: "string \<Rightarrow> bool" where
  "is_brief payload = (let trimmed = filter (\<lambda>l. \<not> blank_line l) (map (TrimRightByte NUL) (Split NL (normalizeTagOwnerLines payload)))
     in trimmed \<noteq> [] \<and> HasPrefix (hd trimmed) ''_brief_hit='')"

text \<open>
  Claim C37. The answer of GetEventsForTags: a buffered payload that does not start with a brief hit
  yields exactly one event record per event line, in the order of the lines and each with the id
  of its line, whatever links and tags stand between them; the response is otherwise unchanged.
\<close>

theorem records_follow_event_lines:
  assumes "\<not> is_brief payload"
  shows "\<exists>es. parseGetEventsForTagsPayload G (AString payload) r = ((es, True), r)
     \<and> map ev_Id es = map forceASCII (List.map_filter event_line_id (Split NL (normalizeTagOwnerLines payload)))"
proof -
  let ?lines = "Split NL (normalizeTagOwnerLines payload)"
  let ?x = "fold (index_line G) ?lines empty_gft_index"
  have "gft_inv empty_gft_index" by (simp add: gft_inv_def empty_gft_index_def)
  from fold_index_line [OF this, of G ?lines]
  have "gft_inv ?x" and o: "gx_eventOrder ?x = List.map_filter event_line_id ?lines"
    by (simp_all add: empty_gft_index_def)
  then have "map ev_Id (assemble_events ?x (gx_eventOrder ?x) (gx_eventsMap ?x) (gx_linksMap ?x))
      = map forceASCII (List.map_filter event_line_id ?lines)"
    using assemble_events_ids [of "gx_eventOrder ?x" "gx_eventsMap ?x" ?x] by (simp add: gft_inv_def)
  then show ?thesis using assms
    by (auto simp: parseGetEventsForTagsPayload_def is_brief_def Let_def)
qed

definition sample_gft_payload :: string where
  "sample_gft_payload = ''_event_id=e1'' @ TAB # ''tag:1:_unique_id=u1'' @ NL # ''_link=l1'' @ TAB # ''source=e1''
     @ NL # ''_event_id=e2'' @ [NL]"

theorem records_follow_event_lines_witness:
  "\<exists>es. parseGetEventsForTagsPayload sample_lib (AString sample_gft_payload) zero_ResponseFields
       = ((es, True), zero_ResponseFields) \<and> map ev_Id es = [''e1'', ''e2'']"
proof -
  have "\<not> is_brief sample_gft_payload" by code_simp
  moreover have "map forceASCII (List.map_filter event_line_id (Split NL (normalizeTagOwnerLines sample_gft_payload)))
      = [''e1'', ''e2'']" by code_simp
  ultimately show ?thesis using records_follow_event_lines by metis
qed

section \<open>Batch responses\<close>

text \<open>One event result per record line before the end marker.\<close>

lemma batch_events_one_result_per_line:
  "(\<exists>r. parseStoreBatchEventsPayload (AString payload) = Some r
      \<and> length (sb_EventResults r) = length (batch_lines (Split NL payload))
      \<and> (sb_EventCount r = 0 \<longrightarrow> batch_lines (Split NL payload) = []))
   \<and> parseStoreBatchEventsPayload (ABytes payload) = None"
proof -
  have len: "length (sb_EventResults (fold batch_event_step ls r)) = length (sb_EventResults r) + length ls" for ls r
  proof (induction ls arbitrary: r)
    case (Cons l ls)
    have "length (sb_EventResults (batch_event_step l r)) = Suc (length (sb_EventResults r))"
      by (simp add: batch_event_step_def Let_def set_if_def set_int_def split: option.splits)
    then show ?case using Cons by simp
  qed simp
  have z: "sb_EventResults zero_StoreBatchEventRecord = []" by (simp add: zero_StoreBatchEventRecord_def)
  show ?thesis
    by (auto simp: parseStoreBatchEventsPayload_def Let_def len z)
qed

end
