(* ===== verification/RawEdit.thy ===== *)
theory RawEdit
  imports DecodeSafety
begin

text \<open>
  Replacing the sender in a raw frame (\<open>message/raw_edit.go\<close>): \<open>Failed\<close> carries the text of the
  error, \<open>Panicked\<close> is a slice out of bounds. The source does not check the sign of the lengths.
\<close>

definition raw_size :: "golib \<Rightarrow> string \<Rightarrow> nat \<Rightarrow> string \<Rightarrow> (string, int) outcome" where
  "raw_size G raw i what =
     (case decodeMessageSizeParam (length_field raw i) of
        (n, None) \<Rightarrow> Returned n
      | (n, Some (s, e)) \<Rightarrow> Failed (''invalid '' @ what @ '': '' @ num_error_text (IsPrint G) ''ParseInt'' s e))"

definition replaced :: "string \<Rightarrow> int \<Rightarrow> int \<Rightarrow> int \<Rightarrow> int \<Rightarrow> string \<Rightarrow> string option" where
  "replaced raw newTotal headerSpan fromStart fromEnd newFrom =
     (case (slice raw 36 fromStart, slice raw fromEnd (int (length raw))) of
        (Some mid, Some rest) \<Rightarrow>
          Some (hex_field (nat newTotal) @ length_field raw 1 @ hex_field (length newFrom)
            @ hex_field (nat headerSpan) @ mid @ newFrom @ rest)
      | _ \<Rightarrow> None)"

definition ReplaceFromInRawMessage :: "golib \<Rightarrow> string \<Rightarrow> string \<Rightarrow> (string, string) outcome" where
  "ReplaceFromInRawMessage G raw newFrom =
     (if length raw < 63 then Failed ''message too short for length block (need 63 bytes)''
      else
        bind_outcome (raw_size G raw 1 ''toLength'') (\<lambda>toLength.
        bind_outcome (raw_size G raw 2 ''fromLength'') (\<lambda>fromLength.
        bind_outcome (raw_size G raw 6 ''payload length'') (\<lambda>payloadLength.
          let fromStart = 63 + toLength;
              fromEnd = fromStart + fromLength;
              n = int (length raw);
              headerSpan = n - fromEnd - payloadLength;
              newTotal = n + (int (length newFrom) - fromLength)
          in if fromEnd > n then Failed ''message too short for From segment''
             else if headerSpan < 0 then Failed ''invalid layout: header span length would be negative''
             else if newTotal < 0 then Failed ''replacement From would make total length negative''
             else if length (hex_field (nat newTotal)) \<noteq> 9 \<or> length (hex_field (length newFrom)) \<noteq> 9
                  \<or> length (hex_field (nat headerSpan)) \<noteq> 9
             then Failed ''length encoding produced wrong size''
             else no_panic (replaced raw newTotal headerSpan fromStart fromEnd newFrom)))))"

section \<open>On encoded frames\<close>

text \<open>The fields of the length block as bytes.\<close>

lemma length_field_frame:
  assumes "codable m h d" and "i < 7"
  shows "length_field (sm_MessageBytes (frame m h d)) i = print_field (frame_fields m h d ! i)"
proof -
  have l: "length (print_field (frame_fields m h d ! j)) = 9" if "j < 7" for j
    using size.print_width frame_fields_admissible [OF assms(1)] that
    by (simp add: list_all_length frame_fields_def)
  have "i \<in> {0, 1, 2, 3, 4, 5, 6}" using assms(2) by auto
  then show ?thesis
    using l [of 0] l [of 1] l [of 2] l [of 3] l [of 4] l [of 5] l [of 6]
    by (auto simp: length_field_def frame_bytes [OF assms(1)] frame_fields_def)
qed

lemma raw_size_frame:
  assumes "codable m h d" and "i < 7" and "field_meaning (frame_fields m h d ! i) = (n, None)"
  shows "raw_size G (sm_MessageBytes (frame m h d)) i what = Returned n"
  using frame_field_at [OF assms(1,2)] assms(3) by (simp add: raw_size_def)

lemma codable_with_from:
  assumes "codable m h d" and "ascii_text newFrom"
    and "63 + length (m_To m) + length newFrom + length h + length d < 2 ^ 31"
  shows "codable (m\<lparr>m_From := newFrom\<rparr>) h d"
proof -
  have "length (dec9 (in_MessageType (m_Intent m))) = 9" "length (dec9 (payloadDataType m)) = 9"
    using assms(1) by (auto simp: codable_def length_dec9)
  moreover have "payloadDataType (m\<lparr>m_From := newFrom\<rparr>) = payloadDataType m"
    by (simp add: payloadDataType_def)
  ultimately show ?thesis using assms by (auto simp: codable_def total_length_def)
qed

lemma replaced_frame:
  assumes c: "codable m h d" and c': "codable (m\<lparr>m_From := newFrom\<rparr>) h d"
  defines "raw \<equiv> sm_MessageBytes (frame m h d)"
  shows "replaced raw (int (total_length (m\<lparr>m_From := newFrom\<rparr>) h d)) (int (length h))
       (63 + int (length (m_To m))) (63 + int (length (m_To m)) + int (length (m_From m))) newFrom
     = Some (sm_MessageBytes (frame (m\<lparr>m_From := newFrom\<rparr>) h d))"
proof -
  define F where "F i = print_field (frame_fields m h d ! i)" for i
  have len: "length (F i) = 9" if "i < 7" for i
    unfolding F_def using size.print_width frame_fields_admissible [OF c] that
    by (simp add: list_all_length frame_fields_def)
  have raw: "raw = (F 0 @ F 1 @ F 2 @ F 3) @ (F 4 @ F 5 @ F 6 @ m_To m) @ m_From m @ h @ d"
    by (simp add: raw_def frame_bytes [OF c] frame_fields_def F_def)
  have 1: "slice raw 36 (63 + int (length (m_To m))) = Some (F 4 @ F 5 @ F 6 @ m_To m)"
    unfolding raw by (rule slice_append3) (simp_all add: len)
  have "slice raw (63 + int (length (m_To m)) + int (length (m_From m))) (int (length raw)) = Some (h @ d)"
    using slice_append2 [of "(F 0 @ F 1 @ F 2 @ F 3) @ (F 4 @ F 5 @ F 6 @ m_To m) @ m_From m" _ "h @ d"]
    by (simp add: raw len)
  moreover have "length_field raw 1 = F 1"
    unfolding raw_def F_def by (rule length_field_frame [OF c]) simp
  moreover have "payloadDataType (m\<lparr>m_From := newFrom\<rparr>) = payloadDataType m"
    by (simp add: payloadDataType_def)
  ultimately show ?thesis
    using 1 by (simp add: replaced_def frame_bytes [OF c'] frame_fields_def F_def)
qed

text \<open>
  Replacing the sender in an encoded frame gives exactly the frame that encoding the
  message with the new sender gives: the length block is corrected, and intent, types, To, header
  and payload are untouched.
\<close>

lemma replace_from_is_reencoding:
  assumes "codable m h d" and "ascii_text newFrom"
    and "63 + length (m_To m) + length newFrom + length h + length d < 2 ^ 31"
  shows "ReplaceFromInRawMessage G (sm_MessageBytes (frame m h d)) newFrom
     = Returned (sm_MessageBytes (frame (m\<lparr>m_From := newFrom\<rparr>) h d))"
proof -
  let ?raw = "sm_MessageBytes (frame m h d)" and ?m' = "m\<lparr>m_From := newFrom\<rparr>"
  have c': "codable ?m' h d" by (rule codable_with_from [OF assms])
  have n: "length ?raw = 63 + length (m_To m) + length (m_From m) + length h + length d"
    by (rule length_frame [OF assms(1)])
  have total: "total_length ?m' h d = 63 + length (m_To m) + length newFrom + length h + length d"
    using total_length_eq [OF c'] by simp
  have sizes: "raw_size G ?raw 1 what = Returned (int (length (m_To m)))"
    "raw_size G ?raw 2 what = Returned (int (length (m_From m)))"
    "raw_size G ?raw 6 what = Returned (int (length d))" for what
    by (rule raw_size_frame [OF assms(1)]; simp add: frame_fields_def)+
  have new: "int (length ?raw) + (int (length newFrom) - int (length (m_From m))) = int (total_length ?m' h d)"
    using n total by simp
  have hdr: "int (length ?raw) - (63 + int (length (m_To m)) + int (length (m_From m))) - int (length d) = int (length h)"
    using n by simp
  have "length (hex_field (total_length ?m' h d)) = 9" "length (hex_field (length newFrom)) = 9"
    "length (hex_field (length h)) = 9"
    using assms(3) total by (simp_all add: length_hex_field)
  moreover have "\<not> length ?raw < 63" using n by simp
  moreover have "\<not> int (length ?raw) < 63 + int (length (m_To m)) + int (length (m_From m))" using n by simp
  ultimately show ?thesis
    using replaced_frame [OF assms(1) c']
    by (simp add: ReplaceFromInRawMessage_def sizes Let_def new hdr del: One_nat_def)
qed

text \<open>The function panics only on a To length below -27 or a negative From length.\<close>

lemma replace_from_panics_on_negative_length:
  assumes "ReplaceFromInRawMessage G raw newFrom = Panicked"
  shows "\<exists>toLength fromLength. raw_size G raw 1 ''toLength'' = Returned toLength
     \<and> raw_size G raw 2 ''fromLength'' = Returned fromLength
     \<and> (toLength < - 27 \<or> fromLength < 0)"
proof -
  have np: "raw_size G raw i w \<noteq> Panicked" for i w
    by (simp add: raw_size_def split: prod.splits option.splits)
  obtain to fr where to: "raw_size G raw 1 ''toLength'' = Returned to"
    and fr: "raw_size G raw 2 ''fromLength'' = Returned fr"
    and bound: "63 + to + fr \<le> int (length raw)"
    and none: "\<exists>a b. replaced raw a b (63 + to) (63 + to + fr) newFrom = None"
    using assms by (auto simp: ReplaceFromInRawMessage_def bind_outcome_Panicked_iff np Let_def
        no_panic_Panicked_iff split: if_splits)
  have "to < - 27 \<or> fr < 0"
  proof (rule ccontr)
    assume "\<not> ?thesis"
    then have "slice raw 36 (63 + to) \<noteq> None" "slice raw (63 + to + fr) (int (length raw)) \<noteq> None"
      using bound by (auto simp: slice_eq_None_iff)
    then show False using none by (auto simp: replaced_def)
  qed
  with to fr show ?thesis by blast
qed

definition negative_frame :: string where
  "negative_frame = hex_field 63 @ ''-00000040'' @ concat (replicate 5 (hex_field 0))"

end
