(* ===== verification/GatewayErrors.thy ===== *)
theory GatewayErrors
  imports Types
begin

text \<open>
  The error type of the transport (\<open>errors/errors.go\<close>): a code, a text and the wrapped error. Any
  other Go error is \<open>OtherError\<close> with its text and what it unwraps to, so that the walk along the
  chain that \<open>errors.As\<close> does is the recursion on the value.
\<close>

datatype gw_code =
    G_ErrCodeUnknown
  | G_ErrCodeNilContext
  | G_ErrCodeClientNotFound
  | G_ErrCodeClientNotConnected
  | G_ErrCodeClientConnectionFailed
  | G_ErrCodeNetworkNotSupported
  | G_ErrCodeResolveFailed
  | G_ErrCodePoolExhausted
  | G_ErrCodePluginNotFound
  | G_ErrCodePluginNotReady
  | G_ErrCodeStartPluginFailed
  | G_ErrCodeGetRPCClientFailed
  | G_ErrCodeDispensePluginFailed
  | G_ErrCodePluginMetricsMergeFailed
  | G_ErrCodePluginPingFailed
  | G_ErrCodePluginScaffoldFailed
  | G_ErrCopyEmbeddedFilesFailed
  | G_ErrCodePluginScaffoldInputFileReadFailed
  | G_ErrCodeClientReceiveFailed
  | G_ErrCodeClientSendFailed
  | G_ErrCodeServerReceiveFailed
  | G_ErrCodeServerSendFailed
  | G_ErrCodeServerListenFailed
  | G_ErrCodeSplitHostPortFailed
  | G_ErrCodeAcceptFailed
  | G_ErrCodeGetTLSConfigFailed
  | G_ErrCodeTLSDisabled
  | G_ErrCodeUpgradeToTLSFailed
  | G_ErrCodeReadFailed
  | G_ErrCodePutFailed
  | G_ErrCodeNilPointer
  | G_ErrCodeCastFailed
  | G_ErrCodeHookReturnedError
  | G_ErrCodeHookTerminatedConnection
  | G_ErrCodeFileNotFound
  | G_ErrCodeFileOpenFailed
  | G_ErrCodeFileReadFailed
  | G_ErrCodeDuplicateMetricsCollector
  | G_ErrCodeInvalidMetricType
  | G_ErrCodeValidationFailed
  | G_ErrCodeLintingFailed
  | G_ErrCodeExtractFailed
  | G_ErrCodeDownloadFailed
  | G_ErrCodeKeyNotFound
  | G_ErrCodeRunError
  | G_ErrCodeAsyncAction
  | G_ErrCodeEvalError
  | G_ErrCodeMsgEncodeError
  | G_ErrCodeConfigParseError
  | G_ErrCodePublishAsyncAction
  | G_ErrCodeLoadBalancerStrategyNotFound
  | G_ErrCodeNoProxiesAvailable
  | G_ErrCodeNoLoadBalancerRules
  | G_ErrCodeConnectionLost
  | G_ErrCodeReceiveIdleTimeout

datatype go_error =
    GatewayDError gw_code string "go_error option"
  | OtherError string "go_error option"

text \<open>\<open>Error()\<close>; the text of an \<open>OtherError\<close> already contains that of the error it wraps.\<close>

fun error_text :: "go_error \<Rightarrow> string" where
  "error_text (GatewayDError c m None) = m"
| "error_text (GatewayDError c m (Some e)) = m @ '', OriginalError: '' @ error_text e"
| "error_text (OtherError m w) = m"

text \<open>\<open>Wrap\<close> keeps code and text and replaces the wrapped error.\<close>

fun Wrap :: "go_error \<Rightarrow> go_error option \<Rightarrow> go_error" where
  "Wrap (GatewayDError c m w) e = GatewayDError c m e"
| "Wrap (OtherError m w) e = OtherError m w"

fun Unwrap :: "go_error \<Rightarrow> go_error option" where
  "Unwrap (GatewayDError c m w) = w"
| "Unwrap (OtherError m w) = w"

definition ErrClientNotConnected :: go_error where
  "ErrClientNotConnected = GatewayDError G_ErrCodeClientNotConnected ''client is not connected'' None"

definition ErrClientConnectionFailed :: go_error where
  "ErrClientConnectionFailed = GatewayDError G_ErrCodeClientConnectionFailed ''failed to create a new connection'' None"

definition ErrNetworkNotSupported :: go_error where
  "ErrNetworkNotSupported = GatewayDError G_ErrCodeNetworkNotSupported ''network is not supported'' None"

definition ErrResolveFailed :: go_error where
  "ErrResolveFailed = GatewayDError G_ErrCodeResolveFailed ''failed to resolve address'' None"

definition ErrConnectionLost :: go_error where
  "ErrConnectionLost = GatewayDError G_ErrCodeConnectionLost ''connection lost'' None"

definition ErrReceiveIdleTimeout :: go_error where
  "ErrReceiveIdleTimeout = GatewayDError G_ErrCodeReceiveIdleTimeout ''receive idle timeout'' None"

text \<open>\<open>codeOf\<close>: the code of the first \<open>GatewayDError\<close> on the chain.\<close>

fun codeOf :: "go_error \<Rightarrow> gw_code option" where
  "codeOf (GatewayDError c m w) = Some c"
| "codeOf (OtherError m (Some e)) = codeOf e"
| "codeOf (OtherError m None) = None"

definition IsConnectionLost :: "go_error option \<Rightarrow> bool" where
  "IsConnectionLost e = (Option.bind e codeOf = Some G_ErrCodeConnectionLost)"

definition IsIdleTimeout :: "go_error option \<Rightarrow> bool" where
  "IsIdleTimeout e = (Option.bind e codeOf = Some G_ErrCodeReceiveIdleTimeout)"

lemma IsConnectionLost_simps [simp]:
  "IsConnectionLost (Some (Wrap ErrConnectionLost e))" "\<not> IsConnectionLost None"
  "\<not> IsConnectionLost (Some (Wrap ErrReceiveIdleTimeout e))" "\<not> IsConnectionLost (Some ErrClientNotConnected)"
  by (simp_all add: IsConnectionLost_def ErrConnectionLost_def ErrReceiveIdleTimeout_def ErrClientNotConnected_def)

lemma IsIdleTimeout_simps [simp]:
  "IsIdleTimeout (Some (Wrap ErrReceiveIdleTimeout e))" "\<not> IsIdleTimeout None"
  "\<not> IsIdleTimeout (Some (Wrap ErrConnectionLost e))" "\<not> IsIdleTimeout (Some ErrClientNotConnected)"
  by (simp_all add: IsIdleTimeout_def ErrConnectionLost_def ErrReceiveIdleTimeout_def ErrClientNotConnected_def)

text \<open>A chain is never both: the two classifications look at the same first code.\<close>

lemma lost_not_idle: "IsConnectionLost e \<Longrightarrow> \<not> IsIdleTimeout e"
  by (simp add: IsConnectionLost_def IsIdleTimeout_def)

end
