(* ===== verification/RetryPolicy.thy ===== *)
theory RetryPolicy
  imports GatewayErrors
begin

text \<open>
  Retrying a callback (\<open>connection/retry.go\<close>). The callback is a function from the number of the
  call to its result; the run records how often it was called and how long it slept. Durations
  are nanoseconds in 64-bit arithmetic. \<open>pow m retry\<close> stands for
  \<open>time.Duration(math.Pow(m, retry))\<close>, the floating-point power truncated to an integer.
\<close>

definition BackoffDurationCap :: int where
  "BackoffDurationCap = 60000000000"

definition BackoffMultiplierCap :: int where
  "BackoffMultiplierCap = 10"

record RetryConfig =
  rt_Retries :: int
  rt_Backoff :: int
  rt_BackoffMultiplier :: f64
  rt_DisableBackoffCaps :: bool

definition wrap64 :: "int \<Rightarrow> int" where
  "wrap64 x = (x + 2 ^ 63) mod 2 ^ 64 - 2 ^ 63"

definition backoff :: "(f64 \<Rightarrow> nat \<Rightarrow> int) \<Rightarrow> RetryConfig \<Rightarrow> nat \<Rightarrow> int" where
  "backoff pow r retry =
     (let d = wrap64 (rt_Backoff r * pow (rt_BackoffMultiplier r) retry)
      in if \<not> rt_DisableBackoffCaps r \<and> d > BackoffDurationCap then BackoffDurationCap else d)"

datatype 'a attempt = Success 'a | Failure go_error

text \<open>\<open>Exhausted n e\<close> is \<open>ErrRetriesExhausted\<close>; without a callback there is another error.\<close>

datatype 'a retried = Object 'a | CallbackNil | CallbackFailed go_error | Exhausted nat "go_error option"

record 'a retry_run =
  rr_result :: "'a retried"
  rr_calls :: nat
  rr_sleeps :: "int list"

text \<open>The loop from attempt \<open>retry\<close> on, with the last error so far.\<close>

function retry_loop :: "(f64 \<Rightarrow> nat \<Rightarrow> int) \<Rightarrow> RetryConfig \<Rightarrow> (nat \<Rightarrow> 'a attempt) \<Rightarrow> nat \<Rightarrow> go_error option
    \<Rightarrow> 'a retry_run" where
  "retry_loop pow r cb retry lastErr =
     (if int retry \<le> rt_Retries r then
        (case cb retry of
           Success x \<Rightarrow> \<lparr>rr_result = Object x, rr_calls = Suc retry, rr_sleeps = []\<rparr>
         | Failure e \<Rightarrow>
             (let rest = retry_loop pow r cb (Suc retry) (Some e)
              in rest\<lparr>rr_sleeps := backoff pow r retry # rr_sleeps rest\<rparr>))
      else \<lparr>rr_result = Exhausted retry lastErr, rr_calls = retry, rr_sleeps = []\<rparr>)"
  by pat_completeness auto
termination
  by (relation "measure (\<lambda>(pow, r, cb, retry, e). nat (rt_Retries r + 1 - int retry))") auto

declare retry_loop.simps [simp del]

definition Retry :: "(f64 \<Rightarrow> nat \<Rightarrow> int) \<Rightarrow> RetryConfig option \<Rightarrow> (nat \<Rightarrow> 'a attempt) option \<Rightarrow> 'a retry_run" where
  "Retry pow r cb =
     (case cb of
        None \<Rightarrow> \<lparr>rr_result = CallbackNil, rr_calls = 0, rr_sleeps = []\<rparr>
      | Some f \<Rightarrow>
          (case r of
             None \<Rightarrow> \<lparr>rr_result = (case f 0 of Success x \<Rightarrow> Object x | Failure e \<Rightarrow> CallbackFailed e),
                      rr_calls = 1, rr_sleeps = []\<rparr>
           | Some c \<Rightarrow> retry_loop pow c f 0 None))"

text \<open>\<open>x > n\<close> for a float and an integer the float represents exactly.\<close>

fun f64_above :: "f64 \<Rightarrow> int \<Rightarrow> bool" where
  "f64_above F64NaN n = False"
| "f64_above (F64Inf s) n = (\<not> s)"
| "f64_above (F64Fin s m e) n =
     (let v = (if s then - int m else int m)
      in if 0 \<le> e then v * 2 ^ nat e > n else v > n * 2 ^ nat (- e))"

definition NewRetry :: "RetryConfig \<Rightarrow> RetryConfig" where
  "NewRetry rty =
     (let retry = (if rt_Retries rty < 0 then rty\<lparr>rt_Retries := 0\<rparr> else rty)
      in if \<not> rt_DisableBackoffCaps retry \<and> f64_above (rt_BackoffMultiplier retry) BackoffMultiplierCap
         then retry\<lparr>rt_BackoffMultiplier := F64Fin False 10 0\<rparr> else retry)"

section \<open>Facts\<close>

lemma backoff_capped: "\<not> rt_DisableBackoffCaps r \<Longrightarrow> backoff pow r k \<le> BackoffDurationCap"
  by (simp add: backoff_def Let_def)

lemma retry_loop_sleeps:
  "\<not> rt_DisableBackoffCaps r \<Longrightarrow> s \<in> set (rr_sleeps (retry_loop pow r cb k e)) \<Longrightarrow> s \<le> BackoffDurationCap"
proof (induction pow r cb k e rule: retry_loop.induct)
  case (1 pow r cb k e)
  show ?case
  proof (cases "int k \<le> rt_Retries r")
    case True
    then show ?thesis
      using 1 backoff_capped [of r pow k]
      by (subst (asm) (2) retry_loop.simps) (auto simp: Let_def split: attempt.splits)
  next
    case False
    then show ?thesis using 1 by (subst (asm) (2) retry_loop.simps) simp
  qed
qed

lemma retry_loop_success:
  assumes "k \<le> i" "int i \<le> rt_Retries r" and "cb i = Success x"
    and "\<And>j. k \<le> j \<Longrightarrow> j < i \<Longrightarrow> \<exists>e. cb j = Failure e"
  shows "rr_result (retry_loop pow r cb k e) = Object x \<and> rr_calls (retry_loop pow r cb k e) = Suc i
     \<and> length (rr_sleeps (retry_loop pow r cb k e)) = i - k"
  using assms
proof (induction "i - k" arbitrary: k e)
  case 0
  then have "k = i" by simp
  with 0 show ?case by (subst (1 2 3) retry_loop.simps) simp
next
  case (Suc n)
  then obtain e' where e': "cb k = Failure e'" by (metis Suc_leI le_refl less_eq_Suc_le zero_less_Suc zero_less_diff)
  have IH: "rr_result (retry_loop pow r cb (Suc k) (Some e')) = Object x
      \<and> rr_calls (retry_loop pow r cb (Suc k) (Some e')) = Suc i
      \<and> length (rr_sleeps (retry_loop pow r cb (Suc k) (Some e'))) = i - Suc k"
    using Suc by (intro Suc.hyps(1)) auto
  have k: "int k \<le> rt_Retries r" using Suc by linarith
  show ?case using IH e' k Suc.hyps(2)
    by (subst (1 2 3) retry_loop.simps) (simp add: Let_def Suc_diff_Suc)
qed

lemma retry_loop_exhausted:
  assumes "\<And>j. k \<le> j \<Longrightarrow> int j \<le> rt_Retries r \<Longrightarrow> cb j = Failure (err j)" and "int k \<le> rt_Retries r + 1"
  shows "rr_result (retry_loop pow r cb k e) =
       Exhausted (nat (rt_Retries r + 1)) (if int k \<le> rt_Retries r then Some (err (nat (rt_Retries r))) else e)
     \<and> rr_calls (retry_loop pow r cb k e) = nat (rt_Retries r + 1)
     \<and> length (rr_sleeps (retry_loop pow r cb k e)) = nat (rt_Retries r + 1) - k"
  using assms
proof (induction "nat (rt_Retries r + 1) - k" arbitrary: k e)
  case 0
  then have "int k = rt_Retries r + 1" by linarith
  then show ?case by (subst (1 2 3) retry_loop.simps) (auto simp: nat_eq_iff2)
next
  case (Suc n)
  then have k: "int k \<le> rt_Retries r" by linarith
  have cb: "cb k = Failure (err k)" using Suc.prems k by simp
  have IH: "rr_result (retry_loop pow r cb (Suc k) (Some (err k))) =
       Exhausted (nat (rt_Retries r + 1)) (if int (Suc k) \<le> rt_Retries r then Some (err (nat (rt_Retries r))) else Some (err k))
     \<and> rr_calls (retry_loop pow r cb (Suc k) (Some (err k))) = nat (rt_Retries r + 1)
     \<and> length (rr_sleeps (retry_loop pow r cb (Suc k) (Some (err k)))) = nat (rt_Retries r + 1) - Suc k"
    using Suc k by (intro Suc.hyps(1)) auto
  have last: "\<not> int (Suc k) \<le> rt_Retries r \<Longrightarrow> nat (rt_Retries r) = k" using k by linarith
  show ?case using IH cb k Suc.hyps(2) last
    by (subst (1 2 3) retry_loop.simps) (auto simp: Let_def)
qed

lemma NewRetry_bounds:
  "0 \<le> rt_Retries (NewRetry c)"
  "\<not> rt_DisableBackoffCaps (NewRetry c) \<Longrightarrow> \<not> f64_above (rt_BackoffMultiplier (NewRetry c)) BackoffMultiplierCap"
  by (auto simp: NewRetry_def Let_def BackoffMultiplierCap_def split: if_splits)

text \<open>
  Retrying with the policy \<open>NewRetry\<close> builds: the callback runs until its first success
  among the calls \<open>0..n\<close>, \<open>n\<close> the number of retries, whose object is returned after exactly that
  many calls and one sleep after each failure; if all of them fail, it has run \<open>n + 1\<close> times, the
  error reports that number and the last failure, and there was a sleep after the last attempt too.
  No sleep exceeds a minute unless the caps are disabled.
\<close>

lemma retry_runs_until_first_success:
  "let n = nat (rt_Retries (NewRetry c)); run = Retry pow (Some (NewRetry c)) (Some cb)
   in (\<forall>i x. i \<le> n \<longrightarrow> cb i = Success x \<longrightarrow> (\<forall>j < i. \<exists>e. cb j = Failure e) \<longrightarrow>
            rr_result run = Object x \<and> rr_calls run = Suc i \<and> length (rr_sleeps run) = i)
    \<and> (\<forall>err. (\<forall>j \<le> n. cb j = Failure (err j)) \<longrightarrow>
            rr_result run = Exhausted (Suc n) (Some (err n)) \<and> rr_calls run = Suc n
            \<and> length (rr_sleeps run) = Suc n)
    \<and> (\<not> rt_DisableBackoffCaps c \<longrightarrow> (\<forall>s \<in> set (rr_sleeps run). s \<le> 60000000000))"
  unfolding Let_def
proof (intro conjI allI impI ballI)
  let ?r = "NewRetry c"
  let ?n = "nat (rt_Retries ?r)" and ?run = "Retry pow (Some ?r) (Some cb)"
  have run: "?run = retry_loop pow ?r cb 0 None" by (simp add: Retry_def)
  have n: "int ?n = rt_Retries ?r" "nat (rt_Retries ?r + 1) = Suc ?n"
    using NewRetry_bounds(1) [of c] by simp_all
  show "rr_result ?run = Object x" "rr_calls ?run = Suc i" "length (rr_sleeps ?run) = i"
    if "i \<le> ?n" "cb i = Success x" "\<forall>j < i. \<exists>e. cb j = Failure e" for i x
    using retry_loop_success [of 0 i ?r cb x pow None] that n unfolding run by auto
  show "rr_result ?run = Exhausted (Suc ?n) (Some (err ?n))" "rr_calls ?run = Suc ?n"
    "length (rr_sleeps ?run) = Suc ?n" if "\<forall>j \<le> ?n. cb j = Failure (err j)" for err
    using retry_loop_exhausted [of 0 ?r cb err pow None] that n unfolding run by auto
  show "s \<le> 60000000000" if "\<not> rt_DisableBackoffCaps c" "s \<in> set (rr_sleeps ?run)" for s
    using retry_loop_sleeps [of ?r s pow cb 0 None] that unfolding run
    by (simp add: NewRetry_def Let_def BackoffDurationCap_def split: if_splits)
qed

end
