(* ===== verification/Transport.thy ===== *)
theory Transport
  imports RetryPolicy Codec
begin

text \<open>
  The framed socket (\<open>connection/client.go\<close>): \<open>Send\<close>, \<open>Receive\<close>, \<open>Close\<close>, \<open>Reconnect\<close>. What the
  operating system and the clock do is an argument: the results of the successive \<open>Write\<close> calls,
  and for every turn of a receive loop what the context, the deadlines and \<open>Read\<close> said. A read
  hands over at most what the buffer holds and the stream has, as \<open>io.Reader\<close> promises, and a
  write accepts at most what it is given. An exhausted list is a call that still blocks. Wire
  hooks, tracing and logging are left out; the times and options are in \<open>Timeouts\<close>.
\<close>

section \<open>State\<close>

text \<open>\<open>tr_Conn\<close> identifies the socket; \<open>None\<close> is a nil connection.\<close>

record transport =
  tr_Conn :: "nat option"
  tr_connected :: bool
  tr_ReceiveChunkSize :: nat
  tr_Network :: string
  tr_Host :: string
  tr_Port :: string
  tr_Uuid :: string
  tr_ActorName :: string

definition markDisconnected :: "transport \<Rightarrow> transport" where
  "markDisconnected c = c\<lparr>tr_connected := False\<rparr>"

definition IsConnected :: "transport option \<Rightarrow> bool" where
  "IsConnected c = (case c of None \<Rightarrow> False | Some t \<Rightarrow> tr_Conn t \<noteq> None \<and> tr_connected t)"

text \<open>A call that has not come back, has panicked, or returned.\<close>

datatype 'a io = Blocked | Crashed | Done 'a

text \<open>\<open>fmt.Errorf("...: %w", err)\<close>: the wrapped error may be nil, which \<open>fmt\<close> prints in its own way.\<close>

definition errorf :: "string \<Rightarrow> go_error option \<Rightarrow> go_error" where
  "errorf s e = OtherError (s @ (case e of None \<Rightarrow> ''%!w(<nil>)'' | Some x \<Rightarrow> error_text x)) e"

definition connection_lost :: "go_error option \<Rightarrow> go_error" where
  "connection_lost e = Wrap ErrConnectionLost e"

definition idle_timeout :: "go_error option \<Rightarrow> go_error" where
  "idle_timeout e = Wrap ErrReceiveIdleTimeout e"

section \<open>Send\<close>

type_synonym write_obs = "nat \<times> go_error option"

record send_result =
  sr_sent :: nat
  sr_err :: "go_error option"
  sr_wire :: string      \<comment> \<open>what reached the socket\<close>
  sr_client :: transport

definition maxZeroWrites :: nat where
  "maxZeroWrites = 3"

text \<open>The write loop: \<open>sent\<close> bytes have been accepted, \<open>zeros\<close> empty writes came in a row.\<close>

fun send_loop :: "write_obs list \<Rightarrow> string \<Rightarrow> nat \<Rightarrow> nat \<Rightarrow> (nat \<times> go_error option \<times> string) io" where
  "send_loop [] dat sent zeros = (if sent \<ge> length dat then Done (sent, None, []) else Blocked)"
| "send_loop ((n, err) # obs) dat sent zeros =
     (if sent \<ge> length dat then Done (sent, None, [])
      else let out = take n (drop sent dat) in
        case err of
          Some e \<Rightarrow> Done (sent, Some (connection_lost (Some e)), out)
        | None \<Rightarrow>
            if length out = 0 then
              (if zeros + 1 \<ge> maxZeroWrites then
                 Done (sent, Some (connection_lost (Some (OtherError
                   (''write returned 0 bytes '' @ itoa (int maxZeroWrites) @ '' times consecutively'') None))), [])
               else send_loop obs dat sent (zeros + 1))
            else
              (case send_loop obs dat (sent + length out) 0 of
                 Done (s, e, w) \<Rightarrow> Done (s, e, out @ w)
               | Blocked \<Rightarrow> Blocked
               | Crashed \<Rightarrow> Crashed))"

definition Send :: "write_obs list \<Rightarrow> transport \<Rightarrow> string \<Rightarrow> send_result io" where
  "Send obs c dat =
     (if \<not> tr_connected c \<or> tr_Conn c = None then
        Done \<lparr>sr_sent = 0, sr_err = Some ErrClientNotConnected, sr_wire = [], sr_client = c\<rparr>
      else case send_loop obs dat 0 0 of
        Done (s, e, w) \<Rightarrow>
          Done \<lparr>sr_sent = s, sr_err = e, sr_wire = w,
                sr_client = (if e = None then c else markDisconnected c)\<rparr>
      | Blocked \<Rightarrow> Blocked
      | Crashed \<Rightarrow> Crashed)"

section \<open>The length prefix\<close>

definition hex_digit_byte :: "char \<Rightarrow> bool" where
  "hex_digit_byte b \<longleftrightarrow> 48 \<le> code b \<and> code b \<le> 57 \<or> 97 \<le> code b \<and> code b \<le> 102
     \<or> 65 \<le> code b \<and> code b \<le> 70"

definition decimal_byte :: "char \<Rightarrow> bool" where
  "decimal_byte b \<longleftrightarrow> 48 \<le> code b \<and> code b \<le> 57"

definition isValidLengthPrefix :: "string \<Rightarrow> bool" where
  "isValidLengthPrefix pre =
     (if length pre \<noteq> 9 then False
      else if pre ! 0 = CHR ''x'' then list_all hex_digit_byte (drop 1 pre)
      else list_all decimal_byte pre)"

text \<open>What the nine bytes announce, or the error \<open>Receive\<close> wraps.\<close>

definition announced_length :: "golib \<Rightarrow> string \<Rightarrow> go_error + int" where
  "announced_length G pre =
     (if \<not> isValidLengthPrefix pre then
        Inl (OtherError (''connection out of sync: expected message length prefix but received '' @ Quote (IsPrint G) pre
          @ '' - this usually indicates the previous message wasn't fully consumed or the connection buffer has leftover data'') None)
      else if pre ! 0 = CHR ''x'' then
        (case ParseInt 16 32 (drop 1 pre) of
           (n, None) \<Rightarrow> Inr n
         | (n, Some e) \<Rightarrow> Inl (errorf (''failed to parse hex message length from '' @ Quote (IsPrint G) (drop 1 pre) @ '': '')
             (Some (OtherError (num_error_text (IsPrint G) ''ParseInt'' (drop 1 pre) e) None))))
      else
        (case ParseInt 10 32 pre of
           (n, None) \<Rightarrow> Inr n
         | (n, Some e) \<Rightarrow> Inl (errorf (''failed to parse decimal message length from '' @ Quote (IsPrint G) pre @ '': '')
             (Some (OtherError (num_error_text (IsPrint G) ''ParseInt'' pre e) None)))))"

section \<open>Receive\<close>

datatype io_kind = IoTimeout | IoEOF | IoOther

text \<open>
  One turn of a receive loop: \<open>ctx.Err()\<close> before the read; whether the deadline has passed without
  the context saying so; the time without data when it exceeds the activity timeout (its text), at
  the head of the loop and after the read; what \<open>Read\<close> returned; \<open>ctx.Err()\<close> after it.
\<close>

record read_obs =
  ob_ctx :: "go_error option"
  ob_deadline_passed :: bool
  ob_stalled :: "string option"
  ob_bytes :: nat
  ob_err :: "(io_kind \<times> go_error) option"
  ob_ctx_after :: "go_error option"
  ob_stalled_after :: "string option"

definition read_count :: "read_obs \<Rightarrow> nat \<Rightarrow> string \<Rightarrow> nat" where
  "read_count ob room stream = min (ob_bytes ob) (min room (length stream))"

datatype prefix_result =
    PrefixBlocked
  | PrefixCrashed
  | PrefixIdle go_error string
  | PrefixLost nat go_error string
  | PrefixRead string string "read_obs list"

text \<open>The first loop: \<open>acc\<close> holds the prefix bytes read so far.\<close>

fun read_prefix :: "bool \<Rightarrow> read_obs list \<Rightarrow> string \<Rightarrow> string \<Rightarrow> prefix_result" where
  "read_prefix hasConn [] stream acc = (if length acc < 9 then PrefixBlocked else PrefixRead acc stream [])"
| "read_prefix hasConn (ob # obs) stream acc =
     (if \<not> length acc < 9 then PrefixRead acc stream (ob # obs)
      else if ob_ctx ob \<noteq> None then
        (if acc = [] then PrefixIdle (idle_timeout (ob_ctx ob)) stream
         else PrefixLost (length acc) (connection_lost (Some (errorf ''context expired mid-frame reading length prefix: '' (ob_ctx ob)))) stream)
      else if ob_deadline_passed ob then
        (if acc = [] then PrefixIdle (idle_timeout (ob_ctx ob)) stream
         else PrefixLost (length acc) (connection_lost (Some (errorf ''receive timeout mid-frame: '' (ob_ctx ob)))) stream)
      else if \<not> hasConn then PrefixCrashed
      else
        let n = read_count ob (9 - length acc) stream;
            acc' = acc @ take n stream;
            stream' = drop n stream
        in case ob_err ob of
             Some (k, e) \<Rightarrow>
               if (k = IoTimeout \<or> ob_ctx_after ob \<noteq> None) \<and> acc' = [] then PrefixIdle (idle_timeout (Some e)) stream'
               else PrefixLost (length acc') (connection_lost (Some e)) stream'
           | None \<Rightarrow> read_prefix hasConn obs stream' acc')"

definition activity_error :: "string \<Rightarrow> nat \<Rightarrow> go_error" where
  "activity_error d remaining = OtherError (''activity timeout: no data received for '' @ d
     @ '' (expected transfer rate not met, remaining bytes: '' @ itoa (int remaining) @ '')'') None"

datatype body_result =
    BodyBlocked
  | BodyLost string go_error string
  | BodyRead string string

text \<open>The second loop: \<open>buf\<close> is the frame so far, \<open>remaining\<close> bytes are missing.\<close>

fun read_body :: "nat \<Rightarrow> read_obs list \<Rightarrow> string \<Rightarrow> string \<Rightarrow> nat \<Rightarrow> body_result" where
  "read_body chunk [] stream buf remaining = (if remaining > 0 then BodyBlocked else BodyRead buf stream)"
| "read_body chunk (ob # obs) stream buf remaining =
     (if \<not> remaining > 0 then BodyRead buf stream
      else if ob_ctx ob \<noteq> None then
        BodyLost buf (connection_lost (Some (errorf ''receive timeout mid-frame: '' (ob_ctx ob)))) stream
      else if ob_stalled ob \<noteq> None then
        BodyLost buf (connection_lost (Some (activity_error (the (ob_stalled ob)) remaining))) stream
      else if ob_deadline_passed ob then
        BodyLost buf (connection_lost (Some (errorf ''receive timeout mid-frame: '' (ob_ctx ob)))) stream
      else
        let chunkSize = (if chunk > remaining then remaining else chunk);
            n = read_count ob chunkSize stream;
            buf' = buf @ take n stream;
            stream' = drop n stream;
            remaining' = remaining - n
        in case ob_err ob of
             None \<Rightarrow> read_body chunk obs stream' buf' remaining'
           | Some (k, e) \<Rightarrow>
               if ob_ctx_after ob \<noteq> None then
                 BodyLost buf' (connection_lost (Some (errorf ''receive timeout mid-frame: '' (ob_ctx_after ob)))) stream'
               else if k = IoEOF \<and> remaining' = 0 then BodyRead buf' stream'
               else if k = IoTimeout then
                 (case ob_stalled_after ob of
                    Some d \<Rightarrow> BodyLost buf' (connection_lost (Some (activity_error d remaining'))) stream'
                  | None \<Rightarrow> read_body chunk obs stream' buf' remaining')
               else BodyLost buf' (connection_lost (Some e)) stream')"

record recv_result =
  rv_total :: nat
  rv_data :: "string option"
  rv_err :: "go_error option"
  rv_rest :: string      \<comment> \<open>what is still unread\<close>
  rv_client :: transport

definition received :: "string option \<Rightarrow> nat \<Rightarrow> go_error option \<Rightarrow> string \<Rightarrow> transport \<Rightarrow> recv_result io" where
  "received d n e rest c = Done \<lparr>rv_total = n, rv_data = d, rv_err = e, rv_rest = rest, rv_client = c\<rparr>"

definition Receive :: "golib \<Rightarrow> read_obs list \<Rightarrow> transport \<Rightarrow> string \<Rightarrow> recv_result io" where
  "Receive G obs c stream =
     (if \<not> tr_connected c then received None 0 (Some ErrClientNotConnected) stream c
      else case read_prefix (tr_Conn c \<noteq> None) obs stream [] of
        PrefixBlocked \<Rightarrow> Blocked
      | PrefixCrashed \<Rightarrow> Crashed
      | PrefixIdle e rest \<Rightarrow> received None 0 (Some e) rest c
      | PrefixLost n e rest \<Rightarrow> received None n (Some e) rest (markDisconnected c)
      | PrefixRead pre rest obs' \<Rightarrow>
          (case announced_length G pre of
             Inl e \<Rightarrow> received None (length pre) (Some (connection_lost (Some e))) rest (markDisconnected c)
           | Inr announced \<Rightarrow>
               if announced - 9 < 0 then
                 received None (length pre)
                   (Some (connection_lost (Some (OtherError (''invalid message length: '' @ itoa announced) None)))) rest (markDisconnected c)
               else case read_body (tr_ReceiveChunkSize c) obs' rest pre (nat (announced - 9)) of
                 BodyBlocked \<Rightarrow> Blocked
               | BodyLost buf e rest' \<Rightarrow> received (Some buf) (length buf) (Some e) rest' (markDisconnected c)
               | BodyRead buf rest' \<Rightarrow> received (Some buf) (length buf) None rest' c))"

section \<open>Close and Reconnect\<close>

text \<open>\<open>net.JoinHostPort\<close>.\<close>

definition JoinHostPort :: "string \<Rightarrow> string \<Rightarrow> string" where
  "JoinHostPort host port =
     (if CHR '':'' \<in> set host then ''['' @ host @ '']:'' @ port else host @ '':'' @ port)"

definition Close :: "transport \<Rightarrow> transport" where
  "Close c = c\<lparr>tr_connected := False, tr_Uuid := [], tr_Conn := None, tr_Host := [], tr_Port := [],
     tr_ActorName := [], tr_Network := []\<rparr>"

text \<open>
  \<open>dial network address k\<close> is what the \<open>k\<close>-th dial of this call returns: a new socket or an error.
  \<open>Reconnect\<close> closes, restores the address it saved and dials under the retry policy.
\<close>

type_synonym dialer = "string \<Rightarrow> string \<Rightarrow> nat \<Rightarrow> nat attempt"

fun retried_error :: "'a retried \<Rightarrow> go_error option" where
  "retried_error (Object x) = None"
| "retried_error CallbackNil = Some (OtherError ''callback is nil'' None)"
| "retried_error (CallbackFailed e) = Some e"
| "retried_error (Exhausted n None) =
     Some (OtherError (''retry attempts exhausted after '' @ itoa (int n) @ '' attempts'') None)"
| "retried_error (Exhausted n (Some e)) =
     Some (OtherError (''retry attempts exhausted after '' @ itoa (int n) @ '' attempts: '' @ error_text e) (Some e))"

definition Reconnect :: "(f64 \<Rightarrow> nat \<Rightarrow> int) \<Rightarrow> RetryConfig option \<Rightarrow> dialer \<Rightarrow> transport \<Rightarrow> go_error option \<times> transport" where
  "Reconnect pow retry dial c =
     (let host = tr_Host c; port = tr_Port c; actorName = tr_ActorName c; network = tr_Network c;
          c1 = (if tr_Conn c \<noteq> None then Close c else c);
          c2 = c1\<lparr>tr_connected := False, tr_Host := host, tr_Port := port, tr_ActorName := actorName, tr_Network := network\<rparr>;
          run = Retry pow retry (Some (dial network (JoinHostPort host port)))
      in case rr_result run of
           Object conn \<Rightarrow> (None, c2\<lparr>tr_Conn := Some conn, tr_connected := True\<rparr>)
         | r \<Rightarrow> (Some (Wrap ErrClientConnectionFailed (retried_error r)), c2))"


section \<open>Facts\<close>

lemma connection_lost_simps [simp]:
  "IsConnectionLost (Some (connection_lost e))" "\<not> IsIdleTimeout (Some (connection_lost e))"
  "IsIdleTimeout (Some (idle_timeout e))" "\<not> IsConnectionLost (Some (idle_timeout e))"
  by (simp_all add: connection_lost_def idle_timeout_def lost_not_idle)

subsection \<open>Send\<close>

lemma send_loop_sound:
  assumes "send_loop obs dat sent zeros = Done (s, e, w)" and "sent \<le> length dat"
  shows "(\<exists>r. drop sent dat = w @ r \<and> (e = None \<longrightarrow> r = [] \<and> s = length dat))
     \<and> sent \<le> s \<and> s \<le> sent + length w \<and> (e \<noteq> None \<longrightarrow> IsConnectionLost e)"
  using assms
proof (induction obs dat sent zeros arbitrary: s e w rule: send_loop.induct)
  case (1 dat sent zeros)
  then show ?case by (auto split: if_splits)
next
  case (2 n err obs dat sent zeros)
  let ?out = "take n (drop sent dat)"
  show ?case
  proof (cases "sent \<ge> length dat \<or> err \<noteq> None \<or> ?out = []")
    case True
    then show ?thesis
      using 2 by (auto simp: Let_def connection_lost_def drop_eq_Nil2 split: if_splits option.splits
          intro: append_take_drop_id [symmetric])
  next
    case False
    then obtain w' where rest: "send_loop obs dat (sent + length ?out) 0 = Done (s, e, w')" "w = ?out @ w'"
      using 2 by (auto simp: Let_def split: if_splits io.splits)
    have "sent + length ?out \<le> length dat" using False by auto
    with 2(2) [OF _ refl] rest False
    obtain r where r: "drop (sent + length ?out) dat = w' @ r" "e = None \<longrightarrow> r = [] \<and> s = length dat"
      "sent + length ?out \<le> s" "s \<le> sent + length ?out + length w'" "e \<noteq> None \<longrightarrow> IsConnectionLost e"
      by auto
    have "drop sent dat = ?out @ drop (sent + length ?out) dat"
      by (metis append_take_drop_id drop_drop length_take min.absorb_iff2 add.commute append_eq_conv_conj)
    with r rest show ?thesis by auto
  qed
qed

lemma send_loop_returns:
  assumes "3 * (length dat - sent) \<le> length obs + zeros" and "zeros < maxZeroWrites"
  shows "\<exists>r. send_loop obs dat sent zeros = Done r"
  using assms
proof (induction obs dat sent zeros rule: send_loop.induct)
  case (1 dat sent zeros)
  then show ?case by (auto simp: maxZeroWrites_def)
next
  case (2 n err obs dat sent zeros)
  let ?out = "take n (drop sent dat)"
  consider "sent \<ge> length dat \<or> err \<noteq> None" | "sent < length dat" "err = None" "?out = []"
    | "sent < length dat" "err = None" "?out \<noteq> []" by fastforce
  then show ?case
  proof cases
    case 1
    then show ?thesis by (auto simp: Let_def)
  next
    case 2
    have "\<exists>r. send_loop obs dat sent (zeros + 1) = Done r" if "zeros + 1 < maxZeroWrites"
      using "2.IH"(1) [OF _ refl] 2 that "2.prems" by auto
    then show ?thesis using 2 by (auto simp: Let_def)
  next
    case 3
    then have "1 \<le> length ?out" by (simp add: Suc_le_eq)
    then have "3 * (length dat - (sent + length ?out)) \<le> length obs + 0"
      using "2.prems" 3(1) unfolding maxZeroWrites_def by (simp del: length_take length_drop)
    then obtain r where "send_loop obs dat (sent + length ?out) 0 = Done r"
      using "2.IH"(2) [OF _ refl] 3 by (auto simp: maxZeroWrites_def)
    then show ?thesis using 3 by (cases r) (simp add: Let_def)
  qed
qed

subsection \<open>Receive\<close>

lemma read_count_le: "read_count ob room stream \<le> room" "read_count ob room stream \<le> length stream"
  by (simp_all add: read_count_def)

text \<open>What the loops leave: nothing is consumed or lost that is not in the result.\<close>

definition prefix_sound :: "string \<Rightarrow> string \<Rightarrow> prefix_result \<Rightarrow> bool" where
  "prefix_sound acc stream X =
    (case X of
       PrefixIdle e rest \<Rightarrow> acc = [] \<and> rest = stream \<and> IsIdleTimeout (Some e)
     | PrefixLost n e rest \<Rightarrow> IsConnectionLost (Some e) \<and> length acc \<le> n \<and> rest = drop (n - length acc) stream
     | PrefixRead p rest obs' \<Rightarrow> length p = 9 \<and> acc @ stream = p @ rest
     | _ \<Rightarrow> True)"

lemma prefix_sound_step:
  assumes "prefix_sound (acc @ take n stream) (drop n stream) X" and "n \<le> length stream"
  shows "prefix_sound acc stream X"
  using assms by (cases X) (auto simp: prefix_sound_def)

lemma prefix_sound_lost:
  assumes "n \<le> length stream"
  shows "prefix_sound acc stream (PrefixLost (length (acc @ take n stream)) (connection_lost e) (drop n stream))"
  using assms by (simp add: prefix_sound_def min_absorb2)

lemma prefix_sound_lost0: "prefix_sound acc stream (PrefixLost (length acc) (connection_lost e) stream)"
  by (simp add: prefix_sound_def)

lemma prefix_sound_idle: "prefix_sound [] stream (PrefixIdle (idle_timeout e) stream)"
  by (simp add: prefix_sound_def)

lemma read_prefix_sound: "length acc \<le> 9 \<Longrightarrow> prefix_sound acc stream (read_prefix hasConn obs stream acc)"
proof (induction hasConn obs stream acc rule: read_prefix.induct)
  case (1 hasConn stream acc)
  then show ?case by (simp add: prefix_sound_def)
next
  case (2 hasConn ob obs stream acc)
  define n where "n = read_count ob (9 - length acc) stream"
  have n: "n \<le> 9 - length acc" "n \<le> length stream" by (simp_all add: n_def read_count_le)
  consider "\<not> length acc < 9 \<or> ob_ctx ob \<noteq> None \<or> ob_deadline_passed ob \<or> \<not> hasConn"
    | ke where "length acc < 9" "ob_ctx ob = None" "\<not> ob_deadline_passed ob" "hasConn" "ob_err ob = Some ke"
    | "length acc < 9" "ob_ctx ob = None" "\<not> ob_deadline_passed ob" "hasConn" "ob_err ob = None" by blast
  then show ?case
  proof cases
    case 1
    then show ?thesis using 2(2) by (auto simp: prefix_sound_def)
  next
    case 2
    then show ?thesis using prefix_sound_lost [OF n(2), of acc] n
      by (cases ke) (auto simp: Let_def prefix_sound_idle simp flip: n_def)
  next
    case 3
    have "length (acc @ take n stream) \<le> 9" using n 3 by simp
    then have "prefix_sound (acc @ take n stream) (drop n stream) (read_prefix hasConn obs (drop n stream) (acc @ take n stream))"
      using 2(1) [OF _ _ _ _ n_def refl refl] 3 by simp
    from prefix_sound_step [OF this n(2)] 3 show ?thesis by (simp add: Let_def flip: n_def)
  qed
qed

definition body_sound :: "string \<Rightarrow> string \<Rightarrow> nat \<Rightarrow> body_result \<Rightarrow> bool" where
  "body_sound buf stream remaining X =
    (case X of
       BodyLost b e rest \<Rightarrow> IsConnectionLost (Some e) \<and> (\<exists>k. k \<le> remaining \<and> b = buf @ take k stream \<and> rest = drop k stream)
     | BodyRead b rest \<Rightarrow> remaining \<le> length stream \<and> b = buf @ take remaining stream \<and> rest = drop remaining stream
     | _ \<Rightarrow> True)"

lemma body_sound_step:
  assumes "body_sound (buf @ take n stream) (drop n stream) (remaining - n) X" and "n \<le> length stream" "n \<le> remaining"
  shows "body_sound buf stream remaining X"
proof (cases X)
  case (BodyLost b e rest)
  then obtain k where "k \<le> remaining - n" "b = (buf @ take n stream) @ take k (drop n stream)" "rest = drop k (drop n stream)"
      "IsConnectionLost (Some e)"
    using assms by (auto simp: body_sound_def)
  then have "n + k \<le> remaining" "b = buf @ take (n + k) stream" "rest = drop (n + k) stream"
    using assms(3) by (simp_all add: take_add) (simp add: add.commute)
  then show ?thesis
    using \<open>IsConnectionLost (Some e)\<close> BodyLost unfolding body_sound_def by auto
next
  case (BodyRead b rest)
  moreover have "take remaining stream = take n stream @ take (remaining - n) (drop n stream)"
    using assms(3) by (metis le_add_diff_inverse take_add)
  ultimately show ?thesis
    using assms by (auto simp: body_sound_def)
qed (simp add: body_sound_def)

lemma body_sound_lost:
  "n \<le> remaining \<Longrightarrow> body_sound buf stream remaining (BodyLost (buf @ take n stream) (connection_lost e) (drop n stream))"
  by (auto simp: body_sound_def)

lemma body_sound_lost0: "body_sound buf stream remaining (BodyLost buf (connection_lost e) stream)"
  using body_sound_lost [of 0] by simp

lemma body_sound_read:
  "n \<le> remaining \<Longrightarrow> n \<le> length stream \<Longrightarrow> remaining - n = 0 \<Longrightarrow>
     body_sound buf stream remaining (BodyRead (buf @ take n stream) (drop n stream))"
  by (auto simp: body_sound_def)

lemma body_sound_none: "body_sound buf stream 0 (BodyRead buf stream)"
  by (simp add: body_sound_def)

lemma read_body_sound: "body_sound buf stream remaining (read_body chunk obs stream buf remaining)"
proof (induction chunk obs stream buf remaining rule: read_body.induct)
  case (1 chunk stream buf remaining)
  then show ?case by (simp add: body_sound_def)
next
  case (2 chunk ob obs stream buf remaining)
  define c where "c = (if chunk > remaining then remaining else chunk)"
  define n where "n = read_count ob c stream"
  have n: "n \<le> remaining" "n \<le> length stream"
    using read_count_le [of ob c stream] by (auto simp: n_def c_def split: if_splits)
  show ?case
  proof (cases "remaining > 0 \<and> ob_ctx ob = None \<and> ob_stalled ob = None \<and> \<not> ob_deadline_passed ob")
    case False
    then show ?thesis by (auto simp: body_sound_lost0 body_sound_none)
  next
    case True
    show ?thesis
    proof (cases "ob_err ob")
      case None
      then show ?thesis
        using body_sound_step [OF 2(1) [OF _ _ _ _ c_def n_def refl refl refl] n(2,1)] True
        by (simp add: Let_def flip: c_def n_def)
    next
      case (Some ke)
      obtain k e where ke: "ke = (k, e)" by (cases ke)
      show ?thesis
      proof (cases "ob_ctx_after ob = None \<and> \<not> (k = IoEOF \<and> remaining - n = 0) \<and> k = IoTimeout \<and> ob_stalled_after ob = None")
        case again: True
        with True Some ke show ?thesis
          using body_sound_step [OF 2(2) [OF _ _ _ _ c_def n_def refl refl refl Some [unfolded ke] refl] n(2,1)]
          by (simp add: Let_def flip: c_def n_def)
      next
        case False
        with True Some ke show ?thesis
          using body_sound_lost [OF n(1), of buf stream] body_sound_read [OF n(1,2), of buf]
          by (auto simp: Let_def split: option.splits simp flip: c_def n_def)
      qed
    qed
  qed
qed

end
