(* ===== verification/TransportProperties.thy ===== *)
theory TransportProperties
  imports Transport Roundtrip
begin

text \<open>
  What the framed socket promises: a write that reports success put every byte on the wire, a read
  that reports success returned exactly one frame however the bytes arrived, and everything else
  either consumed nothing or marked the connection dead. Together with the encoder: frames sent one
  after the other come out one by one.
\<close>

section \<open>Self-delimiting frames\<close>

text \<open>A frame starts with a field of fixed width that announces the length of the whole.\<close>

locale self_delimiting =
  fixes width :: nat
    and announce :: "string \<Rightarrow> 'e + int"
    and is_frame :: "string \<Rightarrow> bool"
  assumes frame_long: "is_frame f \<Longrightarrow> width \<le> length f"
    and frame_announced: "is_frame f \<Longrightarrow> announce (take width f) = Inr (int (length f))"
begin

lemma prefix_free: "is_frame f \<Longrightarrow> is_frame g \<Longrightarrow> f @ r = g @ s \<Longrightarrow> f = g \<and> r = s"
proof -
  assume fg: "is_frame f" "is_frame g" "f @ r = g @ s"
  have "take width f = take width (f @ r)" using frame_long [OF fg(1)] by simp
  also have "\<dots> = take width (g @ s)" by (simp only: fg(3))
  also have "\<dots> = take width g" using frame_long [OF fg(2)] by simp
  finally have "take width f = take width g" .
  then have "length f = length g" using frame_announced [OF fg(1)] frame_announced [OF fg(2)] by simp
  then show "f = g \<and> r = s" using append_eq_append_conv [of f g r s] fg(3) by simp
qed

lemma concat_unique:
  "0 < width \<Longrightarrow> list_all is_frame fs \<Longrightarrow> list_all is_frame gs \<Longrightarrow> concat fs = concat gs \<Longrightarrow> fs = gs"
proof (induction fs arbitrary: gs)
  case Nil
  then show ?case using frame_long by (cases gs) force+
next
  case (Cons f fs)
  from Cons.prems have "f \<noteq> []" using frame_long [of f] by auto
  with Cons.prems obtain g gs' where g: "gs = g # gs'" by (cases gs) auto
  have "f @ concat fs = g @ concat gs'" using Cons.prems(4) g by simp
  then have "f = g \<and> concat fs = concat gs'" using prefix_free [of f g] Cons.prems(2,3) g by simp
  then show ?case using Cons g by auto
qed

end

text \<open>The encoder's frames whose announced lengths agree with their layout.\<close>

definition encoded_frame :: "string \<Rightarrow> bool" where
  "encoded_frame f \<longleftrightarrow> (\<exists>m h d. codable m h d \<and> f = sm_MessageBytes (frame m h d))"

lemma hex8_hex_digits: "c \<in> set (hex8 n) \<Longrightarrow> hex_digit_byte c"
proof -
  assume "c \<in> set (hex8 n)"
  then have "c = CHR ''0'' \<or> (\<exists>d < 16. c = digit_char d)"
    using digits_set [of 16 c n] by (auto simp: hex8_def pad0_def split: if_splits)
  then show ?thesis by (elim disjE exE conjE) (auto simp: hex_digit_byte_def digit_char_code)
qed

lemma announced_length_hex_field:
  assumes "n < 2 ^ 31"
  shows "announced_length G (hex_field n) = Inr (int n)"
proof -
  have "length (hex8 n) = 8" using assms by (simp add: length_hex8)
  then have "isValidLengthPrefix (hex_field n)"
    using hex8_hex_digits by (auto simp: isValidLengthPrefix_def hex_field_def list_all_iff)
  then show ?thesis using assms by (simp add: announced_length_def ParseInt_hex8 hex_field_def)
qed

lemma encoded_frame_announced:
  assumes "codable m h d"
  shows "announced_length G (take 9 (sm_MessageBytes (frame m h d))) = Inr (int (length (sm_MessageBytes (frame m h d))))"
    and "9 \<le> length (sm_MessageBytes (frame m h d))"
proof -
  have small: "total_length m h d < 2 ^ 31" using assms by (simp add: codable_def)
  then have "length (hex_field (total_length m h d)) = 9" by (simp add: length_hex_field)
  then have "take 9 (sm_MessageBytes (frame m h d)) = hex_field (total_length m h d)"
    by (simp add: frame_bytes [OF assms] frame_fields_def)
  then show "announced_length G (take 9 (sm_MessageBytes (frame m h d))) = Inr (int (length (sm_MessageBytes (frame m h d))))"
    using announced_length_hex_field [OF small] total_length_eq [OF assms] length_frame [OF assms] by simp
  show "9 \<le> length (sm_MessageBytes (frame m h d))" by (simp add: length_frame [OF assms])
qed

interpretation wire: self_delimiting 9 "announced_length G" encoded_frame for G
  by unfold_locales (auto simp: encoded_frame_def encoded_frame_announced)

lemma encoded_is_frame:
  assumes "EncodeMessage G now (Some m) = Returned sm" and "wire_safe m sm"
  shows "encoded_frame (sm_MessageBytes sm)"
  using assms wire_safe_codable unfolding EncodeMessage_Returned_iff encoded_frame_def by blast

section \<open>Reading while data flows\<close>

text \<open>A turn in which nothing expires and \<open>Read\<close> returns at least a byte if there is one.\<close>

definition flowing :: "read_obs \<Rightarrow> bool" where
  "flowing ob \<longleftrightarrow> ob_ctx ob = None \<and> \<not> ob_deadline_passed ob \<and> ob_stalled ob = None
     \<and> 0 < ob_bytes ob \<and> ob_err ob = None"

lemma read_count_pos: "flowing ob \<Longrightarrow> 0 < room \<Longrightarrow> stream \<noteq> [] \<Longrightarrow> 0 < read_count ob room stream"
  by (simp add: flowing_def read_count_def)

lemma read_prefix_flowing:
  assumes "list_all flowing obs" "length acc + length stream \<ge> 9" "9 \<le> length obs + length acc" "length acc \<le> 9"
  shows "\<exists>obs'. read_prefix True obs stream acc = PrefixRead (take 9 (acc @ stream)) (drop (9 - length acc) stream) obs'
     \<and> list_all flowing obs' \<and> length obs + length acc \<le> length obs' + 9"
  using assms
proof (induction obs arbitrary: stream acc)
  case Nil
  then show ?case by simp
next
  case (Cons ob obs)
  show ?case
  proof (cases "length acc < 9")
    case False
    then show ?thesis using Cons.prems by (auto intro!: exI [of _ "ob # obs"])
  next
    case True
    define n where "n = read_count ob (9 - length acc) stream"
    have "stream \<noteq> []" using True Cons.prems(2) by auto
    then have n: "0 < n" "n \<le> 9 - length acc" "n \<le> length stream"
      using True Cons.prems read_count_pos [of ob "9 - length acc" stream]
      by (auto simp: n_def read_count_le)
    have "\<exists>obs'. read_prefix True obs (drop n stream) (acc @ take n stream) =
          PrefixRead (take 9 ((acc @ take n stream) @ drop n stream))
            (drop (9 - length (acc @ take n stream)) (drop n stream)) obs'
        \<and> list_all flowing obs' \<and> length obs + length (acc @ take n stream) \<le> length obs' + 9"
      using Cons.prems n True by (intro Cons.IH) auto
    moreover have "drop (9 - length (acc @ take n stream)) (drop n stream) = drop (9 - length acc) stream"
      using n by simp
    ultimately obtain obs' where obs': "read_prefix True obs (drop n stream) (acc @ take n stream) =
          PrefixRead (take 9 (acc @ stream)) (drop (9 - length acc) stream) obs'"
        "list_all flowing obs'" "length obs + (length acc + n) \<le> length obs' + 9"
      using n by auto
    moreover have "ob_ctx ob = None" "\<not> ob_deadline_passed ob" "ob_err ob = None"
      using Cons.prems by (simp_all add: flowing_def)
    ultimately show ?thesis using True n by (auto simp: Let_def simp flip: n_def)
  qed
qed

lemma read_body_flowing:
  assumes "list_all flowing obs" "remaining \<le> length stream" "remaining \<le> length obs" "0 < chunk"
  shows "read_body chunk obs stream buf remaining = BodyRead (buf @ take remaining stream) (drop remaining stream)"
  using assms
proof (induction obs arbitrary: stream buf remaining)
  case Nil
  then show ?case by simp
next
  case (Cons ob obs)
  show ?case
  proof (cases "remaining > 0")
    case False
    then show ?thesis by simp
  next
    case True
    define c where "c = (if chunk > remaining then remaining else chunk)"
    define n where "n = read_count ob c stream"
    have "stream \<noteq> []" using True Cons.prems(2) by auto
    then have n: "0 < n" "n \<le> remaining" "n \<le> length stream"
      using True Cons.prems read_count_pos [of ob c stream] read_count_le [of ob c stream]
      by (auto simp: n_def c_def split: if_splits)
    have "read_body chunk obs (drop n stream) (buf @ take n stream) (remaining - n)
        = BodyRead ((buf @ take n stream) @ take (remaining - n) (drop n stream)) (drop (remaining - n) (drop n stream))"
      using Cons.prems n by (intro Cons.IH) auto
    moreover have "take remaining stream = take n stream @ take (remaining - n) (drop n stream)"
      using n(2) by (metis le_add_diff_inverse take_add)
    ultimately show ?thesis
      using Cons.prems True n by (simp add: Let_def flowing_def flip: c_def n_def)
  qed
qed

lemma Receive_flowing:
  assumes "IsConnected (Some c)" "0 < tr_ReceiveChunkSize c"
    and "announced_length G (take 9 f) = Inr (int (length f))" "9 \<le> length f"
    and "list_all flowing obs" "length f \<le> length obs"
  shows "Receive G obs c (f @ rest) = received (Some f) (length f) None rest c"
proof -
  obtain obs' where obs': "read_prefix True obs (f @ rest) [] = PrefixRead (take 9 f) (drop 9 f @ rest) obs'"
      "list_all flowing obs'" "length obs \<le> length obs' + 9"
    using read_prefix_flowing [of obs "[]" "f @ rest"] assms(4-6) by auto
  have "read_body (tr_ReceiveChunkSize c) obs' (drop 9 f @ rest) (take 9 f) (length f - 9)
      = BodyRead (take 9 f @ drop 9 f) rest"
    using read_body_flowing [of obs' "length f - 9" "drop 9 f @ rest" "tr_ReceiveChunkSize c" "take 9 f"] obs' assms
    by simp
  moreover have "nat (int (length f) - 9) = length f - 9" by simp
  ultimately show ?thesis
    using assms obs'(1) by (simp add: Receive_def IsConnected_def received_def)
qed

text \<open>Successive calls of \<open>Receive\<close> that all have to succeed.\<close>

fun receive_frames :: "golib \<Rightarrow> read_obs list list \<Rightarrow> transport \<Rightarrow> string \<Rightarrow> (string list \<times> string) option" where
  "receive_frames G [] c stream = Some ([], stream)"
| "receive_frames G (obs # obss) c stream =
     (case Receive G obs c stream of
        Done r \<Rightarrow>
          (case (rv_err r, rv_data r) of
             (None, Some d) \<Rightarrow> map_option (\<lambda>(ds, rest). (d # ds, rest)) (receive_frames G obss (rv_client r) (rv_rest r))
           | _ \<Rightarrow> None)
      | _ \<Rightarrow> None)"

lemma receive_frames_encoded:
  assumes "IsConnected (Some c)" "0 < tr_ReceiveChunkSize c"
    and "list_all2 (\<lambda>f obs. encoded_frame f \<and> list_all flowing obs \<and> length f \<le> length obs) fs obss"
  shows "receive_frames G obss c (concat fs @ rest) = Some (fs, rest)"
  using assms(3)
proof (induction fs obss rule: list_all2_induct)
  case (Cons f fs obs obss)
  then have "Receive G obs c (f @ concat fs @ rest) = received (Some f) (length f) None (concat fs @ rest) c"
    using assms(1,2) wire.frame_long wire.frame_announced by (intro Receive_flowing) auto
  then show ?case using Cons by (simp add: received_def)
qed simp

text \<open>The three outcomes of \<open>Receive\<close>: a frame, an idle timeout, a lost connection.\<close>

lemma receive_outcome:
  assumes "Receive G obs c stream = Done r"
  shows "(rv_err r = None \<and> rv_client r = c \<and> (\<exists>d. rv_data r = Some d \<and> stream = d @ rv_rest r
            \<and> rv_total r = length d \<and> announced_length G (take 9 d) = Inr (int (length d))))
     \<or> (IsIdleTimeout (rv_err r) \<and> rv_client r = c \<and> rv_data r = None \<and> rv_total r = 0 \<and> rv_rest r = stream)
     \<or> (rv_err r \<noteq> None \<and> \<not> IsIdleTimeout (rv_err r) \<and> \<not> tr_connected (rv_client r))"
proof (cases "tr_connected c")
  case False
  then show ?thesis using assms by (auto simp: Receive_def received_def)
next
  case True
  let ?p = "read_prefix (tr_Conn c \<noteq> None) obs stream []"
  have p: "prefix_sound [] stream ?p" by (rule read_prefix_sound) simp
  show ?thesis
  proof (cases ?p)
    case (PrefixRead q rest obs')
    with p have q: "length q = 9" "stream = q @ rest" by (auto simp: prefix_sound_def)
    show ?thesis
    proof (cases "announced_length G q")
      case (Inl e)
      then show ?thesis using assms True PrefixRead by (auto simp: Receive_def received_def markDisconnected_def)
    next
      case (Inr n)
      let ?b = "read_body (tr_ReceiveChunkSize c) obs' rest q (nat (n - 9))"
      have b: "body_sound q rest (nat (n - 9)) ?b" by (rule read_body_sound)
      show ?thesis
      proof (cases "n < 9")
        case True
        then show ?thesis using assms \<open>tr_connected c\<close> PrefixRead Inr
          by (auto simp: Receive_def received_def markDisconnected_def)
      next
        case n: False
        show ?thesis
        proof (cases ?b)
          case BodyBlocked
          then show ?thesis using assms True PrefixRead Inr n by (simp add: Receive_def)
        next
          case (BodyLost buf e rest')
          then show ?thesis using assms True PrefixRead Inr n b
            by (auto simp: Receive_def received_def markDisconnected_def body_sound_def dest: lost_not_idle)
        next
          case (BodyRead buf rest')
          with b have buf: "nat (n - 9) \<le> length rest" "buf = q @ take (nat (n - 9)) rest" "rest' = drop (nat (n - 9)) rest"
            by (auto simp: body_sound_def)
          then have "take 9 buf = q" "int (length buf) = n" "stream = buf @ rest'" using q n by auto
          moreover have "r = \<lparr>rv_total = length buf, rv_data = Some buf, rv_err = None, rv_rest = rest', rv_client = c\<rparr>"
            using assms True PrefixRead Inr n BodyRead by (simp add: Receive_def received_def)
          ultimately show ?thesis using Inr by simp
        qed
      qed
    qed
  qed (use assms True p in \<open>auto simp: Receive_def received_def markDisconnected_def prefix_sound_def dest: lost_not_idle\<close>)
qed

section \<open>Properties\<close>

text \<open>
  Claim C12. Sending: whatever the socket does, a \<open>Send\<close> that returns has put a prefix of the data on
  the wire, in order and without gaps; it reports success if and only if the client is still
  connected, and then the whole data is on the wire, the count is its length and the client is
  unchanged. A failed send never claims more bytes than reached the wire and, unless the client was
  not connected to begin with, reports a lost connection.
\<close>

theorem send_all_or_lost:
  assumes "Send obs c dat = Done r"
  shows "prefix (sr_wire r) dat \<and> sr_sent r \<le> length (sr_wire r)
     \<and> (sr_err r = None \<longleftrightarrow> IsConnected (Some (sr_client r)))
     \<and> (sr_err r = None \<longrightarrow> sr_wire r = dat \<and> sr_sent r = length dat \<and> sr_client r = c)
     \<and> (sr_err r \<noteq> None \<longrightarrow> IsConnectionLost (sr_err r) \<or> \<not> IsConnected (Some c) \<and> sr_wire r = [])"
proof (cases "IsConnected (Some c)")
  case False
  then show ?thesis using assms by (auto simp: Send_def IsConnected_def)
next
  case True
  then obtain s e w where l: "send_loop obs dat 0 0 = Done (s, e, w)"
      "r = \<lparr>sr_sent = s, sr_err = e, sr_wire = w, sr_client = (if e = None then c else markDisconnected c)\<rparr>"
    using assms by (auto simp: Send_def IsConnected_def split: io.splits)
  from send_loop_sound [OF l(1)]
  obtain d where d: "dat = w @ d" "e = None \<longrightarrow> d = [] \<and> s = length dat" "s \<le> length w" "e \<noteq> None \<longrightarrow> IsConnectionLost e"
    by auto
  show ?thesis using True d l(2) by (auto simp: IsConnected_def markDisconnected_def)
qed

text \<open>
  The write loop terminates: three writes for every byte are enough, because at most two
  writes in a row may accept nothing before the third ends the loop.
\<close>

lemma send_terminates:
  assumes "3 * length dat \<le> length obs"
  shows "\<exists>r. Send obs c dat = Done r"
proof -
  obtain s e w where "send_loop obs dat 0 0 = Done (s, e, w)"
    using send_loop_returns [of dat 0 obs 0] assms by (auto simp: maxZeroWrites_def)
  then show ?thesis by (simp add: Send_def)
qed

text \<open>
  Claim C9. Receiving: whatever the clock and the socket do, a \<open>Receive\<close> that returns has done one of
  three things. It returned without an error exactly the bytes the length prefix announces, leaving
  the rest of the stream unread and the client as it was; or it reported an idle timeout and
  consumed nothing; or it reported another error and the client is not connected.
\<close>

theorem receive_one_frame_or_lost:
  assumes "Receive G obs c stream = Done r"
  shows "(rv_err r = None \<and> rv_client r = c \<and> (\<exists>d. rv_data r = Some d \<and> stream = d @ rv_rest r
            \<and> rv_total r = length d \<and> announced_length G (take 9 d) = Inr (int (length d))))
     \<or> (IsIdleTimeout (rv_err r) \<and> rv_client r = c \<and> rv_data r = None \<and> rv_total r = 0 \<and> rv_rest r = stream)
     \<or> (rv_err r \<noteq> None \<and> \<not> IsIdleTimeout (rv_err r) \<and> \<not> tr_connected (rv_client r))"
  using assms by (rule receive_outcome)


text \<open>A byte stream splits into encoded messages in at most one way: no frame is a prefix of another.\<close>

lemma encoded_streams_unique:
  assumes "list_all (\<lambda>(m, sm). EncodeMessage G now (Some m) = Returned sm \<and> wire_safe m sm) (ms @ ms')"
    and "concat (map (\<lambda>(m, sm). sm_MessageBytes sm) ms) = concat (map (\<lambda>(m, sm). sm_MessageBytes sm) ms')"
  shows "map (\<lambda>(m, sm). sm_MessageBytes sm) ms = map (\<lambda>(m, sm). sm_MessageBytes sm) ms'"
  using assms encoded_is_frame
  by (intro wire.concat_unique) (fastforce simp: list_all_iff split_beta)+

text \<open>
  \<open>Reconnect\<close> dials the address the client holds and keeps it; \<open>Close\<close> discards it, so that a later
  \<open>Reconnect\<close> dials the empty network.
\<close>

lemma reconnect_keeps_address:
  "let (err, c') = Reconnect pow retry dial c;
       run = Retry pow retry (Some (dial (tr_Network c) (JoinHostPort (tr_Host c) (tr_Port c))))
   in (tr_Network c', tr_Host c', tr_Port c', tr_ActorName c') = (tr_Network c, tr_Host c, tr_Port c, tr_ActorName c)
    \<and> (err = None \<longleftrightarrow> IsConnected (Some c'))
    \<and> (err = None \<longleftrightarrow> (\<exists>s. rr_result run = Object s \<and> tr_Conn c' = Some s))
    \<and> (err \<noteq> None \<longrightarrow> tr_Conn c' = None \<and> \<not> tr_connected c')
    \<and> (snd (Reconnect pow retry dial (Close c)) = snd (Reconnect pow retry (\<lambda>n a. dial [] '':'') (Close c)))
    \<and> (tr_Network (Close c), JoinHostPort (tr_Host (Close c)) (tr_Port (Close c))) = ([], '':'')"
  by (cases "rr_result (Retry pow retry (Some (dial (tr_Network c) (JoinHostPort (tr_Host c) (tr_Port c)))))")
    (auto simp: Reconnect_def Close_def JoinHostPort_def IsConnected_def Let_def)

section \<open>Witnesses\<close>

definition sample_transport :: transport where
  "sample_transport = \<lparr>tr_Conn = Some 1, tr_connected = True, tr_ReceiveChunkSize = 4, tr_Network = ''tcp'',
     tr_Host = ''h'', tr_Port = ''62312'', tr_Uuid = [], tr_ActorName = ''gw''\<rparr>"

definition sample_read :: "nat \<Rightarrow> read_obs" where
  "sample_read n = \<lparr>ob_ctx = None, ob_deadline_passed = False, ob_stalled = None, ob_bytes = n, ob_err = None,
     ob_ctx_after = None, ob_stalled_after = None\<rparr>"

theorem send_all_or_lost_witness:
  "\<exists>r. Send [(2, None), (0, None), (9, None)] sample_transport ''hello'' = Done r
     \<and> sr_wire r = ''hello'' \<and> sr_err r = None \<and> sr_sent r = 5"
proof -
  have "\<exists>r. Send [(2, None), (0, None), (9, None)] sample_transport ''hello'' = Done r \<and> sr_err r = None"
    by (simp add: Send_def sample_transport_def Let_def maxZeroWrites_def)
  then show ?thesis using send_all_or_lost by (auto 4 3)
qed

definition sample_stream :: string where
  "sample_stream = ''x0000000bhi'' @ ''x00''"

theorem receive_one_frame_or_lost_witness:
  "\<exists>r. Receive sample_lib [sample_read 4, sample_read 6, sample_read 1, sample_read 1] sample_transport sample_stream = Done r
     \<and> (\<exists>d. rv_data r = Some d \<and> sample_stream = d @ rv_rest r \<and> length d = 11)"
proof -
  have "Receive sample_lib [sample_read 4, sample_read 6, sample_read 1, sample_read 1] sample_transport sample_stream
      = Done \<lparr>rv_total = 11, rv_data = Some ''x0000000bhi'', rv_err = None, rv_rest = ''x00'', rv_client = sample_transport\<rparr>"
    by code_simp
  from receive_one_frame_or_lost [OF this] this show ?thesis by simp
qed

definition sample_frame :: SocketMessage where
  "sample_frame = frame sample_echo ''_msg_id=m1'' ''hi''"

lemma sample_frame_encoded:
  "EncodeMessage sample_lib 0 (Some sample_echo) = Returned sample_frame" "wire_safe sample_echo sample_frame"
  by code_simp+


definition sample_dial :: dialer where
  "sample_dial n a k = (if n = ''tcp'' \<and> a = ''h:62312'' \<and> k = 1 then Success 5 else Failure (OtherError ''refused'' None))"

end
