(* ===== verification/Pool.thy ===== *)
theory Pool
  imports GatewayErrors "HOL-Library.Multiset"
begin

text \<open>
  The connection pool (\<open>connection/pool.go\<close>). A buffered channel holds the idle connections, a
  second one counts the slots in use. The operations are functions of the pool; the goroutines that
  run them in any interleaving are a transition system whose events are the atomic channel and
  mutex operations of the code. Sockets are numbers, a nil connection is \<open>None\<close>.
\<close>

section \<open>The pool\<close>

record conn_data =
  cd_Conns :: "nat option"
  cd_Uuid :: string

text \<open>
  \<open>po_chan\<close> is the content of the channel, \<open>po_open\<close> says that the field \<open>aipConns\<close> still refers to
  it, \<open>po_chanClosed\<close> that the channel has been closed, \<open>po_sem\<close> is the number of tokens in the
  semaphore; both channels have capacity \<open>po_maxCap\<close>.
\<close>

record pool =
  po_chan :: "conn_data list"
  po_chanClosed :: bool
  po_open :: bool
  po_sem :: nat
  po_maxCap :: nat

definition NewChannelPool :: "nat \<Rightarrow> pool" where
  "NewChannelPool maxCap = \<lparr>po_chan = [], po_chanClosed = False, po_open = True, po_sem = 0, po_maxCap = maxCap\<rparr>"

definition Len :: "pool \<Rightarrow> nat" where
  "Len p = (if po_open p then length (po_chan p) else 0)"

definition NumberOfConns :: "pool \<Rightarrow> nat" where
  "NumberOfConns p = po_sem p"

text \<open>
  Receiving from the channel: \<open>None\<close> blocks, the zero value comes from a closed, drained channel.
  Sending to the semaphore and receiving from it block when it is full or empty.
\<close>

definition zero_conn_data :: conn_data where
  "zero_conn_data = \<lparr>cd_Conns = None, cd_Uuid = []\<rparr>"

definition recv_idle :: "pool \<Rightarrow> (conn_data \<times> pool) option" where
  "recv_idle p =
     (case po_chan p of
        c # cs \<Rightarrow> Some (c, p\<lparr>po_chan := cs\<rparr>)
      | [] \<Rightarrow> if po_chanClosed p then Some (zero_conn_data, p) else None)"

definition acquire_slot :: "pool \<Rightarrow> pool option" where
  "acquire_slot p = (if po_sem p < po_maxCap p then Some (p\<lparr>po_sem := Suc (po_sem p)\<rparr>) else None)"

definition release_slot :: "pool \<Rightarrow> pool option" where
  "release_slot p = (case po_sem p of 0 \<Rightarrow> None | Suc n \<Rightarrow> Some (p\<lparr>po_sem := n\<rparr>))"

text \<open>\<open>put\<close>, with the sockets it closes; \<open>PutBlocked\<close> waits for a token that is not there.\<close>

datatype put_result = PutRejected | PutClosed nat | PutKept | PutDiscarded nat | PutBlocked

definition put :: "conn_data \<Rightarrow> pool \<Rightarrow> put_result \<times> pool" where
  "put c p =
     (case cd_Conns c of
        None \<Rightarrow> (PutRejected, p)
      | Some k \<Rightarrow>
          if \<not> po_open p then (PutClosed k, p)
          else if length (po_chan p) < po_maxCap p then (PutKept, p\<lparr>po_chan := po_chan p @ [c]\<rparr>)
          else (case release_slot p of None \<Rightarrow> (PutBlocked, p) | Some p' \<Rightarrow> (PutDiscarded k, p')))"

record PoolConn =
  pn_Conn :: "nat option"
  pn_unusable :: bool

definition wrapConn :: "nat \<Rightarrow> PoolConn" where
  "wrapConn k = \<lparr>pn_Conn = Some k, pn_unusable = False\<rparr>"

definition MarkUnusable :: "PoolConn \<Rightarrow> PoolConn" where
  "MarkUnusable w = w\<lparr>pn_unusable := True\<rparr>"

text \<open>\<open>PoolConn.Close\<close>; the call on a nil connection is a panic, after the token was taken.\<close>

datatype pool_close = Put put_result | Ignored | ClosePanicked | CloseBlocked

definition PoolConn_Close :: "PoolConn \<Rightarrow> pool \<Rightarrow> pool_close \<times> pool" where
  "PoolConn_Close w p =
     (if pn_unusable w then
        (if pn_Conn w = None then
           (case release_slot p of None \<Rightarrow> (CloseBlocked, p) | Some p' \<Rightarrow> (ClosePanicked, p'))
         else (Ignored, p))
      else map_prod Put id (put \<lparr>cd_Conns = pn_Conn w, cd_Uuid = []\<rparr> p))"

text \<open>\<open>Close\<close> forgets the channel, closes it and then every connection in it.\<close>

definition Pool_Close :: "pool \<Rightarrow> nat option list \<times> pool" where
  "Pool_Close p =
     (if \<not> po_open p then ([], p)
      else (map cd_Conns (po_chan p), p\<lparr>po_chan := [], po_chanClosed := True, po_open := False\<rparr>))"

text \<open>\<open>InitializeChannelPool\<close>: \<open>factory i\<close> is the \<open>i\<close>-th result of the factory.\<close>

fun init_loop :: "(nat \<Rightarrow> go_error + conn_data) \<Rightarrow> nat \<Rightarrow> nat \<Rightarrow> pool \<Rightarrow> (go_error option \<times> pool) option" where
  "init_loop factory i 0 p = Some (None, p)"
| "init_loop factory i (Suc n) p =
     (case acquire_slot p of
        None \<Rightarrow> None
      | Some p1 \<Rightarrow>
          (case factory i of
             Inl e \<Rightarrow> Some (Some (OtherError (''connection factory encountered an error and is not able to fill the pool: ''
                 @ error_text e) (Some e)), snd (Pool_Close p1))
           | Inr c \<Rightarrow>
               if length (po_chan p1) < po_maxCap p1
               then init_loop factory (Suc i) n (p1\<lparr>po_chan := po_chan p1 @ [c]\<rparr>) else None))"

definition InitializeChannelPool :: "(nat \<Rightarrow> go_error + conn_data) \<Rightarrow> int \<Rightarrow> pool \<Rightarrow> (go_error option \<times> pool) option" where
  "InitializeChannelPool factory initialCap p =
     (if initialCap < 0 \<or> po_maxCap p = 0 \<or> initialCap > int (po_maxCap p)
      then Some (Some (OtherError ''invalid capacity settings'' None), p)
      else init_loop factory 0 (nat initialCap) p)"

text \<open>\<open>PingIdleConnections\<close> without interference: drain, ping, put back.\<close>

fun put_back_all :: "conn_data list \<Rightarrow> pool \<Rightarrow> pool option" where
  "put_back_all [] p = Some p"
| "put_back_all (c # cs) p =
     (if length (po_chan p) < po_maxCap p then put_back_all cs (p\<lparr>po_chan := po_chan p @ [c]\<rparr>)
      else Option.bind (release_slot p) (put_back_all cs))"

definition PingIdleConnections :: "(nat \<Rightarrow> bool) option \<Rightarrow> pool \<Rightarrow> (nat \<times> pool) option" where
  "PingIdleConnections ping p =
     (case ping of
        None \<Rightarrow> Some (0, p)
      | Some ok \<Rightarrow>
          if \<not> po_open p then Some (0, p)
          else
            let idle = filter (\<lambda>c. cd_Conns c \<noteq> None) (po_chan p)
            in map_option (Pair (length (filter (\<lambda>c. ok (the (cd_Conns c))) idle)))
                 (put_back_all idle (p\<lparr>po_chan := []\<rparr>)))"

section \<open>The pool under concurrent use\<close>

text \<open>
  A run: the pool and what its users are doing. \<open>holding\<close> goroutines are in \<open>Get\<close> and have read the
  fields, \<open>waiting\<close> are in its second select, \<open>creating\<close> have claimed a slot and call the factory.
  \<open>lent\<close> are the wrapped connections in use, \<open>raw\<close> those the factory made in \<open>Get\<close>, which are handed
  out unwrapped, \<open>dead\<close> the wrappers closed while unusable. A user closes a wrapper at most once.
\<close>

record pool_run =
  pr_pool :: pool
  pr_holding :: nat
  pr_waiting :: nat
  pr_creating :: nat
  pr_lent :: "nat multiset"
  pr_raw :: "nat multiset"
  pr_dead :: "nat multiset"

datatype pool_event =
    GetBegin           \<comment> \<open>\<open>getConnsAndFactory\<close>, then the test for a closed pool\<close>
  | GetFirst           \<comment> \<open>the first select\<close>
  | GetClaim           \<comment> \<open>the second select takes a slot\<close>
  | GetIdle            \<comment> \<open>the second select receives a connection\<close>
  | GetCancel          \<comment> \<open>the second select sees the context end\<close>
  | FactoryMade nat
  | FactoryFailed
  | CloseConn nat      \<comment> \<open>\<open>PoolConn.Close\<close>\<close>
  | CloseUnusable nat  \<comment> \<open>\<open>MarkUnusable\<close> and \<open>PoolConn.Close\<close>\<close>
  | CloseField         \<comment> \<open>\<open>Close\<close> up to the unlock\<close>
  | CloseChannel
  | CloseNext          \<comment> \<open>one turn of its loop\<close>

definition hand_out :: "conn_data \<Rightarrow> pool_run \<Rightarrow> pool_run" where
  "hand_out c s = (case cd_Conns c of None \<Rightarrow> s | Some k \<Rightarrow> s\<lparr>pr_lent := add_mset k (pr_lent s)\<rparr>)"

fun pool_do :: "pool_event \<Rightarrow> pool_run \<Rightarrow> pool_run option" where
  "pool_do GetBegin s = Some (if po_open (pr_pool s) then s\<lparr>pr_holding := Suc (pr_holding s)\<rparr> else s)"
| "pool_do GetFirst s =
     (if pr_holding s = 0 then None
      else let s' = s\<lparr>pr_holding := pr_holding s - 1\<rparr> in
        case recv_idle (pr_pool s) of
          Some (c, p) \<Rightarrow> Some (hand_out c (s'\<lparr>pr_pool := p\<rparr>))
        | None \<Rightarrow> Some (s'\<lparr>pr_waiting := Suc (pr_waiting s)\<rparr>))"
| "pool_do GetClaim s =
     (if pr_waiting s = 0 then None
      else map_option (\<lambda>p. s\<lparr>pr_pool := p, pr_waiting := pr_waiting s - 1, pr_creating := Suc (pr_creating s)\<rparr>)
             (acquire_slot (pr_pool s)))"
| "pool_do GetIdle s =
     (if pr_waiting s = 0 then None
      else map_option (\<lambda>(c, p). hand_out c (s\<lparr>pr_pool := p, pr_waiting := pr_waiting s - 1\<rparr>))
             (recv_idle (pr_pool s)))"
| "pool_do GetCancel s = (if pr_waiting s = 0 then None else Some (s\<lparr>pr_waiting := pr_waiting s - 1\<rparr>))"
| "pool_do (FactoryMade k) s =
     (if pr_creating s = 0 then None
      else Some (s\<lparr>pr_creating := pr_creating s - 1, pr_raw := add_mset k (pr_raw s)\<rparr>))"
| "pool_do FactoryFailed s =
     (if pr_creating s = 0 then None
      else map_option (\<lambda>p. s\<lparr>pr_pool := p, pr_creating := pr_creating s - 1\<rparr>) (release_slot (pr_pool s)))"
| "pool_do (CloseConn k) s =
     (if k \<notin># pr_lent s then None
      else case PoolConn_Close (wrapConn k) (pr_pool s) of
        (Put PutBlocked, p) \<Rightarrow> None
      | (r, p) \<Rightarrow> Some (s\<lparr>pr_pool := p, pr_lent := pr_lent s - {#k#}\<rparr>))"
| "pool_do (CloseUnusable k) s =
     (if k \<notin># pr_lent s then None
      else Some (s\<lparr>pr_pool := snd (PoolConn_Close (MarkUnusable (wrapConn k)) (pr_pool s)),
                   pr_lent := pr_lent s - {#k#}, pr_dead := add_mset k (pr_dead s)\<rparr>))"
| "pool_do CloseField s = Some (s\<lparr>pr_pool := (pr_pool s)\<lparr>po_open := False\<rparr>\<rparr>)"
| "pool_do CloseChannel s =
     (if po_open (pr_pool s) \<or> po_chanClosed (pr_pool s) then None
      else Some (s\<lparr>pr_pool := (pr_pool s)\<lparr>po_chanClosed := True\<rparr>\<rparr>))"
| "pool_do CloseNext s =
     (if \<not> po_chanClosed (pr_pool s) \<or> po_chan (pr_pool s) = [] then None
      else Some (s\<lparr>pr_pool := (pr_pool s)\<lparr>po_chan := tl (po_chan (pr_pool s))\<rparr>\<rparr>))"

definition start_run :: "pool \<Rightarrow> pool_run" where
  "start_run p = \<lparr>pr_pool = p, pr_holding = 0, pr_waiting = 0, pr_creating = 0, pr_lent = {#}, pr_raw = {#}, pr_dead = {#}\<rparr>"

inductive pool_step :: "pool_run \<Rightarrow> pool_run \<Rightarrow> bool" where
  "pool_do e s = Some s' \<Longrightarrow> pool_step s s'"

inductive_cases pool_stepE: "pool_step s s'"

text \<open>The runs of a pool that was initialised successfully.\<close>

inductive pool_reachable :: "nat \<Rightarrow> pool_run \<Rightarrow> bool" for maxCap where
  start: "InitializeChannelPool factory n (NewChannelPool maxCap) = Some (None, p) \<Longrightarrow> pool_reachable maxCap (start_run p)"
| step: "pool_reachable maxCap s \<Longrightarrow> pool_step s s' \<Longrightarrow> pool_reachable maxCap s'"

section \<open>Invariant\<close>

definition in_use :: "pool_run \<Rightarrow> nat" where
  "in_use s = length (po_chan (pr_pool s)) + size (pr_lent s) + size (pr_raw s) + size (pr_dead s) + pr_creating s"

definition pool_inv :: "nat \<Rightarrow> pool_run \<Rightarrow> bool" where
  "pool_inv maxCap s \<longleftrightarrow>
     po_maxCap (pr_pool s) = maxCap \<and> in_use s \<le> po_sem (pr_pool s) \<and> po_sem (pr_pool s) \<le> maxCap
     \<and> (po_chanClosed (pr_pool s) \<longrightarrow> \<not> po_open (pr_pool s))"

lemma recv_idle_Some:
  "recv_idle p = Some (c, p') \<Longrightarrow>
     (po_chan p = c # po_chan p' \<or> po_chan p = [] \<and> po_chan p' = [] \<and> c = zero_conn_data)
     \<and> po_sem p' = po_sem p \<and> po_maxCap p' = po_maxCap p \<and> po_open p' = po_open p \<and> po_chanClosed p' = po_chanClosed p"
  by (auto simp: recv_idle_def split: list.splits if_splits)

lemma hand_out_inv:
  assumes "recv_idle (pr_pool s) = Some (c, p)" "pool_inv maxCap s"
    and "pr_pool t = p" "pr_lent t = pr_lent s" "pr_raw t = pr_raw s" "pr_dead t = pr_dead s" "pr_creating t = pr_creating s"
  shows "pool_inv maxCap (hand_out c t)"
  using recv_idle_Some [OF assms(1)] assms(2-)
  by (auto simp: pool_inv_def hand_out_def in_use_def zero_conn_data_def split: option.splits)

text \<open>A connection in use always finds room in the channel: \<open>put\<close> never discards it.\<close>

lemma put_keeps:
  assumes "pool_inv maxCap s" "k \<in># pr_lent s"
  shows "PoolConn_Close (wrapConn k) (pr_pool s) =
     (if po_open (pr_pool s)
      then (Put PutKept, (pr_pool s)\<lparr>po_chan := po_chan (pr_pool s) @ [\<lparr>cd_Conns = Some k, cd_Uuid = []\<rparr>]\<rparr>)
      else (Put (PutClosed k), pr_pool s))"
proof -
  have "0 < size (pr_lent s)" using assms(2) by (metis nonempty_has_size empty_iff set_mset_empty)
  then have "length (po_chan (pr_pool s)) < po_maxCap (pr_pool s)"
    using assms(1) by (simp add: pool_inv_def in_use_def)
  then show ?thesis by (simp add: PoolConn_Close_def wrapConn_def put_def)
qed

lemma pool_do_inv: "pool_do e s = Some s' \<Longrightarrow> pool_inv maxCap s \<Longrightarrow> pool_inv maxCap s'"
proof (cases e)
  case GetFirst
  assume "pool_do e s = Some s'" "pool_inv maxCap s"
  then show ?thesis using GetFirst
  proof (cases "recv_idle (pr_pool s)")
    case None
    then show ?thesis using \<open>pool_do e s = Some s'\<close> \<open>pool_inv maxCap s\<close> GetFirst
      by (auto simp: Let_def pool_inv_def in_use_def split: if_splits)
  next
    case (Some cp)
    then show ?thesis using \<open>pool_do e s = Some s'\<close> \<open>pool_inv maxCap s\<close> GetFirst
      by (cases cp) (auto simp: Let_def split: if_splits intro: hand_out_inv)
  qed
next
  case GetIdle
  assume "pool_do e s = Some s'" "pool_inv maxCap s"
  then show ?thesis using GetIdle by (auto split: if_splits intro: hand_out_inv)
next
  case (CloseConn k)
  assume a: "pool_do e s = Some s'" "pool_inv maxCap s"
  then have k: "k \<in># pr_lent s" using CloseConn by (auto split: if_splits)
  then have "size (pr_lent s) = Suc (size (pr_lent s - {#k#}))" by (metis size_Suc_Diff1)
  then show ?thesis using a CloseConn put_keeps [OF a(2) k] k
    by (auto simp: pool_inv_def in_use_def split: if_splits)
next
  case (CloseUnusable k)
  assume a: "pool_do e s = Some s'" "pool_inv maxCap s"
  then have k: "k \<in># pr_lent s" using CloseUnusable by (auto split: if_splits)
  then have "size (pr_lent s) = Suc (size (pr_lent s - {#k#}))" by (metis size_Suc_Diff1)
  then show ?thesis using a CloseUnusable k
    by (auto simp: pool_inv_def in_use_def PoolConn_Close_def MarkUnusable_def wrapConn_def)
qed (auto simp: pool_inv_def in_use_def acquire_slot_def release_slot_def split: if_splits nat.splits)

lemma init_loop_inv:
  assumes "init_loop factory i n p = Some (None, p')"
  shows "length (po_chan p') = length (po_chan p) + n \<and> po_sem p' = po_sem p + n \<and> po_maxCap p' = po_maxCap p
     \<and> po_open p' = po_open p \<and> po_chanClosed p' = po_chanClosed p \<and> (po_sem p \<le> po_maxCap p \<longrightarrow> po_sem p' \<le> po_maxCap p)"
  using assms
proof (induction n arbitrary: i p)
  case (Suc n)
  then obtain c where c: "po_sem p < po_maxCap p"
      "init_loop factory (Suc i) n (p\<lparr>po_sem := Suc (po_sem p), po_chan := po_chan p @ [c]\<rparr>) = Some (None, p')"
    by (auto simp: acquire_slot_def split: if_splits sum.splits)
  from Suc.IH [OF c(2)] c(1) show ?case by auto
qed simp

lemma start_inv:
  assumes "InitializeChannelPool factory n (NewChannelPool maxCap) = Some (None, p)"
  shows "pool_inv maxCap (start_run p)"
proof -
  have "init_loop factory 0 (nat n) (NewChannelPool maxCap) = Some (None, p)"
    using assms by (auto simp: InitializeChannelPool_def split: if_splits)
  from init_loop_inv [OF this] show ?thesis
    by (auto simp: pool_inv_def in_use_def start_run_def NewChannelPool_def)
qed

lemma reachable_inv: "pool_reachable maxCap s \<Longrightarrow> pool_inv maxCap s"
  by (induction rule: pool_reachable.induct) (auto simp: start_inv elim!: pool_stepE intro: pool_do_inv)

lemma reachable_steps: "pool_step\<^sup>*\<^sup>* s s' \<Longrightarrow> pool_reachable maxCap s \<Longrightarrow> pool_reachable maxCap s'"
  by (induction rule: rtranclp_induct) (auto intro: pool_reachable.step)

text \<open>Nobody is handed a connection while every slot is gone for good.\<close>

definition spent :: "nat \<Rightarrow> pool_run \<Rightarrow> bool" where
  "spent maxCap s \<longleftrightarrow> maxCap \<le> size (pr_raw s) + size (pr_dead s)"

lemma spent_empty:
  assumes "pool_inv maxCap s" "spent maxCap s"
  shows "pr_lent s = {#}" "pr_creating s = 0" "po_chan (pr_pool s) = []" "acquire_slot (pr_pool s) = None"
proof -
  have "size (pr_lent s) = 0" "length (po_chan (pr_pool s)) = 0" "pr_creating s = 0"
    "\<not> po_sem (pr_pool s) < po_maxCap (pr_pool s)"
    using assms unfolding pool_inv_def in_use_def spent_def by linarith+
  then show "pr_lent s = {#}" "pr_creating s = 0" "po_chan (pr_pool s) = []" "acquire_slot (pr_pool s) = None"
    by (simp_all add: acquire_slot_def)
qed

lemma spent_step:
  assumes "pool_inv maxCap s" "spent maxCap s" "pool_step s s'"
  shows "pr_lent s = {#} \<and> pr_creating s = 0 \<and> po_chan (pr_pool s) = []
     \<and> pr_raw s' = pr_raw s \<and> pr_dead s' = pr_dead s"
proof -
  note z = spent_empty [OF assms(1,2)]
  obtain e where "pool_do e s = Some s'" using assms(3) by (auto elim: pool_stepE)
  with z show ?thesis
    by (cases e) (auto simp: Let_def recv_idle_def hand_out_def zero_conn_data_def split: if_splits)
qed

section \<open>Properties\<close>


text \<open>Closing a wrapped connection in use puts it at the end of the idle queue; one marked unusable is neither
  closed nor released.\<close>

lemma closed_connections_return:
  assumes "pool_reachable maxCap s" and "k \<in># pr_lent s"
  shows "PoolConn_Close (wrapConn k) (pr_pool s) =
       (if po_open (pr_pool s)
        then (Put PutKept, (pr_pool s)\<lparr>po_chan := po_chan (pr_pool s) @ [\<lparr>cd_Conns = Some k, cd_Uuid = []\<rparr>]\<rparr>)
        else (Put (PutClosed k), pr_pool s))
     \<and> PoolConn_Close (MarkUnusable (wrapConn k)) (pr_pool s) = (Ignored, pr_pool s)"
  using put_keeps [OF reachable_inv [OF assms(1)] assms(2)]
  by (simp add: PoolConn_Close_def MarkUnusable_def wrapConn_def)

text \<open>
  Claim C38. Connections that \<open>Get\<close> has the factory make are handed out unwrapped, and those marked
  unusable are dropped: both keep their slot for ever. Once as many have been handed out as the pool
  has slots, no later \<open>Get\<close> obtains a connection: it waits until its context ends or the pool is
  closed.
\<close>

theorem created_connections_exhaust_the_pool:
  assumes "pool_reachable maxCap s" and "maxCap \<le> size (pr_raw s) + size (pr_dead s)" and "pool_step\<^sup>*\<^sup>* s s'"
  shows "pr_raw s' = pr_raw s \<and> pr_lent s' = {#} \<and> pr_creating s' = 0 \<and> po_chan (pr_pool s') = []
     \<and> acquire_slot (pr_pool s') = None"
proof -
  have "pr_raw s' = pr_raw s \<and> pr_dead s' = pr_dead s \<and> pool_inv maxCap s'"
    using assms(3)
  proof (induction rule: rtranclp_induct)
    case base
    then show ?case using reachable_inv [OF assms(1)] by simp
  next
    case (step t t')
    moreover have "spent maxCap t" using step assms(2) by (simp add: spent_def)
    moreover have "pool_inv maxCap t'" using step by (auto elim!: pool_stepE intro: pool_do_inv)
    ultimately show ?case using spent_step [of maxCap t t'] by auto
  qed
  then show ?thesis using spent_empty [of maxCap s'] assms(2) by (simp add: spent_def)
qed

lemma put_back_all_room:
  "length (po_chan p) + length cs \<le> po_maxCap p \<Longrightarrow> put_back_all cs p = Some (p\<lparr>po_chan := po_chan p @ cs\<rparr>)"
  by (induction cs arbitrary: p) auto

text \<open>Without interference a ping round keeps every idle connection, in order, and counts the successes.\<close>

lemma ping_keeps_idle:
  assumes "length (po_chan p) \<le> po_maxCap p" "po_open p"
  shows "PingIdleConnections (Some ok) p =
     Some (length (filter (\<lambda>c. case cd_Conns c of None \<Rightarrow> False | Some k \<Rightarrow> ok k) (po_chan p)),
           p\<lparr>po_chan := filter (\<lambda>c. cd_Conns c \<noteq> None) (po_chan p)\<rparr>)"
proof -
  let ?idle = "filter (\<lambda>c. cd_Conns c \<noteq> None) (po_chan p)"
  have "length ?idle \<le> po_maxCap p" using assms(1) length_filter_le le_trans by blast
  then have "put_back_all ?idle (p\<lparr>po_chan := []\<rparr>) = Some (p\<lparr>po_chan := ?idle\<rparr>)"
    by (simp add: put_back_all_room)
  moreover have "filter (\<lambda>c. ok (the (cd_Conns c))) ?idle
      = filter (\<lambda>c. case cd_Conns c of None \<Rightarrow> False | Some k \<Rightarrow> ok k) (po_chan p)"
    by (auto simp: filter_filter intro!: filter_cong split: option.splits)
  ultimately show ?thesis using assms(2) by (simp add: PingIdleConnections_def)
qed

lemma ping_keeps_idle_connections:
  assumes "pool_reachable maxCap s" and "po_open (pr_pool s)"
  shows "PingIdleConnections (Some ok) (pr_pool s) =
     Some (length (filter (\<lambda>c. case cd_Conns c of None \<Rightarrow> False | Some k \<Rightarrow> ok k) (po_chan (pr_pool s))),
           (pr_pool s)\<lparr>po_chan := filter (\<lambda>c. cd_Conns c \<noteq> None) (po_chan (pr_pool s))\<rparr>)"
  using reachable_inv [OF assms(1)] assms(2) by (intro ping_keeps_idle) (simp_all add: pool_inv_def in_use_def)

section \<open>Witnesses\<close>

text \<open>A pool of two slots, filled with one connection.\<close>

definition sample_factory :: "nat \<Rightarrow> go_error + conn_data" where
  "sample_factory i = Inr \<lparr>cd_Conns = Some i, cd_Uuid = ''u''\<rparr>"

definition sample_pool :: pool where
  "sample_pool = \<lparr>po_chan = [\<lparr>cd_Conns = Some 0, cd_Uuid = ''u''\<rparr>], po_chanClosed = False, po_open = True, po_sem = 1, po_maxCap = 2\<rparr>"

text \<open>One user has the idle connection, another the one the factory made.\<close>

definition sample_busy :: pool_run where
  "sample_busy = (start_run sample_pool)\<lparr>pr_pool := sample_pool\<lparr>po_chan := [], po_sem := 2\<rparr>, pr_lent := {#0#}, pr_raw := {#9#}\<rparr>"

definition sample_spent :: pool_run where
  "sample_spent = sample_busy\<lparr>pr_lent := {#}, pr_dead := {#0#}\<rparr>"

fun pool_run_events :: "pool_event list \<Rightarrow> pool_run \<Rightarrow> pool_run option" where
  "pool_run_events [] s = Some s"
| "pool_run_events (e # es) s = Option.bind (pool_do e s) (pool_run_events es)"

lemma pool_run_events_reachable:
  "pool_reachable maxCap s \<Longrightarrow> pool_run_events es s = Some s' \<Longrightarrow> pool_reachable maxCap s'"
proof (induction es arbitrary: s)
  case (Cons e es)
  then obtain t where "pool_do e s = Some t" "pool_run_events es t = Some s'" by (auto simp: bind_eq_Some_conv)
  then show ?case using Cons by (blast intro: pool_reachable.step pool_step.intros)
qed simp

lemma sample_start: "pool_reachable 2 (start_run sample_pool)"
proof (rule pool_reachable.start)
  show "InitializeChannelPool sample_factory 1 (NewChannelPool 2) = Some (None, sample_pool)"
    by (simp add: InitializeChannelPool_def NewChannelPool_def sample_pool_def acquire_slot_def sample_factory_def)
qed

lemma sample_busy_reachable: "pool_reachable 2 sample_busy"
proof (rule pool_run_events_reachable [OF sample_start])
  show "pool_run_events [GetBegin, GetFirst, GetBegin, GetFirst, GetClaim, FactoryMade 9] (start_run sample_pool) = Some sample_busy"
    by (simp add: start_run_def sample_pool_def recv_idle_def hand_out_def acquire_slot_def sample_busy_def)
qed

lemma sample_spent_reachable: "pool_reachable 2 sample_spent"
proof (rule pool_run_events_reachable [OF sample_busy_reachable])
  show "pool_run_events [CloseUnusable 0] sample_busy = Some sample_spent"
    by (simp add: sample_busy_def sample_spent_def start_run_def PoolConn_Close_def MarkUnusable_def wrapConn_def)
qed


theorem created_connections_exhaust_the_pool_witness:
  "acquire_slot (pr_pool sample_spent) = None \<and> po_chan (pr_pool sample_spent) = []"
  using created_connections_exhaust_the_pool [OF sample_spent_reachable _ rtranclp.rtrancl_refl]
  by (simp add: sample_spent_def sample_busy_def start_run_def)

end
