(* ===== verification/Correlation.thy ===== *)
theory Correlation
  imports Roundtrip
begin

text \<open>
  Concurrent requests (\<open>client.go\<close>): callers register a response channel under the id of their
  message, send, and wait; the background receiver decodes every frame and hands it to the channel
  registered under its message id; a lost connection closes every registered channel. The two maps
  \<open>pending\<close> and \<open>pendingWithRaw\<close> are one association list whose keys carry the kind of request. The
  channel of a caller has room for one response and belongs to that caller alone, so it is part of
  the caller's record.
\<close>

section \<open>State\<close>

datatype request_kind = Plain | WithRaw

text \<open>What a caller gets: a response with its raw bytes and the text of a protocol error, or an error.\<close>

datatype reply = Reply Message string "string option" | ReplyLost | ReplyTimedOut | ReplyNotSent

datatype caller_state = Preparing | Waiting | Finished reply

record caller =
  ca_kind :: request_kind
  ca_id :: string
  ca_buffer :: "(Message \<times> string) option"
  ca_closed :: bool
  ca_state :: caller_state

record requests =
  rq_pending :: "((request_kind \<times> string) \<times> nat) list"
  rq_callers :: "caller list"
  rq_unmatched :: "Message list"

definition pendingCount :: "requests \<Rightarrow> nat" where
  "pendingCount s = length (rq_pending s)"

section \<open>Callers\<close>

definition update_caller :: "nat \<Rightarrow> (caller \<Rightarrow> caller) \<Rightarrow> requests \<Rightarrow> requests" where
  "update_caller i f s = s\<lparr>rq_callers := (rq_callers s)[i := f (rq_callers s ! i)]\<rparr>"

text \<open>Registering replaces whatever is registered under the same id.\<close>

definition register_request :: "request_kind \<Rightarrow> string \<Rightarrow> requests \<Rightarrow> requests" where
  "register_request kd mid s =
     s\<lparr>rq_pending := AList.update (kd, mid) (length (rq_callers s)) (rq_pending s),
       rq_callers := rq_callers s @
         [\<lparr>ca_kind = kd, ca_id = mid, ca_buffer = None, ca_closed = False, ca_state = Preparing\<rparr>]\<rparr>"

text \<open>Returning runs the deferred cleanup, which deletes the entry of the id.\<close>

definition finish_request :: "nat \<Rightarrow> reply \<Rightarrow> requests \<Rightarrow> requests" where
  "finish_request i r s =
     (let c = rq_callers s ! i in
      (update_caller i (\<lambda>c. c\<lparr>ca_state := Finished r\<rparr>) s)
        \<lparr>rq_pending := AList.delete (ca_kind c, ca_id c) (rq_pending s)\<rparr>)"

definition response_error :: "Message \<Rightarrow> string option" where
  "response_error m =
     (if ProcessingStatus m = ''ERROR'' then
        Some (if ProcessingMessage m = [] then ''unknown error from Pod-OS actor'' else ProcessingMessage m)
      else None)"

text \<open>Receiving from the caller's channel: a buffered response, a closed channel, or blocked.\<close>

definition await_response :: "caller \<Rightarrow> reply option" where
  "await_response c =
     (case ca_buffer c of
        Some (m, raw) \<Rightarrow> Some (Reply m raw (response_error m))
      | None \<Rightarrow> if ca_closed c then Some ReplyLost else None)"

section \<open>The receiver\<close>

text \<open>The non-blocking send: a second response to a caller that has one is dropped.\<close>

definition offer :: "nat \<Rightarrow> Message \<Rightarrow> string \<Rightarrow> requests \<Rightarrow> requests" where
  "offer i m raw = update_caller i (\<lambda>c. case ca_buffer c of None \<Rightarrow> c\<lparr>ca_buffer := Some (m, raw)\<rparr> | Some _ \<Rightarrow> c)"

definition route_response :: "Message \<Rightarrow> string \<Rightarrow> requests \<Rightarrow> requests" where
  "route_response m raw s =
     (if m_MessageId m = [] then s
      else case map_of (rq_pending s) (WithRaw, m_MessageId m) of
        Some i \<Rightarrow> offer i m raw s
      | None \<Rightarrow>
          (case map_of (rq_pending s) (Plain, m_MessageId m) of
             Some i \<Rightarrow> offer i m raw s
           | None \<Rightarrow> s\<lparr>rq_unmatched := rq_unmatched s @ [m]\<rparr>))"

text \<open>\<open>None\<close> is a panic of the decoder in the receiver goroutine.\<close>

definition receive_frame :: "golib \<Rightarrow> range_order \<Rightarrow> string \<Rightarrow> requests \<Rightarrow> requests option" where
  "receive_frame G ro bytes s =
     (if bytes = [] then Some s
      else case DecodeMessage G ro bytes of
        None \<Rightarrow> None
      | Some (m, Some e) \<Rightarrow> Some s
      | Some (m, None) \<Rightarrow> Some (route_response m bytes s))"

definition close_channel :: "nat \<Rightarrow> requests \<Rightarrow> requests" where
  "close_channel i = update_caller i (\<lambda>c. c\<lparr>ca_closed := True\<rparr>)"

definition notifyPendingCallersConnectionLost :: "requests \<Rightarrow> requests" where
  "notifyPendingCallersConnectionLost s = (fold close_channel (map snd (rq_pending s)) s)\<lparr>rq_pending := []\<rparr>"

section \<open>Interleaving\<close>

datatype request_event =
    Request request_kind string
  | RequestSent nat
  | RequestFailed nat
  | Frame string
  | ConnectionLost
  | Answer nat
  | Expire nat

fun request_do :: "golib \<Rightarrow> range_order \<Rightarrow> request_event \<Rightarrow> requests \<Rightarrow> requests option" where
  "request_do G ro (Request kd mid) s = (if mid = [] then None else Some (register_request kd mid s))"
| "request_do G ro (RequestSent i) s =
     (if i < length (rq_callers s) \<and> ca_state (rq_callers s ! i) = Preparing
      then Some (update_caller i (\<lambda>c. c\<lparr>ca_state := Waiting\<rparr>) s) else None)"
| "request_do G ro (RequestFailed i) s =
     (if i < length (rq_callers s) \<and> ca_state (rq_callers s ! i) = Preparing
      then Some (finish_request i ReplyNotSent s) else None)"
| "request_do G ro (Frame bytes) s = receive_frame G ro bytes s"
| "request_do G ro ConnectionLost s = Some (notifyPendingCallersConnectionLost s)"
| "request_do G ro (Answer i) s =
     (if i < length (rq_callers s) \<and> ca_state (rq_callers s ! i) = Waiting
      then map_option (\<lambda>r. finish_request i r s) (await_response (rq_callers s ! i)) else None)"
| "request_do G ro (Expire i) s =
     (if i < length (rq_callers s) \<and> ca_state (rq_callers s ! i) = Waiting
      then Some (finish_request i ReplyTimedOut s) else None)"

definition no_requests :: requests where
  "no_requests = \<lparr>rq_pending = [], rq_callers = [], rq_unmatched = []\<rparr>"

definition active :: "caller \<Rightarrow> bool" where
  "active c \<longleftrightarrow> (case ca_state c of Finished r \<Rightarrow> False | _ \<Rightarrow> True)"

text \<open>A request is fresh when no active caller has its kind and id.\<close>

fun fresh_event :: "request_event \<Rightarrow> requests \<Rightarrow> bool" where
  "fresh_event (Request kd mid) s = list_all (\<lambda>c. active c \<longrightarrow> (ca_kind c, ca_id c) \<noteq> (kd, mid)) (rq_callers s)"
| "fresh_event _ s = True"

inductive request_step :: "golib \<Rightarrow> range_order \<Rightarrow> request_event \<Rightarrow> requests \<Rightarrow> requests \<Rightarrow> bool" for G ro where
  "request_do G ro e s = Some s' \<Longrightarrow> request_step G ro e s s'"

inductive_cases request_stepE: "request_step G ro e s s'"

inductive requests_reachable :: "golib \<Rightarrow> range_order \<Rightarrow> bool \<Rightarrow> requests \<Rightarrow> bool" for G ro fresh where
  init: "requests_reachable G ro fresh no_requests"
| step: "requests_reachable G ro fresh s \<Longrightarrow> fresh \<longrightarrow> fresh_event e s \<Longrightarrow> request_step G ro e s s' \<Longrightarrow>
    requests_reachable G ro fresh s'"

section \<open>Invariants\<close>

text \<open>A response a caller holds or has returned carries its id and is what its raw bytes decode to.\<close>

definition answers :: "golib \<Rightarrow> range_order \<Rightarrow> caller \<Rightarrow> Message \<Rightarrow> string \<Rightarrow> bool" where
  "answers G ro c m raw \<longleftrightarrow> m_MessageId m = ca_id c \<and> DecodeMessage G ro raw = Some (m, None)"

definition caller_ok :: "golib \<Rightarrow> range_order \<Rightarrow> caller \<Rightarrow> bool" where
  "caller_ok G ro c \<longleftrightarrow>
     (\<forall>m raw. ca_buffer c = Some (m, raw) \<longrightarrow> answers G ro c m raw)
     \<and> (\<forall>m raw e. ca_state c = Finished (Reply m raw e) \<longrightarrow> answers G ro c m raw \<and> e = response_error m)"

definition entry_ok :: "caller list \<Rightarrow> (request_kind \<times> string) \<times> nat \<Rightarrow> bool" where
  "entry_ok cs x \<longleftrightarrow> snd x < length cs \<and> (ca_kind (cs ! snd x), ca_id (cs ! snd x)) = fst x
     \<and> \<not> ca_closed (cs ! snd x) \<and> active (cs ! snd x)"

definition table_ok :: "requests \<Rightarrow> bool" where
  "table_ok s \<longleftrightarrow> distinct (map fst (rq_pending s)) \<and> list_all (entry_ok (rq_callers s)) (rq_pending s)"

definition ids_distinct :: "caller list \<Rightarrow> bool" where
  "ids_distinct cs \<longleftrightarrow> (\<forall>i < length cs. \<forall>j < length cs. active (cs ! i) \<longrightarrow> active (cs ! j) \<longrightarrow>
     (ca_kind (cs ! i), ca_id (cs ! i)) = (ca_kind (cs ! j), ca_id (cs ! j)) \<longrightarrow> i = j)"

text \<open>Every active caller is still registered or has been told.\<close>

definition reachable_by_receiver :: "requests \<Rightarrow> nat \<Rightarrow> bool" where
  "reachable_by_receiver s i \<longleftrightarrow> ca_closed (rq_callers s ! i)
     \<or> map_of (rq_pending s) (ca_kind (rq_callers s ! i), ca_id (rq_callers s ! i)) = Some i"

definition all_registered :: "requests \<Rightarrow> bool" where
  "all_registered s \<longleftrightarrow> (\<forall>i < length (rq_callers s). active (rq_callers s ! i) \<longrightarrow> reachable_by_receiver s i)"

lemma update_caller_simps [simp]:
  "rq_pending (update_caller i f s) = rq_pending s" "rq_unmatched (update_caller i f s) = rq_unmatched s"
  "length (rq_callers (update_caller i f s)) = length (rq_callers s)"
  "j < length (rq_callers s) \<Longrightarrow> rq_callers (update_caller i f s) ! j = (if i = j then f (rq_callers s ! j) else rq_callers s ! j)"
  by (simp_all add: update_caller_def nth_list_update)

lemma finish_request_simps [simp]:
  "rq_pending (finish_request i r s) = AList.delete (ca_kind (rq_callers s ! i), ca_id (rq_callers s ! i)) (rq_pending s)"
  "length (rq_callers (finish_request i r s)) = length (rq_callers s)"
  "j < length (rq_callers s) \<Longrightarrow> rq_callers (finish_request i r s) ! j =
     (if i = j then (rq_callers s ! j)\<lparr>ca_state := Finished r\<rparr> else rq_callers s ! j)"
  by (simp_all add: finish_request_def Let_def)

lemma close_channels:
  "rq_pending (fold close_channel is s) = rq_pending s \<and> length (rq_callers (fold close_channel is s)) = length (rq_callers s)
   \<and> (\<forall>j < length (rq_callers s). rq_callers (fold close_channel is s) ! j =
        (if j \<in> set is then (rq_callers s ! j)\<lparr>ca_closed := True\<rparr> else rq_callers s ! j))"
  by (induction "is" arbitrary: s) (auto simp: close_channel_def)

lemma notify_simps [simp]:
  "rq_pending (notifyPendingCallersConnectionLost s) = []"
  "length (rq_callers (notifyPendingCallersConnectionLost s)) = length (rq_callers s)"
  "j < length (rq_callers s) \<Longrightarrow> rq_callers (notifyPendingCallersConnectionLost s) ! j =
     (if j \<in> snd ` set (rq_pending s) then (rq_callers s ! j)\<lparr>ca_closed := True\<rparr> else rq_callers s ! j)"
  using close_channels [of "map snd (rq_pending s)" s]
  by (simp_all add: notifyPendingCallersConnectionLost_def)

lemma register_simps [simp]:
  "rq_pending (register_request kd mid s) = AList.update (kd, mid) (length (rq_callers s)) (rq_pending s)"
  "rq_callers (register_request kd mid s) = rq_callers s @
     [\<lparr>ca_kind = kd, ca_id = mid, ca_buffer = None, ca_closed = False, ca_state = Preparing\<rparr>]"
  by (simp_all add: register_request_def)

text \<open>An entry stays good when its caller keeps kind, id and activity and is not closed.\<close>

lemma entry_ok_cong:
  assumes "entry_ok cs x" "length cs \<le> length cs'"
    and "ca_kind (cs' ! snd x) = ca_kind (cs ! snd x)" "ca_id (cs' ! snd x) = ca_id (cs ! snd x)"
    and "ca_closed (cs' ! snd x) = ca_closed (cs ! snd x)" "active (cs ! snd x) \<Longrightarrow> active (cs' ! snd x)"
  shows "entry_ok cs' x"
  using assms by (auto simp: entry_ok_def)

lemma offer_simps [simp]:
  "rq_pending (offer i m raw s) = rq_pending s" "length (rq_callers (offer i m raw s)) = length (rq_callers s)"
  "j < length (rq_callers s) \<Longrightarrow> rq_callers (offer i m raw s) ! j =
     (if i = j \<and> ca_buffer (rq_callers s ! j) = None then (rq_callers s ! j)\<lparr>ca_buffer := Some (m, raw)\<rparr> else rq_callers s ! j)"
  by (auto simp: offer_def split: option.splits)

text \<open>What a frame does: nothing, an unmatched message, or an offer to the registered caller.\<close>

lemma receive_frame_cases:
  assumes "receive_frame G ro bytes s = Some s'"
  shows "rq_pending s' = rq_pending s \<and> rq_callers s' = rq_callers s
     \<or> (\<exists>m kd i. DecodeMessage G ro bytes = Some (m, None) \<and> map_of (rq_pending s) (kd, m_MessageId m) = Some i
          \<and> s' = offer i m bytes s)"
proof (cases "bytes = []")
  case True
  then show ?thesis using assms by (simp add: receive_frame_def)
next
  case False
  then obtain m e where d: "DecodeMessage G ro bytes = Some (m, e)"
    using assms by (auto simp: receive_frame_def split: option.splits)
  show ?thesis
  proof (cases e)
    case (Some x)
    then show ?thesis using assms False d by (simp add: receive_frame_def)
  next
    case None
    then have s': "s' = route_response m bytes s" using assms False d by (simp add: receive_frame_def)
    consider "m_MessageId m = []" | kd i where "map_of (rq_pending s) (kd, m_MessageId m) = Some i" "s' = offer i m bytes s"
      | "s' = s\<lparr>rq_unmatched := rq_unmatched s @ [m]\<rparr>"
      using s' by (auto simp: route_response_def split: if_splits option.splits)
    then show ?thesis
    proof cases
      case 1
      then show ?thesis using s' by (simp add: route_response_def)
    next
      case 2
      then show ?thesis using d None by blast
    next
      case 3
      then show ?thesis by simp
    qed
  qed
qed

lemma table_entry:
  assumes "table_ok s" "map_of (rq_pending s) (kd, mid) = Some i"
  shows "i < length (rq_callers s)" "ca_kind (rq_callers s ! i) = kd" "ca_id (rq_callers s ! i) = mid"
    "\<not> ca_closed (rq_callers s ! i)" "active (rq_callers s ! i)"
proof -
  have "entry_ok (rq_callers s) ((kd, mid), i)"
    using assms map_of_SomeD by (fastforce simp: table_ok_def list_all_iff)
  then show "i < length (rq_callers s)" "ca_kind (rq_callers s ! i) = kd" "ca_id (rq_callers s ! i) = mid"
    "\<not> ca_closed (rq_callers s ! i)" "active (rq_callers s ! i)" by (auto simp: entry_ok_def)
qed

text \<open>Preservation of the table by each kind of change.\<close>

lemma table_ok_same_pending:
  assumes "table_ok s" "rq_pending s' = rq_pending s" "length (rq_callers s') = length (rq_callers s)"
    and "\<And>j. j < length (rq_callers s) \<Longrightarrow> ca_kind (rq_callers s' ! j) = ca_kind (rq_callers s ! j)
        \<and> ca_id (rq_callers s' ! j) = ca_id (rq_callers s ! j) \<and> ca_closed (rq_callers s' ! j) = ca_closed (rq_callers s ! j)
        \<and> (active (rq_callers s ! j) \<longrightarrow> active (rq_callers s' ! j))"
  shows "table_ok s'"
  using assms unfolding table_ok_def list_all_iff by (auto simp: entry_ok_def)

lemma table_ok_finish:
  assumes "table_ok s" "i < length (rq_callers s)"
  shows "table_ok (finish_request i r s)"
proof -
  let ?k = "(ca_kind (rq_callers s ! i), ca_id (rq_callers s ! i))"
  have "entry_ok (rq_callers (finish_request i r s)) x" if "x \<in> set (AList.delete ?k (rq_pending s))" for x
  proof -
    have x: "entry_ok (rq_callers s) x" "fst x \<noteq> ?k"
      using assms(1) that by (auto simp: table_ok_def list_all_iff AList.delete_eq)
    then have "snd x \<noteq> i" by (auto simp: entry_ok_def)
    then show ?thesis using x(1) by (auto simp: entry_ok_def)
  qed
  then show ?thesis using assms(1) by (simp add: table_ok_def list_all_iff distinct_delete)
qed

lemma table_ok_register:
  assumes "table_ok s"
  shows "table_ok (register_request kd mid s)"
proof -
  let ?n = "length (rq_callers s)"
  have "entry_ok (rq_callers (register_request kd mid s)) x"
    if "x \<in> set (AList.update (kd, mid) ?n (rq_pending s))" for x
  proof (cases "x = ((kd, mid), ?n)")
    case True
    then show ?thesis by (simp add: entry_ok_def active_def)
  next
    case False
    have "distinct (map fst (AList.update (kd, mid) ?n (rq_pending s)))"
      using assms by (simp add: table_ok_def distinct_update)
    then have "map_of (AList.update (kd, mid) ?n (rq_pending s)) (fst x) = Some (snd x)"
      using that map_of_is_SomeI [of "AList.update (kd, mid) ?n (rq_pending s)" "fst x" "snd x"] by simp
    then have "x \<in> set (rq_pending s)" using False
      by (cases x) (auto split: if_splits dest: map_of_SomeD)
    then show ?thesis using assms by (auto simp: table_ok_def list_all_iff entry_ok_def nth_append)
  qed
  then show ?thesis using assms by (simp add: table_ok_def list_all_iff distinct_update)
qed

lemma table_ok_notify: "table_ok (notifyPendingCallersConnectionLost s)"
  by (simp add: table_ok_def)

lemma table_ok_step: "request_do G ro e s = Some s' \<Longrightarrow> table_ok s \<Longrightarrow> table_ok s'"
proof (cases e)
  case (Frame bytes)
  assume a: "request_do G ro e s = Some s'" "table_ok s"
  then have "receive_frame G ro bytes s = Some s'" using Frame by simp
  from receive_frame_cases [OF this] show ?thesis
  proof (elim disjE exE conjE)
    assume "rq_pending s' = rq_pending s" "rq_callers s' = rq_callers s"
    then show ?thesis using a(2) by (simp add: table_ok_def)
  next
    fix m kd i assume "s' = offer i m bytes s"
    then show ?thesis by (auto intro!: table_ok_same_pending [OF a(2)] simp: active_def split: if_splits)
  qed
next
  case (RequestSent i)
  assume a: "request_do G ro e s = Some s'" "table_ok s"
  then show ?thesis using RequestSent
    by (auto split: if_splits intro!: table_ok_same_pending [OF a(2)] simp: active_def)
qed (auto intro: table_ok_finish table_ok_register table_ok_notify split: if_splits)

text \<open>Responses belong to their callers.\<close>

definition callers_ok :: "golib \<Rightarrow> range_order \<Rightarrow> requests \<Rightarrow> bool" where
  "callers_ok G ro s \<longleftrightarrow> (\<forall>j < length (rq_callers s). caller_ok G ro (rq_callers s ! j))"

lemma caller_ok_simps [simp]:
  "caller_ok G ro (c\<lparr>ca_closed := b\<rparr>) = caller_ok G ro c"
  "caller_ok G ro c \<Longrightarrow> caller_ok G ro (c\<lparr>ca_state := Waiting\<rparr>)"
  "caller_ok G ro c \<Longrightarrow> caller_ok G ro (c\<lparr>ca_state := Finished ReplyNotSent\<rparr>)"
  "caller_ok G ro c \<Longrightarrow> caller_ok G ro (c\<lparr>ca_state := Finished ReplyTimedOut\<rparr>)"
  by (auto simp: caller_ok_def answers_def)

lemma caller_ok_await: "await_response c = Some r \<Longrightarrow> caller_ok G ro c \<Longrightarrow> caller_ok G ro (c\<lparr>ca_state := Finished r\<rparr>)"
  by (auto simp: await_response_def caller_ok_def answers_def split: option.splits if_splits)

lemma caller_ok_offer:
  "caller_ok G ro c \<Longrightarrow> ca_id c = m_MessageId m \<Longrightarrow> DecodeMessage G ro raw = Some (m, None) \<Longrightarrow>
     caller_ok G ro (c\<lparr>ca_buffer := Some (m, raw)\<rparr>)"
  by (auto simp: caller_ok_def answers_def)

lemma callers_ok_step: "request_do G ro e s = Some s' \<Longrightarrow> table_ok s \<Longrightarrow> callers_ok G ro s \<Longrightarrow> callers_ok G ro s'"
proof (cases e)
  case (Frame bytes)
  assume a: "request_do G ro e s = Some s'" "table_ok s" "callers_ok G ro s"
  then have "receive_frame G ro bytes s = Some s'" using Frame by simp
  from receive_frame_cases [OF this] show ?thesis
  proof (elim disjE exE conjE)
    assume "rq_pending s' = rq_pending s" "rq_callers s' = rq_callers s"
    then show ?thesis using a(3) by (simp add: callers_ok_def)
  next
    fix m kd i
    assume "DecodeMessage G ro bytes = Some (m, None)" "map_of (rq_pending s) (kd, m_MessageId m) = Some i" "s' = offer i m bytes s"
    then show ?thesis using a(3) table_entry [OF a(2)] by (auto simp: callers_ok_def caller_ok_offer)
  qed
next
  case (Request kd mid)
  assume "request_do G ro e s = Some s'" "table_ok s" "callers_ok G ro s"
  then show ?thesis using Request
    by (auto simp: callers_ok_def nth_append caller_ok_def split: if_splits)
qed (auto simp: callers_ok_def caller_ok_await split: if_splits)

lemma reachable_ok: "requests_reachable G ro fresh s \<Longrightarrow> table_ok s \<and> callers_ok G ro s"
  by (induction rule: requests_reachable.induct)
    (auto simp: table_ok_def callers_ok_def no_requests_def elim!: request_stepE dest: table_ok_step callers_ok_step)

text \<open>With fresh ids every active caller stays registered until it is told.\<close>

lemma key_eq_iff: "((kd::request_kind, mid::string) = (kd', mid')) \<longleftrightarrow> kd = kd' \<and> mid = mid'" by simp

definition waiters_ok :: "requests \<Rightarrow> bool" where
  "waiters_ok s \<longleftrightarrow> ids_distinct (rq_callers s) \<and> all_registered s"

lemma map_of_delete: "map_of (AList.delete k xs) k' = (if k = k' then None else map_of xs k')"
  by (induction xs) auto

lemma waiters_same:
  assumes "waiters_ok s" "length (rq_callers s') = length (rq_callers s)" "rq_pending s' = rq_pending s"
    and "\<And>j. j < length (rq_callers s) \<Longrightarrow> ca_kind (rq_callers s' ! j) = ca_kind (rq_callers s ! j)
        \<and> ca_id (rq_callers s' ! j) = ca_id (rq_callers s ! j) \<and> ca_closed (rq_callers s' ! j) = ca_closed (rq_callers s ! j)
        \<and> active (rq_callers s' ! j) = active (rq_callers s ! j)"
  shows "waiters_ok s'"
  using assms by (simp add: waiters_ok_def ids_distinct_def all_registered_def reachable_by_receiver_def)

lemma waiters_finish:
  assumes "waiters_ok s" "i < length (rq_callers s)" "active (rq_callers s ! i)"
  shows "waiters_ok (finish_request i r s)"
proof -
  have other: "active (rq_callers s ! j) \<and> j \<noteq> i"
    if "j < length (rq_callers s)" "active (rq_callers (finish_request i r s) ! j)" for j
    using that by (auto simp: active_def split: if_splits)
  have "ids_distinct (rq_callers (finish_request i r s))"
    unfolding ids_distinct_def
  proof (intro allI impI)
    fix j k
    assume jk: "j < length (rq_callers (finish_request i r s))" "k < length (rq_callers (finish_request i r s))"
      "active (rq_callers (finish_request i r s) ! j)" "active (rq_callers (finish_request i r s) ! k)"
      "(ca_kind (rq_callers (finish_request i r s) ! j), ca_id (rq_callers (finish_request i r s) ! j))
       = (ca_kind (rq_callers (finish_request i r s) ! k), ca_id (rq_callers (finish_request i r s) ! k))"
    then show "j = k" using other [of j] other [of k] assms(1) by (auto simp: waiters_ok_def ids_distinct_def)
  qed
  moreover have "reachable_by_receiver (finish_request i r s) j"
    if j: "j < length (rq_callers s)" "active (rq_callers (finish_request i r s) ! j)" for j
  proof -
    have o: "active (rq_callers s ! j)" "j \<noteq> i" using other [OF j] by auto
    then have "(ca_kind (rq_callers s ! i), ca_id (rq_callers s ! i)) \<noteq> (ca_kind (rq_callers s ! j), ca_id (rq_callers s ! j))"
      using assms j(1) by (auto simp: waiters_ok_def ids_distinct_def)
    moreover have "reachable_by_receiver s j" using assms(1) o j(1) by (simp add: waiters_ok_def all_registered_def)
    ultimately show ?thesis using o j(1) by (auto simp: reachable_by_receiver_def map_of_delete)
  qed
  ultimately show ?thesis by (simp add: waiters_ok_def all_registered_def)
qed

lemma waiters_register:
  assumes "waiters_ok s" "fresh_event (Request kd mid) s"
  shows "waiters_ok (register_request kd mid s)"
proof -
  have new: "(ca_kind (rq_callers s ! j), ca_id (rq_callers s ! j)) \<noteq> (kd, mid)"
    if "j < length (rq_callers s)" "active (rq_callers s ! j)" for j
    using assms(2) that by (auto simp: list_all_length)
  show ?thesis
    using assms(1) new
    by (fastforce simp: waiters_ok_def ids_distinct_def all_registered_def reachable_by_receiver_def nth_append less_Suc_eq)
qed

lemma waiters_notify:
  assumes "waiters_ok s"
  shows "waiters_ok (notifyPendingCallersConnectionLost s)"
proof -
  let ?s = "notifyPendingCallersConnectionLost s"
  have same: "active (rq_callers ?s ! j) = active (rq_callers s ! j)" "ca_kind (rq_callers ?s ! j) = ca_kind (rq_callers s ! j)"
    "ca_id (rq_callers ?s ! j) = ca_id (rq_callers s ! j)" if "j < length (rq_callers s)" for j
    using that by (simp_all add: active_def)
  have "reachable_by_receiver ?s j" if j: "j < length (rq_callers s)" "active (rq_callers ?s ! j)" for j
  proof -
    have "reachable_by_receiver s j"
      using assms j same(1) [OF j(1)] by (simp add: waiters_ok_def all_registered_def)
    then have "ca_closed (rq_callers s ! j) \<or> j \<in> snd ` set (rq_pending s)"
      unfolding reachable_by_receiver_def by (auto dest!: map_of_SomeD intro: rev_image_eqI)
    then show ?thesis using j(1) by (auto simp: reachable_by_receiver_def)
  qed
  moreover have "ids_distinct (rq_callers ?s)"
    using assms same unfolding waiters_ok_def ids_distinct_def by simp
  ultimately show ?thesis by (simp add: waiters_ok_def all_registered_def)
qed

lemma waiters_step:
  "request_do G ro e s = Some s' \<Longrightarrow> fresh_event e s \<Longrightarrow> waiters_ok s \<Longrightarrow> waiters_ok s'"
proof (cases e)
  case (Frame bytes)
  assume a: "request_do G ro e s = Some s'" "waiters_ok s"
  then have "receive_frame G ro bytes s = Some s'" using Frame by simp
  from receive_frame_cases [OF this] show ?thesis
    by (elim disjE exE conjE) (auto intro!: waiters_same [OF a(2)] simp: active_def split: if_splits)
next
  case (RequestSent i)
  assume "request_do G ro e s = Some s'" "waiters_ok s"
  then show ?thesis using RequestSent
    by (auto intro!: waiters_same [of s] simp: active_def split: if_splits)
next
  case (Request kd mid)
  assume "request_do G ro e s = Some s'" "fresh_event e s" "waiters_ok s"
  then show ?thesis using Request waiters_register by (auto split: if_splits)
qed (auto intro!: waiters_notify waiters_finish simp: active_def split: if_splits)

lemma reachable_waiters: "requests_reachable G ro fresh s \<Longrightarrow> fresh \<Longrightarrow> waiters_ok s"
  by (induction rule: requests_reachable.induct)
    (auto simp: waiters_ok_def ids_distinct_def all_registered_def no_requests_def elim!: request_stepE dest!: waiters_step)

text \<open>A caller nobody will tell: its channel is empty, open and no longer registered.\<close>

definition stranded :: "requests \<Rightarrow> nat \<Rightarrow> bool" where
  "stranded s i \<longleftrightarrow> i < length (rq_callers s) \<and> ca_buffer (rq_callers s ! i) = None
     \<and> \<not> ca_closed (rq_callers s ! i) \<and> i \<notin> snd ` set (rq_pending s)"

lemma delete_subset: "snd ` set (AList.delete k xs) \<subseteq> snd ` set xs"
  by (auto simp: AList.delete_eq)

lemma update_subset: "snd ` set (AList.update k v xs) \<subseteq> insert v (snd ` set xs)"
  by (induction xs) auto

lemma stranded_finish: "stranded s i \<Longrightarrow> stranded (finish_request k r s) i"
  using delete_subset [of "(ca_kind (rq_callers s ! k), ca_id (rq_callers s ! k))" "rq_pending s"]
  unfolding stranded_def by (simp add: subset_iff) blast

lemma stranded_step: "request_do G ro e s = Some s' \<Longrightarrow> stranded s i \<Longrightarrow> stranded s' i"
proof (cases e)
  case (Frame bytes)
  assume a: "request_do G ro e s = Some s'" "stranded s i"
  then have "receive_frame G ro bytes s = Some s'" using Frame by simp
  from receive_frame_cases [OF this] show ?thesis
  proof (elim disjE exE conjE)
    fix m kd k
    assume k: "map_of (rq_pending s) (kd, m_MessageId m) = Some k" "s' = offer k m bytes s"
    then have "k \<noteq> i" using a(2) by (auto simp: stranded_def dest!: map_of_SomeD intro: rev_image_eqI)
    then show ?thesis using a(2) k(2) by (simp add: stranded_def)
  qed (use a(2) in \<open>simp add: stranded_def\<close>)
next
  case (Request kd mid)
  assume a: "request_do G ro e s = Some s'" "stranded s i"
  then have "s' = register_request kd mid s" using Request by (auto split: if_splits)
  moreover have "i \<notin> snd ` set (AList.update (kd, mid) (length (rq_callers s)) (rq_pending s))"
    using a(2) update_subset [of "(kd, mid)" "length (rq_callers s)" "rq_pending s"] by (auto simp: stranded_def)
  ultimately show ?thesis using a(2) by (simp add: stranded_def nth_append)
next
  case (RequestSent k)
  assume "request_do G ro e s = Some s'" "stranded s i"
  then show ?thesis using RequestSent by (auto simp: stranded_def split: if_splits)
next
  case ConnectionLost
  assume "request_do G ro e s = Some s'" "stranded s i"
  then show ?thesis using ConnectionLost by (auto simp: stranded_def)
qed (auto intro: stranded_finish split: if_splits)

section \<open>Properties\<close>

text \<open>
  Claim C13. No cross-delivery: under any interleaving of requests, frames, losses and timeouts, and
  even when ids are reused, a caller that returned a response returned one with the message id of its
  own request; the raw bytes it got are the frame that decodes to that response, and the error is the
  one the response's status calls for.
\<close>

theorem responses_reach_their_request:
  assumes "requests_reachable G ro fresh s" and "i < length (rq_callers s)"
    and "ca_state (rq_callers s ! i) = Finished (Reply m raw err)"
  shows "m_MessageId m = ca_id (rq_callers s ! i) \<and> DecodeMessage G ro raw = Some (m, None) \<and> err = response_error m"
  using reachable_ok [OF assms(1)] assms(2,3) by (auto simp: callers_ok_def caller_ok_def answers_def)


text \<open>
  Claim C15. A lost connection wakes every waiter: when no two active requests share kind and id,
  after the notification the table is empty and every caller that waits returns at once, with the
  response that had already arrived or with the connection-lost error.
\<close>

theorem connection_loss_wakes_every_waiter:
  assumes "requests_reachable G ro True s" and "i < length (rq_callers s)" and "ca_state (rq_callers s ! i) = Waiting"
  shows "pendingCount (notifyPendingCallersConnectionLost s) = 0
     \<and> request_do G ro (Answer i) (notifyPendingCallersConnectionLost s) =
         Some (finish_request i
           (case ca_buffer (rq_callers s ! i) of None \<Rightarrow> ReplyLost | Some (m, raw) \<Rightarrow> Reply m raw (response_error m))
           (notifyPendingCallersConnectionLost s))"
proof -
  have "reachable_by_receiver s i"
    using reachable_waiters [OF assms(1)] assms(2,3) by (simp add: waiters_ok_def all_registered_def active_def)
  then have "ca_closed (rq_callers s ! i) \<or> i \<in> snd ` set (rq_pending s)"
    unfolding reachable_by_receiver_def by (auto dest!: map_of_SomeD intro: rev_image_eqI)
  then show ?thesis using assms(2,3)
    by (auto simp: pendingCount_def await_response_def split: option.splits)
qed

text \<open>
  A response finds its caller: a frame that decodes to a message with the id of a waiting
  request, which is still registered, has no response yet and shares the id with no raw request, is
  what that request returns.
\<close>

lemma response_is_delivered:
  assumes "requests_reachable G ro True s" and "i < length (rq_callers s)" and "ca_state (rq_callers s ! i) = Waiting"
    and "ca_buffer (rq_callers s ! i) = None" "\<not> ca_closed (rq_callers s ! i)"
    and "bytes \<noteq> []" "DecodeMessage G ro bytes = Some (m, None)" "m_MessageId m = ca_id (rq_callers s ! i)" "m_MessageId m \<noteq> []"
    and "ca_kind (rq_callers s ! i) = WithRaw \<or> map_of (rq_pending s) (WithRaw, m_MessageId m) = None"
  shows "\<exists>s'. request_do G ro (Frame bytes) s = Some s'
     \<and> request_do G ro (Answer i) s' = Some (finish_request i (Reply m bytes (response_error m)) s')"
proof -
  have "reachable_by_receiver s i"
    using reachable_waiters [OF assms(1)] assms(2,3) by (simp add: waiters_ok_def all_registered_def active_def)
  then have p: "map_of (rq_pending s) (ca_kind (rq_callers s ! i), m_MessageId m) = Some i"
    using assms(5,8) by (simp add: reachable_by_receiver_def)
  then have "request_do G ro (Frame bytes) s = Some (offer i m bytes s)"
    using assms(6,7,9,10) by (cases "ca_kind (rq_callers s ! i)") (auto simp: receive_frame_def route_response_def)
  moreover have "request_do G ro (Answer i) (offer i m bytes s)
      = Some (finish_request i (Reply m bytes (response_error m)) (offer i m bytes s))"
    using assms(2-4) by (simp add: await_response_def)
  ultimately show ?thesis by blast
qed

text \<open>
  Claim C16. Reusing an id strands the earlier request: once a second request of the same kind
  registers the id of one that is still active, the first can return only by its own timeout. In
  every later state its channel is empty and open, so no response and no loss of the connection
  reaches it.
\<close>

theorem reused_id_strands_first_request:
  assumes "requests_reachable G ro fresh s" and "i < length (rq_callers s)"
    and "ca_buffer (rq_callers s ! i) = None" "\<not> ca_closed (rq_callers s ! i)"
    and "(\<lambda>s s'. \<exists>e. request_step G ro e s s')\<^sup>*\<^sup>*
           (register_request (ca_kind (rq_callers s ! i)) (ca_id (rq_callers s ! i)) s) s'"
  shows "request_do G ro (Answer i) s' = None \<and> ca_buffer (rq_callers s' ! i) = None \<and> \<not> ca_closed (rq_callers s' ! i)"
proof -
  let ?k = "(ca_kind (rq_callers s ! i), ca_id (rq_callers s ! i))"
  let ?s = "register_request (ca_kind (rq_callers s ! i)) (ca_id (rq_callers s ! i)) s"
  have t: "table_ok ?s" using reachable_ok [OF assms(1)] table_ok_register by blast
  have "i \<notin> snd ` set (rq_pending ?s)"
  proof
    assume "i \<in> snd ` set (rq_pending ?s)"
    then obtain k where k: "(k, i) \<in> set (rq_pending ?s)" by auto
    then have "entry_ok (rq_callers ?s) (k, i)" using t by (auto simp: table_ok_def list_all_iff)
    then have "k = ?k" using assms(2) by (auto simp: entry_ok_def nth_append)
    moreover have "map_of (rq_pending ?s) k = Some i"
      using k t map_of_is_SomeI [of "rq_pending ?s" k i] unfolding table_ok_def by blast
    ultimately show False using assms(2) by simp
  qed
  then have "stranded ?s i" using assms(2-4) by (simp add: stranded_def nth_append)
  with assms(5) have "stranded s' i"
    by (induction rule: rtranclp_induct) (auto elim!: request_stepE intro: stranded_step)
  then show ?thesis by (auto simp: stranded_def await_response_def)
qed

section \<open>Witnesses\<close>

text \<open>One request with id \<open>m1\<close> waits; the echo frame answers it.\<close>

definition sample_waiting :: requests where
  "sample_waiting = \<lparr>rq_pending = [((Plain, ''m1''), 0)],
     rq_callers = [\<lparr>ca_kind = Plain, ca_id = ''m1'', ca_buffer = None, ca_closed = False, ca_state = Waiting\<rparr>], rq_unmatched = []\<rparr>"

definition sample_response :: string where
  "sample_response = sm_MessageBytes (frame sample_echo ''_msg_id=m1'' ''hi'')"

definition sample_decoded :: Message where
  "sample_decoded = fst (the (DecodeMessage sample_lib sample_order sample_response))"

lemma sample_decoded:
  "DecodeMessage sample_lib sample_order sample_response = Some (sample_decoded, None)"
  "m_MessageId sample_decoded = ''m1''"
proof -
  have "(case DecodeMessage sample_lib sample_order sample_response of Some (m, None) \<Rightarrow> True | _ \<Rightarrow> False)" by code_simp
  then show "DecodeMessage sample_lib sample_order sample_response = Some (sample_decoded, None)"
    by (auto simp: sample_decoded_def split: option.splits)
  show "m_MessageId sample_decoded = ''m1''" by code_simp
qed

lemma reachable_do:
  "requests_reachable G ro fresh s \<Longrightarrow> request_do G ro e s = Some s' \<Longrightarrow> fresh_event e s \<Longrightarrow> requests_reachable G ro fresh s'"
  by (blast intro: requests_reachable.step request_step.intros)

lemma sample_waiting_reachable: "requests_reachable sample_lib sample_order fresh sample_waiting"
proof (rule reachable_do [where e = "RequestSent 0"])
  show "requests_reachable sample_lib sample_order fresh (register_request Plain ''m1'' no_requests)"
    by (rule reachable_do [OF requests_reachable.init, where e = "Request Plain ''m1''"]) (simp_all add: no_requests_def)
qed (simp_all add: no_requests_def register_request_def update_caller_def sample_waiting_def)

definition sample_answered :: requests where
  "sample_answered = finish_request 0 (Reply sample_decoded sample_response (response_error sample_decoded))
     (offer 0 sample_decoded sample_response sample_waiting)"

lemma sample_response_not_Nil: "sample_response \<noteq> []" by code_simp

lemma sample_answered_reachable: "requests_reachable sample_lib sample_order fresh sample_answered"
proof (rule reachable_do [where e = "Answer 0"])
  show "requests_reachable sample_lib sample_order fresh (offer 0 sample_decoded sample_response sample_waiting)"
    by (rule reachable_do [OF sample_waiting_reachable, where e = "Frame sample_response"])
      (simp_all add: receive_frame_def route_response_def sample_decoded sample_response_not_Nil sample_waiting_def)
qed (simp_all add: sample_waiting_def sample_answered_def await_response_def)

theorem responses_reach_their_request_witness:
  "m_MessageId sample_decoded = ca_id (rq_callers sample_answered ! 0)
   \<and> ca_state (rq_callers sample_answered ! 0) = Finished (Reply sample_decoded sample_response (response_error sample_decoded))"
proof -
  have s: "length (rq_callers sample_answered) = 1"
    "ca_state (rq_callers sample_answered ! 0) = Finished (Reply sample_decoded sample_response (response_error sample_decoded))"
    by (simp_all add: sample_answered_def sample_waiting_def)
  with responses_reach_their_request [OF sample_answered_reachable _ s(2)] show ?thesis by simp
qed


theorem connection_loss_wakes_every_waiter_witness:
  "request_do sample_lib sample_order (Answer 0) (notifyPendingCallersConnectionLost sample_waiting)
     = Some (finish_request 0 ReplyLost (notifyPendingCallersConnectionLost sample_waiting))"
  using connection_loss_wakes_every_waiter [OF sample_waiting_reachable, of 0] by (simp add: sample_waiting_def)

theorem reused_id_strands_first_request_witness:
  "request_do sample_lib sample_order (Answer 0)
     (notifyPendingCallersConnectionLost (register_request Plain ''m1'' sample_waiting)) = None"
proof -
  let ?s = "register_request (ca_kind (rq_callers sample_waiting ! 0)) (ca_id (rq_callers sample_waiting ! 0)) sample_waiting"
  have "(\<lambda>s s'. \<exists>e. request_step sample_lib sample_order e s s')\<^sup>*\<^sup>* ?s (notifyPendingCallersConnectionLost ?s)"
    by (rule r_into_rtranclp, rule exI [of _ ConnectionLost]) (simp add: request_step.intros)
  from reused_id_strands_first_request [OF sample_waiting_reachable _ _ _ this]
  show ?thesis by (simp add: sample_waiting_def)
qed

end
