(* ===== verification/Validate.thy ===== *)
theory Validate
  imports Types Intents
begin

text \<open>
  The struct-level validation of messages (\<open>message/validate.go\<close>): \<open>Validate\<close>, the envelope rules and
  one validator per intent, in the order in which they report. A violation carries the fields a
  program can act on: severity, intent, field, wire field and rule. Its four prose fields
  (\<open>Message\<close>, \<open>Fix\<close>, \<open>ExampleCode\<close>, \<open>References\<close>), on which no validator depends, are left out
  here; \<open>ValidationReport\<close> adds them, with any text, for the reports that print them. The package
  variable \<open>validationEnabled\<close> is an argument.
\<close>

section \<open>Violations\<close>

record ValidationError =
  ve_Severity :: string
  ve_Intent :: string
  ve_Field :: string
  ve_WireField :: string
  ve_Rule :: string

type_synonym ValidationErrors = "ValidationError list"

definition violation :: "string \<Rightarrow> string \<Rightarrow> string \<Rightarrow> string \<Rightarrow> string \<Rightarrow> ValidationError" where
  "violation severity intent field wireField rule =
     \<lparr>ve_Severity = severity, ve_Intent = intent, ve_Field = field, ve_WireField = wireField, ve_Rule = rule\<rparr>"

definition requiredField :: "string \<Rightarrow> string \<Rightarrow> string \<Rightarrow> ValidationError" where
  "requiredField intent field wireField = violation ''error'' intent field wireField ''required''"

definition nilStruct :: "string \<Rightarrow> string \<Rightarrow> ValidationError" where
  "nilStruct intent field = violation ''error'' intent field [] ''nil_struct''"

definition oneOfRequired :: "string \<Rightarrow> string \<Rightarrow> string \<Rightarrow> string \<Rightarrow> string \<Rightarrow> ValidationError" where
  "oneOfRequired intent fieldA wireA fieldB wireB =
     violation ''error'' intent (fieldA @ '' / '' @ fieldB) (wireA @ '' / '' @ wireB) ''one_of_required''"

definition warnUncovered :: "string \<Rightarrow> ValidationError" where
  "warnUncovered intent = violation ''warn'' intent [] [] ''uncovered''"

definition semanticError :: "string \<Rightarrow> string \<Rightarrow> string \<Rightarrow> ValidationError" where
  "semanticError intent field wireField = violation ''error'' intent field wireField ''semantic''"

definition semanticWarn :: "string \<Rightarrow> string \<Rightarrow> string \<Rightarrow> ValidationError" where
  "semanticWarn intent field wireField = violation ''warn'' intent field wireField ''semantic''"

text \<open>\<open>if b { errs = append(errs, v) }\<close>\<close>

definition report :: "bool \<Rightarrow> ValidationError \<Rightarrow> ValidationErrors" where
  "report b v = (if b then [v] else [])"

text \<open>The switch of the package, read from \<open>PODOS_VALIDATE\<close> once at start.\<close>

definition validationEnabled :: "string \<Rightarrow> bool" where
  "validationEnabled env = (let v = map lower_byte (TrimSpace env) in v = ''1'' \<or> v = ''true'' \<or> v = ''yes'')"

section \<open>Shared rules\<close>

definition sysSpecialID :: string where
  "sysSpecialID = ''$sys''"

definition isSysID :: "string \<Rightarrow> bool" where
  "isSysID s = (s = sysSpecialID)"

definition validateApplyToExistingSemantics :: "string \<Rightarrow> EventFields option \<Rightarrow> ValidationErrors" where
  "validateApplyToExistingSemantics intent ev =
     (case ev of None \<Rightarrow> [] | Some e \<Rightarrow>
        report (isSysID (ev_Owner e)) (semanticError intent ''Event.Owner'' ''owner'')
        @ report (isSysID (ev_Id e)) (semanticError intent ''Event.Id'' ''event_id'')
        @ report (isSysID (ev_UniqueId e)) (semanticError intent ''Event.UniqueId'' ''unique_id''))"

definition validateLookupOwnerNotUsedEvent :: "string \<Rightarrow> EventFields option \<Rightarrow> ValidationErrors" where
  "validateLookupOwnerNotUsedEvent intent ev =
     (case ev of None \<Rightarrow> [] | Some e \<Rightarrow>
        report (ev_Owner e \<noteq> [] \<or> ev_OwnerUniqueID e \<noteq> [])
          (semanticWarn intent ''Event.Owner / Event.OwnerUniqueID'' ''owner / owner_unique_id''))"

definition validateLookupOwnerNotUsedLink :: "string \<Rightarrow> LinkFields option \<Rightarrow> ValidationErrors" where
  "validateLookupOwnerNotUsedLink intent lk =
     (case lk of None \<Rightarrow> [] | Some l \<Rightarrow>
        report (lk_Owner l \<noteq> [] \<or> lk_OwnerID l \<noteq> [] \<or> lk_OwnerUniqueID l \<noteq> [])
          (semanticWarn intent ''NeuralMemory.Link.Owner / OwnerID / OwnerUniqueID''
            ''owner / owner_event_id / owner_unique_id''))"

definition validateCreateEventIdSet :: "string \<Rightarrow> string \<Rightarrow> string \<Rightarrow> ValidationErrors" where
  "validateCreateEventIdSet intent idField idValue =
     (if idValue = [] then []
      else [semanticWarn intent (if idField \<noteq> [] then idField else ''Event.Id'') ''event_id''])"

definition validateCreateLinkIdSet :: "string \<Rightarrow> string \<Rightarrow> string \<Rightarrow> ValidationErrors" where
  "validateCreateLinkIdSet intent idField idValue =
     (if idValue = [] then []
      else [semanticWarn intent (if idField \<noteq> [] then idField else ''NeuralMemory.Link.Id'') ''event_id''])"

definition isNameAtGateway :: "string \<Rightarrow> bool" where
  "isNameAtGateway s = (case IndexByte s (CHR ''@'') of None \<Rightarrow> False | Some i \<Rightarrow> 0 < i \<and> i + 1 < length s)"

section \<open>Envelope\<close>

definition validateEnvelope :: "Message \<Rightarrow> ValidationErrors" where
  "validateEnvelope m =
     (let intent = (if in_Name (m_Intent m) = [] then ''(unknown)'' else in_Name (m_Intent m)) in
      (if m_To m = [] then [requiredField intent ''Envelope.To'' ''to'']
       else report (\<not> isNameAtGateway (m_To m)) (violation ''error'' intent ''Envelope.To'' ''to'' ''format''))
      @ (if m_From m = [] then [requiredField intent ''Envelope.From'' ''from'']
         else report (\<not> isNameAtGateway (m_From m)) (violation ''error'' intent ''Envelope.From'' ''from'' ''format''))
      @ report (in_Name (m_Intent m) = []) (requiredField ''(unknown)'' ''Envelope.Intent'' ''intent'')
      @ report (in_Name (m_Intent m) = in_Name IT_GatewayId \<and> m_ClientName m = [])
          (requiredField intent ''Envelope.ClientName'' ''id:name''))"

section \<open>Payloads of the batch intents\<close>

definition batch_event_violations :: "string \<Rightarrow> nat \<Rightarrow> BatchEventSpec \<Rightarrow> ValidationErrors" where
  "batch_event_violations intent i spec =
     (let path = ''NeuralMemory.BatchEvents['' @ itoa (int i) @ ''].Event''; e = be_Event spec in
      report (ev_Timestamp e = []) (requiredField intent (path @ ''.Timestamp'') ''timestamp'')
      @ report (ev_Owner e = [] \<and> ev_OwnerUniqueID e = [])
          (violation ''error'' intent (path @ ''.Owner / '' @ path @ ''.OwnerUniqueID'') ''owner / owner_unique_id''
            ''one_of_required'')
      @ validateCreateEventIdSet intent (path @ ''.Id'') (ev_Id e)
      @ report (ev_Location e = []) (violation ''error'' intent (path @ ''.Location'') ''loc'' ''payload_format'')
      @ report (ev_LocationSeparator e = [])
          (violation ''error'' intent (path @ ''.LocationSeparator'') ''loc_delim'' ''payload_format''))"

definition batch_link_violations :: "string \<Rightarrow> nat \<Rightarrow> BatchLinkEventSpec \<Rightarrow> ValidationErrors" where
  "batch_link_violations intent i spec =
     (let evPath = ''NeuralMemory.BatchLinks['' @ itoa (int i) @ ''].Event'';
          lkPath = ''NeuralMemory.BatchLinks['' @ itoa (int i) @ ''].Link'';
          e = bl_Event spec; l = bl_Link spec;
          bad = (\<lambda>b field wire. report b (violation ''error'' intent field wire ''payload_format'')) in
      bad (ev_Timestamp e = []) (evPath @ ''.Timestamp'') ''timestamp''
      @ bad (ev_Owner e = [] \<and> ev_OwnerUniqueID e = [])
          (evPath @ ''.Owner / '' @ evPath @ ''.OwnerUniqueID'') ''owner / owner_unique_id''
      @ validateCreateEventIdSet intent (evPath @ ''.Id'') (ev_Id e)
      @ validateCreateLinkIdSet intent (lkPath @ ''.Id'') (lk_Id l)
      @ bad (lk_Timestamp l = []) (lkPath @ ''.Timestamp'') ''timestamp''
      @ bad (\<not> (lk_EventA l \<noteq> [] \<and> lk_EventB l \<noteq> []) \<and> \<not> (lk_UniqueIdA l \<noteq> [] \<and> lk_UniqueIdB l \<noteq> []))
          (lkPath @ ''.EventA+EventB / '' @ lkPath @ ''.UniqueIdA+UniqueIdB'')
          ''event_id_a+event_id_b / unique_id_a+unique_id_b''
      @ bad (lk_Category l = []) (lkPath @ ''.Category'') ''category''
      @ bad (f64_eq_zero (lk_StrengthA l)) (lkPath @ ''.StrengthA'') ''strength_a''
      @ bad (f64_eq_zero (lk_StrengthB l)) (lkPath @ ''.StrengthB'') ''strength_b''
      @ bad (lk_OwnerID l = [] \<and> lk_OwnerUniqueID l = [])
          (lkPath @ ''.OwnerID / '' @ lkPath @ ''.OwnerUniqueID'') ''owner_event_id / owner_unique_id'')"

definition tag_violations :: "string \<Rightarrow> nat \<Rightarrow> Tag \<Rightarrow> ValidationErrors" where
  "tag_violations intent i tag =
     (let path = ''NeuralMemory.Tags['' @ itoa (int i) @ '']'' in
      report (tag_Key tag = []) (violation ''error'' intent (path @ ''.Key'') ''key'' ''payload_format'')
      @ report (tag_Value tag = VNil) (violation ''error'' intent (path @ ''.Value'') ''value'' ''payload_format''))"

text \<open>A loop \<open>for i, x := range xs\<close> that appends to the violations.\<close>

definition for_each :: "(nat \<Rightarrow> 'a \<Rightarrow> ValidationErrors) \<Rightarrow> 'a list \<Rightarrow> ValidationErrors" where
  "for_each f xs = concat (map (\<lambda>(i, x). f i x) (List.enumerate 0 xs))"

definition validateTagList :: "string \<Rightarrow> TagList \<Rightarrow> ValidationErrors" where
  "validateTagList intent tags = for_each (tag_violations intent) tags"

definition validatePayload :: "Message \<Rightarrow> ValidationErrors" where
  "validatePayload m =
     (let intent = in_Name (m_Intent m); nm = m_NeuralMemory m in
      if intent = ''StoreBatchEvents'' then
        (if (case nm of None \<Rightarrow> True | Some n \<Rightarrow> nm_BatchEvents n = []) then
           (case PayloadData m of
              ANil \<Rightarrow> [violation ''error'' intent ''NeuralMemory.BatchEvents'' ''payload'' ''required'']
            | ABatchEvents es \<Rightarrow> []
            | _ \<Rightarrow> [violation ''error'' intent ''Payload.Data'' ''payload'' ''payload_type''])
         else for_each (batch_event_violations intent) (nm_BatchEvents (the nm)))
      else if intent = ''StoreBatchTags'' then
        (if (case nm of None \<Rightarrow> True | Some n \<Rightarrow> nm_Tags n = []) then
           (case PayloadData m of
              ANil \<Rightarrow> [violation ''error'' intent ''NeuralMemory.Tags'' ''payload'' ''required'']
            | ATagList ts \<Rightarrow> validateTagList intent ts
            | ATagSlice ts \<Rightarrow> validateTagList intent ts
            | _ \<Rightarrow> [violation ''error'' intent ''NeuralMemory.Tags / Payload.Data'' ''payload'' ''payload_type''])
         else validateTagList intent (nm_Tags (the nm)))
      else if intent = ''StoreBatchLinks'' then
        (if (case nm of None \<Rightarrow> True | Some n \<Rightarrow> nm_BatchLinks n = []) then
           [violation ''error'' intent ''NeuralMemory.BatchLinks'' ''payload'' ''required'']
         else for_each (batch_link_violations intent) (nm_BatchLinks (the nm)))
      else [])"

section \<open>Neural-memory requests\<close>

text \<open>\<open>Event.Id\<close> or \<open>Event.UniqueId\<close>, \<open>Event.Owner\<close> or \<open>Event.OwnerUniqueID\<close>.\<close>

definition event_id_required :: "string \<Rightarrow> EventFields \<Rightarrow> ValidationErrors" where
  "event_id_required intent e = report (ev_Id e = [] \<and> ev_UniqueId e = [])
     (oneOfRequired intent ''Event.Id'' ''event_id'' ''Event.UniqueId'' ''unique_id'')"

definition event_owner_required :: "string \<Rightarrow> EventFields \<Rightarrow> ValidationErrors" where
  "event_owner_required intent e = report (ev_Owner e = [] \<and> ev_OwnerUniqueID e = [])
     (oneOfRequired intent ''Event.Owner'' ''owner'' ''Event.OwnerUniqueID'' ''owner_unique_id'')"

definition validateStoreEvent :: "Message \<Rightarrow> ValidationErrors" where
  "validateStoreEvent m =
     (case m_Event m of None \<Rightarrow> [nilStruct ''StoreEvent'' ''Event''] | Some e \<Rightarrow>
        event_owner_required ''StoreEvent'' e
        @ validateCreateEventIdSet ''StoreEvent'' ''Event.Id'' (ev_Id e)
        @ report (ev_Location e = []) (requiredField ''StoreEvent'' ''Event.Location'' ''loc'')
        @ report (ev_LocationSeparator e = []) (requiredField ''StoreEvent'' ''Event.LocationSeparator'' ''loc_delim''))"

definition validateStoreData :: "Message \<Rightarrow> ValidationErrors" where
  "validateStoreData m =
     (case m_Event m of None \<Rightarrow> [nilStruct ''StoreData'' ''Event''] | Some e \<Rightarrow>
        event_id_required ''StoreData'' e @ event_owner_required ''StoreData'' e
        @ validateApplyToExistingSemantics ''StoreData'' (Some e))"

definition validateStoreBatchEvents :: "Message \<Rightarrow> ValidationErrors" where
  "validateStoreBatchEvents m = validatePayload m"

definition validateStoreBatchTags :: "Message \<Rightarrow> ValidationErrors" where
  "validateStoreBatchTags m =
     (case m_Event m of None \<Rightarrow> [nilStruct ''StoreBatchTags'' ''Event''] | Some e \<Rightarrow>
        event_id_required ''StoreBatchTags'' e @ event_owner_required ''StoreBatchTags'' e
        @ validateApplyToExistingSemantics ''StoreBatchTags'' (Some e))
     @ validatePayload m"

fun validateTagOwnerOutputValue :: "string \<Rightarrow> string \<Rightarrow> string \<Rightarrow> TagOwnerOutput \<Rightarrow> ValidationErrors" where
  "validateTagOwnerOutputValue intent field wire (TagOwnerInvalid s) = [violation ''error'' intent field wire ''format'']"
| "validateTagOwnerOutputValue intent field wire _ = []"

definition validateGetEventTagFormat :: "string \<Rightarrow> GetEventOptions option \<Rightarrow> ValidationErrors" where
  "validateGetEventTagFormat intent opts =
     (case opts of None \<Rightarrow> [] | Some g \<Rightarrow>
       (let tfField = ''NeuralMemory.GetEvent.TagFormat''; ownerField = ''NeuralMemory.GetEvent.TagOwnerOutput'';
            tf = ge_TagFormat g; tagFormat1 = (ni_Valid tf \<and> ni_Value tf = 1) in
        report (ni_Valid tf \<and> ni_Value tf \<noteq> 0 \<and> ni_Value tf \<noteq> 1)
          (violation ''error'' intent tfField ''tag_format'' ''format'')
        @ validateTagOwnerOutputValue intent ownerField ''output_tag_owner'' (ge_TagOwnerOutput g)
        @ report (ge_TagOwnerOutput g \<noteq> TagOwnerNone \<and> \<not> tagFormat1)
            (semanticError intent ownerField ''output_tag_owner'')
        @ report (tagFormat1 \<and> \<not> ge_GetTags g) (violation ''warn'' intent tfField ''tag_format'' ''semantic'')))"

definition validateGetEvent :: "Message \<Rightarrow> ValidationErrors" where
  "validateGetEvent m =
     (case m_Event m of None \<Rightarrow> [nilStruct ''GetEvent'' ''Event''] | Some e \<Rightarrow>
        event_id_required ''GetEvent'' e
        @ validateLookupOwnerNotUsedEvent ''GetEvent'' (Some e)
        @ validateGetEventTagFormat ''GetEvent'' (GetEventOpts m))"

definition validateGetEventsForTagsTagFormat :: "string \<Rightarrow> GetEventsForTagsOptions option \<Rightarrow> ValidationErrors" where
  "validateGetEventsForTagsTagFormat intent opts =
     (case opts of None \<Rightarrow> [] | Some g \<Rightarrow>
       (let bfField = ''NeuralMemory.GetEventsForTags.BufferFormat'';
            ownerField = ''NeuralMemory.GetEventsForTags.TagOwnerOutput'' in
        report (gt_BufferFormat g \<noteq> [] \<and> gt_BufferFormat g \<noteq> ''0'' \<and> gt_BufferFormat g \<noteq> ''1'')
          (violation ''error'' intent bfField ''buffer_format'' ''format'')
        @ validateTagOwnerOutputValue intent ownerField ''get_tag_owner / get_tag_owner_unique_id'' (gt_TagOwnerOutput g)
        @ report (gt_TagOwnerOutput g \<noteq> TagOwnerNone \<and> gt_BufferFormat g \<noteq> ''1'')
            (violation ''warn'' intent ownerField ''get_tag_owner / get_tag_owner_unique_id'' ''semantic'')))"

definition validateGetEventsForTags :: "Message \<Rightarrow> ValidationErrors" where
  "validateGetEventsForTags m =
     (case m_NeuralMemory m of None \<Rightarrow> [nilStruct ''GetEventsForTags'' ''NeuralMemory''] | Some nm \<Rightarrow>
        report (nm_GetEventsForTags nm = None) (nilStruct ''GetEventsForTags'' ''NeuralMemory.GetEventsForTags'')
        @ report (nm_Search nm \<noteq> None)
            (violation ''error'' ''GetEventsForTags'' ''NeuralMemory.Search'' ''search'' ''not_serialized'')
        @ validateGetEventsForTagsTagFormat ''GetEventsForTags'' (nm_GetEventsForTags nm))"

definition link_violations :: "LinkFields \<Rightarrow> ValidationErrors" where
  "link_violations lk =
     report (\<not> (lk_EventA lk \<noteq> [] \<and> lk_EventB lk \<noteq> []) \<and> \<not> (lk_UniqueIdA lk \<noteq> [] \<and> lk_UniqueIdB lk \<noteq> []))
       (violation ''error'' ''LinkEvent''
          ''NeuralMemory.Link.EventA+EventB / NeuralMemory.Link.UniqueIdA+UniqueIdB''
          ''event_id_a+event_id_b / unique_id_a+unique_id_b'' ''one_of_required'')
     @ report (lk_Category lk = []) (requiredField ''LinkEvent'' ''NeuralMemory.Link.Category'' ''category'')
     @ report (f64_eq_zero (lk_StrengthA lk)) (requiredField ''LinkEvent'' ''NeuralMemory.Link.StrengthA'' ''strength_a'')
     @ report (f64_eq_zero (lk_StrengthB lk)) (requiredField ''LinkEvent'' ''NeuralMemory.Link.StrengthB'' ''strength_b'')
     @ report (lk_Timestamp lk = []) (requiredField ''LinkEvent'' ''NeuralMemory.Link.Timestamp'' ''timestamp'')
     @ report (lk_OwnerID lk = [] \<and> lk_OwnerUniqueID lk = [])
         (oneOfRequired ''LinkEvent'' ''NeuralMemory.Link.OwnerID'' ''owner_event_id''
            ''NeuralMemory.Link.OwnerUniqueID'' ''owner_unique_id'')
     @ validateCreateLinkIdSet ''LinkEvent'' ''NeuralMemory.Link.Id'' (lk_Id lk)
     @ report (lk_Location lk = []) (requiredField ''LinkEvent'' ''NeuralMemory.Link.Location'' ''loc'')
     @ report (lk_LocationSeparator lk = [])
         (requiredField ''LinkEvent'' ''NeuralMemory.Link.LocationSeparator'' ''loc_delim'')"

definition validateLinkEvent :: "Message \<Rightarrow> ValidationErrors" where
  "validateLinkEvent m =
     (case m_NeuralMemory m of None \<Rightarrow> [nilStruct ''LinkEvent'' ''NeuralMemory''] | Some nm \<Rightarrow>
       (case nm_Link nm of None \<Rightarrow> [nilStruct ''LinkEvent'' ''NeuralMemory.Link''] | Some lk \<Rightarrow> link_violations lk))"

definition validateUnlinkEvent :: "Message \<Rightarrow> ValidationErrors" where
  "validateUnlinkEvent m =
     (case m_NeuralMemory m of None \<Rightarrow> [nilStruct ''UnlinkEvent'' ''NeuralMemory''] | Some nm \<Rightarrow>
       (case nm_Link nm of None \<Rightarrow> [nilStruct ''UnlinkEvent'' ''NeuralMemory.Link''] | Some lk \<Rightarrow>
          report (lk_Id lk = [] \<and> lk_UniqueId lk = [])
            (oneOfRequired ''UnlinkEvent'' ''NeuralMemory.Link.Id'' ''event_id'' ''NeuralMemory.Link.UniqueId'' ''unique_id'')
          @ validateLookupOwnerNotUsedLink ''UnlinkEvent'' (Some lk)
          @ report (lk_Location lk \<noteq> [] \<and> lk_LocationSeparator lk = [])
              (requiredField ''UnlinkEvent'' ''NeuralMemory.Link.LocationSeparator'' ''loc_delim'')))"

definition validateStoreBatchLinks :: "Message \<Rightarrow> ValidationErrors" where
  "validateStoreBatchLinks m =
     (case m_NeuralMemory m of None \<Rightarrow> [nilStruct ''StoreBatchLinks'' ''NeuralMemory''] | Some nm \<Rightarrow> validatePayload m)"

section \<open>Gateway, actor and response messages\<close>

definition validateGatewayId :: "Message \<Rightarrow> ValidationErrors" where
  "validateGatewayId m =
     report (m_ClientName m = []) (requiredField ''GatewayId'' ''Envelope.ClientName'' ''id:name'')
     @ report (m_Passcode m \<noteq> [] \<and> m_UserName m = []) (requiredField ''GatewayId'' ''Envelope.UserName'' ''id:user'')
     @ report (m_UserName m \<noteq> [] \<and> m_Passcode m = []) (requiredField ''GatewayId'' ''Envelope.Passcode'' ''id:passcode'')"

definition validateGatewayStream :: "Message \<Rightarrow> ValidationErrors" where
  "validateGatewayStream m = []"

definition validateActorRequest :: "Message \<Rightarrow> ValidationErrors" where
  "validateActorRequest m = []"

definition validateActorResponse :: "Message \<Rightarrow> ValidationErrors" where
  "validateActorResponse m = []"

definition validateActorReport :: "Message \<Rightarrow> ValidationErrors" where
  "validateActorReport m =
     (case m_Response m of None \<Rightarrow> [nilStruct ''ActorReport'' ''Response''] | Some r \<Rightarrow>
        report (rs_Status r = []) (requiredField ''ActorReport'' ''Response.Status'' ''_status'')
        @ report (rs_Message r = []) (requiredField ''ActorReport'' ''Response.Message'' ''_msg''))"

definition validateStatus :: "Message \<Rightarrow> ValidationErrors" where
  "validateStatus m = []"

definition validateStatusRequest :: "Message \<Rightarrow> ValidationErrors" where
  "validateStatusRequest m = []"

definition validateResponseIntent :: "Message \<Rightarrow> ValidationErrors" where
  "validateResponseIntent m =
     (let intent = in_Name (m_Intent m) in
      case m_Response m of None \<Rightarrow> [violation ''warn'' intent ''Response'' ''_status'' ''nil_struct''] | Some r \<Rightarrow>
        report (rs_Status r = []) (violation ''warn'' intent ''Response.Status'' ''_status'' ''required''))"

section \<open>Dispatch\<close>

definition intentValidators :: "(string \<times> (Message \<Rightarrow> ValidationErrors)) list" where
  "intentValidators =
     [(''StoreEvent'', validateStoreEvent), (''StoreData'', validateStoreData),
      (''StoreBatchEvents'', validateStoreBatchEvents), (''StoreBatchTags'', validateStoreBatchTags),
      (''GetEvent'', validateGetEvent), (''GetEventsForTags'', validateGetEventsForTags),
      (''LinkEvent'', validateLinkEvent), (''UnlinkEvent'', validateUnlinkEvent),
      (''StoreBatchLinks'', validateStoreBatchLinks),
      (''StoreEventResponse'', validateResponseIntent), (''StoreBatchEventsResponse'', validateResponseIntent),
      (''StoreBatchTagsResponse'', validateResponseIntent), (''GetEventResponse'', validateResponseIntent),
      (''GetEventsForTagsResponse'', validateResponseIntent), (''LinkEventResponse'', validateResponseIntent),
      (''UnlinkEventResponse'', validateResponseIntent), (''StoreBatchLinksResponse'', validateResponseIntent),
      (''GatewayId'', validateGatewayId), (''GatewayStreamOn'', validateGatewayStream),
      (''GatewayStreamOff'', validateGatewayStream), (''ActorRequest'', validateActorRequest),
      (''ActorResponse'', validateActorResponse), (''ActorReport'', validateActorReport),
      (''Status'', validateStatus), (''StatusRequest'', validateStatusRequest)]"

definition Validate :: "bool \<Rightarrow> Message \<Rightarrow> ValidationErrors" where
  "Validate enabled m =
     (if \<not> enabled then []
      else validateEnvelope m
        @ (case map_of intentValidators (in_Name (m_Intent m)) of Some fn \<Rightarrow> fn m | None \<Rightarrow> []))"

end
