(* ===== verification/ValidateWire.thy ===== *)
theory ValidateWire
  imports Validate WireFields Encoder
begin

text \<open>
  The validation of raw frames (\<open>ValidateRawMessage\<close> of \<open>message/validate.go\<close>): the framing, then the
  header fields the message type calls for. \<open>None\<close> is a panic: the slices of To, From and header are
  taken at lengths that are not checked for their sign.
\<close>

section \<open>Framing\<close>

definition size_fields :: "(string \<times> nat) list" where
  "size_fields = [(''totalLength'', 0), (''toLength'', 9), (''fromLength'', 18), (''headerLength'', 27),
     (''messageType'', 36), (''dataType'', 45), (''payloadDataLength'', 54)]"

text \<open>The seven fields in turn; the first that does not parse is the violation.\<close>

fun parse_sizes :: "string \<Rightarrow> (string \<times> nat) list \<Rightarrow> ValidationErrors + int list" where
  "parse_sizes raw [] = Inr []"
| "parse_sizes raw ((name, start) # fs) =
     (case decodeMessageSizeParam (take 9 (drop start raw)) of
        (v, Some e) \<Rightarrow> Inl [violation ''error'' ''wire'' name [] ''format'']
      | (v, None) \<Rightarrow> (case parse_sizes raw fs of Inl es \<Rightarrow> Inl es | Inr vs \<Rightarrow> Inr (v # vs)))"

definition address_violations :: "string \<Rightarrow> string \<Rightarrow> ValidationErrors" where
  "address_violations name s =
     (if s = [] then [violation ''error'' ''wire'' name name ''required'']
      else report (\<not> isNameAtGateway s) (violation ''error'' ''wire'' name name ''format''))"

definition strip_routing :: "string \<Rightarrow> string" where
  "strip_routing s = (case IndexByte s (CHR ''|'') of Some i \<Rightarrow> take i s | None \<Rightarrow> s)"

text \<open>The intents whose types count as known.\<close>

definition known_intents :: "Intent list" where
  "known_intents =
     [IT_StoreEvent, IT_StoreData, IT_StoreBatchEvents, IT_StoreBatchTags,
      IT_GetEvent, IT_GetEventsForTags,
      IT_LinkEvent, IT_UnlinkEvent, IT_StoreBatchLinks,
      IT_StoreEventResponse, IT_StoreBatchEventsResponse, IT_StoreBatchTagsResponse,
      IT_GetEventResponse, IT_GetEventsForTagsResponse,
      IT_LinkEventResponse, IT_UnlinkEventResponse, IT_StoreBatchLinksResponse,
      IT_GatewayId, IT_GatewayStatus, IT_GatewayDisconnect,
      IT_GatewayStreamOn, IT_GatewayStreamOff,
      IT_GatewayBatchStart, IT_GatewayBatchEnd, IT_GatewaySendNext, IT_GatewayNoSend,
      IT_ActorEcho, IT_ActorHalt, IT_ActorStart,
      IT_ActorRequest, IT_ActorResponse, IT_ActorReport,
      IT_ActorRecord, IT_ActorUser,
      IT_Status, IT_Keepalive,
      IT_RouteAnyMessage, IT_RouteUserOnlyMessage,
      IT_QueueNextRequest, IT_QueueAllRequest, IT_QueueCountRequest, IT_QueueEmpty,
      IT_ReportRequest, IT_InformationReport,
      IT_AuthAddUser, IT_AuthUpdateUser, IT_AuthUserList, IT_AuthDisableUser]"

definition knownMessageTypes :: "int list" where
  "knownMessageTypes = filter (\<lambda>t. t \<noteq> 0) (map in_MessageType known_intents)"

definition isKnownMessageType :: "int \<Rightarrow> bool" where
  "isKnownMessageType t \<longleftrightarrow> t \<in> set knownMessageTypes"

section \<open>Header fields\<close>

definition hasHeader :: "strmap \<Rightarrow> string \<Rightarrow> bool" where
  "hasHeader h key = (case map_of h key of None \<Rightarrow> False | Some v \<Rightarrow> v \<noteq> [])"

definition wireStrengthRejected :: "golib \<Rightarrow> string \<Rightarrow> bool" where
  "wireStrengthRejected G v =
     (case ParseFloat G (TrimSpace v) of None \<Rightarrow> False | Some f \<Rightarrow> f64_eq_zero f \<or> IsNaN f \<or> IsInf f)"

definition validateWireYN :: "strmap \<Rightarrow> string \<Rightarrow> string \<Rightarrow> ValidationErrors" where
  "validateWireYN h key field =
     (case map_of h key of None \<Rightarrow> []
      | Some v \<Rightarrow> report (v \<noteq> ''Y'' \<and> v \<noteq> ''N'') (violation ''error'' ''wire'' field key ''header_value''))"

definition header_missing :: "string \<Rightarrow> strmap \<Rightarrow> string list \<Rightarrow> string \<Rightarrow> string \<Rightarrow> ValidationErrors" where
  "header_missing severity h keys field wire =
     report (list_all (\<lambda>k. \<not> hasHeader h k) keys) (violation severity ''wire'' field wire ''header_missing'')"

text \<open>The rules StoreBatchTags and StoreData share: a target, an owner, neither of them the system.\<close>

definition apply_header :: "string \<Rightarrow> strmap \<Rightarrow> ValidationErrors" where
  "apply_header intent h =
     header_missing ''error'' h [''event_id'', ''unique_id''] ''Event.Id / Event.UniqueId'' ''event_id / unique_id''
     @ header_missing ''error'' h [''owner'', ''owner_unique_id''] ''Event.Owner / Event.OwnerUniqueID'' ''owner / owner_unique_id''
     @ report (get_or [] h ''owner'' = sysSpecialID) (semanticError intent ''Event.Owner'' ''owner'')
     @ report (get_or [] h ''event_id'' = sysSpecialID \<or> get_or [] h ''unique_id'' = sysSpecialID)
         (semanticError intent ''Event.Id / Event.UniqueId'' ''event_id / unique_id'')"

definition get_header :: "strmap \<Rightarrow> ValidationErrors" where
  "get_header h =
     header_missing ''error'' h [''event_id'', ''unique_id''] ''Event.Id / Event.UniqueId'' ''event_id / unique_id''
     @ (case map_of h ''tag_format'' of None \<Rightarrow> []
        | Some tf \<Rightarrow> report (tf \<noteq> ''0'' \<and> tf \<noteq> ''1'')
            (violation ''error'' ''wire'' ''NeuralMemory.GetEvent.TagFormat'' ''tag_format'' ''header_value''))
     @ validateWireYN h ''output_tag_owner'' ''NeuralMemory.GetEvent.TagOwnerOutput''
     @ report (hasHeader h ''output_tag_owner'' \<and> get_or [] h ''tag_format'' \<noteq> ''1'')
         (violation ''warn'' ''wire'' ''NeuralMemory.GetEvent.TagOwnerOutput'' ''output_tag_owner'' ''semantic'')"

definition events_for_tag_header :: "strmap \<Rightarrow> ValidationErrors" where
  "events_for_tag_header h =
     (case map_of h ''buffer_format'' of None \<Rightarrow> []
      | Some bf \<Rightarrow> report (bf \<noteq> ''0'' \<and> bf \<noteq> ''1'')
          (violation ''error'' ''wire'' ''NeuralMemory.GetEventsForTags.BufferFormat'' ''buffer_format'' ''header_value''))
     @ validateWireYN h ''get_tag_owner'' ''NeuralMemory.GetEventsForTags.TagOwnerOutput''
     @ validateWireYN h ''get_tag_owner_unique_id'' ''NeuralMemory.GetEventsForTags.TagOwnerOutput''
     @ report ((hasHeader h ''get_tag_owner'' \<or> hasHeader h ''get_tag_owner_unique_id'') \<and> get_or [] h ''buffer_format'' \<noteq> ''1'')
         (violation ''warn'' ''wire'' ''NeuralMemory.GetEventsForTags.TagOwnerOutput''
            ''get_tag_owner / get_tag_owner_unique_id'' ''semantic'')
     @ header_missing ''warn'' h [''buffer_results''] ''NeuralMemory.GetEventsForTags.BufferResults'' ''buffer_results''"

definition strength_header :: "golib \<Rightarrow> strmap \<Rightarrow> string \<Rightarrow> string \<Rightarrow> ValidationErrors" where
  "strength_header G h field goField =
     (case map_of h field of None \<Rightarrow> []
      | Some v \<Rightarrow> report (TrimSpace v \<noteq> [] \<and> wireStrengthRejected G v)
          (violation ''error'' ''wire'' (''NeuralMemory.Link.'' @ goField) field ''header_value''))"

definition link_header :: "golib \<Rightarrow> strmap \<Rightarrow> ValidationErrors" where
  "link_header G h =
     header_missing ''error'' h [''strength_a''] ''NeuralMemory.Link.StrengthA'' ''strength_a''
     @ header_missing ''error'' h [''strength_b''] ''NeuralMemory.Link.StrengthB'' ''strength_b''
     @ strength_header G h ''strength_a'' ''StrengthA'' @ strength_header G h ''strength_b'' ''StrengthB''
     @ header_missing ''error'' h [''category''] ''NeuralMemory.Link.Category'' ''category''
     @ header_missing ''error'' h [''timestamp''] ''NeuralMemory.Link.Timestamp'' ''timestamp''
     @ header_missing ''error'' h [''owner_event_id'', ''owner_unique_id'']
         ''NeuralMemory.Link.OwnerID / NeuralMemory.Link.OwnerUniqueID'' ''owner_event_id / owner_unique_id''
     @ report (\<not> (hasHeader h ''event_id_a'' \<and> hasHeader h ''event_id_b'')
          \<and> \<not> (hasHeader h ''unique_id_a'' \<and> hasHeader h ''unique_id_b''))
         (violation ''error'' ''wire'' ''NeuralMemory.Link.EventA+EventB / NeuralMemory.Link.UniqueIdA+UniqueIdB''
            ''event_id_a+event_id_b / unique_id_a+unique_id_b'' ''header_missing'')"

definition validateNeuralMemoryRequestHeader :: "golib \<Rightarrow> string \<Rightarrow> strmap \<Rightarrow> int \<Rightarrow> ValidationErrors" where
  "validateNeuralMemoryRequestHeader G cmd h payloadLength =
     (if cmd = ''store'' then header_missing ''warn'' h [''timestamp''] ''Event.Timestamp'' ''timestamp''
      else if cmd = ''store_batch'' then
        report (payloadLength = 0) (violation ''error'' ''wire'' ''NeuralMemory.BatchEvents'' ''payload'' ''required'')
      else if cmd = ''tag_store_batch'' then apply_header ''StoreBatchTags'' h
      else if cmd = ''store_data'' then apply_header ''StoreData'' h
      else if cmd = ''get'' then get_header h
      else if cmd = ''events_for_tag'' then events_for_tag_header h
      else if cmd = ''link'' then link_header G h
      else if cmd = ''unlink'' then
        header_missing ''error'' h [''event_id'', ''unique_id''] ''NeuralMemory.Link.Id / NeuralMemory.Link.UniqueId''
          ''event_id / unique_id''
      else if cmd = ''link_batch'' then
        report (payloadLength = 0) (violation ''error'' ''wire'' ''NeuralMemory.BatchLinks'' ''payload'' ''required'')
      else [warnUncovered ''wire''])"

definition validateNeuralMemoryResponseHeader :: "strmap \<Rightarrow> ValidationErrors" where
  "validateNeuralMemoryResponseHeader h =
     (let c1 = get_or [] h ''_type''; c2 = (if c1 = [] then get_or [] h ''_command'' else c1);
          dbCmd = (if c2 = [] then get_or [] h ''_db_cmd'' else c2) in
      header_missing ''warn'' h [''_status''] ''Response.Status'' ''_status''
      @ (if dbCmd = ''get'' then header_missing ''warn'' h [''_event_id'', ''event_id''] ''Event.Id'' ''_event_id / event_id''
         else if dbCmd = ''link'' then header_missing ''warn'' h [''link_event''] ''Response.LinkId'' ''link_event''
         else if dbCmd = ''store'' \<or> dbCmd = ''store_batch'' \<or> dbCmd = ''tag_store_batch'' then
           header_missing ''warn'' h [''_count''] ''Response.TotalEvents'' ''_count''
         else if dbCmd = ''link_batch'' then
           header_missing ''warn'' h [''_links_ok''] ''Response.StorageSuccessCount'' ''_links_ok''
         else []))"

definition validateWireHeader :: "golib \<Rightarrow> int \<Rightarrow> strmap \<Rightarrow> int \<Rightarrow> ValidationErrors" where
  "validateWireHeader G messageType h payloadLength =
     report (map_of h ''_msg_id'' = Some []) (violation ''warn'' ''wire'' ''Envelope.MessageId'' ''_msg_id'' ''format'')
     @ (if messageType = 1000 then
          (if \<not> hasHeader h ''_db_cmd'' then [violation ''error'' ''wire'' ''_db_cmd'' ''_db_cmd'' ''header_missing'']
           else
             let dbCmd = get_or [] h ''_db_cmd'' in
             report (map_of commandToIntent dbCmd = None) (violation ''error'' ''wire'' ''_db_cmd'' ''_db_cmd'' ''header_value'')
             @ validateNeuralMemoryRequestHeader G dbCmd h payloadLength)
        else if messageType = 1001 then validateNeuralMemoryResponseHeader h
        else if messageType = 5 then header_missing ''error'' h [''id:name''] ''Envelope.ClientName'' ''id:name''
        else if messageType = 2 then header_missing ''warn'' h [''_msg_id''] ''Envelope.MessageId'' ''_msg_id''
        else if messageType = 4 then
          report (map_of h ''_type'' \<noteq> Some ''status'') (violation ''error'' ''wire'' ''_type'' ''_type'' ''header_missing'')
        else if messageType = 9 \<or> messageType = 10 then []
        else if messageType = 110 then header_missing ''warn'' h [''_msg_id''] ''Envelope.MessageId'' ''_msg_id''
        else if messageType = 3 \<or> messageType = 19 \<or> messageType = 30 then []
        else [warnUncovered ''wire''])"

section \<open>The whole frame\<close>

text \<open>The part that runs once the lengths are read; \<open>None\<close> is a slice out of bounds.\<close>

definition validate_parts :: "golib \<Rightarrow> string \<Rightarrow> int \<Rightarrow> int \<Rightarrow> int \<Rightarrow> int \<Rightarrow> int \<Rightarrow> ValidationErrors option" where
  "validate_parts G raw toLength fromLength headerLength messageType payloadLength =
     (let toEnd = 63 + toLength; fromEnd = toEnd + fromLength; headerEnd = fromEnd + headerLength in
      if int (length raw) < toEnd then Some [violation ''error'' ''wire'' ''to'' ''to'' ''format'']
      else if int (length raw) < fromEnd then Some [violation ''error'' ''wire'' ''from'' ''from'' ''format'']
      else if int (length raw) < headerEnd then Some [violation ''error'' ''wire'' ''header'' ''header'' ''format'']
      else case slice raw 63 toEnd of None \<Rightarrow> None | Some to \<Rightarrow>
        (case slice raw toEnd fromEnd of None \<Rightarrow> None | Some from \<Rightarrow>
          (let errs = address_violations ''to'' to @ address_violations ''from'' (strip_routing from) in
           if errs \<noteq> [] then Some errs
           else if \<not> isKnownMessageType messageType then
             Some [violation ''error'' ''wire'' ''messageType'' ''messageType'' ''format'']
           else map_option (\<lambda>header. validateWireHeader G messageType (decodeHeader header) payloadLength)
                  (slice raw fromEnd headerEnd))))"

text \<open>A nil slice is \<open>None\<close>, any other its bytes.\<close>

definition ValidateRawMessage :: "golib \<Rightarrow> bool \<Rightarrow> string option \<Rightarrow> ValidationErrors option" where
  "ValidateRawMessage G enabled message =
     (if \<not> enabled then Some []
      else case message of
        None \<Rightarrow> Some [violation ''error'' ''wire'' ''message'' [] ''nil_struct'']
      | Some raw \<Rightarrow>
          (if length raw < 63 then Some [violation ''error'' ''wire'' ''message'' [] ''format'']
           else if int (length raw) > MaxMessageSizeBytes then Some [violation ''error'' ''wire'' ''message'' [] ''format'']
           else case parse_sizes raw size_fields of
             Inl errs \<Rightarrow> Some errs
           | Inr [totalLen, toLen, fromLen, headerLen, messageType, dataType, payloadLen] \<Rightarrow>
               validate_parts G raw toLen fromLen headerLen messageType payloadLen
           | Inr _ \<Rightarrow> None))"

end
