(* ===== verification/ValidateProperties.thy ===== *)
theory ValidateProperties
  imports ValidateWire Roundtrip DecodeSafety
begin

text \<open>
  The two validators against each other and against the codec: the vocabulary of their reports,
  what a validated message may still do to the encoder, when the check of raw frames panics, and
  which encoded messages pass it.
\<close>

section \<open>Reports\<close>

text \<open>The rules the comment of \<open>ValidationError.Rule\<close> lists.\<close>

definition documented_rules :: "string list" where
  "documented_rules = [''required'', ''one_of_required'', ''format'', ''nil_struct'', ''header_missing'',
     ''header_value'', ''payload_type'', ''payload_format'', ''semantic'', ''uncovered'']"

definition well_formed :: "ValidationError \<Rightarrow> bool" where
  "well_formed v \<longleftrightarrow> (ve_Severity v = ''error'' \<or> ve_Severity v = ''warn'') \<and> ve_Rule v \<in> set documented_rules"

definition search_violation :: ValidationError where
  "search_violation = violation ''error'' ''GetEventsForTags'' ''NeuralMemory.Search'' ''search'' ''not_serialized''"

text \<open>A report without an error; warnings may remain.\<close>

definition passes :: "ValidationErrors \<Rightarrow> bool" where
  "passes es \<longleftrightarrow> list_all (\<lambda>v. ve_Severity v \<noteq> ''error'') es"

lemma list_all_report [simp]: "list_all P (report b v) \<longleftrightarrow> (b \<longrightarrow> P v)"
  by (simp add: report_def)

lemma list_all_for_each: "(\<And>i x. list_all P (f i x)) \<Longrightarrow> list_all P (for_each f xs)"
  by (auto simp: for_each_def list_all_iff)

lemma well_formed_violation [simp]:
  "well_formed (violation s i f w r) \<longleftrightarrow> (s = ''error'' \<or> s = ''warn'') \<and> r \<in> set documented_rules"
  by (simp add: well_formed_def violation_def)

lemma documented [simp]:
  "''required'' \<in> set documented_rules" "''one_of_required'' \<in> set documented_rules"
  "''format'' \<in> set documented_rules" "''nil_struct'' \<in> set documented_rules"
  "''header_missing'' \<in> set documented_rules" "''header_value'' \<in> set documented_rules"
  "''payload_type'' \<in> set documented_rules" "''payload_format'' \<in> set documented_rules"
  "''semantic'' \<in> set documented_rules" "''uncovered'' \<in> set documented_rules"
  by (simp_all add: documented_rules_def)

lemma passes_simps [simp]:
  "passes []" "passes (v # es) \<longleftrightarrow> ve_Severity v \<noteq> ''error'' \<and> passes es" "passes (es @ es') \<longleftrightarrow> passes es \<and> passes es'"
  "passes (report b v) \<longleftrightarrow> (b \<longrightarrow> ve_Severity v \<noteq> ''error'')"
  by (auto simp: passes_def)

lemma severities [simp]:
  "ve_Severity (violation s i f w r) = s" "ve_Severity (requiredField i f w) = ''error''"
  "ve_Severity (nilStruct i f) = ''error''" "ve_Severity (oneOfRequired i a b c d) = ''error''"
  "ve_Severity (warnUncovered i) = ''warn''" "ve_Severity (semanticError i f w) = ''error''"
  "ve_Severity (semanticWarn i f w) = ''warn''"
  by (simp_all add: violation_def requiredField_def nilStruct_def oneOfRequired_def warnUncovered_def
      semanticError_def semanticWarn_def)

lemma well_formed_helpers [simp]:
  "well_formed (requiredField i f w)" "well_formed (nilStruct i f)" "well_formed (oneOfRequired i a b c d)"
  "well_formed (warnUncovered i)" "well_formed (semanticError i f w)" "well_formed (semanticWarn i f w)"
  by (simp_all add: requiredField_def nilStruct_def oneOfRequired_def warnUncovered_def semanticError_def semanticWarn_def)

lemma well_formed_shared [simp]:
  "list_all well_formed (validateApplyToExistingSemantics i ev)"
  "list_all well_formed (validateLookupOwnerNotUsedEvent i ev)"
  "list_all well_formed (validateLookupOwnerNotUsedLink i lk)"
  "list_all well_formed (validateCreateEventIdSet i f v)" "list_all well_formed (validateCreateLinkIdSet i f v)"
  "list_all well_formed (event_id_required i e)" "list_all well_formed (event_owner_required i e)"
  "list_all well_formed (validateTagOwnerOutputValue i f w t)"
  by (auto simp: validateApplyToExistingSemantics_def validateLookupOwnerNotUsedEvent_def
      validateLookupOwnerNotUsedLink_def validateCreateEventIdSet_def validateCreateLinkIdSet_def
      event_id_required_def event_owner_required_def split: option.splits) (cases t, simp_all)

lemma well_formed_batches [simp]:
  "list_all well_formed (batch_event_violations i n s)" "list_all well_formed (batch_link_violations i n l)"
  "list_all well_formed (tag_violations i n t)" "list_all well_formed (validateTagList i ts)"
  by (simp_all add: batch_event_violations_def batch_link_violations_def tag_violations_def validateTagList_def
      Let_def list_all_for_each)

lemma well_formed_payload [simp]: "list_all well_formed (validatePayload m)"
  by (simp add: validatePayload_def Let_def list_all_for_each split: option.splits any.splits)

lemma well_formed_envelope [simp]: "list_all well_formed (validateEnvelope m)"
  by (simp add: validateEnvelope_def Let_def)

lemma well_formed_tag_format [simp]:
  "list_all well_formed (validateGetEventTagFormat i g)" "list_all well_formed (validateGetEventsForTagsTagFormat i t)"
  by (auto simp: validateGetEventTagFormat_def validateGetEventsForTagsTagFormat_def Let_def split: option.splits)

lemma intentValidators_GetEventsForTags: "map_of intentValidators ''GetEventsForTags'' = Some validateGetEventsForTags"
  by (simp add: intentValidators_def)

lemma well_formed_validator:
  assumes "map_of intentValidators n = Some fn" and "n \<noteq> ''GetEventsForTags''"
  shows "list_all well_formed (fn m)"
  using assms
  by (auto simp: intentValidators_def validateStoreEvent_def validateStoreData_def validateStoreBatchEvents_def
      validateStoreBatchTags_def validateGetEvent_def validateLinkEvent_def link_violations_def
      validateUnlinkEvent_def validateStoreBatchLinks_def validateResponseIntent_def validateGatewayId_def
      validateGatewayStream_def validateActorRequest_def validateActorResponse_def validateActorReport_def
      validateStatus_def validateStatusRequest_def Let_def split: if_splits option.splits)

lemma well_formed_intent:
  assumes "map_of intentValidators n = Some fn"
  shows "list_all (\<lambda>v. well_formed v \<or> v = search_violation) (fn m)"
proof -
  have weaken: "list_all well_formed es \<Longrightarrow> list_all (\<lambda>v. well_formed v \<or> v = search_violation) es" for es
    by (simp add: list_all_iff)
  have "fn = validateGetEventsForTags \<or> list_all well_formed (fn m)"
    using assms well_formed_validator intentValidators_GetEventsForTags by (cases "n = ''GetEventsForTags''") auto
  moreover have "list_all (\<lambda>v. well_formed v \<or> v = search_violation) (validateGetEventsForTags m)"
    using weaken by (auto simp: validateGetEventsForTags_def search_violation_def [symmetric] split: option.splits)
  ultimately show ?thesis using weaken by blast
qed

lemma well_formed_missing [simp]:
  "list_all well_formed (header_missing s h ks f w) \<longleftrightarrow> list_all (\<lambda>k. \<not> hasHeader h k) ks \<longrightarrow> s = ''error'' \<or> s = ''warn''"
  by (auto simp: header_missing_def)

lemma well_formed_wire [simp]:
  "list_all well_formed (validateWireYN h k f)" "list_all well_formed (apply_header i h)"
  "list_all well_formed (strength_header G h f g)"
  by (auto simp: validateWireYN_def apply_header_def strength_header_def split: option.splits)

lemma well_formed_headers [simp]:
  "list_all well_formed (get_header h)" "list_all well_formed (events_for_tag_header h)"
  "list_all well_formed (link_header G h)"
  by (auto simp: get_header_def events_for_tag_header_def link_header_def split: option.splits)

lemma well_formed_wire_header [simp]: "list_all well_formed (validateWireHeader G mt h n)"
  by (simp add: validateWireHeader_def validateNeuralMemoryRequestHeader_def
      validateNeuralMemoryResponseHeader_def Let_def)

lemma well_formed_addresses [simp]: "list_all well_formed (address_violations n s)"
  by (simp add: address_violations_def)

lemma well_formed_sizes: "parse_sizes raw fs = Inl es \<Longrightarrow> list_all well_formed es"
  by (induction raw fs rule: parse_sizes.induct) (auto split: prod.splits option.splits sum.splits)

lemma well_formed_parts: "validate_parts G raw a b c d e = Some es \<Longrightarrow> list_all well_formed es"
  by (auto simp: validate_parts_def Let_def split: if_splits option.splits)

lemma well_formed_raw:
  assumes "ValidateRawMessage G enabled raw = Some es"
  shows "list_all well_formed es"
  using assms well_formed_sizes well_formed_parts
  by (auto simp: ValidateRawMessage_def split: if_splits option.splits sum.splits list.splits)

text \<open>
  Claim C36. Reports are well formed: whatever the message or the raw bytes, a violation is an error or
  a warning and its rule is one the type documents. The one exception is the rule for a search
  clause set on GetEventsForTags, which reports an undocumented rule, and it is reported exactly
  then.
\<close>

theorem violations_well_formed:
  "list_all (\<lambda>v. well_formed v \<or> v = search_violation) (Validate enabled m)
   \<and> \<not> well_formed search_violation
   \<and> (search_violation \<in> set (Validate enabled m)
        \<longleftrightarrow> enabled \<and> in_Name (m_Intent m) = ''GetEventsForTags'' \<and> Option.bind (m_NeuralMemory m) nm_Search \<noteq> None)
   \<and> pred_option (list_all well_formed) (ValidateRawMessage G enabled raw)"
proof (intro conjI)
  have env: "list_all (\<lambda>v. well_formed v \<or> v = search_violation) (validateEnvelope m)"
    using well_formed_envelope [of m] by (simp add: list_all_iff)
  show "list_all (\<lambda>v. well_formed v \<or> v = search_violation) (Validate enabled m)"
    using env well_formed_intent by (simp add: Validate_def split: option.splits)
  show not: "\<not> well_formed search_violation"
    by (simp add: search_violation_def documented_rules_def)
  have absent: "list_all well_formed es \<Longrightarrow> search_violation \<notin> set es" for es
    using not by (auto simp: list_all_iff)
  have other: "search_violation \<notin> set (fn m)"
    if "map_of intentValidators (in_Name (m_Intent m)) = Some fn" "in_Name (m_Intent m) \<noteq> ''GetEventsForTags''" for fn
    using that well_formed_validator absent by blast
  have "search_violation \<in> set (validateGetEventsForTags m) \<longleftrightarrow> Option.bind (m_NeuralMemory m) nm_Search \<noteq> None"
    using absent [OF well_formed_tag_format(2)]
    by (auto simp: validateGetEventsForTags_def search_violation_def [symmetric] report_def nilStruct_def
        violation_def search_violation_def split: option.splits)
  then show "search_violation \<in> set (Validate enabled m)
        \<longleftrightarrow> enabled \<and> in_Name (m_Intent m) = ''GetEventsForTags'' \<and> Option.bind (m_NeuralMemory m) nm_Search \<noteq> None"
    using other absent [OF well_formed_envelope]
    by (cases "in_Name (m_Intent m) = ''GetEventsForTags''")
      (auto simp: Validate_def intentValidators_GetEventsForTags split: option.splits)
  show "pred_option (list_all well_formed) (ValidateRawMessage G enabled raw)"
    using well_formed_raw by (cases "ValidateRawMessage G enabled raw") auto
qed

section \<open>Panics\<close>

lemma parse_sizes_fields:
  assumes "parse_sizes raw size_fields = Inr vs"
  shows "length vs = 7 \<and> (\<forall>i < 7. decodeMessageSizeParam (length_field raw i) = (vs ! i, None))"
  using assms
  by (auto simp: size_fields_def length_field_def All_less_Suc eval_nat_numeral split: prod.splits option.splits sum.splits)

lemma validate_parts_None:
  assumes "validate_parts G raw a b c d e = None"
  shows "a < 0 \<or> b < 0 \<or> c < 0"
  using assms
  by (auto simp: validate_parts_def Let_def slice_eq_None_iff split: if_splits option.splits)

text \<open>
  Panics of the raw check: it panics only when one of the To, From and header lengths is
  negative, and every such frame is one that \<open>DecodeMessage\<close> rejects with an error.
\<close>

lemma raw_validation_panics_on_negative_length:
  assumes "ValidateRawMessage G enabled (Some raw) = None"
  shows "(\<exists>i v. i \<in> {1, 2, 3} \<and> v < 0 \<and> decodeMessageSizeParam (length_field raw i) = (v, None))
     \<and> (\<exists>m e. DecodeMessage G ro raw = Some (m, Some e))"
proof -
  obtain vs where vs: "parse_sizes raw size_fields = Inr vs"
    using assms by (auto simp: ValidateRawMessage_def split: if_splits sum.splits)
  note field = parse_sizes_fields [OF vs]
  then obtain a b c d e f g where l: "vs = [a, b, c, d, e, f, g]"
    by (auto simp: eval_nat_numeral length_Suc_conv)
  then have "validate_parts G raw b c d e g = None"
    using assms vs by (simp add: ValidateRawMessage_def split: if_splits)
  then have neg: "b < 0 \<or> c < 0 \<or> d < 0" by (rule validate_parts_None)
  have parsed: "decodeMessageSizeParam (length_field raw 1) = (b, None)"
    "decodeMessageSizeParam (length_field raw 2) = (c, None)" "decodeMessageSizeParam (length_field raw 3) = (d, None)"
    using field l by (auto dest: spec [of _ 1] spec [of _ 2] spec [of _ 3])
  then have "decode_lengths G raw \<noteq> Returned L" for L
    using neg by (auto simp: decode_lengths_Returned_iff)
  then obtain m err where "DecodeMessage G ro raw = Some (decode_failed m err)"
    using decode_lengths_no_panic [of G raw] by (cases "decode_lengths G raw") (auto simp: DecodeMessage_def)
  then show ?thesis using neg parsed by (auto simp: decode_failed_def)
qed

lemma validators:
  "map_of intentValidators ''StoreEvent'' = Some validateStoreEvent"
  "map_of intentValidators ''StoreData'' = Some validateStoreData"
  "map_of intentValidators ''StoreBatchEvents'' = Some validateStoreBatchEvents"
  "map_of intentValidators ''StoreBatchTags'' = Some validateStoreBatchTags"
  "map_of intentValidators ''GetEvent'' = Some validateGetEvent"
  "map_of intentValidators ''LinkEvent'' = Some validateLinkEvent"
  "map_of intentValidators ''UnlinkEvent'' = Some validateUnlinkEvent"
  "map_of intentValidators ''StoreBatchLinks'' = Some validateStoreBatchLinks"
  "map_of intentValidators ''GatewayId'' = Some validateGatewayId"
  by (simp_all add: intentValidators_def)

lemma validated:
  assumes "passes (Validate True m)"
  shows "passes (validateEnvelope m)" "map_of intentValidators (in_Name (m_Intent m)) = Some fn \<Longrightarrow> passes (fn m)"
  using assms by (simp_all add: Validate_def)

lemma validated_pointers:
  assumes "passes (Validate True m)"
  shows "in_Name (m_Intent m) \<in> {''StoreEvent'', ''StoreData'', ''StoreBatchTags'', ''GetEvent''} \<Longrightarrow> m_Event m \<noteq> None"
    and "in_Name (m_Intent m) \<in> {''LinkEvent'', ''UnlinkEvent''} \<Longrightarrow> Link m \<noteq> None"
  using validated(2) [OF assms]
  by (auto simp: validators validateStoreEvent_def validateStoreData_def validateStoreBatchTags_def
      validateGetEvent_def validateLinkEvent_def validateUnlinkEvent_def Link_def split: option.splits)

text \<open>
  Claim C35. Validation guards the encoder, but not fully: a message of an intent with a validator
  that passes without an error makes \<open>EncodeMessage\<close> panic exactly when it is a LinkEvent without an
  event, which the LinkEvent rules do not ask for, or when its intent has no payload format of its
  own and the payload is neither nil nor a string nor a list of strings.
\<close>

theorem validated_message_panics_iff:
  assumes "passes (Validate True m)" and "in_Name (m_Intent m) \<in> fst ` set intentValidators"
  shows "EncodeMessage G now (Some m) = Panicked \<longleftrightarrow>
     check_payload_size (PayloadData m) = None \<and> check_link_event m = None
     \<and> (in_Name (m_Intent m) = ''LinkEvent'' \<and> m_Event m = None
        \<or> address_ok (m_To m) \<and> address_ok (m_From m)
          \<and> in_Name (m_Intent m) \<notin> {''GatewayId'', ''GatewayStreamOn'', ''StoreBatchEvents'', ''StoreBatchLinks'', ''StoreBatchTags''}
          \<and> payload_general (PayloadData m) = None)"
proof -
  have "in_Name (m_Intent m) \<noteq> ''BatchStoreTags''"
    using assms(2) by (auto simp: intentValidators_def)
  then have "in_Name (m_Intent m) \<in> set header_needs_event \<and> m_Event m = None
        \<or> in_Name (m_Intent m) \<in> set header_needs_link \<and> Link m = None
     \<longleftrightarrow> in_Name (m_Intent m) = ''LinkEvent'' \<and> m_Event m = None"
    using validated_pointers [OF assms(1)] by (auto simp: header_needs_event_def header_needs_link_def)
  then show ?thesis
    by (auto simp: EncodeMessage_Panicked_iff)
qed

text \<open>The LinkEvent of a validated message without an event: encoding it panics.\<close>

definition sample_valid_link :: Message where
  "sample_valid_link = (sample_message IT_LinkEvent)
     \<lparr>m_From := ''me@gw'', m_NeuralMemory := Some (zero_NeuralMemoryFields\<lparr>nm_Link := Some (zero_LinkFields
        \<lparr>lk_EventA := ''a'', lk_EventB := ''b'', lk_StrengthA := F64Fin False 1 0, lk_StrengthB := F64Fin True 2 0,
         lk_Category := ''c'', lk_Timestamp := ''+1.000000'', lk_OwnerID := ''o'', lk_Location := ''L|1'',
         lk_LocationSeparator := ''|''\<rparr>)\<rparr>)\<rparr>"

theorem validated_message_panics_iff_witness:
  "passes (Validate True sample_valid_link) \<and> EncodeMessage sample_lib 0 (Some sample_valid_link) = Panicked"
proof -
  have p: "passes (Validate True sample_valid_link)" by code_simp
  have i: "in_Name (m_Intent sample_valid_link) \<in> fst ` set intentValidators" by code_simp
  have "check_payload_size (PayloadData sample_valid_link) = None" "check_link_event sample_valid_link = None"
    "in_Name (m_Intent sample_valid_link) = ''LinkEvent'' \<and> m_Event sample_valid_link = None" by code_simp+
  with validated_message_panics_iff [OF p i, of sample_lib 0] p show ?thesis by simp
qed

end
