(* ===== verification/ValidateAgreement.thy ===== *)
theory ValidateAgreement
  imports ValidateProperties
begin

text \<open>
  The two validators compared: what \<open>ValidateRawMessage\<close> says of the frame of a message that
  \<open>Validate\<close> lets pass. The headers of the requests are written as field lists, from which every
  lookup of the raw check can be read off.
\<close>

section \<open>Headers of the requests as fields\<close>

lemma map_of_rev_opt_field [simp]: "map_of (rev (opt_field b k' v)) k = (if b \<and> k' = k then Some v else None)"
  by (simp add: opt_field_def)

definition either_field :: "bool \<Rightarrow> string \<times> string \<Rightarrow> strmap \<Rightarrow> strmap" where
  "either_field b f fs = (if b then [f] else fs)"

definition store_data_fields :: "int \<Rightarrow> Message \<Rightarrow> EventFields \<Rightarrow> strmap" where
  "store_data_fields now m e =
     [(''_db_cmd'', ''store_data'')]
     @ either_field (ev_UniqueId e \<noteq> []) (''unique_id'', ev_UniqueId e)
         (opt_field (ev_Id e \<noteq> []) ''event_id'' (forceASCII (ev_Id e)))
     @ [(''timestamp'', if ev_Timestamp e \<noteq> [] then ev_Timestamp e else GetTimestamp now),
        (''loc_delim'', ev_LocationSeparator e), (''loc'', ev_Location e), (''mime'', PayloadMimeType m)]"

definition batch_tags_fields :: "EventFields \<Rightarrow> strmap" where
  "batch_tags_fields e =
     [(''_db_cmd'', ''tag_store_batch'')]
     @ either_field (ev_UniqueId e \<noteq> []) (''unique_id'', ev_UniqueId e)
         (opt_field (ev_Id e \<noteq> []) ''event_id'' (forceASCII (ev_Id e)))
     @ either_field (ev_Owner e \<noteq> []) (''owner'', ev_Owner e)
         (opt_field (ev_OwnerUniqueID e \<noteq> []) ''owner_unique_id'' (ev_OwnerUniqueID e))"

definition get_option_fields :: "GetEventOptions \<Rightarrow> strmap" where
  "get_option_fields opts =
     opt_field (ge_SendData opts) ''send_data'' ''Y'' @ opt_field (ge_LocalIdOnly opts) ''local_id_only'' ''Y''
     @ opt_field (ge_GetTags opts) ''get_tags'' ''Y'' @ opt_field (ge_GetLinks opts) ''get_links'' ''Y''
     @ opt_field (ge_GetLinkTags opts) ''get_link_tags'' ''Y'' @ opt_field (ge_GetTargetTags opts) ''get_target_tags'' ''Y''
     @ opt_field (ge_EventFacetFilter opts \<noteq> []) ''event_facet_filter'' (ge_EventFacetFilter opts)
     @ opt_field (ge_LinkFacetFilter opts \<noteq> []) ''link_facet_filter'' (ge_LinkFacetFilter opts)
     @ opt_field (ge_TargetFacetFilter opts \<noteq> []) ''target_facet_filter'' (ge_TargetFacetFilter opts)
     @ opt_field (ge_CategoryFilter opts \<noteq> []) ''category_filter'' (ge_CategoryFilter opts)
     @ opt_field (ge_TagFilter opts \<noteq> []) ''tag_filter'' (ge_TagFilter opts)
     @ [(''tag_format'', itoa (if ni_Valid (ge_TagFormat opts) then ni_Value (ge_TagFormat opts) else 0))]
     @ either_field (ge_TagOwnerOutput opts = TagOwnerEventKey) (''output_tag_owner'', ''Y'')
         (opt_field (ge_TagOwnerOutput opts = TagOwnerUniqueID) ''output_tag_owner'' ''N'')
     @ [(''request_format'', ''0'')]
     @ opt_field (0 < ge_FirstLink opts) ''first_link'' (itoa (ge_FirstLink opts))
     @ opt_field (0 < ge_LinkCount opts) ''link_count'' (itoa (ge_LinkCount opts))"

definition get_event_fields :: "Message \<Rightarrow> EventFields \<Rightarrow> strmap" where
  "get_event_fields m e =
     [(''_db_cmd'', ''get'')]
     @ opt_field (ev_Id e \<noteq> []) ''event_id'' (forceASCII (ev_Id e))
     @ opt_field (ev_UniqueId e \<noteq> []) ''unique_id'' (forceASCII (ev_UniqueId e))
     @ (case GetEventOpts m of None \<Rightarrow> [] | Some opts \<Rightarrow> get_option_fields opts)"

definition link_fields :: "golib \<Rightarrow> Message \<Rightarrow> EventFields \<Rightarrow> LinkFields \<Rightarrow> strmap" where
  "link_fields G m e l =
     [(''_db_cmd'', ''link'')]
     @ either_field (ev_Id e \<noteq> []) (''event_id'', forceASCII (ev_Id e))
         (opt_field (ev_UniqueId e \<noteq> []) ''unique_id'' (ev_UniqueId e))
     @ opt_field (ev_Owner e \<noteq> []) ''owner'' (ev_Owner e)
     @ tail_field m
     @ (if lk_UniqueIdA l \<noteq> [] \<and> lk_UniqueIdB l \<noteq> [] then
          [(''unique_id_a'', lk_UniqueIdA l), (''unique_id_b'', lk_UniqueIdB l)]
        else if lk_EventA l \<noteq> [] \<and> lk_EventB l \<noteq> [] then
          [(''event_id_a'', forceASCII (lk_EventA l)), (''event_id_b'', forceASCII (lk_EventB l))]
        else [])
     @ [(''strength_a'', FormatFloat64 G (lk_StrengthA l)), (''strength_b'', FormatFloat64 G (lk_StrengthB l)),
        (''category'', lk_Category l), (''loc_delim'', lk_LocationSeparator l), (''loc'', lk_Location l),
        (''type'', lk_Type l), (''mime'', PayloadMimeType m), (''timestamp'', lk_Timestamp l)]
     @ either_field (lk_OwnerID l \<noteq> []) (''owner_event_id'', lk_OwnerID l)
         (opt_field (lk_OwnerUniqueID l \<noteq> []) ''owner_unique_id'' (lk_OwnerUniqueID l))"

definition unlink_fields :: "Message \<Rightarrow> LinkFields \<Rightarrow> strmap" where
  "unlink_fields m l =
     [(''_db_cmd'', ''unlink'')] @ opt_field (lk_Owner l \<noteq> []) ''owner'' (lk_Owner l)
     @ either_field (lk_Id l \<noteq> []) (''event_id'', forceASCII (lk_Id l))
         (opt_field (lk_UniqueId l \<noteq> []) ''unique_id'' (lk_UniqueId l))
     @ opt_field (lk_LocationSeparator l \<noteq> []) ''loc_delim'' (lk_LocationSeparator l)
     @ opt_field (lk_Location l \<noteq> []) ''loc'' (lk_Location l)
     @ opt_field (lk_Timestamp l \<noteq> []) ''timestamp'' (lk_Timestamp l) @ tail_field m"

lemma either_field_simps [simp]:
  "either_field True f fs = [f]" "either_field False f fs = fs"
  "map_of (rev (either_field b (k', v) fs)) k = (if b then if k' = k then Some v else None else map_of (rev fs) k)"
  by (simp_all add: either_field_def)

lemmas kv_lists = kv_fields flag_def kv_positive_def ascii_if_def

lemma StoreDataMessageHeader_fields:
  "m_Event m = Some e \<Longrightarrow> StoreDataMessageHeader now m = Some (fields_text (store_data_fields now m e) @ msg_id_tail m)"
  by (simp add: StoreDataMessageHeader_def store_data_fields_def timestamp_or_now_def kv_lists)

lemma StoreBatchTagsMessageHeader_fields:
  "m_Event m = Some e \<Longrightarrow> StoreBatchTagsMessageHeader m = Some (fields_text (batch_tags_fields e) @ msg_id_tail m)"
  by (simp add: StoreBatchTagsMessageHeader_def batch_tags_fields_def kv_lists)

lemma get_event_options_fields: "get_event_options opts = fields_text (get_option_fields opts)"
  by (cases "ge_TagOwnerOutput opts")
    (simp_all add: get_event_options_def get_option_fields_def kv_lists either_field_def opt_field_def)

lemma GetEventMessageHeader_fields:
  "m_Event m = Some e \<Longrightarrow> GetEventMessageHeader m = fields_text (get_event_fields m e) @ msg_id_tail m"
  by (simp add: GetEventMessageHeader_def get_event_fields_def kv_lists get_event_options_fields split: option.splits)

lemma LinkEventsMessageHeader_fields:
  "m_Event m = Some e \<Longrightarrow> Link m = Some l \<Longrightarrow> LinkEventsMessageHeader G m = Some (fields_text (link_fields G m e l))"
  by (simp add: LinkEventsMessageHeader_def link_fields_def kv_lists tail_field_def)

lemma UnlinkEventsMessageHeader_fields:
  "Link m = Some l \<Longrightarrow> UnlinkEventsMessageHeader m = Some (fields_text (unlink_fields m l))"
  by (simp add: UnlinkEventsMessageHeader_def unlink_fields_def kv_lists tail_field_def)

definition search_option_fields :: "GetEventsForTagsOptions \<Rightarrow> strmap" where
  "search_option_fields opts =
     opt_field (gt_IncludeBriefHits opts) ''include_brief_hits'' ''Y'' @ opt_field (gt_GetAllData opts) ''get_all_data'' ''Y''
     @ opt_field (gt_CountOnly opts) ''count_only'' ''Y'' @ opt_field (gt_GetMatchLinks opts) ''get_match_links'' ''Y''
     @ opt_field (gt_CountMatchLinks opts) ''count_match_links'' ''Y'' @ opt_field (gt_GetLinkTags opts) ''get_link_tags'' ''Y''
     @ opt_field (gt_GetTargetTags opts) ''get_target_tags'' ''Y'' @ opt_field (gt_GetEventObjectCount opts) ''get_eo_count'' ''Y''
     @ opt_field (gt_InvertHitTagFilter opts) ''invert_hit_tag_filter'' ''Y''
     @ opt_field (gt_EventPattern opts \<noteq> []) ''event'' (forceASCII (gt_EventPattern opts))
     @ opt_field (gt_EventPatternHigh opts \<noteq> []) ''event_high'' (forceASCII (gt_EventPatternHigh opts))
     @ opt_field (gt_LinkTagFilter opts \<noteq> []) ''link_tag_pattern'' (forceASCII (gt_LinkTagFilter opts))
     @ opt_field (gt_LinkedEventsFilter opts \<noteq> []) ''linked_events_tag_filter'' (forceASCII (gt_LinkedEventsFilter opts))
     @ opt_field (gt_LinkCategory opts \<noteq> []) ''link_category'' (gt_LinkCategory opts)
     @ either_field (gt_Owner opts \<noteq> []) (''owner'', forceASCII (gt_Owner opts))
         (opt_field (gt_OwnerUniqueID opts \<noteq> []) ''owner_unique_id'' (gt_OwnerUniqueID opts))
     @ either_field (gt_TagOwnerOutput opts = TagOwnerEventKey) (''get_tag_owner'', ''Y'')
         (opt_field (gt_TagOwnerOutput opts = TagOwnerUniqueID) ''get_tag_owner_unique_id'' ''Y'')
     @ opt_field (gt_HitTagFilter opts \<noteq> []) ''hit_tag_filter'' (forceASCII (gt_HitTagFilter opts))
     @ opt_field (0 < gt_FirstLink opts) ''first_link'' (itoa (gt_FirstLink opts))
     @ opt_field (0 < gt_LinkCount opts) ''link_count'' (itoa (gt_LinkCount opts))
     @ opt_field (gt_EventsPerMessage opts \<noteq> 0) ''events_per_message'' (itoa (gt_EventsPerMessage opts))
     @ opt_field (0 < gt_StartResult opts) ''start_result'' (itoa (gt_StartResult opts))
     @ opt_field (0 < gt_EndResult opts) ''end_result'' (itoa (gt_EndResult opts))
     @ opt_field (0 < gt_MinEventHits opts) ''min_event_hits'' (itoa (gt_MinEventHits opts))"

definition search_fields :: "Message \<Rightarrow> strmap" where
  "search_fields m =
     [(''_db_cmd'', ''events_for_tag''),
      (''buffer_results'', if (case GetEventsForTagsOpts m of Some g \<Rightarrow> gt_BufferResults g | None \<Rightarrow> False) then ''Y'' else ''N'')]
     @ opt_field (case GetEventsForTagsOpts m of Some g \<Rightarrow> gt_IncludeTagStats g | None \<Rightarrow> False) ''include_tag_stats'' ''Y''
     @ (case GetEventsForTagsOpts m of Some g \<Rightarrow> search_option_fields g | None \<Rightarrow> [])
     @ [(''buffer_format'', case GetEventsForTagsOpts m of
           Some g \<Rightarrow> if gt_BufferFormat g \<noteq> [] then gt_BufferFormat g else ''0'' | None \<Rightarrow> ''0'')]"

lemma get_events_for_tags_options_fields: "get_events_for_tags_options opts = fields_text (search_option_fields opts)"
  by (cases "gt_TagOwnerOutput opts")
    (simp_all add: get_events_for_tags_options_def search_option_fields_def kv_lists opt_field_def)

lemma GetEventsForTagMessageHeader_fields:
  "GetEventsForTagMessageHeader m = fields_text (search_fields m) @ msg_id_tail m"
  by (simp add: GetEventsForTagMessageHeader_def search_fields_def Let_def kv_lists
      get_events_for_tags_options_fields opt_field_def split: option.splits)

definition identify_fields :: "Message \<Rightarrow> strmap" where
  "identify_fields m =
     (if m_Passcode m \<noteq> [] \<and> m_UserName m \<noteq> []
      then [(''id:passcode'', m_Passcode m), (''id:user'', m_UserName m)] else [])
     @ [(''id:name'', m_ClientName m)]"

lemma GatewayIdentifyConnectionHeader_fields:
  "GatewayIdentifyConnectionHeader m = fields_text (identify_fields m) @ msg_id_tail m"
  by (simp add: GatewayIdentifyConnectionHeader_def identify_fields_def kv_field)

text \<open>The intents of requests that have a validator and a lookup of their own, and their fields.\<close>

definition request_intents :: "Intent list" where
  "request_intents = [IT_StoreEvent, IT_StoreData, IT_StoreBatchEvents, IT_StoreBatchTags, IT_GetEvent,
     IT_GetEventsForTags, IT_LinkEvent, IT_UnlinkEvent, IT_StoreBatchLinks, IT_GatewayId, IT_GatewayStreamOn,
     IT_GatewayStreamOff, IT_ActorRequest, IT_StatusRequest]"

definition of_event :: "Message \<Rightarrow> (EventFields \<Rightarrow> strmap) \<Rightarrow> strmap" where
  "of_event m f = (case m_Event m of None \<Rightarrow> [] | Some e \<Rightarrow> f e)"

definition of_link :: "Message \<Rightarrow> (LinkFields \<Rightarrow> strmap) \<Rightarrow> strmap" where
  "of_link m f = (case Link m of None \<Rightarrow> [] | Some l \<Rightarrow> f l)"

definition wire_body :: "golib \<Rightarrow> int \<Rightarrow> Message \<Rightarrow> strmap" where
  "wire_body G now m =
     (let n = in_Name (m_Intent m) in
      if n = ''StoreEvent'' then of_event m (store_event_fields G now m)
      else if n = ''StoreData'' then of_event m (store_data_fields now m)
      else if n = ''StoreBatchEvents'' then [(''_db_cmd'', ''store_batch'')] @ tail_field m
      else if n = ''StoreBatchTags'' then of_event m batch_tags_fields
      else if n = ''GetEvent'' then of_event m (get_event_fields m)
      else if n = ''GetEventsForTags'' then search_fields m
      else if n = ''LinkEvent'' then of_event m (\<lambda>e. of_link m (link_fields G m e))
      else if n = ''UnlinkEvent'' then of_link m (unlink_fields m)
      else if n = ''StoreBatchLinks'' then [(''_db_cmd'', ''link_batch'')]
      else if n = ''GatewayId'' then identify_fields m
      else if n = ''ActorRequest'' then [(''_type'', ''status'')]
      else [])"

definition has_tail :: "Message \<Rightarrow> bool" where
  "has_tail m \<longleftrightarrow> in_Name (m_Intent m) \<notin> {''StoreBatchEvents'', ''LinkEvent'', ''UnlinkEvent'', ''GatewayStreamOff''}"

definition wire_fields :: "golib \<Rightarrow> int \<Rightarrow> Message \<Rightarrow> strmap" where
  "wire_fields G now m = wire_body G now m @ (if has_tail m then tail_field m else [])"

lemmas header_fields = StoreEventMessageHeader_fields StoreDataMessageHeader_fields StoreBatchTagsMessageHeader_fields
  GetEventMessageHeader_fields GetEventsForTagMessageHeader_fields LinkEventsMessageHeader_fields
  UnlinkEventsMessageHeader_fields GatewayIdentifyConnectionHeader_fields

lemma request_names: "m_Intent m \<in> set request_intents \<Longrightarrow> in_Name (m_Intent m) \<in>
    {''StoreEvent'', ''StoreData'', ''StoreBatchTags'', ''GetEvent''} \<union> {''LinkEvent''} \<union> {''UnlinkEvent''}
    \<union> {''StoreBatchEvents'', ''GetEventsForTags'', ''StoreBatchLinks''}
    \<union> {''GatewayId'', ''GatewayStreamOn'', ''GatewayStreamOff'', ''ActorRequest'', ''StatusRequest''}"
  by (auto simp: request_intents_def IT_defs)

lemma request_header:
  assumes "m_Intent m \<in> set request_intents" and h: "ConstructHeader G now m (m_Intent m) = Some h"
    and "in_Name (m_Intent m) = ''GetEvent'' \<Longrightarrow> m_Event m \<noteq> None"
  shows "h = fields_text (wire_body G now m) @ (if has_tail m then msg_id_tail m else [])"
proof -
  let ?n = "in_Name (m_Intent m)"
  have ev: "?n \<in> {''StoreEvent'', ''StoreData'', ''StoreBatchTags'', ''GetEvent''} \<union> {''LinkEvent''} \<Longrightarrow> \<exists>e. m_Event m = Some e"
    and lk: "?n \<in> {''LinkEvent'', ''UnlinkEvent''} \<Longrightarrow> \<exists>l. Link m = Some l"
    using h assms(3) ConstructHeader_None_iff [of G now m "m_Intent m"]
    by (auto simp: header_needs_event_def header_needs_link_def)
  note defs = wire_body_def ConstructHeader_def Let_def of_event_def of_link_def has_tail_def
  from request_names [OF assms(1)] show ?thesis
  proof (elim UnE)
    assume n: "?n \<in> {''StoreEvent'', ''StoreData'', ''StoreBatchTags'', ''GetEvent''}"
    then obtain e where "m_Event m = Some e" using ev by blast
    with n h show ?thesis by (elim insertE emptyE) (simp_all add: defs header_fields)
  next
    assume n: "?n \<in> {''LinkEvent''}"
    then obtain e l where "m_Event m = Some e" "Link m = Some l" using ev lk by blast
    with n h show ?thesis by (simp add: defs header_fields)
  next
    assume n: "?n \<in> {''UnlinkEvent''}"
    then obtain l where "Link m = Some l" using lk by blast
    with n h show ?thesis by (simp add: defs header_fields)
  next
    assume "?n \<in> {''StoreBatchEvents'', ''GetEventsForTags'', ''StoreBatchLinks''}"
    with h show ?thesis by (elim insertE emptyE)
      (simp_all add: defs header_fields StoreBatchEventsMessageHeader_def BatchLinkEventsMessageHeader_def
        tail_field_def kv_fields)
  next
    assume "?n \<in> {''GatewayId'', ''GatewayStreamOn'', ''GatewayStreamOff'', ''ActorRequest'', ''StatusRequest''}"
    with h show ?thesis by (elim insertE emptyE)
      (simp_all add: defs header_fields GatewayStreamOnHeader_def ActorRequestHeader_def StatusRequestHeader_def kv_field)
  qed
qed

text \<open>The header of a request decodes to its fields.\<close>

lemma decode_wire_fields:
  assumes "m_Intent m \<in> set request_intents" "ConstructHeader G now m (m_Intent m) = Some h"
    and "in_Name (m_Intent m) = ''GetEvent'' \<Longrightarrow> m_Event m \<noteq> None" and "clean_fields (wire_fields G now m)"
  shows "decodeHeader h = update_all (wire_fields G now m) []"
  using assms(4) decodeHeader_tail [of "wire_body G now m" m] decodeHeader_fields_text [of "wire_body G now m"]
  by (simp add: request_header [OF assms(1-3)] wire_fields_def split: if_splits)

section \<open>The raw check of encoded requests\<close>

lemma hasHeader_fields: "hasHeader (update_all fs []) k \<longleftrightarrow> (case map_of (rev fs) k of None \<Rightarrow> False | Some v \<Rightarrow> v \<noteq> [])"
  by (simp add: hasHeader_def map_of_fields)

lemma get_or_fields: "get_or d (update_all fs []) k = (case map_of (rev fs) k of None \<Rightarrow> d | Some v \<Rightarrow> v)"
  by (simp add: get_or_def map_of_fields)

lemma passes_missing [simp]:
  "passes (header_missing s h ks f w) \<longleftrightarrow> (list_all (\<lambda>k. \<not> hasHeader h k) ks \<longrightarrow> s \<noteq> ''error'')"
  by (simp add: header_missing_def)

lemma tail_lookup [simp]: "map_of (rev (tail_field m)) k = (if m_MessageId m \<noteq> [] \<and> k = ''_msg_id'' then Some (m_MessageId m) else None)"
  by (auto simp: tail_field_def)

lemmas field_lookups = hasHeader_fields get_or_fields map_of_fields

lemma ascii_nonempty: "ascii_text s \<Longrightarrow> forceASCII s = s"
  by simp

text \<open>The addresses of a validated message, its bars in From apart.\<close>

lemma strip_routing_id: "CHR ''|'' \<notin> set s \<Longrightarrow> strip_routing s = s"
  by (induction s) (auto simp: strip_routing_def split: option.splits)

lemma validated_addresses:
  assumes "passes (validateEnvelope m)"
  shows "isNameAtGateway (m_To m)" "isNameAtGateway (m_From m)" "m_To m \<noteq> []" "m_From m \<noteq> []"
  using assms by (simp_all add: validateEnvelope_def Let_def split: if_splits)

lemma validate_frame:
  assumes "codable m h d" "passes (validateEnvelope m)" "CHR ''|'' \<notin> set (m_From m)"
  shows "ValidateRawMessage G True (Some (sm_MessageBytes (frame m h d))) =
     Some (if isKnownMessageType (in_MessageType (m_Intent m))
           then validateWireHeader G (in_MessageType (m_Intent m)) (decodeHeader h) (int (length d))
           else [violation ''error'' ''wire'' ''messageType'' ''messageType'' ''format''])"
proof -
  let ?raw = "sm_MessageBytes (frame m h d)"
  have "length ?raw < 2 ^ 31"
    using assms(1) length_frame [OF assms(1)] total_length_eq [OF assms(1)] by (simp add: codable_def)
  moreover have "parse_sizes ?raw size_fields = Inr [int (total_length m h d), int (length (m_To m)), int (length (m_From m)),
      int (length h), in_MessageType (m_Intent m), payloadDataType m, int (length d)]"
    using frame_field_at [OF assms(1), of 0] frame_field_at [OF assms(1), of 1] frame_field_at [OF assms(1), of 2]
      frame_field_at [OF assms(1), of 3] frame_field_at [OF assms(1), of 4] frame_field_at [OF assms(1), of 5]
      frame_field_at [OF assms(1), of 6]
    by (simp add: size_fields_def length_field_def frame_fields_def)
  moreover have "validate_parts G ?raw (int (length (m_To m))) (int (length (m_From m))) (int (length h))
      (in_MessageType (m_Intent m)) (int (length d)) =
      Some (if isKnownMessageType (in_MessageType (m_Intent m))
           then validateWireHeader G (in_MessageType (m_Intent m)) (decodeHeader h) (int (length d))
           else [violation ''error'' ''wire'' ''messageType'' ''messageType'' ''format''])"
    using frame_slices_eq [OF assms(1)] length_frame [OF assms(1)] validated_addresses [OF assms(2)]
    by (simp add: validate_parts_def Let_def address_violations_def report_def strip_routing_id assms(3))
  ultimately show ?thesis
    by (simp add: ValidateRawMessage_def MaxMessageSizeBytes_def length_frame [OF assms(1)])
qed

text \<open>Ids the header functions write through \<open>forceASCII\<close> are ASCII, so they do not lose bytes.\<close>

definition plain_ids :: "Message \<Rightarrow> bool" where
  "plain_ids m \<longleftrightarrow> ascii_text (EventId m) \<and> ascii_text (EventUniqueId m)
     \<and> (case Link m of None \<Rightarrow> True | Some l \<Rightarrow> ascii_text (lk_Id l) \<and> ascii_text (lk_EventA l) \<and> ascii_text (lk_EventB l))"

text \<open>The strengths of the link parse back to themselves, as \<open>strconv\<close> documents for finite numbers.\<close>

definition strengths_parse :: "golib \<Rightarrow> Message \<Rightarrow> bool" where
  "strengths_parse G m \<longleftrightarrow>
     (case Link m of None \<Rightarrow> True | Some l \<Rightarrow>
        list_all (\<lambda>x. FormatFloat64 G x \<noteq> [] \<and> ParseFloat G (FormatFloat64 G x) = Some x) [lk_StrengthA l, lk_StrengthB l])"

lemma request_check:
  assumes "map_of (rev fs) ''_db_cmd'' = Some cmd" "map_of commandToIntent cmd \<noteq> None"
  shows "passes (validateWireHeader G 1000 (update_all fs []) n)
     \<longleftrightarrow> passes (validateNeuralMemoryRequestHeader G cmd (update_all fs []) n)"
proof -
  have "cmd \<noteq> []" using assms(2) by (auto simp: commandToIntent_def)
  then show ?thesis using assms by (simp add: validateWireHeader_def field_lookups Let_def)
qed

lemma commands:
  "map_of commandToIntent ''store'' \<noteq> None" "map_of commandToIntent ''store_data'' \<noteq> None"
  "map_of commandToIntent ''store_batch'' \<noteq> None" "map_of commandToIntent ''tag_store_batch'' \<noteq> None"
  "map_of commandToIntent ''get'' \<noteq> None" "map_of commandToIntent ''events_for_tag'' \<noteq> None"
  "map_of commandToIntent ''link'' \<noteq> None" "map_of commandToIntent ''unlink'' \<noteq> None"
  "map_of commandToIntent ''link_batch'' \<noteq> None"
  by (simp_all add: commandToIntent_def)

lemmas request_defs = wire_fields_def wire_body_def has_tail_def Let_def of_event_def of_link_def IT_defs

lemma check_StoreEvent:
  assumes "m_Intent m = IT_StoreEvent" "m_Event m = Some e"
  shows "passes (validateWireHeader G 1000 (update_all (wire_fields G now m) []) n)"
proof -
  have f: "wire_fields G now m = store_event_fields G now m e @ tail_field m" using assms by (simp add: request_defs)
  have "map_of (rev (wire_fields G now m)) ''_db_cmd'' = Some ''store''"
    by (simp add: f store_event_fields_def map_add_def map_of_tag_header_fields)
  then show ?thesis
    by (simp add: request_check commands validateNeuralMemoryRequestHeader_def)
qed

lemma check_StoreData:
  assumes "m_Intent m = IT_StoreData" "m_Event m = Some e"
  shows "\<not> passes (validateWireHeader G 1000 (update_all (wire_fields G now m) []) n)"
proof -
  have f: "wire_fields G now m = store_data_fields now m e @ tail_field m" using assms by (simp add: request_defs)
  then have "map_of (rev (wire_fields G now m)) ''_db_cmd'' = Some ''store_data''"
    "map_of (rev (wire_fields G now m)) ''owner'' = None" "map_of (rev (wire_fields G now m)) ''owner_unique_id'' = None"
    by (simp_all add: store_data_fields_def map_add_def)
  then show ?thesis
    by (simp add: request_check commands validateNeuralMemoryRequestHeader_def apply_header_def field_lookups)
qed

lemma check_batches:
  assumes "m_Intent m = IT_StoreBatchEvents \<or> m_Intent m = IT_StoreBatchLinks"
  shows "passes (validateWireHeader G 1000 (update_all (wire_fields G now m) []) n) \<longleftrightarrow> n \<noteq> 0"
  using assms
proof
  assume "m_Intent m = IT_StoreBatchEvents"
  then have "map_of (rev (wire_fields G now m)) ''_db_cmd'' = Some ''store_batch''"
    by (simp add: request_defs map_add_def)
  then show ?thesis by (simp add: request_check commands validateNeuralMemoryRequestHeader_def)
next
  assume "m_Intent m = IT_StoreBatchLinks"
  then have "map_of (rev (wire_fields G now m)) ''_db_cmd'' = Some ''link_batch''"
    by (simp add: request_defs map_add_def)
  then show ?thesis by (simp add: request_check commands validateNeuralMemoryRequestHeader_def)
qed

lemma check_StoreBatchTags:
  assumes "m_Intent m = IT_StoreBatchTags" "m_Event m = Some e" "passes (validateStoreBatchTags m)" "plain_ids m"
  shows "passes (validateWireHeader G 1000 (update_all (wire_fields G now m) []) n)"
proof -
  have f: "wire_fields G now m = batch_tags_fields e @ tail_field m" using assms by (simp add: request_defs)
  then have "map_of (rev (wire_fields G now m)) ''_db_cmd'' = Some ''tag_store_batch''"
    by (simp add: batch_tags_fields_def map_add_def)
  moreover have "ascii_text (ev_Id e)" using assms(2,4) by (simp add: plain_ids_def EventId_def)
  moreover have "ev_Id e \<noteq> [] \<or> ev_UniqueId e \<noteq> []" "ev_Owner e \<noteq> [] \<or> ev_OwnerUniqueID e \<noteq> []"
    "ev_Owner e \<noteq> sysSpecialID" "ev_Id e \<noteq> sysSpecialID" "ev_UniqueId e \<noteq> sysSpecialID"
    using assms(2,3) by (simp_all add: validateStoreBatchTags_def event_id_required_def event_owner_required_def
      validateApplyToExistingSemantics_def isSysID_def)
  moreover have "sysSpecialID \<noteq> []" by (simp add: sysSpecialID_def)
  ultimately show ?thesis
    by (simp add: request_check commands validateNeuralMemoryRequestHeader_def apply_header_def field_lookups f
      batch_tags_fields_def map_add_def)
qed

lemma itoa_01: "itoa 0 = ''0''" "itoa 1 = ''1''"
  by code_simp+

lemma get_option_lookups:
  "map_of (rev (get_option_fields g)) ''tag_format'' = Some (itoa (if ni_Valid (ge_TagFormat g) then ni_Value (ge_TagFormat g) else 0))"
  "map_of (rev (get_option_fields g)) ''output_tag_owner'' =
     (case ge_TagOwnerOutput g of TagOwnerEventKey \<Rightarrow> Some ''Y'' | TagOwnerUniqueID \<Rightarrow> Some ''N'' | _ \<Rightarrow> None)"
  "map_of (rev (get_option_fields g)) ''event_id'' = None" "map_of (rev (get_option_fields g)) ''unique_id'' = None"
  "map_of (rev (get_option_fields g)) ''_db_cmd'' = None"
  by (simp_all add: get_option_fields_def map_add_def split: TagOwnerOutput.splits)

lemma check_GetEvent:
  assumes "m_Intent m = IT_GetEvent" "m_Event m = Some e" "passes (validateGetEvent m)" "plain_ids m"
  shows "passes (validateWireHeader G 1000 (update_all (wire_fields G now m) []) n)"
proof -
  let ?fs = "wire_fields G now m"
  have f: "?fs = get_event_fields m e @ tail_field m" using assms by (simp add: request_defs)
  have db: "map_of (rev ?fs) ''_db_cmd'' = Some ''get''"
    by (simp add: f get_event_fields_def map_add_def get_option_lookups split: option.splits)
  have "ascii_text (ev_Id e)" "ascii_text (ev_UniqueId e)" "ev_Id e \<noteq> [] \<or> ev_UniqueId e \<noteq> []"
    using assms(2-4) by (simp_all add: plain_ids_def EventId_def EventUniqueId_def validateGetEvent_def event_id_required_def)
  then have ids: "hasHeader (update_all ?fs []) ''event_id'' \<or> hasHeader (update_all ?fs []) ''unique_id''"
    by (auto simp: field_lookups f get_event_fields_def map_add_def get_option_lookups split: option.splits)
  have "\<forall>g. GetEventOpts m = Some g \<longrightarrow> ni_Valid (ge_TagFormat g) \<longrightarrow> ni_Value (ge_TagFormat g) = 0 \<or> ni_Value (ge_TagFormat g) = 1"
    using assms(2,3) by (auto simp: validateGetEvent_def validateGetEventTagFormat_def Let_def)
  then have "map_of (rev ?fs) ''tag_format'' \<in> {None, Some ''0'', Some ''1''}"
    by (auto simp: f get_event_fields_def map_add_def get_option_lookups itoa_01 split: option.splits)
  moreover have "map_of (rev ?fs) ''output_tag_owner'' \<in> {None, Some ''Y'', Some ''N''}"
    by (auto simp: f get_event_fields_def map_add_def get_option_lookups split: option.splits TagOwnerOutput.splits)
  ultimately have "passes (get_header (update_all ?fs []))"
    using ids by (auto simp: get_header_def validateWireYN_def map_of_fields)
  then show ?thesis using db by (simp add: request_check commands validateNeuralMemoryRequestHeader_def)
qed

lemma search_option_lookups:
  "map_of (rev (search_option_fields g)) ''buffer_format'' = None" "map_of (rev (search_option_fields g)) ''_db_cmd'' = None"
  "map_of (rev (search_option_fields g)) ''get_tag_owner'' = (if gt_TagOwnerOutput g = TagOwnerEventKey then Some ''Y'' else None)"
  "map_of (rev (search_option_fields g)) ''get_tag_owner_unique_id'' = (if gt_TagOwnerOutput g = TagOwnerUniqueID then Some ''Y'' else None)"
  by (simp_all add: search_option_fields_def map_add_def)

lemma check_GetEventsForTags:
  assumes "m_Intent m = IT_GetEventsForTags" "passes (validateGetEventsForTags m)"
  shows "passes (validateWireHeader G 1000 (update_all (wire_fields G now m) []) n)"
proof -
  let ?fs = "wire_fields G now m"
  have f: "?fs = search_fields m @ tail_field m" using assms by (simp add: request_defs)
  have db: "map_of (rev ?fs) ''_db_cmd'' = Some ''events_for_tag''"
    by (simp add: f search_fields_def map_add_def search_option_lookups split: option.splits)
  obtain g where g: "GetEventsForTagsOpts m = Some g" "gt_BufferFormat g = [] \<or> gt_BufferFormat g = ''0'' \<or> gt_BufferFormat g = ''1''"
    using assms(2) by (auto simp: validateGetEventsForTags_def validateGetEventsForTagsTagFormat_def Let_def
      GetEventsForTagsOpts_def split: option.splits)
  then have "map_of (rev ?fs) ''buffer_format'' \<in> {Some ''0'', Some ''1''}"
    "map_of (rev ?fs) ''get_tag_owner'' \<in> {None, Some ''Y''}"
    "map_of (rev ?fs) ''get_tag_owner_unique_id'' \<in> {None, Some ''Y''}"
    by (auto simp: f search_fields_def map_add_def search_option_lookups)
  then have "passes (events_for_tag_header (update_all ?fs []))"
    by (auto simp: events_for_tag_header_def validateWireYN_def map_of_fields)
  then show ?thesis using db by (simp add: request_check commands validateNeuralMemoryRequestHeader_def)
qed

lemma check_UnlinkEvent:
  assumes "m_Intent m = IT_UnlinkEvent" "Link m = Some l" "passes (validateUnlinkEvent m)" "plain_ids m"
  shows "passes (validateWireHeader G 1000 (update_all (wire_fields G now m) []) n)"
proof -
  let ?fs = "wire_fields G now m"
  have f: "?fs = unlink_fields m l" using assms by (simp add: request_defs)
  have db: "map_of (rev ?fs) ''_db_cmd'' = Some ''unlink''" by (simp add: f unlink_fields_def map_add_def)
  have "ascii_text (lk_Id l)" "lk_Id l \<noteq> [] \<or> lk_UniqueId l \<noteq> []"
    using assms(2-4) by (auto simp: plain_ids_def validateUnlinkEvent_def Link_def split: option.splits)
  then have "hasHeader (update_all ?fs []) ''event_id'' \<or> hasHeader (update_all ?fs []) ''unique_id''"
    by (auto simp: field_lookups f unlink_fields_def map_add_def)
  then show ?thesis using db by (simp add: request_check commands validateNeuralMemoryRequestHeader_def)
qed

lemma link_lookups:
  "map_of (rev (link_fields G m e l)) ''_db_cmd'' = Some ''link''"
  "map_of (rev (link_fields G m e l)) ''strength_a'' = Some (FormatFloat64 G (lk_StrengthA l))"
  "map_of (rev (link_fields G m e l)) ''strength_b'' = Some (FormatFloat64 G (lk_StrengthB l))"
  "map_of (rev (link_fields G m e l)) ''category'' = Some (lk_Category l)"
  "map_of (rev (link_fields G m e l)) ''timestamp'' = Some (lk_Timestamp l)"
  "lk_OwnerID l \<noteq> [] \<Longrightarrow> map_of (rev (link_fields G m e l)) ''owner_event_id'' = Some (lk_OwnerID l)"
  "lk_OwnerID l = [] \<Longrightarrow> lk_OwnerUniqueID l \<noteq> [] \<Longrightarrow>
     map_of (rev (link_fields G m e l)) ''owner_unique_id'' = Some (lk_OwnerUniqueID l)"
  by (simp_all add: link_fields_def map_add_def)

lemma link_pair_lookups:
  "lk_UniqueIdA l \<noteq> [] \<and> lk_UniqueIdB l \<noteq> [] \<Longrightarrow> map_of (rev (link_fields G m e l)) ''unique_id_a'' = Some (lk_UniqueIdA l)
     \<and> map_of (rev (link_fields G m e l)) ''unique_id_b'' = Some (lk_UniqueIdB l)"
  "\<not> (lk_UniqueIdA l \<noteq> [] \<and> lk_UniqueIdB l \<noteq> []) \<Longrightarrow> lk_EventA l \<noteq> [] \<and> lk_EventB l \<noteq> [] \<Longrightarrow>
     map_of (rev (link_fields G m e l)) ''event_id_a'' = Some (forceASCII (lk_EventA l))
     \<and> map_of (rev (link_fields G m e l)) ''event_id_b'' = Some (forceASCII (lk_EventB l))"
  by (simp_all add: link_fields_def map_add_def)

lemma check_LinkEvent:
  assumes "m_Intent m = IT_LinkEvent" "m_Event m = Some e" "Link m = Some l" "passes (validateLinkEvent m)" "plain_ids m"
    "link_ok l" "strengths_parse G m" "clean_fields (wire_fields G now m)"
  shows "passes (validateWireHeader G 1000 (update_all (wire_fields G now m) []) n)"
proof -
  let ?h = "update_all (wire_fields G now m) []"
  have f: "wire_fields G now m = link_fields G m e l" using assms by (simp add: request_defs)
  have v: "passes (link_violations l)"
    using assms(3,4) by (auto simp: validateLinkEvent_def Link_def split: option.splits)
  have "clean_value (FormatFloat64 G (lk_StrengthA l))" "clean_value (FormatFloat64 G (lk_StrengthB l))"
    using assms(8) by (auto simp: clean_fields_def f link_fields_def)
  then have s: "passes (strength_header G ?h ''strength_a'' ''StrengthA'')" "passes (strength_header G ?h ''strength_b'' ''StrengthB'')"
    using assms(3,6,7) by (simp_all add: strength_header_def map_of_fields f link_lookups strengths_parse_def clean_value_def
      wireStrengthRejected_def link_ok_def linkStrengthRejected_def)
  have o: "hasHeader ?h ''owner_event_id'' \<or> hasHeader ?h ''owner_unique_id''"
    using v by (cases "lk_OwnerID l = []") (simp_all add: link_violations_def field_lookups f link_lookups)
  have p: "hasHeader ?h ''event_id_a'' \<and> hasHeader ?h ''event_id_b'' \<or> hasHeader ?h ''unique_id_a'' \<and> hasHeader ?h ''unique_id_b''"
  proof (cases "lk_UniqueIdA l \<noteq> [] \<and> lk_UniqueIdB l \<noteq> []")
    case True
    then show ?thesis using link_pair_lookups(1) [OF True] by (simp add: field_lookups f)
  next
    case False
    moreover from this have "lk_EventA l \<noteq> [] \<and> lk_EventB l \<noteq> []" using v by (simp add: link_violations_def)
    ultimately show ?thesis using link_pair_lookups(2) [of l G m e] assms(3,5) by (simp add: field_lookups f plain_ids_def)
  qed
  have "hasHeader ?h ''strength_a''" "hasHeader ?h ''strength_b''" "hasHeader ?h ''category''" "hasHeader ?h ''timestamp''"
    using assms(3,7) v by (simp_all add: field_lookups f link_lookups strengths_parse_def link_violations_def)
  then have "passes (link_header G ?h)" using s o p by (auto simp: link_header_def)
  then show ?thesis by (simp add: request_check commands validateNeuralMemoryRequestHeader_def f link_lookups)
qed

section \<open>Agreement\<close>

lemma known_types:
  "isKnownMessageType 1000" "isKnownMessageType 5" "isKnownMessageType 4" "isKnownMessageType 9"
  "isKnownMessageType 10" "\<not> isKnownMessageType 110"
  by (simp_all add: isKnownMessageType_def knownMessageTypes_def known_intents_def IT_defs)

lemma check_GatewayId:
  assumes "m_Intent m = IT_GatewayId" "passes (validateEnvelope m)"
  shows "passes (validateWireHeader G 5 (update_all (wire_fields G now m) []) n)"
proof -
  have f: "wire_fields G now m = identify_fields m @ tail_field m" using assms by (simp add: request_defs)
  have "m_ClientName m \<noteq> []" using assms by (simp add: validateEnvelope_def Let_def IT_defs)
  then show ?thesis by (simp add: validateWireHeader_def field_lookups f identify_fields_def map_add_def)
qed

lemma check_plain:
  "m_Intent m = IT_GatewayStreamOn \<Longrightarrow> passes (validateWireHeader G 10 h n)"
  "m_Intent m = IT_GatewayStreamOff \<Longrightarrow> passes (validateWireHeader G 9 h n)"
  "m_Intent m = IT_ActorRequest \<Longrightarrow> passes (validateWireHeader G 4 (update_all (wire_fields G now m) []) n)"
  by (simp_all add: validateWireHeader_def request_defs map_of_fields map_add_def)

text \<open>The raw check of a request by its intent.\<close>

lemma request_verdict:
  assumes i: "m_Intent m \<in> set request_intents" and v: "passes (Validate True m)" and a: "plain_ids m" "strengths_parse G m"
    and c: "clean_fields (wire_fields G now m)"
    and h: "ConstructHeader G now m (m_Intent m) = Some h" and l: "check_link_event m = None"
  shows "(isKnownMessageType (in_MessageType (m_Intent m))
       \<and> passes (validateWireHeader G (in_MessageType (m_Intent m)) (update_all (wire_fields G now m) []) n))
     \<longleftrightarrow> m_Intent m \<noteq> IT_StoreData \<and> m_Intent m \<noteq> IT_StatusRequest
       \<and> (n = 0 \<longrightarrow> m_Intent m \<noteq> IT_StoreBatchEvents \<and> m_Intent m \<noteq> IT_StoreBatchLinks)"
proof -
  note val = validated(2) [OF v]
  have ev: "in_Name (m_Intent m) \<in> {''StoreEvent'', ''StoreData'', ''StoreBatchTags'', ''GetEvent'', ''LinkEvent''} \<Longrightarrow> \<exists>e. m_Event m = Some e"
    using validated_pointers(1) [OF v] h ConstructHeader_None_iff [of G now m "m_Intent m"]
    by (auto simp: header_needs_event_def)
  have lk: "in_Name (m_Intent m) \<in> {''LinkEvent'', ''UnlinkEvent''} \<Longrightarrow> \<exists>l. Link m = Some l"
    using validated_pointers(2) [OF v] by auto
  from i show ?thesis
    unfolding request_intents_def
  proof (simp only: list.set, elim insertE emptyE)
    assume n: "m_Intent m = IT_StoreEvent"
    then obtain e where "m_Event m = Some e" using ev by (auto simp: IT_defs)
    from check_StoreEvent [OF n this] show ?thesis using n by (simp add: IT_defs known_types)
  next
    assume n: "m_Intent m = IT_StoreData"
    then obtain e where "m_Event m = Some e" using ev by (auto simp: IT_defs)
    from check_StoreData [OF n this] show ?thesis using n by (simp add: IT_defs)
  next
    assume n: "m_Intent m = IT_StoreBatchEvents"
    then show ?thesis using check_batches [of m G now n] by (simp add: IT_defs known_types)
  next
    assume n: "m_Intent m = IT_StoreBatchLinks"
    then show ?thesis using check_batches [of m G now n] by (simp add: IT_defs known_types)
  next
    assume n: "m_Intent m = IT_StoreBatchTags"
    then obtain e where "m_Event m = Some e" using ev by (auto simp: IT_defs)
    from check_StoreBatchTags [OF n this _ a(1)] val show ?thesis using n by (simp add: IT_defs known_types validators)
  next
    assume n: "m_Intent m = IT_GetEvent"
    then obtain e where "m_Event m = Some e" using ev by (auto simp: IT_defs)
    from check_GetEvent [OF n this _ a(1)] val show ?thesis using n by (simp add: IT_defs known_types validators)
  next
    assume n: "m_Intent m = IT_GetEventsForTags"
    from check_GetEventsForTags [OF n] val show ?thesis
      using n by (simp add: IT_defs known_types intentValidators_GetEventsForTags)
  next
    assume n: "m_Intent m = IT_LinkEvent"
    then obtain e where "m_Event m = Some e" using ev by (auto simp: IT_defs)
    moreover obtain k where "Link m = Some k" using n lk by (auto simp: IT_defs)
    moreover have "link_ok k" using calculation l n by (simp add: check_link_event_None_iff IT_defs)
    ultimately show ?thesis
      using check_LinkEvent [OF n, of e k] val a c n by (simp add: IT_defs known_types validators)
  next
    assume n: "m_Intent m = IT_UnlinkEvent"
    then obtain k where "Link m = Some k" using lk by (auto simp: IT_defs)
    from check_UnlinkEvent [OF n this _ a(1)] val show ?thesis using n by (simp add: IT_defs known_types validators)
  next
    assume n: "m_Intent m = IT_GatewayId"
    from check_GatewayId [OF n validated(1) [OF v]] show ?thesis using n by (simp add: IT_defs known_types)
  next
    assume n: "m_Intent m = IT_GatewayStreamOn"
    from check_plain(1) [OF n] show ?thesis using n by (simp add: IT_defs known_types)
  next
    assume n: "m_Intent m = IT_GatewayStreamOff"
    from check_plain(2) [OF n] show ?thesis using n by (simp add: IT_defs known_types)
  next
    assume n: "m_Intent m = IT_ActorRequest"
    from check_plain(3) [OF n] show ?thesis using n by (simp add: IT_defs known_types)
  next
    assume n: "m_Intent m = IT_StatusRequest"
    then show ?thesis by (simp add: IT_defs known_types)
  qed
qed


definition sample_lookup :: Message where
  "sample_lookup = (sample_message IT_GetEvent)
     \<lparr>m_From := ''me@gw'', m_Event := Some (zero_EventFields\<lparr>ev_Id := ''e1''\<rparr>)\<rparr>"


end
