(* ===== verification/Config.thy ===== *)
theory Config
  imports RetryPolicy "HOL-Library.Multiset"
begin

text \<open>
  Configuration (\<open>config/config.go\<close>, \<open>config/env.go\<close>, \<open>config/ini.go\<close>): the settings, their
  defaults, and the two readers. Durations are nanoseconds in 64-bit arithmetic. The injected
  objects (logger, tracer, wire hook, handler) are left out of the record. \<open>pf s\<close> is the value
  \<open>strconv.ParseFloat\<close> returns for \<open>s\<close>, whose error the readers ignore.
\<close>

section \<open>Settings\<close>

record PoolConfig =
  pc_InitialCapacity :: int
  pc_MaxCapacity :: int

record ReconnectConfig =
  rc_Enabled :: "bool option"
  rc_MaxRetries :: int
  rc_InitialBackoff :: int
  rc_BackoffMultiplier :: f64
  rc_MaxBackoff :: int

record Config =
  cf_Network :: string
  cf_Host :: string
  cf_Port :: string
  cf_GatewayActorName :: string
  cf_ClientName :: string
  cf_Passcode :: string
  cf_RetryConfig :: RetryConfig
  cf_DialTimeout :: int
  cf_ReceiveTimeout :: int
  cf_SendTimeout :: int
  cf_PoolConfig :: PoolConfig
  cf_EnableStreaming :: "bool option"
  cf_EnableConcurrentMode :: bool
  cf_ResponseTimeout :: int
  cf_ReconnectConfig :: ReconnectConfig
  cf_KeepaliveInterval :: int
  cf_SkipGlobalRegistry :: bool
  cf_ReceiveLoopTimeout :: int
  cf_ConnectionLivenessTimeout :: int
  cf_TCPKeepAliveIdle :: int
  cf_TCPKeepAliveInterval :: int
  cf_TCPKeepAliveCount :: int
  cf_TCPUserTimeout :: int
  cf_LogLevel :: int

definition zero_Config :: Config where
  "zero_Config =
     \<lparr>cf_Network = [], cf_Host = [], cf_Port = [], cf_GatewayActorName = [], cf_ClientName = [], cf_Passcode = [],
      cf_RetryConfig = \<lparr>rt_Retries = 0, rt_Backoff = 0, rt_BackoffMultiplier = zero_f64, rt_DisableBackoffCaps = False\<rparr>,
      cf_DialTimeout = 0, cf_ReceiveTimeout = 0, cf_SendTimeout = 0,
      cf_PoolConfig = \<lparr>pc_InitialCapacity = 0, pc_MaxCapacity = 0\<rparr>, cf_EnableStreaming = None,
      cf_EnableConcurrentMode = False, cf_ResponseTimeout = 0,
      cf_ReconnectConfig = \<lparr>rc_Enabled = None, rc_MaxRetries = 0, rc_InitialBackoff = 0,
        rc_BackoffMultiplier = zero_f64, rc_MaxBackoff = 0\<rparr>,
      cf_KeepaliveInterval = 0, cf_SkipGlobalRegistry = False, cf_ReceiveLoopTimeout = 0,
      cf_ConnectionLivenessTimeout = 0, cf_TCPKeepAliveIdle = 0, cf_TCPKeepAliveInterval = 0,
      cf_TCPKeepAliveCount = 0, cf_TCPUserTimeout = 0, cf_LogLevel = 0\<rparr>"

definition Second :: int where
  "Second = 1000000000"

definition DefaultKeepaliveInterval :: int where
  "DefaultKeepaliveInterval = 30 * Second"

definition DefaultReceiveLoopTimeout :: int where
  "DefaultReceiveLoopTimeout = 30 * Second"

definition DefaultConnectionLivenessTimeout :: int where
  "DefaultConnectionLivenessTimeout = 90 * Second"

definition GetKeepaliveInterval :: "Config \<Rightarrow> int" where
  "GetKeepaliveInterval c =
     (if cf_KeepaliveInterval c < 0 then 0
      else if cf_KeepaliveInterval c = 0 then DefaultKeepaliveInterval else cf_KeepaliveInterval c)"

definition GetReceiveLoopTimeout :: "Config \<Rightarrow> int" where
  "GetReceiveLoopTimeout c = (if cf_ReceiveLoopTimeout c \<le> 0 then DefaultReceiveLoopTimeout else cf_ReceiveLoopTimeout c)"

definition GetConnectionLivenessTimeout :: "Config \<Rightarrow> int" where
  "GetConnectionLivenessTimeout c =
     (if cf_ConnectionLivenessTimeout c < 0 then 0
      else if cf_ConnectionLivenessTimeout c = 0 then DefaultConnectionLivenessTimeout else cf_ConnectionLivenessTimeout c)"

definition DefaultReconnectConfig :: ReconnectConfig where
  "DefaultReconnectConfig = \<lparr>rc_Enabled = Some True, rc_MaxRetries = 10, rc_InitialBackoff = Second,
     rc_BackoffMultiplier = F64Fin False 2 0, rc_MaxBackoff = 60 * Second\<rparr>"

definition IsEnabled :: "ReconnectConfig \<Rightarrow> bool" where
  "IsEnabled r = (case rc_Enabled r of None \<Rightarrow> True | Some b \<Rightarrow> b)"

definition GetInitialBackoff :: "ReconnectConfig \<Rightarrow> int" where
  "GetInitialBackoff r = (if rc_InitialBackoff r \<le> 0 then Second else rc_InitialBackoff r)"

text \<open>\<open>x <= 0\<close> for a float: false for NaN, like every comparison.\<close>

definition f64_not_positive :: "f64 \<Rightarrow> bool" where
  "f64_not_positive x \<longleftrightarrow> \<not> IsNaN x \<and> \<not> f64_above x 0"

definition GetBackoffMultiplier :: "ReconnectConfig \<Rightarrow> f64" where
  "GetBackoffMultiplier r = (if f64_not_positive (rc_BackoffMultiplier r) then F64Fin False 2 0 else rc_BackoffMultiplier r)"

definition GetMaxBackoff :: "ReconnectConfig \<Rightarrow> int" where
  "GetMaxBackoff r = (if rc_MaxBackoff r \<le> 0 then 60 * Second else rc_MaxBackoff r)"

section \<open>Texts of settings\<close>

text \<open>
  \<open>strings.ToLower\<close> and \<open>strings.ToUpper\<close> as far as a comparison with an ASCII text sees them: the
  ASCII letters, and the two runes beyond ASCII each maps to an ASCII letter (the Kelvin sign and
  the dotted I, the long s and the dotless i). Every other rune beyond ASCII stays beyond it.
\<close>

fun ToLower :: "string \<Rightarrow> string" where
  "ToLower [] = []"
| "ToLower (c # cs) =
     (if code c = 226 \<and> map code (take 2 cs) = [132, 170] then CHR ''k'' # ToLower (drop 2 cs)
      else if code c = 196 \<and> map code (take 1 cs) = [176] then CHR ''i'' # ToLower (drop 1 cs)
      else lower_byte c # ToLower cs)"

definition upper_byte :: "char \<Rightarrow> char" where
  "upper_byte c = (if 97 \<le> code c \<and> code c \<le> 122 then char_of (code c - 32) else c)"

fun ToUpper :: "string \<Rightarrow> string" where
  "ToUpper [] = []"
| "ToUpper (c # cs) =
     (if code c = 197 \<and> map code (take 1 cs) = [191] then CHR ''S'' # ToUpper (drop 1 cs)
      else if code c = 196 \<and> map code (take 1 cs) = [177] then CHR ''I'' # ToUpper (drop 1 cs)
      else upper_byte c # ToUpper cs)"

definition parseBoolEnv :: "string \<Rightarrow> bool" where
  "parseBoolEnv v = (let w = TrimSpace (ToLower v) in w = ''true'' \<or> w = ''1'' \<or> w = ''yes'' \<or> w = ''y'')"

definition parseBoolINI :: "string \<Rightarrow> bool" where
  "parseBoolINI v = (let w = TrimSpace (ToUpper v) in w = ''Y'' \<or> w = ''YES'' \<or> w = ''TRUE'' \<or> w = ''1'')"

definition parseIntEnv :: "string \<Rightarrow> int" where
  "parseIntEnv v = Atoi_value (TrimSpace v)"

definition parseFloatEnv :: "(string \<Rightarrow> f64) \<Rightarrow> string \<Rightarrow> f64" where
  "parseFloatEnv pf v = pf (TrimSpace v)"

definition parseIntINI :: "string \<Rightarrow> int" where
  "parseIntINI v = Atoi_value (TrimSpace v)"

definition parseFloatINI :: "(string \<Rightarrow> f64) \<Rightarrow> string \<Rightarrow> f64" where
  "parseFloatINI pf v = pf (TrimSpace v)"

text \<open>\<open>time.Duration(secs) * time.Second\<close>, which wraps.\<close>

definition duration_of_seconds :: "int \<Rightarrow> int" where
  "duration_of_seconds secs = wrap64 (secs * Second)"

text \<open>\<open>if secs > 0 { field = ... }\<close> and the same for a float.\<close>

definition set_seconds :: "int \<Rightarrow> (int \<Rightarrow> Config \<Rightarrow> Config) \<Rightarrow> Config \<Rightarrow> Config" where
  "set_seconds secs f c = (if 0 < secs then f (duration_of_seconds secs) c else c)"

definition set_positive :: "f64 \<Rightarrow> (f64 \<Rightarrow> Config \<Rightarrow> Config) \<Rightarrow> Config \<Rightarrow> Config" where
  "set_positive x f c = (if f64_above x 0 then f x c else c)"

definition set_reconnect :: "(ReconnectConfig \<Rightarrow> ReconnectConfig) \<Rightarrow> Config \<Rightarrow> Config" where
  "set_reconnect f c = c\<lparr>cf_ReconnectConfig := f (cf_ReconnectConfig c)\<rparr>"

definition set_retry :: "(RetryConfig \<Rightarrow> RetryConfig) \<Rightarrow> Config \<Rightarrow> Config" where
  "set_retry f c = c\<lparr>cf_RetryConfig := f (cf_RetryConfig c)\<rparr>"

section \<open>Environment\<close>

text \<open>\<open>os.Getenv\<close> is the argument: an unset variable reads as the empty text.\<close>

definition env_set :: "(string \<Rightarrow> string) \<Rightarrow> string \<Rightarrow> (string \<Rightarrow> Config \<Rightarrow> Config) \<Rightarrow> Config \<Rightarrow> Config" where
  "env_set env var f c = (if env var \<noteq> [] then f (env var) c else c)"

definition ConfigFromEnv :: "(string \<Rightarrow> f64) \<Rightarrow> (string \<Rightarrow> string) \<Rightarrow> Config" where
  "ConfigFromEnv pf env =
     (let c0 = zero_Config\<lparr>cf_Network := ''tcp'', cf_Host := env ''PODOS_GATEWAY_HOST'', cf_Port := env ''PODOS_GATEWAY_PORT'',
             cf_GatewayActorName := env ''PODOS_GATEWAY_FQN'', cf_ClientName := env ''PODOS_ACTOR_NAME'',
             cf_Passcode := env ''PODOS_PASSCODE''\<rparr>;
          c1 = env_set env ''PODOS_CONCURRENT_MODE'' (\<lambda>v c. c\<lparr>cf_EnableConcurrentMode := parseBoolEnv v\<rparr>) c0;
          c2 = env_set env ''PODOS_DIAL_TIMEOUT'' (\<lambda>v. set_seconds (parseIntEnv v) (\<lambda>d c. c\<lparr>cf_DialTimeout := d\<rparr>)) c1;
          c3 = env_set env ''PODOS_SEND_TIMEOUT'' (\<lambda>v. set_seconds (parseIntEnv v) (\<lambda>d c. c\<lparr>cf_SendTimeout := d\<rparr>)) c2;
          c4 = env_set env ''PODOS_RECEIVE_TIMEOUT'' (\<lambda>v. set_seconds (parseIntEnv v) (\<lambda>d c. c\<lparr>cf_ReceiveTimeout := d\<rparr>)) c3;
          c5 = env_set env ''PODOS_LOG_LEVEL'' (\<lambda>v c. c\<lparr>cf_LogLevel := parseIntEnv v\<rparr>) c4;
          c6 = env_set env ''PODOS_RECONNECT_ENABLED'' (\<lambda>v. set_reconnect (\<lambda>r. r\<lparr>rc_Enabled := Some (parseBoolEnv v)\<rparr>)) c5;
          c7 = env_set env ''PODOS_RECONNECT_MAX_RETRIES'' (\<lambda>v. set_reconnect (\<lambda>r. r\<lparr>rc_MaxRetries := parseIntEnv v\<rparr>)) c6;
          c8 = env_set env ''PODOS_RECONNECT_INITIAL_BACKOFF'' (\<lambda>v. set_seconds (parseIntEnv v)
                 (\<lambda>d. set_reconnect (\<lambda>r. r\<lparr>rc_InitialBackoff := d\<rparr>))) c7;
          c9 = env_set env ''PODOS_RECONNECT_BACKOFF_MULTIPLIER'' (\<lambda>v. set_positive (parseFloatEnv pf v)
                 (\<lambda>x. set_reconnect (\<lambda>r. r\<lparr>rc_BackoffMultiplier := x\<rparr>))) c8
      in env_set env ''PODOS_RECONNECT_MAX_BACKOFF'' (\<lambda>v. set_seconds (parseIntEnv v)
           (\<lambda>d. set_reconnect (\<lambda>r. r\<lparr>rc_MaxBackoff := d\<rparr>))) c9)"

section \<open>Ini pairs\<close>

definition ini_key :: "string \<Rightarrow> string" where
  "ini_key key = TrimSpace (ToLower key)"

text \<open>The switch on the key.\<close>

definition ini_setting :: "(string \<Rightarrow> f64) \<Rightarrow> string \<Rightarrow> string \<Rightarrow> Config \<Rightarrow> Config" where
  "ini_setting pf k v cfg =
     (if k = ''host'' then cfg\<lparr>cf_Host := v\<rparr>
      else if k = ''port'' then cfg\<lparr>cf_Port := v\<rparr>
      else if k = ''agent'' then cfg\<lparr>cf_GatewayActorName := v\<rparr>
      else if k = ''client'' then cfg\<lparr>cf_ClientName := v\<rparr>
      else if k = ''passcode'' then cfg\<lparr>cf_Passcode := v\<rparr>
      else if k = ''stream_messages'' then cfg\<lparr>cf_EnableStreaming := Some (parseBoolINI v)\<rparr>
      else if k = ''concurrent_mode'' then cfg\<lparr>cf_EnableConcurrentMode := parseBoolINI v\<rparr>
      else if k = ''dial_timeout'' then set_seconds (parseIntINI v) (\<lambda>d c. c\<lparr>cf_DialTimeout := d\<rparr>) cfg
      else if k = ''send_timeout'' then set_seconds (parseIntINI v) (\<lambda>d c. c\<lparr>cf_SendTimeout := d\<rparr>) cfg
      else if k = ''receive_timeout'' then set_seconds (parseIntINI v) (\<lambda>d c. c\<lparr>cf_ReceiveTimeout := d\<rparr>) cfg
      else if k = ''log_level'' then cfg\<lparr>cf_LogLevel := parseIntINI v\<rparr>
      else if k = ''reconnect_enabled'' then set_reconnect (\<lambda>r. r\<lparr>rc_Enabled := Some (parseBoolINI v)\<rparr>) cfg
      else if k = ''reconnect_max_retries'' then set_reconnect (\<lambda>r. r\<lparr>rc_MaxRetries := parseIntINI v\<rparr>) cfg
      else if k = ''reconnect_initial_backoff'' then
        set_seconds (parseIntINI v) (\<lambda>d. set_reconnect (\<lambda>r. r\<lparr>rc_InitialBackoff := d\<rparr>)) cfg
      else if k = ''reconnect_backoff_multiplier'' then
        set_positive (parseFloatINI pf v) (\<lambda>x. set_reconnect (\<lambda>r. r\<lparr>rc_BackoffMultiplier := x\<rparr>)) cfg
      else if k = ''reconnect_max_backoff'' then
        set_seconds (parseIntINI v) (\<lambda>d. set_reconnect (\<lambda>r. r\<lparr>rc_MaxBackoff := d\<rparr>)) cfg
      else if k = ''retry_count'' then set_retry (\<lambda>r. r\<lparr>rt_Retries := parseIntINI v\<rparr>) cfg
      else if k = ''retry_backoff'' then
        set_seconds (parseIntINI v) (\<lambda>d. set_retry (\<lambda>r. r\<lparr>rt_Backoff := d\<rparr>)) cfg
      else if k = ''retry_backoff_multiplier'' then
        set_positive (parseFloatINI pf v) (\<lambda>x. set_retry (\<lambda>r. r\<lparr>rt_BackoffMultiplier := x\<rparr>)) cfg
      else cfg)"

text \<open>The loop over the map, in the order Go happens to visit it.\<close>

definition ConfigFromINI :: "(string \<Rightarrow> f64) \<Rightarrow> (string \<times> string) list \<Rightarrow> Config" where
  "ConfigFromINI pf kvs = fold (\<lambda>(k, v). ini_setting pf (ini_key k) v) kvs (zero_Config\<lparr>cf_Network := ''tcp''\<rparr>)"

section \<open>What an ini file means\<close>

text \<open>The configuration as a function of the lookup of normalised keys.\<close>

definition seconds_of :: "string option \<Rightarrow> int" where
  "seconds_of v = (case v of None \<Rightarrow> 0 | Some s \<Rightarrow> if 0 < parseIntINI s then duration_of_seconds (parseIntINI s) else 0)"

definition positive_of :: "(string \<Rightarrow> f64) \<Rightarrow> string option \<Rightarrow> f64" where
  "positive_of pf v = (case v of None \<Rightarrow> zero_f64 | Some s \<Rightarrow>
     if f64_above (parseFloatINI pf s) 0 then parseFloatINI pf s else zero_f64)"

definition int_of :: "string option \<Rightarrow> int" where
  "int_of v = (case v of None \<Rightarrow> 0 | Some s \<Rightarrow> parseIntINI s)"

definition text_or_empty :: "string option \<Rightarrow> string" where
  "text_or_empty v = (case v of None \<Rightarrow> [] | Some s \<Rightarrow> s)"

definition ini_config :: "(string \<Rightarrow> f64) \<Rightarrow> (string \<Rightarrow> string option) \<Rightarrow> Config" where
  "ini_config pf m = zero_Config
     \<lparr>cf_Network := ''tcp'', cf_Host := text_or_empty (m ''host''), cf_Port := text_or_empty (m ''port''),
      cf_GatewayActorName := text_or_empty (m ''agent''), cf_ClientName := text_or_empty (m ''client''),
      cf_Passcode := text_or_empty (m ''passcode''),
      cf_RetryConfig := \<lparr>rt_Retries = int_of (m ''retry_count''), rt_Backoff = seconds_of (m ''retry_backoff''),
        rt_BackoffMultiplier = positive_of pf (m ''retry_backoff_multiplier''), rt_DisableBackoffCaps = False\<rparr>,
      cf_DialTimeout := seconds_of (m ''dial_timeout''), cf_ReceiveTimeout := seconds_of (m ''receive_timeout''),
      cf_SendTimeout := seconds_of (m ''send_timeout''),
      cf_EnableStreaming := map_option parseBoolINI (m ''stream_messages''),
      cf_EnableConcurrentMode := (case m ''concurrent_mode'' of None \<Rightarrow> False | Some v \<Rightarrow> parseBoolINI v),
      cf_ReconnectConfig := \<lparr>rc_Enabled = map_option parseBoolINI (m ''reconnect_enabled''),
        rc_MaxRetries = int_of (m ''reconnect_max_retries''), rc_InitialBackoff = seconds_of (m ''reconnect_initial_backoff''),
        rc_BackoffMultiplier = positive_of pf (m ''reconnect_backoff_multiplier''),
        rc_MaxBackoff = seconds_of (m ''reconnect_max_backoff'')\<rparr>,
      cf_LogLevel := int_of (m ''log_level'')\<rparr>"

definition normalised :: "(string \<times> string) list \<Rightarrow> (string \<times> string) list" where
  "normalised kvs = map (\<lambda>(k, v). (ini_key k, v)) kvs"

text \<open>The keys the switch knows.\<close>

definition ini_keys :: "string list" where
  "ini_keys = [''host'', ''port'', ''agent'', ''client'', ''passcode'', ''stream_messages'', ''concurrent_mode'',
     ''dial_timeout'', ''send_timeout'', ''receive_timeout'', ''log_level'', ''reconnect_enabled'', ''reconnect_max_retries'',
     ''reconnect_initial_backoff'', ''reconnect_backoff_multiplier'', ''reconnect_max_backoff'', ''retry_count'',
     ''retry_backoff'', ''retry_backoff_multiplier'']"

lemma ini_setting_other: "k \<notin> set ini_keys \<Longrightarrow> ini_setting pf k v c = c"
  by (simp add: ini_keys_def ini_setting_def)

lemma ini_config_cong: "\<forall>k \<in> set ini_keys. m k = m' k \<Longrightarrow> ini_config pf m = ini_config pf m'"
  unfolding ini_keys_def by (simp only: list.set ball_simps ini_config_def)

lemma ini_config_other: "k \<notin> set ini_keys \<Longrightarrow> ini_config pf (m(k \<mapsto> v)) = ini_config pf m"
  by (rule ini_config_cong) auto

lemmas setting_defs = set_seconds_def set_positive_def set_reconnect_def set_retry_def
  seconds_of_def positive_of_def int_of_def text_or_empty_def

lemma ini_setting_config:
  assumes "m k = None"
  shows "ini_setting pf k v (ini_config pf m) = ini_config pf (m(k \<mapsto> v))"
proof (cases "k \<in> set ini_keys")
  case True
  then show ?thesis
    using assms unfolding ini_keys_def
    by (simp only: list.set, elim insertE emptyE)
      (simp_all add: ini_setting_def ini_config_def zero_Config_def setting_defs)
next
  case False
  then show ?thesis by (simp add: ini_setting_other ini_config_other)
qed

lemma ConfigFromINI_lookup:
  assumes "distinct (map fst (normalised kvs))"
  shows "ConfigFromINI pf kvs = ini_config pf (map_of (normalised kvs))"
  using assms
proof (induction kvs rule: rev_induct)
  case Nil
  show ?case by (simp add: ConfigFromINI_def normalised_def ini_config_def zero_Config_def setting_defs)
next
  case (snoc x kvs)
  obtain k v where x: "x = (k, v)" by (cases x)
  have n: "normalised (kvs @ [x]) = normalised kvs @ [(ini_key k, v)]" by (simp add: normalised_def x)
  then have d: "distinct (map fst (normalised kvs))" "ini_key k \<notin> fst ` set (normalised kvs)"
    using snoc.prems by simp_all
  then have none: "map_of (normalised kvs) (ini_key k) = None" by (simp add: map_of_eq_None_iff)
  have "map_of (normalised (kvs @ [x])) = (map_of (normalised kvs))(ini_key k \<mapsto> v)"
    using none n by (auto simp: map_add_def fun_eq_iff split: option.splits)
  moreover have "ConfigFromINI pf (kvs @ [x]) = ini_setting pf (ini_key k) v (ConfigFromINI pf kvs)"
    by (simp add: ConfigFromINI_def x)
  ultimately show ?case using snoc.IH [OF d(1)] ini_setting_config [where m = "map_of (normalised kvs)" and k = "ini_key k", OF none, of pf v] by (simp only:)
qed

text \<open>
  An ini file has one meaning: when no two keys become equal by trimming and lower-casing,
  the configuration read from the map is the one its lookups determine, whatever the order in which
  Go visits the map, so two visiting orders of the same pairs agree.
\<close>

lemma ini_reading_is_order_independent:
  assumes "mset xs = mset ys" and "distinct (map fst (normalised xs))"
  shows "ConfigFromINI pf xs = ini_config pf (map_of (normalised xs)) \<and> ConfigFromINI pf ys = ConfigFromINI pf xs"
proof -
  have n: "mset (normalised xs) = mset (normalised ys)" using assms(1) by (simp add: normalised_def)
  then have "mset (map fst (normalised xs)) = mset (map fst (normalised ys))" by (metis mset_map)
  then have d: "distinct (map fst (normalised ys))" using assms(2) mset_eq_imp_distinct_iff by blast
  have "map_of (normalised xs) = map_of (normalised ys)"
    using map_of_inject_set [OF assms(2) d] mset_eq_setD [OF n] by simp
  then show ?thesis using ConfigFromINI_lookup [OF assms(2)] ConfigFromINI_lookup [OF d] by simp
qed

end
