(* ===== verification/Session.thy ===== *)
theory Session
  imports Config Transport Correlation
begin

text \<open>
  The client over its socket (\<open>client.go\<close>, \<open>NewClient\<close> of \<open>connection/client.go\<close>): the handshake
  that identifies the connection, the synchronous send, reconnection, and one turn of the background
  receive loop. What the socket, the clock and the contexts do is an argument, as in \<open>Transport\<close>;
  generated ids are arguments too. Logging and debug output are left out.
\<close>

section \<open>Errors\<close>

text \<open>The package's own \<open>ErrConnectionLost\<close>, a value of \<open>errors.New\<close>.\<close>

definition ErrConnectionLost_client :: go_error where
  "ErrConnectionLost_client = OtherError ''connection to gateway was lost during request'' None"

text \<open>\<open>errors.Is\<close>: the target is on the chain. The sentinel is the only error with its text.\<close>

fun errors_Is :: "go_error \<Rightarrow> go_error \<Rightarrow> bool" where
  "errors_Is (GatewayDError c m None) t = (GatewayDError c m None = t)"
| "errors_Is (GatewayDError c m (Some e)) t = (GatewayDError c m (Some e) = t \<or> errors_Is e t)"
| "errors_Is (OtherError m None) t = (OtherError m None = t)"
| "errors_Is (OtherError m (Some e)) t = (OtherError m (Some e) = t \<or> errors_Is e t)"

text \<open>The argument is never another error than a \<open>GatewayDError\<close>.\<close>

fun convertGatewayError :: "go_error \<Rightarrow> go_error" where
  "convertGatewayError (GatewayDError c m w) =
     (if c = G_ErrCodeConnectionLost then
        OtherError (m @ '': '' @ (case w of None \<Rightarrow> [] | Some e \<Rightarrow> error_text e @ '': '')
          @ error_text ErrConnectionLost_client) (Some ErrConnectionLost_client)
      else case w of
        Some e \<Rightarrow> OtherError (m @ '': '' @ error_text e) (Some e)
      | None \<Rightarrow> OtherError m None)"
| "convertGatewayError (OtherError m w) = OtherError m w"

definition isFatalConnError :: "go_error option \<Rightarrow> bool" where
  "isFatalConnError e \<longleftrightarrow> IsConnectionLost e \<or> (case e of None \<Rightarrow> False | Some x \<Rightarrow> errors_Is x ErrConnectionLost_client)"

text \<open>\<open>fmt.Errorf("...: %w", err)\<close> with an error, and with one of the codec's errors.\<close>

definition wrapped :: "string \<Rightarrow> go_error \<Rightarrow> go_error" where
  "wrapped s e = OtherError (s @ error_text e) (Some e)"

definition plain_error :: "string \<Rightarrow> go_error" where
  "plain_error s = OtherError s None"

section \<open>State\<close>

text \<open>\<open>ss_stream\<close> is what the peer has sent on the current socket and nobody has read.\<close>

record session =
  ss_conn :: transport
  ss_stream :: string
  ss_cfg :: Config
  ss_retry :: "RetryConfig option"
  ss_gatewayActorName :: string
  ss_clientName :: string

definition FromAddress :: "session \<Rightarrow> string" where
  "FromAddress s = ss_clientName s @ ''@'' @ ss_gatewayActorName s"

text \<open>Updates \<open>ClientName\<close> and fills in \<open>From\<close>; another sender is an error.\<close>

definition normalizeMessageFrom :: "golib \<Rightarrow> session \<Rightarrow> Message \<Rightarrow> go_error + Message" where
  "normalizeMessageFrom G s msg =
     (let m = msg\<lparr>m_ClientName := ss_clientName s\<rparr>; expectedFrom = FromAddress s in
      if m_From m \<noteq> [] \<and> m_From m \<noteq> expectedFrom then
        Inl (plain_error (''message From '' @ Quote (IsPrint G) (m_From m) @ '' disagrees with connection identity ''
          @ Quote (IsPrint G) expectedFrom @ ''; set Config.GatewayActorName to the dialed gateway FQN and leave From empty or equal to Client.FromAddress()''))
      else Inr (if m_From m = [] then m\<lparr>m_From := expectedFrom\<rparr> else m))"

fun io_bind :: "'a io \<Rightarrow> ('a \<Rightarrow> 'b io) \<Rightarrow> 'b io" where
  "io_bind Blocked f = Blocked"
| "io_bind Crashed f = Crashed"
| "io_bind (Done a) f = f a"

section \<open>Messages of the client\<close>

definition id_message :: "int \<Rightarrow> string \<Rightarrow> Config \<Rightarrow> string \<Rightarrow> string \<Rightarrow> Message" where
  "id_message now mid cfg actor name = zero_Message
     \<lparr>m_To := ''$system@'' @ actor, m_From := name @ ''@'' @ actor, m_Intent := IT_GatewayId, m_ClientName := name,
      m_Passcode := cf_Passcode cfg, m_MessageId := mid,
      m_Event := Some (zero_EventFields\<lparr>ev_Owner := ''$sys'', ev_Timestamp := GetTimestamp now, ev_LocationSeparator := ''|''\<rparr>)\<rparr>"

definition stream_on_message :: "string \<Rightarrow> Config \<Rightarrow> string \<Rightarrow> string \<Rightarrow> Message" where
  "stream_on_message mid cfg actor name = zero_Message
     \<lparr>m_To := ''$system@'' @ actor, m_From := name @ ''@'' @ actor, m_Intent := IT_GatewayStreamOn, m_ClientName := name,
      m_Passcode := cf_Passcode cfg, m_MessageId := mid\<rparr>"

definition buildKeepaliveMessage :: "string \<Rightarrow> session \<Rightarrow> Message" where
  "buildKeepaliveMessage mid s = zero_Message
     \<lparr>m_To := ''$system@'' @ ss_gatewayActorName s, m_From := FromAddress s, m_Intent := IT_Keepalive,
      m_ClientName := ss_clientName s, m_MessageId := mid\<rparr>"

definition buildDisconnectMessage :: "string \<Rightarrow> session \<Rightarrow> Message" where
  "buildDisconnectMessage mid s = zero_Message
     \<lparr>m_To := ''$system@'' @ ss_gatewayActorName s, m_From := FromAddress s, m_Intent := IT_GatewayDisconnect,
      m_ClientName := ss_clientName s, m_MessageId := mid\<rparr>"

section \<open>Sending\<close>

text \<open>The end of every send: an error of the transport, or nothing sent.\<close>

definition send_bytes :: "string \<Rightarrow> write_obs list \<Rightarrow> string \<Rightarrow> session \<Rightarrow> (go_error option \<times> session) io" where
  "send_bytes what obs bytes s =
     io_bind (Send obs (ss_conn s) bytes) (\<lambda>r.
       let s' = s\<lparr>ss_conn := sr_client r\<rparr> in
       case sr_err r of
         Some e \<Rightarrow> Done (Some (wrapped (''failed to send '' @ what @ '': '') (convertGatewayError e)), s')
       | None \<Rightarrow>
           if sr_sent r = 0 then Done (Some (plain_error (''failed to send '' @ what @ '': no bytes sent'')), s')
           else Done (None, s'))"

definition SendControlMessage :: "write_obs list \<Rightarrow> SocketMessage \<Rightarrow> session \<Rightarrow> (go_error option \<times> session) io" where
  "SendControlMessage obs msg s =
     (if \<not> IsConnected (Some (ss_conn s)) then
        Done (Some (plain_error ''connection closed before sending control message''), s)
      else send_bytes ''control message'' obs (sm_MessageBytes msg) s)"

definition sendKeepalive :: "golib \<Rightarrow> int \<Rightarrow> string \<Rightarrow> write_obs list \<Rightarrow> session \<Rightarrow> (go_error option \<times> session) io" where
  "sendKeepalive G now mid obs s =
     (case EncodeMessage G now (Some (buildKeepaliveMessage mid s)) of
        Panicked \<Rightarrow> Crashed
      | Failed e \<Rightarrow> Done (Some (plain_error (''encode keepalive: '' @ EncodeError_Error e)), s)
      | Returned sm \<Rightarrow>
          if \<not> IsConnected (Some (ss_conn s)) then
            Done (Some (plain_error ''connection closed before sending keepalive''), s)
          else send_bytes ''keepalive'' obs (sm_MessageBytes sm) s)"

definition sendDisconnect :: "golib \<Rightarrow> int \<Rightarrow> string \<Rightarrow> write_obs list \<Rightarrow> session \<Rightarrow> (go_error option \<times> session) io" where
  "sendDisconnect G now mid obs s =
     (if \<not> IsConnected (Some (ss_conn s)) then Done (None, s)
      else case EncodeMessage G now (Some (buildDisconnectMessage mid s)) of
        Panicked \<Rightarrow> Crashed
      | Failed e \<Rightarrow> Done (Some (plain_error (''encode disconnect: '' @ EncodeError_Error e)), s)
      | Returned sm \<Rightarrow> send_bytes ''disconnect'' obs (sm_MessageBytes sm) s)"

section \<open>The handshake\<close>

text \<open>
  The clock, the ids and the observations of the calls of one handshake. \<open>NewClient\<close> checks the
  connection before each send, \<open>reAuthenticate\<close> leaves that to the transport: the flag \<open>check\<close>.
\<close>

record handshake_obs =
  ho_now :: int
  ho_id :: string
  ho_writes :: "write_obs list"
  ho_reads :: "read_obs list"
  ho_on_id :: string
  ho_on_writes :: "write_obs list"

definition send_encoded :: "golib \<Rightarrow> bool \<Rightarrow> int \<Rightarrow> string \<Rightarrow> write_obs list \<Rightarrow> Message \<Rightarrow> session
    \<Rightarrow> (go_error option \<times> session) io" where
  "send_encoded G check now what obs msg s =
     (case EncodeMessage G now (Some msg) of
        Panicked \<Rightarrow> Crashed
      | Failed e \<Rightarrow> Done (Some (plain_error (''failed to encode '' @ what @ '': '' @ EncodeError_Error e)), s)
      | Returned sm \<Rightarrow>
          if check \<and> \<not> IsConnected (Some (ss_conn s)) then
            Done (Some (plain_error (''connection closed before sending '' @ what)), s)
          else send_bytes what obs (sm_MessageBytes sm) s)"

definition receive_id_response :: "golib \<Rightarrow> range_order \<Rightarrow> read_obs list \<Rightarrow> session \<Rightarrow> (go_error option \<times> session) io" where
  "receive_id_response G ro obs s =
     io_bind (Receive G obs (ss_conn s) (ss_stream s)) (\<lambda>r.
       let s' = s\<lparr>ss_conn := rv_client r, ss_stream := rv_rest r\<rparr> in
       case rv_err r of
         Some e \<Rightarrow> Done (Some (wrapped ''failed to receive ID response: '' (convertGatewayError e)), s')
       | None \<Rightarrow>
           (case rv_data r of
              None \<Rightarrow> Done (Some (plain_error (''received empty ID response from '' @ ss_gatewayActorName s)), s')
            | Some bytes \<Rightarrow>
                if bytes = [] then Done (Some (plain_error (''received empty ID response from '' @ ss_gatewayActorName s)), s')
                else (case DecodeMessage G ro bytes of
                  None \<Rightarrow> Crashed
                | Some (m, Some e) \<Rightarrow> Done (Some (plain_error (''failed to decode ID response: '' @ DecodeError_Error e)), s')
                | Some (m, None) \<Rightarrow>
                    if ProcessingStatus m = ''ERROR'' then
                      Done (Some (plain_error (''ID message rejected by Gateway: ''
                        @ (if ProcessingMessage m = [] then ''unknown error from Gateway'' else ProcessingMessage m))), s')
                    else Done (None, s'))))"

definition handshake :: "golib \<Rightarrow> range_order \<Rightarrow> bool \<Rightarrow> handshake_obs \<Rightarrow> session \<Rightarrow> (go_error option \<times> session) io" where
  "handshake G ro check ob s =
     io_bind (send_encoded G check (ho_now ob) ''ID message'' (ho_writes ob)
         (id_message (ho_now ob) (ho_id ob) (ss_cfg s) (ss_gatewayActorName s) (ss_clientName s)) s) (\<lambda>(e1, s1).
       if e1 \<noteq> None then Done (e1, s1)
       else io_bind (receive_id_response G ro (ho_reads ob) s1) (\<lambda>(e2, s2).
         if e2 \<noteq> None then Done (e2, s2)
         else if cf_EnableStreaming (ss_cfg s) = None \<or> cf_EnableStreaming (ss_cfg s) = Some True then
           send_encoded G check (ho_now ob) ''STREAM ON message'' (ho_on_writes ob)
             (stream_on_message (ho_on_id ob) (ss_cfg s) (ss_gatewayActorName s) (ss_clientName s)) s2
         else Done (None, s2)))"

definition reAuthenticate :: "golib \<Rightarrow> range_order \<Rightarrow> handshake_obs \<Rightarrow> session \<Rightarrow> (go_error option \<times> session) io" where
  "reAuthenticate G ro ob s = handshake G ro False ob s"

text \<open>
  \<open>Resolve\<close> of \<open>connection/resolver.go\<close>, whose result \<open>NewClient\<close> only logs: the resolver is an argument,
  a network that is not in the switch a panic.
\<close>

definition resolvable_networks :: "string list" where
  "resolvable_networks = [''tcp'', ''tcp4'', ''tcp6'', ''udp'', ''udp4'', ''udp6'', ''unix'', ''unixgram'', ''unixpacket'']"

definition Resolve :: "(string \<Rightarrow> string \<Rightarrow> go_error + string) \<Rightarrow> string \<Rightarrow> string \<Rightarrow> (string \<times> go_error option) io" where
  "Resolve resolver network address =
     (if list_ex (\<lambda>n. n = network) resolvable_networks then
        Done (case resolver network address of
          Inr addr \<Rightarrow> (addr, None)
        | Inl e \<Rightarrow> ([], Some (Wrap ErrResolveFailed (Some e))))
      else Crashed)"

text \<open>\<open>connection.NewClient\<close>: nil without a host or when the retried dial fails.\<close>

definition NewTransport :: "(f64 \<Rightarrow> nat \<Rightarrow> int) \<Rightarrow> (string \<Rightarrow> string \<Rightarrow> go_error + string) \<Rightarrow> string \<Rightarrow> string \<Rightarrow> string \<Rightarrow> string
    \<Rightarrow> RetryConfig option \<Rightarrow> dialer \<Rightarrow> transport option io" where
  "NewTransport pow resolver network host port actorName retry dial =
     (if host = [] then Done None
      else io_bind (Resolve resolver network (JoinHostPort host port)) (\<lambda>(addr, e).
        case rr_result (Retry pow retry (Some (dial network (JoinHostPort host port)))) of
          Object conn \<Rightarrow> Done (Some \<lparr>tr_Conn = Some conn, tr_connected = True, tr_ReceiveChunkSize = 512, tr_Network = network,
            tr_Host = host, tr_Port = port, tr_Uuid = [], tr_ActorName = actorName\<rparr>)
        | _ \<Rightarrow> Done None))"

text \<open>
  The part of \<open>NewClient\<close> that opens the session: the checks of the names, the dial under the retry
  policy and the handshake, with the connection closed when it fails.
\<close>

definition open_session :: "golib \<Rightarrow> range_order \<Rightarrow> (f64 \<Rightarrow> nat \<Rightarrow> int) \<Rightarrow> (string \<Rightarrow> string \<Rightarrow> go_error + string) \<Rightarrow> dialer
    \<Rightarrow> string \<Rightarrow> handshake_obs \<Rightarrow> Config \<Rightarrow> (go_error + session) io" where
  "open_session G ro pow resolver dial peer ob cfg =
     (if cf_ClientName cfg = [] then Done (Inl (plain_error ''ClientName is required and cannot be empty''))
      else if cf_GatewayActorName cfg = [] then Done (Inl (plain_error ''GatewayActorName is required and cannot be empty''))
      else let retry = Some (NewRetry (cf_RetryConfig cfg)) in
        io_bind (NewTransport pow resolver (cf_Network cfg) (cf_Host cfg) (cf_Port cfg) (cf_GatewayActorName cfg) retry dial)
          (\<lambda>c. case c of
            None \<Rightarrow> Done (Inl (plain_error ''failed to create connection client''))
          | Some conn \<Rightarrow>
              io_bind (handshake G ro True ob
                \<lparr>ss_conn = conn, ss_stream = peer, ss_cfg = cfg, ss_retry = retry,
                 ss_gatewayActorName = cf_GatewayActorName cfg, ss_clientName = cf_ClientName cfg\<rparr>) (\<lambda>(e, s).
                Done (case e of Some err \<Rightarrow> Inl err | None \<Rightarrow> Inr s))))"

section \<open>Reconnection\<close>

datatype ConnectionState = StateConnected | StateDisconnected | StateReconnecting | StateReconnectFailed

fun ConnectionState_String :: "ConnectionState \<Rightarrow> string" where
  "ConnectionState_String StateConnected = ''connected''"
| "ConnectionState_String StateDisconnected = ''disconnected''"
| "ConnectionState_String StateReconnecting = ''reconnecting''"
| "ConnectionState_String StateReconnectFailed = ''reconnect_failed''"

text \<open>
  One attempt: whether the receiver's context or the client was closed at its start, what the dials
  return, what the new peer sends, the observations of the handshake, and whether the context ended
  during the wait. \<open>scale m d\<close> is \<open>time.Duration(float64(d) * m)\<close>.
\<close>

record attempt_obs =
  ao_cancelled :: bool
  ao_closed :: bool
  ao_dial :: dialer
  ao_peer :: string
  ao_handshake :: handshake_obs
  ao_cancelled_wait :: bool

definition context_canceled :: go_error where
  "context_canceled = OtherError ''context canceled'' None"

definition next_backoff :: "(f64 \<Rightarrow> int \<Rightarrow> int) \<Rightarrow> ReconnectConfig \<Rightarrow> int \<Rightarrow> int" where
  "next_backoff scale r d =
     (let d' = scale (GetBackoffMultiplier r) d in if d' > GetMaxBackoff r then GetMaxBackoff r else d')"

text \<open>One attempt on the connection: an error and the session it leaves.\<close>

definition reconnect_attempt :: "golib \<Rightarrow> range_order \<Rightarrow> (f64 \<Rightarrow> nat \<Rightarrow> int) \<Rightarrow> attempt_obs \<Rightarrow> session
    \<Rightarrow> (go_error option \<times> session) io" where
  "reconnect_attempt G ro pow ob s =
     (case Reconnect pow (ss_retry s) (ao_dial ob) (ss_conn s) of
        (Some e, c) \<Rightarrow> Done (Some e, s\<lparr>ss_conn := c\<rparr>)
      | (None, c) \<Rightarrow>
          io_bind (reAuthenticate G ro (ao_handshake ob) (s\<lparr>ss_conn := c, ss_stream := ao_peer ob\<rparr>)) (\<lambda>(e, s').
            Done (case e of
              Some err \<Rightarrow> (Some err, s'\<lparr>ss_conn := Close (ss_conn s')\<rparr>)
            | None \<Rightarrow> (None, s'))))"

record reconnect_run =
  rn_success :: bool
  rn_error :: "go_error option"
  rn_sleeps :: "int list"
  rn_attempts :: nat
  rn_session :: session

definition reconnect_done :: "bool \<Rightarrow> go_error option \<Rightarrow> nat \<Rightarrow> session \<Rightarrow> reconnect_run io" where
  "reconnect_done ok e n s = Done \<lparr>rn_success = ok, rn_error = e, rn_sleeps = [], rn_attempts = n, rn_session = s\<rparr>"

definition add_sleep :: "int \<Rightarrow> reconnect_run \<Rightarrow> reconnect_run io" where
  "add_sleep d r = Done (r\<lparr>rn_sleeps := d # rn_sleeps r\<rparr>)"

text \<open>The loop from attempt \<open>n + 1\<close> on; an exhausted list is a loop that still runs.\<close>

fun reconnect_loop :: "golib \<Rightarrow> range_order \<Rightarrow> (f64 \<Rightarrow> nat \<Rightarrow> int) \<Rightarrow> (f64 \<Rightarrow> int \<Rightarrow> int) \<Rightarrow> attempt_obs list \<Rightarrow> nat \<Rightarrow> int
    \<Rightarrow> go_error option \<Rightarrow> session \<Rightarrow> reconnect_run io" where
  "reconnect_loop G ro pow scale [] n delay lastErr s =
     (let r = cf_ReconnectConfig (ss_cfg s) in
      if rc_MaxRetries r \<noteq> 0 \<and> int n \<ge> rc_MaxRetries r then reconnect_done False lastErr n s else Blocked)"
| "reconnect_loop G ro pow scale (ob # obs) n delay lastErr s =
     (let r = cf_ReconnectConfig (ss_cfg s) in
      if rc_MaxRetries r \<noteq> 0 \<and> int n \<ge> rc_MaxRetries r then reconnect_done False lastErr n s
      else if ao_cancelled ob then reconnect_done False (Some context_canceled) n s
      else if ao_closed ob then reconnect_done False (Some (plain_error ''client closed'')) n s
      else io_bind (reconnect_attempt G ro pow ob s) (\<lambda>(e, s').
        case e of
          None \<Rightarrow> reconnect_done True None (Suc n) s'
        | Some err \<Rightarrow>
            if ao_cancelled_wait ob then
              reconnect_done False (Some context_canceled) (Suc n) s'
            else io_bind (reconnect_loop G ro pow scale obs (Suc n) (next_backoff scale r delay) (Some err) s')
                   (add_sleep delay)))"

text \<open>
  How the call finds the client: closed, with another reconnection running (and what waiting for it
  gives), or free to start.
\<close>

datatype reconnect_entry = EntryClosed | EntryWaits bool session | EntryStarts

type_synonym state_event = "ConnectionState \<times> go_error option"

definition attemptReconnection :: "golib \<Rightarrow> range_order \<Rightarrow> (f64 \<Rightarrow> nat \<Rightarrow> int) \<Rightarrow> (f64 \<Rightarrow> int \<Rightarrow> int) \<Rightarrow> reconnect_entry
    \<Rightarrow> attempt_obs list \<Rightarrow> go_error option \<Rightarrow> session \<Rightarrow> (bool \<times> state_event list \<times> session) io" where
  "attemptReconnection G ro pow scale entry obs triggerErr s =
     (case entry of
        EntryClosed \<Rightarrow> Done (False, [], s)
      | EntryWaits ok s' \<Rightarrow> Done (ok, [], s')
      | EntryStarts \<Rightarrow>
          io_bind (reconnect_loop G ro pow scale obs 0 (GetInitialBackoff (cf_ReconnectConfig (ss_cfg s))) None s) (\<lambda>r.
            Done (rn_success r,
              [(StateReconnecting, triggerErr),
               if rn_success r then (StateConnected, None) else (StateReconnectFailed, rn_error r)],
              rn_session r)))"

section \<open>Synchronous requests\<close>

text \<open>What one exchange observes; \<open>so_wait\<close> is the session \<open>waitForReconnect\<close> returns to, if it succeeds.\<close>

record sync_obs =
  so_now :: int
  so_wait :: "session option"
  so_writes :: "write_obs list"
  so_reads :: "read_obs list"

type_synonym exchange = "Message option \<times> string option \<times> go_error option \<times> session"

text \<open>The answer to a decoded frame, with its raw bytes.\<close>

definition sync_reply :: "Message \<Rightarrow> string \<Rightarrow> session \<Rightarrow> exchange" where
  "sync_reply m raw s = (Some m, Some raw, map_option plain_error (response_error m), s)"

definition doSendMessageSyncRaw :: "golib \<Rightarrow> range_order \<Rightarrow> sync_obs \<Rightarrow> Message \<Rightarrow> session \<Rightarrow> exchange io" where
  "doSendMessageSyncRaw G ro ob msg s0 =
     (case EncodeMessage G (so_now ob) (Some msg) of
        Panicked \<Rightarrow> Crashed
      | Failed e \<Rightarrow> Done (None, None, Some (plain_error (''failed to encode message: '' @ EncodeError_Error e)), s0)
      | Returned sm \<Rightarrow>
          if \<not> IsConnected (Some (ss_conn s0)) \<and> \<not> IsEnabled (cf_ReconnectConfig (ss_cfg s0)) then
            Done (None, None, Some (plain_error ''connection closed before sending message''), s0)
          else if \<not> IsConnected (Some (ss_conn s0)) \<and> so_wait ob = None then
            Done (None, None, Some ErrConnectionLost_client, s0)
          else
            let s = (if IsConnected (Some (ss_conn s0)) then s0 else the (so_wait ob)) in
            io_bind (send_bytes ''message'' (so_writes ob) (sm_MessageBytes sm) s) (\<lambda>(e, s1).
              case e of
                Some err \<Rightarrow> Done (None, None, Some err, s1)
              | None \<Rightarrow>
                  if \<not> IsConnected (Some (ss_conn s1)) then
                    Done (None, None, Some (plain_error ''connection closed before receiving response''), s1)
                  else io_bind (Receive G (so_reads ob) (ss_conn s1) (ss_stream s1)) (\<lambda>r.
                    let s2 = s1\<lparr>ss_conn := rv_client r, ss_stream := rv_rest r\<rparr>;
                        raw = (case rv_data r of Some b \<Rightarrow> b | None \<Rightarrow> []) in
                    case rv_err r of
                      Some err \<Rightarrow>
                        Done (None, None, Some (wrapped ''failed to receive response: '' (convertGatewayError err)), s2)
                    | None \<Rightarrow>
                        (case DecodeMessage G ro raw of
                           None \<Rightarrow> Crashed
                         | Some (m, Some err) \<Rightarrow>
                             Done (Some m, Some raw, Some (plain_error (''failed to decode response: '' @ DecodeError_Error err)), s2)
                         | Some (m, None) \<Rightarrow> Done (sync_reply m raw s2)))))"

definition drop_raw :: "exchange \<Rightarrow> exchange" where
  "drop_raw x = (case x of (m, raw, e, s) \<Rightarrow> (m, None, e, s))"

definition doSendMessageSync :: "golib \<Rightarrow> range_order \<Rightarrow> sync_obs \<Rightarrow> Message \<Rightarrow> session \<Rightarrow> exchange io" where
  "doSendMessageSync G ro ob msg s = io_bind (doSendMessageSyncRaw G ro ob msg s) (\<lambda>x. Done (drop_raw x))"

text \<open>One retry after a reconnection, when the error says the connection is lost.\<close>

definition sendMessageSyncRaw :: "golib \<Rightarrow> range_order \<Rightarrow> (f64 \<Rightarrow> nat \<Rightarrow> int) \<Rightarrow> (f64 \<Rightarrow> int \<Rightarrow> int) \<Rightarrow> sync_obs \<Rightarrow> reconnect_entry
    \<Rightarrow> attempt_obs list \<Rightarrow> sync_obs \<Rightarrow> Message \<Rightarrow> session \<Rightarrow> exchange io" where
  "sendMessageSyncRaw G ro pow scale ob entry attempts ob' msg s =
     io_bind (doSendMessageSyncRaw G ro ob msg s) (\<lambda>x. case x of (resp, raw, err, s1) \<Rightarrow>
       if err \<noteq> None \<and> IsEnabled (cf_ReconnectConfig (ss_cfg s)) \<and> isFatalConnError err then
         io_bind (attemptReconnection G ro pow scale entry attempts err s1) (\<lambda>(ok, states, s2).
           if ok then doSendMessageSyncRaw G ro ob' msg s2 else Done (resp, raw, err, s2))
       else Done x)"

definition sendMessageSync :: "golib \<Rightarrow> range_order \<Rightarrow> (f64 \<Rightarrow> nat \<Rightarrow> int) \<Rightarrow> (f64 \<Rightarrow> int \<Rightarrow> int) \<Rightarrow> sync_obs \<Rightarrow> reconnect_entry
    \<Rightarrow> attempt_obs list \<Rightarrow> sync_obs \<Rightarrow> Message \<Rightarrow> session \<Rightarrow> exchange io" where
  "sendMessageSync G ro pow scale ob entry attempts ob' msg s =
     io_bind (sendMessageSyncRaw G ro pow scale ob entry attempts ob' msg s) (\<lambda>x. Done (drop_raw x))"

text \<open>
  The entry of \<open>SendMessage\<close> and \<open>SendMessageWithRaw\<close>: the identity of the connection, and a generated
  id for a message without one. Without a receiver the synchronous exchange follows, and the owners of
  its response are moved as the request asks; with one, the events of the request table do.
\<close>

definition prepare_message :: "golib \<Rightarrow> string \<Rightarrow> session \<Rightarrow> Message \<Rightarrow> go_error + Message" where
  "prepare_message G newId s msg =
     (case normalizeMessageFrom G s msg of
        Inl e \<Rightarrow> Inl e
      | Inr m \<Rightarrow> Inr (if m_MessageId m = [] then m\<lparr>m_MessageId := newId\<rparr> else m))"

definition SendMessageWithRaw :: "golib \<Rightarrow> range_order \<Rightarrow> (f64 \<Rightarrow> nat \<Rightarrow> int) \<Rightarrow> (f64 \<Rightarrow> int \<Rightarrow> int) \<Rightarrow> string \<Rightarrow> sync_obs
    \<Rightarrow> reconnect_entry \<Rightarrow> attempt_obs list \<Rightarrow> sync_obs \<Rightarrow> Message \<Rightarrow> session \<Rightarrow> exchange io" where
  "SendMessageWithRaw G ro pow scale newId ob entry attempts ob' msg s =
     (case prepare_message G newId s msg of
        Inl e \<Rightarrow> Done (None, None, Some e, s)
      | Inr m \<Rightarrow>
          io_bind (sendMessageSyncRaw G ro pow scale ob entry attempts ob' m s) (\<lambda>(resp, raw, err, s').
            Done (if err = None then ApplyTagOwnerOutput (Some m) resp else resp, raw, err, s')))"

definition SendMessage :: "golib \<Rightarrow> range_order \<Rightarrow> (f64 \<Rightarrow> nat \<Rightarrow> int) \<Rightarrow> (f64 \<Rightarrow> int \<Rightarrow> int) \<Rightarrow> string \<Rightarrow> sync_obs
    \<Rightarrow> reconnect_entry \<Rightarrow> attempt_obs list \<Rightarrow> sync_obs \<Rightarrow> Message \<Rightarrow> session \<Rightarrow> exchange io" where
  "SendMessage G ro pow scale newId ob entry attempts ob' msg s =
     io_bind (SendMessageWithRaw G ro pow scale newId ob entry attempts ob' msg s) (\<lambda>x. Done (drop_raw x))"

section \<open>The background receiver\<close>

text \<open>
  The receive loop: its session and request table, the states it reported, whether it still runs, and
  the flag \<open>receiverActive\<close>, by which a send decides to register its request.
\<close>

record receiver =
  rx_session :: session
  rx_table :: requests
  rx_states :: "state_event list"
  rx_running :: bool
  rx_active :: bool

text \<open>
  One turn: the receiver's context before and after the receive, the reads, the time since the last
  frame when the turn looks at it, and the reconnection it may start.
\<close>

record turn_obs =
  to_cancelled :: bool
  to_reads :: "read_obs list"
  to_cancelled_after :: bool
  to_idle :: int
  to_entry :: reconnect_entry
  to_attempts :: "attempt_obs list"

definition handleConnectionLost :: "go_error option \<Rightarrow> receiver \<Rightarrow> receiver" where
  "handleConnectionLost e r =
     r\<lparr>rx_states := rx_states r @ [(StateDisconnected, e)], rx_table := notifyPendingCallersConnectionLost (rx_table r)\<rparr>"

text \<open>The connection is gone: tell the callers, reconnect if configured, stop if that fails.\<close>

definition recover :: "golib \<Rightarrow> range_order \<Rightarrow> (f64 \<Rightarrow> nat \<Rightarrow> int) \<Rightarrow> (f64 \<Rightarrow> int \<Rightarrow> int) \<Rightarrow> turn_obs \<Rightarrow> go_error option
    \<Rightarrow> go_error option \<Rightarrow> receiver \<Rightarrow> receiver io" where
  "recover G ro pow scale ob cause trigger r =
     (let r1 = handleConnectionLost cause r in
      if IsEnabled (cf_ReconnectConfig (ss_cfg (rx_session r1))) then
        io_bind (attemptReconnection G ro pow scale (to_entry ob) (to_attempts ob) trigger (rx_session r1)) (\<lambda>(ok, states, s).
          Done (r1\<lparr>rx_session := s, rx_states := rx_states r1 @ states, rx_running := ok\<rparr>))
      else Done (r1\<lparr>rx_running := False\<rparr>))"

definition receive_turn :: "golib \<Rightarrow> range_order \<Rightarrow> (f64 \<Rightarrow> nat \<Rightarrow> int) \<Rightarrow> (f64 \<Rightarrow> int \<Rightarrow> int) \<Rightarrow> turn_obs \<Rightarrow> receiver
    \<Rightarrow> receiver io" where
  "receive_turn G ro pow scale ob r =
     (let s = rx_session r in
      if to_cancelled ob then Done (r\<lparr>rx_running := False\<rparr>)
      else if \<not> IsConnected (Some (ss_conn s)) then
        recover G ro pow scale ob (Some ErrConnectionLost_client) None r
      else io_bind (Receive G (to_reads ob) (ss_conn s) (ss_stream s)) (\<lambda>v.
        let r1 = r\<lparr>rx_session := s\<lparr>ss_conn := rv_client v, ss_stream := rv_rest v\<rparr>\<rparr> in
        case rv_err v of
          Some e \<Rightarrow>
            let liveness = GetConnectionLivenessTimeout (ss_cfg s) in
            if to_cancelled_after ob then Done (r1\<lparr>rx_running := False\<rparr>)
            else if IsIdleTimeout (Some e)
                 \<and> (liveness = 0 \<or> pendingCount (rx_table r1) = 0 \<or> to_idle ob \<le> liveness) then Done r1
            else recover G ro pow scale ob (Some e) (Some e) r1
        | None \<Rightarrow>
            (case receive_frame G ro (case rv_data v of Some b \<Rightarrow> b | None \<Rightarrow> []) (rx_table r1) of
               None \<Rightarrow> Crashed
             | Some t \<Rightarrow> Done (r1\<lparr>rx_table := t\<rparr>))))"

text \<open>
  The client in concurrent mode: turns of the receiver, the calls of its callers, and \<open>StopReceiver\<close>,
  with whether the loop returned before the wait for it ended.
\<close>

datatype client_event = Turn turn_obs | Call request_event | StopReceiver bool

fun caller_event :: "request_event \<Rightarrow> bool" where
  "caller_event (Frame b) = False"
| "caller_event ConnectionLost = False"
| "caller_event _ = True"

fun is_request :: "request_event \<Rightarrow> bool" where
  "is_request (Request kd mid) = True"
| "is_request _ = False"

definition stop_receiver :: "bool \<Rightarrow> receiver \<Rightarrow> receiver" where
  "stop_receiver returned r =
     (if \<not> rx_active r then r
      else r\<lparr>rx_active := False, rx_running := (rx_running r \<and> \<not> returned),
             rx_table := notifyPendingCallersConnectionLost (rx_table r)\<rparr>)"

fun client_do :: "golib \<Rightarrow> range_order \<Rightarrow> (f64 \<Rightarrow> nat \<Rightarrow> int) \<Rightarrow> (f64 \<Rightarrow> int \<Rightarrow> int) \<Rightarrow> client_event \<Rightarrow> receiver
    \<Rightarrow> receiver option" where
  "client_do G ro pow scale (Turn ob) r =
     (if rx_running r then (case receive_turn G ro pow scale ob r of Done r' \<Rightarrow> Some r' | _ \<Rightarrow> None) else None)"
| "client_do G ro pow scale (Call e) r =
     (if caller_event e \<and> (is_request e \<longrightarrow> rx_active r)
      then map_option (\<lambda>t. r\<lparr>rx_table := t\<rparr>) (request_do G ro e (rx_table r)) else None)"
| "client_do G ro pow scale (StopReceiver returned) r = Some (stop_receiver returned r)"

inductive client_step :: "golib \<Rightarrow> range_order \<Rightarrow> (f64 \<Rightarrow> nat \<Rightarrow> int) \<Rightarrow> (f64 \<Rightarrow> int \<Rightarrow> int) \<Rightarrow> client_event \<Rightarrow> receiver
    \<Rightarrow> receiver \<Rightarrow> bool" for G ro pow scale where
  "client_do G ro pow scale e r = Some r' \<Longrightarrow> client_step G ro pow scale e r r'"

inductive_cases client_stepE: "client_step G ro pow scale e r r'"

text \<open>A client as \<open>StartReceiver\<close> leaves it, with no request under way.\<close>

definition StartReceiver :: "session \<Rightarrow> receiver" where
  "StartReceiver s = \<lparr>rx_session = s, rx_table = no_requests, rx_states = [], rx_running = True, rx_active = True\<rparr>"

fun fresh_call :: "client_event \<Rightarrow> requests \<Rightarrow> bool" where
  "fresh_call (Call e) t = fresh_event e t"
| "fresh_call _ t = True"

inductive client_reachable :: "golib \<Rightarrow> range_order \<Rightarrow> (f64 \<Rightarrow> nat \<Rightarrow> int) \<Rightarrow> (f64 \<Rightarrow> int \<Rightarrow> int) \<Rightarrow> bool \<Rightarrow> receiver \<Rightarrow> bool"
  for G ro pow scale fresh where
  start: "client_reachable G ro pow scale fresh (StartReceiver s)"
| step: "client_reachable G ro pow scale fresh r \<Longrightarrow> fresh \<longrightarrow> fresh_call e (rx_table r)
    \<Longrightarrow> client_step G ro pow scale e r r' \<Longrightarrow> client_reachable G ro pow scale fresh r'"

end
