(* ===== verification/SessionProperties.thy ===== *)
theory SessionProperties
  imports Session TransportProperties
begin

text \<open>
  What holds of the client over its socket: the receiver as a refinement of the request table,
  reconnection, the handshake and the synchronous exchange.
\<close>

section \<open>The receiver\<close>

lemma io_bind_Done [simp]: "io_bind x f = Done y \<longleftrightarrow> (\<exists>a. x = Done a \<and> f a = Done y)"
  by (cases x) auto

text \<open>Recovering empties the table and ends the loop unless the reconnection succeeded.\<close>

lemma recover_Done:
  assumes "recover G ro pow scale ob cause trigger r = Done r'"
  shows "rx_table r' = notifyPendingCallersConnectionLost (rx_table r) \<and> rx_active r' = rx_active r
     \<and> (\<exists>es. rx_states r' = rx_states r @ (StateDisconnected, cause) # es)"
  using assms by (auto simp: recover_def handleConnectionLost_def Let_def split: if_splits prod.splits)

lemma receive_turn_cases:
  assumes "receive_turn G ro pow scale ob r = Done r'"
  obtains "rx_table r' = rx_table r" "rx_states r' = rx_states r" "rx_active r' = rx_active r"
      "rx_running r \<and> \<not> rx_running r' \<longrightarrow> to_cancelled ob \<or> to_cancelled_after ob"
  | b where "receive_frame G ro b (rx_table r) = Some (rx_table r')" "rx_states r' = rx_states r"
      "rx_active r' = rx_active r" "rx_running r' = rx_running r"
  | c es where "rx_table r' = notifyPendingCallersConnectionLost (rx_table r)" "rx_active r' = rx_active r"
      "rx_states r' = rx_states r @ (StateDisconnected, c) # es"
proof -
  let ?s = "rx_session r"
  show ?thesis
  proof (cases "to_cancelled ob \<or> \<not> IsConnected (Some (ss_conn ?s))")
    case True
    then show ?thesis using assms that(1) that(3)
      by (auto simp: receive_turn_def Let_def dest!: recover_Done split: if_splits)
  next
    case False
    then obtain v where v: "Receive G (to_reads ob) (ss_conn ?s) (ss_stream ?s) = Done v"
      using assms by (auto simp: receive_turn_def Let_def)
    show ?thesis
    proof (cases "rv_err v")
      case None
      then show ?thesis using assms False v that(2)
        by (auto simp: receive_turn_def Let_def split: option.splits)
    next
      case (Some e)
      then show ?thesis using assms False v that(1) that(3)
        by (auto simp: receive_turn_def Let_def dest!: recover_Done split: if_splits)
    qed
  qed
qed

lemma client_step_table:
  assumes "client_step G ro pow scale e r r'"
  shows "rx_table r' = rx_table r \<or> (\<exists>c. request_step G ro c (rx_table r) (rx_table r')
     \<and> (fresh_call e (rx_table r) \<longrightarrow> fresh_event c (rx_table r)))"
proof -
  from assms have d: "client_do G ro pow scale e r = Some r'" by (rule client_stepE)
  have lost: "request_step G ro ConnectionLost t (notifyPendingCallersConnectionLost t)" for t
    by (simp add: request_step.intros)
  show ?thesis
  proof (cases e)
    case (Turn ob)
    then have "receive_turn G ro pow scale ob r = Done r'" using d by (auto split: if_splits io.splits)
    then show ?thesis
    proof (cases rule: receive_turn_cases)
      case (2 b)
      then have "request_step G ro (Frame b) (rx_table r) (rx_table r')" by (simp add: request_step.intros)
      then show ?thesis using fresh_event.simps(4) by blast
    next
      case (3 c es)
      then show ?thesis using lost [of "rx_table r"] fresh_event.simps(5) by metis
    qed simp
  next
    case (Call c)
    then have "request_step G ro c (rx_table r) (rx_table r')"
      using d by (auto split: if_splits intro!: request_step.intros)
    then show ?thesis using Call by auto
  next
    case (StopReceiver b)
    then show ?thesis using d lost [of "rx_table r"] fresh_event.simps(5)
      by (cases "rx_active r") (auto simp: stop_receiver_def)
  qed
qed

lemma client_reachable_table: "client_reachable G ro pow scale fresh r \<Longrightarrow> requests_reachable G ro fresh (rx_table r)"
proof (induction rule: client_reachable.induct)
  case (start s)
  then show ?case by (simp add: StartReceiver_def requests_reachable.init)
next
  case (step r e r')
  then show ?case using client_step_table [OF step(3)] requests_reachable.step by metis
qed

text \<open>What \<open>receiverActive\<close>, the callers and the loop can do to a caller without a receiver.\<close>

definition unheard :: "requests \<Rightarrow> nat \<Rightarrow> bool" where
  "unheard t i \<longleftrightarrow> i < length (rq_callers t) \<and> ca_buffer (rq_callers t ! i) = None \<and> \<not> ca_closed (rq_callers t ! i)"

lemma unheard_call: "request_do G ro e t = Some t' \<Longrightarrow> caller_event e \<Longrightarrow> unheard t i \<Longrightarrow> unheard t' i"
  by (cases e) (auto simp: unheard_def nth_append split: if_splits)

fun is_stop :: "client_event \<Rightarrow> bool" where
  "is_stop (StopReceiver b) = True"
| "is_stop _ = False"

lemma unheard_step:
  assumes "client_step G ro pow scale e r r'" "\<not> is_stop e" "\<not> rx_running r" "unheard (rx_table r) i"
  shows "\<not> rx_running r' \<and> unheard (rx_table r') i"
proof (cases e)
  case (Call c)
  then have "request_do G ro c (rx_table r) = Some (rx_table r')" "caller_event c" "rx_running r' = rx_running r"
    using assms(1) by (auto elim!: client_stepE split: if_splits)
  then show ?thesis using unheard_call assms(3,4) by blast
qed (use assms in \<open>auto elim!: client_stepE\<close>)

section \<open>Reconnection\<close>

lemma retry_loop_Object: "rr_result (retry_loop pow r f k e) = Object x \<Longrightarrow> \<exists>j. f j = Success x"
proof (induction pow r f k e rule: retry_loop.induct)
  case (1 pow r f k e)
  then show ?case
    by (cases "int k \<le> rt_Retries r"; cases "f k") (auto simp: retry_loop.simps [of pow r f k e] Let_def)
qed

lemma Retry_Object: "rr_result (Retry pow r (Some f)) = Object x \<Longrightarrow> \<exists>k. f k = Success x"
  by (cases r; cases "f 0") (auto simp: Retry_def intro: retry_loop_Object)

lemma Reconnect_address [simp]:
  "tr_Network (snd (Reconnect pow retry dial c)) = tr_Network c" "tr_Host (snd (Reconnect pow retry dial c)) = tr_Host c"
  "tr_Port (snd (Reconnect pow retry dial c)) = tr_Port c"
  by (simp_all add: Reconnect_def Let_def Close_def split: retried.splits)

lemma Reconnect_refused:
  assumes "\<forall>k x. dial (tr_Network c) (JoinHostPort (tr_Host c) (tr_Port c)) k \<noteq> Success x"
  shows "fst (Reconnect pow retry dial c) \<noteq> None \<and> \<not> IsConnected (Some (snd (Reconnect pow retry dial c)))"
proof -
  have "rr_result (Retry pow retry (Some (dial (tr_Network c) (JoinHostPort (tr_Host c) (tr_Port c))))) \<noteq> Object x" for x
    using Retry_Object [of pow retry "dial (tr_Network c) (JoinHostPort (tr_Host c) (tr_Port c))" x] assms by blast
  then show ?thesis
    by (cases "rr_result (Retry pow retry (Some (dial (tr_Network c) (JoinHostPort (tr_Host c) (tr_Port c)))))")
      (auto simp: Reconnect_def Let_def IsConnected_def split: retried.splits option.splits)
qed

lemma reconnect_attempt_refused:
  assumes "\<forall>k x. ao_dial ob (tr_Network (ss_conn s)) (JoinHostPort (tr_Host (ss_conn s)) (tr_Port (ss_conn s))) k \<noteq> Success x"
  obtains e where "reconnect_attempt G ro pow ob s =
    Done (Some e, s\<lparr>ss_conn := snd (Reconnect pow (ss_retry s) (ao_dial ob) (ss_conn s))\<rparr>)"
  using Reconnect_refused [of "ao_dial ob" "ss_conn s" pow "ss_retry s"] assms
  by (cases "Reconnect pow (ss_retry s) (ao_dial ob) (ss_conn s)") (auto simp: reconnect_attempt_def)

text \<open>What \<open>Close\<close> leaves of the address, which no failed attempt restores.\<close>

definition address_lost :: "session \<Rightarrow> bool" where
  "address_lost s \<longleftrightarrow> tr_Network (ss_conn s) = [] \<and> tr_Host (ss_conn s) = [] \<and> tr_Port (ss_conn s) = []
     \<and> \<not> IsConnected (Some (ss_conn s))"

definition refuses_empty_address :: "dialer \<Rightarrow> bool" where
  "refuses_empty_address dial \<longleftrightarrow> (\<forall>k x. dial [] '':'' k \<noteq> Success x)"

lemma reconnect_attempt_lost:
  assumes "address_lost s" "refuses_empty_address (ao_dial ob)"
  obtains e s' where "reconnect_attempt G ro pow ob s = Done (Some e, s')" "address_lost s'" "ss_cfg s' = ss_cfg s"
proof -
  have r: "\<forall>k x. ao_dial ob (tr_Network (ss_conn s)) (JoinHostPort (tr_Host (ss_conn s)) (tr_Port (ss_conn s))) k \<noteq> Success x"
    using assms by (simp add: address_lost_def refuses_empty_address_def JoinHostPort_def)
  let ?s = "s\<lparr>ss_conn := snd (Reconnect pow (ss_retry s) (ao_dial ob) (ss_conn s))\<rparr>"
  have "address_lost ?s"
    using assms(1) Reconnect_refused [of "ao_dial ob" "ss_conn s" pow "ss_retry s"] r by (simp add: address_lost_def)
  moreover obtain e where "reconnect_attempt G ro pow ob s = Done (Some e, ?s)"
    by (rule reconnect_attempt_refused [OF r])
  ultimately show ?thesis using that [of e ?s] by simp
qed


lemma reconnect_loop_lost:
  assumes "list_all (\<lambda>ob. refuses_empty_address (ao_dial ob)) obs" "address_lost s"
  shows "(\<forall>r. reconnect_loop G ro pow scale obs n d e s = Done r \<longrightarrow> \<not> rn_success r \<and> address_lost (rn_session r))
     \<and> (0 < rc_MaxRetries (cf_ReconnectConfig (ss_cfg s)) \<longrightarrow>
          rc_MaxRetries (cf_ReconnectConfig (ss_cfg s)) \<le> int (n + length obs) \<longrightarrow>
          (\<exists>r. reconnect_loop G ro pow scale obs n d e s = Done r))"
  using assms
proof (induction obs arbitrary: n d e s)
  case Nil
  then show ?case by (auto simp: reconnect_done_def Let_def)
next
  case (Cons ob obs)
  have l: "refuses_empty_address (ao_dial ob)" using Cons.prems(1) by simp
  obtain e' s' where a: "reconnect_attempt G ro pow ob s = Done (Some e', s')" "address_lost s'" "ss_cfg s' = ss_cfg s"
    by (rule reconnect_attempt_lost [OF Cons.prems(2) l])
  show ?case using Cons a Cons.IH [of s' "Suc n" "next_backoff scale (cf_ReconnectConfig (ss_cfg s)) d" "Some e'"]
    by (auto simp: reconnect_done_def add_sleep_def Let_def)
qed

text \<open>Nobody answers at the address the client holds.\<close>

definition refused_attempt :: "transport \<Rightarrow> attempt_obs \<Rightarrow> bool" where
  "refused_attempt c ob \<longleftrightarrow> \<not> ao_cancelled ob \<and> \<not> ao_closed ob \<and> \<not> ao_cancelled_wait ob
     \<and> (\<forall>k x. ao_dial ob (tr_Network c) (JoinHostPort (tr_Host c) (tr_Port c)) k \<noteq> Success x)"

definition same_address :: "transport \<Rightarrow> transport \<Rightarrow> bool" where
  "same_address c c' \<longleftrightarrow> (tr_Network c', tr_Host c', tr_Port c') = (tr_Network c, tr_Host c, tr_Port c)"

lemma reconnect_loop_refused:
  assumes "list_all (refused_attempt (ss_conn s)) obs" "rc_MaxRetries (cf_ReconnectConfig (ss_cfg s)) = int (n + length obs)"
    and "0 < n + length obs" "n = 0 \<or> e \<noteq> None"
  shows "\<exists>r. reconnect_loop G ro pow scale obs n d e s = Done r \<and> \<not> rn_success r \<and> rn_error r \<noteq> None
     \<and> rn_attempts r = n + length obs
     \<and> rn_sleeps r = map (\<lambda>k. (next_backoff scale (cf_ReconnectConfig (ss_cfg s)) ^^ k) d) [0..<length obs]
     \<and> same_address (ss_conn s) (ss_conn (rn_session r))"
  using assms
proof (induction obs arbitrary: n d e s)
  case Nil
  then show ?case by (auto simp: reconnect_done_def same_address_def Let_def)
next
  case (Cons ob obs)
  let ?c = "snd (Reconnect pow (ss_retry s) (ao_dial ob) (ss_conn s))"
  obtain e' where a: "reconnect_attempt G ro pow ob s = Done (Some e', s\<lparr>ss_conn := ?c\<rparr>)"
    using reconnect_attempt_refused [of ob s G ro pow] Cons.prems(1) by (auto simp: refused_attempt_def)
  have "list_all (refused_attempt ?c) obs"
    using Cons.prems(1) by (simp add: refused_attempt_def list_all_iff)
  then obtain r where r: "reconnect_loop G ro pow scale obs (Suc n) (next_backoff scale (cf_ReconnectConfig (ss_cfg s)) d) (Some e') (s\<lparr>ss_conn := ?c\<rparr>) = Done r"
      "\<not> rn_success r" "rn_error r \<noteq> None" "rn_attempts r = Suc n + length obs"
      "rn_sleeps r = map (\<lambda>k. (next_backoff scale (cf_ReconnectConfig (ss_cfg s)) ^^ k) (next_backoff scale (cf_ReconnectConfig (ss_cfg s)) d)) [0..<length obs]"
      "same_address ?c (ss_conn (rn_session r))"
    using Cons.IH [of "s\<lparr>ss_conn := ?c\<rparr>" "Suc n" "Some e'" "next_backoff scale (cf_ReconnectConfig (ss_cfg s)) d"] Cons.prems(2)
    by auto
  have "map (\<lambda>k. (next_backoff scale (cf_ReconnectConfig (ss_cfg s)) ^^ k) d) [0..<length (ob # obs)] = d # rn_sleeps r"
    by (simp add: r(5) upt_conv_Cons map_Suc_upt [symmetric] funpow_Suc_right del: upt_Suc funpow.simps)
  then show ?case using a r Cons.prems(1,2)
    by (auto simp: add_sleep_def Let_def refused_attempt_def same_address_def)
qed

section \<open>The synchronous exchange\<close>

text \<open>A socket that takes at least a byte with every write.\<close>

definition accepting :: "write_obs list \<Rightarrow> string \<Rightarrow> bool" where
  "accepting obs dat \<longleftrightarrow> list_all (\<lambda>(n, e). 0 < n \<and> e = None) obs \<and> length dat \<le> length obs"

lemma send_loop_accepting:
  assumes "list_all (\<lambda>(n, e). 0 < n \<and> e = None) obs" "sent \<le> length dat" "length dat \<le> length obs + sent"
  shows "send_loop obs dat sent z = Done (length dat, None, drop sent dat)"
  using assms
proof (induction obs arbitrary: sent z)
  case (Cons ob obs)
  obtain k where ob: "ob = (k, None)" "0 < k" using Cons.prems(1) by (cases ob) auto
  show ?case
  proof (cases "sent < length dat")
    case True
    let ?out = "take k (drop sent dat)"
    have l: "0 < length ?out" "sent + length ?out \<le> length dat" "length dat \<le> length obs + (sent + length ?out)"
      using True ob(2) Cons.prems(3) by auto
    have "send_loop obs dat (sent + length ?out) 0 = Done (length dat, None, drop (sent + length ?out) dat)"
      using Cons.prems(1) l by (intro Cons.IH) auto
    moreover have "?out @ drop (sent + length ?out) dat = drop sent dat"
      by (metis append_take_drop_id add.commute drop_drop length_take min_def take_all nat_le_linear drop_all append_Nil2)
    ultimately show ?thesis using True l(1) ob by (auto simp: Let_def)
  qed (use Cons.prems(2) ob in simp)
qed simp

lemma send_bytes_accepting:
  assumes "IsConnected (Some (ss_conn s))" "accepting obs bytes" "bytes \<noteq> []"
  shows "send_bytes what obs bytes s = Done (None, s)"
  using assms send_loop_accepting [of obs 0 bytes 0]
  by (simp add: send_bytes_def Send_def IsConnected_def accepting_def)

text \<open>Successive calls of \<open>doSendMessageSync\<close> on one connection.\<close>

fun sync_calls :: "golib \<Rightarrow> range_order \<Rightarrow> (sync_obs \<times> Message) list \<Rightarrow> session \<Rightarrow> (Message option list \<times> session) io" where
  "sync_calls G ro [] s = Done ([], s)"
| "sync_calls G ro ((ob, m) # cs) s =
     io_bind (doSendMessageSync G ro ob m s) (\<lambda>(resp, raw, e, s').
       io_bind (sync_calls G ro cs s') (\<lambda>(rs, s''). Done (resp # rs, s'')))"

definition answered_by :: "golib \<Rightarrow> range_order \<Rightarrow> sync_obs \<times> Message \<Rightarrow> string \<times> Message \<Rightarrow> bool" where
  "answered_by G ro call answer \<longleftrightarrow>
     (case (call, answer) of ((ob, m), (f, r)) \<Rightarrow>
        (case EncodeMessage G (so_now ob) (Some m) of
           Returned sm \<Rightarrow> sm_MessageBytes sm \<noteq> [] \<and> accepting (so_writes ob) (sm_MessageBytes sm)
         | _ \<Rightarrow> False)
        \<and> encoded_frame f \<and> list_all flowing (so_reads ob) \<and> length f \<le> length (so_reads ob)
        \<and> DecodeMessage G ro f = Some (r, None))"

lemma doSendMessageSync_answered:
  assumes "IsConnected (Some (ss_conn s))" "0 < tr_ReceiveChunkSize (ss_conn s)"
    and "answered_by G ro (ob, m) (f, r)" "ss_stream s = f @ rest"
  shows "doSendMessageSync G ro ob m s = Done (Some r, None, map_option plain_error (response_error r), s\<lparr>ss_stream := rest\<rparr>)"
proof -
  obtain sm where sm: "EncodeMessage G (so_now ob) (Some m) = Returned sm" "sm_MessageBytes sm \<noteq> []"
      "accepting (so_writes ob) (sm_MessageBytes sm)"
    using assms(3) by (auto simp: answered_by_def split: outcome.splits)
  have "Receive G (so_reads ob) (ss_conn s) (f @ rest) = received (Some f) (length f) None rest (ss_conn s)"
    using assms(1-3) wire.frame_long wire.frame_announced by (intro Receive_flowing) (auto simp: answered_by_def)
  then show ?thesis
    using assms sm send_bytes_accepting [OF assms(1) sm(3,2)]
    by (simp add: doSendMessageSync_def doSendMessageSyncRaw_def received_def answered_by_def drop_raw_def sync_reply_def Let_def)
qed

section \<open>The identification\<close>

text \<open>Without a user name the passcode is not on the wire.\<close>

lemma encode_without_user:
  assumes "m_UserName m = []" "in_Name (m_Intent m) = ''GatewayId'' \<or> in_Name (m_Intent m) = ''GatewayStreamOn''"
  shows "EncodeMessage G now (Some (m\<lparr>m_Passcode := p\<rparr>)) = EncodeMessage G now (Some m)"
proof -
  let ?m = "m\<lparr>m_Passcode := p\<rparr>"
  have "ConstructHeader G now ?m (m_Intent ?m) = ConstructHeader G now m (m_Intent m)"
    using assms by (auto simp: ConstructHeader_def GatewayIdentifyConnectionHeader_def GatewayStreamOnHeader_def msg_id_tail_def)
  moreover have "PayloadData ?m = PayloadData m" "Tags ?m = Tags m" "Link ?m = Link m"
    by (simp_all add: PayloadData_def Tags_def Link_def)
  moreover from this have "encode_payload G ?m = encode_payload G m" by (simp add: encode_payload_def Let_def)
  moreover from this calculation have "check_link_event ?m = check_link_event m" "check_to ?m = check_to m" "check_from ?m = check_from m"
    by (simp_all add: check_link_event_def check_to_def check_from_def Let_def)
  moreover have "encode_frame ?m = encode_frame m"
    by (intro ext) (simp add: encode_frame_def frame_def total_length_def payloadDataType_def)
  ultimately show ?thesis by (simp add: EncodeMessage.simps(2))
qed

section \<open>Properties\<close>


text \<open>
  Claim C24. Without reconnection the liveness check leaves requests to nobody: when it finds the
  connection dead, the loop ends, but the client still counts as connected and \<open>receiverActive\<close> stays
  set. A request made after that is sent and registered, and until \<open>StopReceiver\<close> no event but its own
  timeout ends its wait.
\<close>

theorem liveness_without_reconnection_orphans_requests:
  assumes "receive_turn G ro pow scale ob r = Done r'" and "rx_active r" and "\<not> to_cancelled ob" "\<not> to_cancelled_after ob"
    and "IsConnected (Some (ss_conn (rx_session r)))"
    and "Receive G (to_reads ob) (ss_conn (rx_session r)) (ss_stream (rx_session r)) = Done v" and "IsIdleTimeout (rv_err v)"
    and "\<not> IsEnabled (cf_ReconnectConfig (ss_cfg (rx_session r)))"
    and "0 < GetConnectionLivenessTimeout (ss_cfg (rx_session r))"
    and "GetConnectionLivenessTimeout (ss_cfg (rx_session r)) < to_idle ob" and "pendingCount (rx_table r) \<noteq> 0"
    and "(\<lambda>a b. \<exists>e. \<not> is_stop e \<and> client_step G ro pow scale e a b)\<^sup>*\<^sup>*
           (r'\<lparr>rx_table := register_request kd mid (rx_table r')\<rparr>) r2"
  shows "\<not> rx_running r' \<and> rx_active r' \<and> IsConnected (Some (ss_conn (rx_session r')))
     \<and> request_do G ro (Answer (length (rq_callers (rx_table r')))) (rx_table r2) = None"
proof -
  obtain e where e: "rv_err v = Some e" "IsIdleTimeout (Some e)"
    using assms(7) by (cases "rv_err v") (auto simp: IsIdleTimeout_def)
  have c: "rv_client v = ss_conn (rx_session r)"
    using receive_outcome [OF assms(6)] assms(7) e by auto
  have r': "\<not> rx_running r'" "rx_active r'" "IsConnected (Some (ss_conn (rx_session r')))"
    using assms(1-5,8-11) e c assms(6)
    by (auto simp: receive_turn_def recover_def handleConnectionLost_def Let_def split: if_splits)
  have "\<not> rx_running r2 \<and> unheard (rx_table r2) (length (rq_callers (rx_table r')))"
    using assms(12)
    by (induction rule: rtranclp_induct) (auto simp: r'(1) unheard_def nth_append dest!: unheard_step)
  then show ?thesis using r' by (auto simp: unheard_def await_response_def)
qed

text \<open>
  Claim C18. A failed handshake ends reconnection: when an attempt gets a socket but the identification
  on it fails, the client closes the connection and with it loses the address. If nobody answers at
  the empty address, no later attempt succeeds, whatever the gateway does by then, and a bounded loop
  runs until it gives up.
\<close>

theorem failed_handshake_ends_reconnection:
  assumes "reconnect_attempt G ro pow ob s = Done (Some e, s1)"
    and "fst (Reconnect pow (ss_retry s) (ao_dial ob) (ss_conn s)) = None"
    and "list_all (\<lambda>a. refuses_empty_address (ao_dial a)) obs"
  shows "address_lost s1
     \<and> (\<forall>r. reconnect_loop G ro pow scale obs n d err s1 = Done r \<longrightarrow> \<not> rn_success r \<and> address_lost (rn_session r))
     \<and> (0 < rc_MaxRetries (cf_ReconnectConfig (ss_cfg s1)) \<longrightarrow>
          rc_MaxRetries (cf_ReconnectConfig (ss_cfg s1)) \<le> int (n + length obs) \<longrightarrow>
          (\<exists>r. reconnect_loop G ro pow scale obs n d err s1 = Done r))"
proof -
  obtain c where c: "Reconnect pow (ss_retry s) (ao_dial ob) (ss_conn s) = (None, c)"
    using assms(2) by (metis prod.collapse)
  then obtain e' s' where "Some e = e'" "s1 = s'\<lparr>ss_conn := Close (ss_conn s')\<rparr>"
    using assms(1) by (auto simp: reconnect_attempt_def split: option.splits)
  then have "address_lost s1" by (simp add: address_lost_def Close_def IsConnected_def)
  then show ?thesis using reconnect_loop_lost [OF assms(3) \<open>address_lost s1\<close>, of G ro pow scale n d err] by simp
qed

text \<open>
  Claim C26. An unreachable gateway: when every dial of the client's address is refused and nobody
  cancels, reconnection ends after exactly \<open>MaxRetries\<close> attempts with the error of the last dial. It
  waits after each, first \<open>InitialBackoff\<close>, then each time the multiplied wait, never more than
  \<open>MaxBackoff\<close> except perhaps the first, and keeps the address for a later call.
\<close>

theorem unreachable_gateway_exhausts_attempts:
  assumes "0 < rc_MaxRetries (cf_ReconnectConfig (ss_cfg s))"
    and "length obs = nat (rc_MaxRetries (cf_ReconnectConfig (ss_cfg s)))"
    and "list_all (refused_attempt (ss_conn s)) obs"
  shows "\<exists>es s'. attemptReconnection G ro pow scale EntryStarts obs trigger s =
       Done (False, [(StateReconnecting, trigger), (StateReconnectFailed, Some es)], s') \<and> same_address (ss_conn s) (ss_conn s')
     \<and> (\<exists>r. reconnect_loop G ro pow scale obs 0 (GetInitialBackoff (cf_ReconnectConfig (ss_cfg s))) None s = Done r
          \<and> rn_session r = s' \<and> int (rn_attempts r) = rc_MaxRetries (cf_ReconnectConfig (ss_cfg s))
          \<and> length (rn_sleeps r) = rn_attempts r \<and> hd (rn_sleeps r) = GetInitialBackoff (cf_ReconnectConfig (ss_cfg s))
          \<and> list_all (\<lambda>d. d \<le> GetMaxBackoff (cf_ReconnectConfig (ss_cfg s))) (tl (rn_sleeps r)))"
proof -
  let ?c = "cf_ReconnectConfig (ss_cfg s)"
  obtain r where r: "reconnect_loop G ro pow scale obs 0 (GetInitialBackoff ?c) None s = Done r"
      "\<not> rn_success r" "rn_error r \<noteq> None" "rn_attempts r = length obs"
      "rn_sleeps r = map (\<lambda>k. (next_backoff scale ?c ^^ k) (GetInitialBackoff ?c)) [0..<length obs]"
      "same_address (ss_conn s) (ss_conn (rn_session r))"
    using reconnect_loop_refused [of s obs 0 None G ro pow scale "GetInitialBackoff ?c"] assms by auto
  have "(next_backoff scale ?c ^^ k) d \<le> GetMaxBackoff ?c" if "0 < k" for k d
    using that by (cases k) (auto simp: next_backoff_def Let_def)
  then have "list_all (\<lambda>d. d \<le> GetMaxBackoff ?c) (tl (rn_sleeps r))"
    by (auto simp: r(5) list_all_iff map_tl [symmetric] simp del: upt_Suc)
  moreover have "hd (rn_sleeps r) = GetInitialBackoff ?c" using assms(1,2) by (simp add: r(5) hd_map)
  ultimately show ?thesis using r assms(1,2) by (auto simp: attemptReconnection_def)
qed

text \<open>
  Claim C25. Synchronous calls take replies by position: on a connection that delivers, the calls
  return the replies of the stream one by one in its order, whatever their message ids. So they match
  their requests when the stream starts with the first reply, and are all off by one when an earlier
  call gave up before its reply arrived.
\<close>

theorem sync_replies_by_position:
  assumes "IsConnected (Some (ss_conn s))" and "0 < tr_ReceiveChunkSize (ss_conn s)"
    and "list_all2 (answered_by G ro) calls replies" and "ss_stream s = concat (map fst replies) @ rest"
  shows "sync_calls G ro calls s = Done (map (Some \<circ> snd) replies, s\<lparr>ss_stream := rest\<rparr>)"
  using assms(3,1,2,4)
proof (induction calls replies arbitrary: s rule: list_all2_induct)
  case (Cons call calls reply replies)
  obtain ob m f r where x: "call = (ob, m)" "reply = (f, r)" by (cases call; cases reply)
  have "doSendMessageSync G ro ob m s = Done (Some r, None, map_option plain_error (response_error r),
      s\<lparr>ss_stream := concat (map fst replies) @ rest\<rparr>)"
    using Cons.prems Cons.hyps(1) x by (intro doSendMessageSync_answered) auto
  then show ?case using Cons.IH [of "s\<lparr>ss_stream := concat (map fst replies) @ rest\<rparr>"] Cons.prems x by simp
qed simp

text \<open>
  Claim C27. The passcode is never sent: the frames of the handshake are the same for every passcode of
  the configuration, because the header writes it only with a user name, which no configuration has.
  The identification consists of the client name and the message id.
\<close>

theorem passcode_never_sent:
  "EncodeMessage G now (Some (id_message now mid (cfg\<lparr>cf_Passcode := p\<rparr>) actor name))
     = EncodeMessage G now (Some (id_message now mid cfg actor name))
   \<and> EncodeMessage G now (Some (stream_on_message mid (cfg\<lparr>cf_Passcode := p\<rparr>) actor name))
     = EncodeMessage G now (Some (stream_on_message mid cfg actor name))
   \<and> GatewayIdentifyConnectionHeader (id_message now mid cfg actor name)
     = ''id:name='' @ name @ [TAB] @ (if mid = [] then [] else ''_msg_id='' @ mid)"
proof -
  have i: "m_UserName (id_message now mid cfg actor name) = []" "in_Name (m_Intent (id_message now mid cfg actor name)) = ''GatewayId''"
    "id_message now mid (cfg\<lparr>cf_Passcode := p\<rparr>) actor name = (id_message now mid cfg actor name)\<lparr>m_Passcode := p\<rparr>"
    by (simp_all add: id_message_def zero_Message_def IT_GatewayId_def mk_intent_def)
  have o: "m_UserName (stream_on_message mid cfg actor name) = []"
    "in_Name (m_Intent (stream_on_message mid cfg actor name)) = ''GatewayStreamOn''"
    "stream_on_message mid (cfg\<lparr>cf_Passcode := p\<rparr>) actor name = (stream_on_message mid cfg actor name)\<lparr>m_Passcode := p\<rparr>"
    by (simp_all add: stream_on_message_def zero_Message_def IT_GatewayStreamOn_def mk_intent_def)
  show ?thesis using i o
    by (simp add: encode_without_user GatewayIdentifyConnectionHeader_def kv_def msg_id_tail_def)
      (simp add: id_message_def)
qed

section \<open>Witnesses\<close>

definition sample_config :: Config where
  "sample_config = zero_Config\<lparr>cf_Network := ''tcp'', cf_Host := ''h'', cf_Port := ''62312'', cf_GatewayActorName := ''gw'',
     cf_ClientName := ''me'', cf_Passcode := ''secret'',
     cf_ReconnectConfig := \<lparr>rc_Enabled = Some False, rc_MaxRetries = 2, rc_InitialBackoff = 0, rc_BackoffMultiplier = zero_f64,
       rc_MaxBackoff = 0\<rparr>\<rparr>"

definition sample_session :: session where
  "sample_session = \<lparr>ss_conn = sample_transport, ss_stream = [], ss_cfg = sample_config, ss_retry = None,
     ss_gatewayActorName = ''gw'', ss_clientName = ''me''\<rparr>"

definition sample_double :: "f64 \<Rightarrow> int \<Rightarrow> int" where
  "sample_double m d = 2 * d"

definition sample_pow :: "f64 \<Rightarrow> nat \<Rightarrow> int" where
  "sample_pow m k = 2 ^ k"

definition sample_turn :: "read_obs list \<Rightarrow> int \<Rightarrow> turn_obs" where
  "sample_turn reads idle = \<lparr>to_cancelled = False, to_reads = reads, to_cancelled_after = False, to_idle = idle,
     to_entry = EntryClosed, to_attempts = []\<rparr>"

definition sample_timeout :: read_obs where
  "sample_timeout = (sample_read 0)\<lparr>ob_ctx := Some (OtherError ''context deadline exceeded'' None)\<rparr>"

definition sample_receiver :: "session \<Rightarrow> receiver" where
  "sample_receiver s = (StartReceiver s)\<lparr>rx_table := register_request Plain ''m1'' no_requests\<rparr>"

lemma sample_receiver_reachable: "client_reachable G ro pow scale fresh (sample_receiver s)"
proof (rule client_reachable.step [OF client_reachable.start [of G ro pow scale fresh s], of "Call (Request Plain ''m1'')"])
  show "client_step G ro pow scale (Call (Request Plain ''m1'')) (StartReceiver s) (sample_receiver s)"
    by (rule client_step.intros) (simp add: StartReceiver_def sample_receiver_def)
qed (simp add: StartReceiver_def no_requests_def)


theorem liveness_without_reconnection_orphans_requests_witness:
  "\<exists>r'. receive_turn sample_lib sample_order sample_pow sample_double (sample_turn [sample_timeout] (91 * Second))
       (sample_receiver sample_session) = Done r'
     \<and> \<not> rx_running r' \<and> IsConnected (Some (ss_conn (rx_session r')))
     \<and> request_do sample_lib sample_order (Answer 1)
         (update_caller 1 (\<lambda>c. c\<lparr>ca_state := Waiting\<rparr>) (register_request Plain ''m2'' (rx_table r'))) = None"
proof -
  let ?t = "sample_turn [sample_timeout] (91 * Second)" and ?r = "sample_receiver sample_session"
  let ?v = "\<lparr>rv_total = 0, rv_data = None, rv_err = Some (idle_timeout (ob_ctx sample_timeout)), rv_rest = [],
    rv_client = sample_transport\<rparr>"
  have v: "Receive sample_lib (to_reads ?t) (ss_conn (rx_session ?r)) (ss_stream (rx_session ?r)) = Done ?v"
    by (simp add: sample_turn_def sample_receiver_def StartReceiver_def sample_session_def Receive_def sample_transport_def
        sample_timeout_def received_def)
  have r: "IsConnected (Some (ss_conn (rx_session ?r)))" "rx_active ?r" "\<not> IsEnabled (cf_ReconnectConfig (ss_cfg (rx_session ?r)))"
    "0 < GetConnectionLivenessTimeout (ss_cfg (rx_session ?r))"
    "GetConnectionLivenessTimeout (ss_cfg (rx_session ?r)) < to_idle ?t" "pendingCount (rx_table ?r) \<noteq> 0"
    "\<not> to_cancelled ?t" "\<not> to_cancelled_after ?t" "IsIdleTimeout (rv_err ?v)"
    by code_simp+
  obtain r' where r': "receive_turn sample_lib sample_order sample_pow sample_double ?t ?r = Done r'"
      "length (rq_callers (rx_table r')) = 1"
    using r v by (simp add: receive_turn_def recover_def handleConnectionLost_def Let_def)
      (simp add: sample_receiver_def no_requests_def)
  let ?q = "r'\<lparr>rx_table := register_request Plain ''m2'' (rx_table r')\<rparr>"
  let ?w = "?q\<lparr>rx_table := update_caller 1 (\<lambda>c. c\<lparr>ca_state := Waiting\<rparr>) (rx_table ?q)\<rparr>"
  have "client_step sample_lib sample_order sample_pow sample_double (Call (RequestSent 1)) ?q ?w"
    by (rule client_step.intros) (simp add: r'(2) nth_append)
  then have "(\<lambda>a b. \<exists>e. \<not> is_stop e \<and> client_step sample_lib sample_order sample_pow sample_double e a b)\<^sup>*\<^sup>* ?q ?w"
    by (intro r_into_rtranclp exI [of _ "Call (RequestSent 1)"]) simp
  from liveness_without_reconnection_orphans_requests [OF r'(1) r(2,7,8,1) v r(9,3,4,5,6) this] r' show ?thesis
    by (simp del: request_do.simps)
qed

definition sample_failing_attempt :: attempt_obs where
  "sample_failing_attempt = \<lparr>ao_cancelled = False, ao_closed = False, ao_dial = (\<lambda>n a k. if n = ''tcp'' then Success 7
       else Failure (OtherError ''dial: unknown network'' None)), ao_peer = [],
     ao_handshake = \<lparr>ho_now = 0, ho_id = ''i1'', ho_writes = [(0, Some (OtherError ''broken pipe'' None))], ho_reads = [],
       ho_on_id = ''i2'', ho_on_writes = []\<rparr>, ao_cancelled_wait = False\<rparr>"

theorem failed_handshake_ends_reconnection_witness:
  "\<exists>s1 r. reconnect_attempt sample_lib sample_order sample_pow sample_failing_attempt sample_session
       = Done (Some (wrapped ''failed to send ID message: '' (convertGatewayError (connection_lost (Some (OtherError ''broken pipe'' None))))), s1)
     \<and> reconnect_loop sample_lib sample_order sample_pow sample_double [sample_failing_attempt] 1 0 None s1 = Done r \<and> \<not> rn_success r"
proof -
  let ?a = "reconnect_attempt sample_lib sample_order sample_pow sample_failing_attempt sample_session"
  let ?e = "wrapped ''failed to send ID message: '' (convertGatewayError (connection_lost (Some (OtherError ''broken pipe'' None))))"
  have "case ?a of Done (Some e, s1) \<Rightarrow> e = ?e \<and> rc_MaxRetries (cf_ReconnectConfig (ss_cfg s1)) = 2 | _ \<Rightarrow> False"
    by code_simp
  then obtain s1 where a: "?a = Done (Some ?e, s1)" "rc_MaxRetries (cf_ReconnectConfig (ss_cfg s1)) = 2"
    by (auto split: io.splits option.splits)
  moreover have "fst (Reconnect sample_pow (ss_retry sample_session) (ao_dial sample_failing_attempt) (ss_conn sample_session)) = None"
    by code_simp
  moreover have "refuses_empty_address (ao_dial sample_failing_attempt)"
    by (simp add: refuses_empty_address_def sample_failing_attempt_def)
  ultimately show ?thesis
    using failed_handshake_ends_reconnection [of sample_lib sample_order sample_pow sample_failing_attempt sample_session ?e s1
        "[sample_failing_attempt]" sample_double 1 0 None] by auto
qed

definition sample_refused :: attempt_obs where
  "sample_refused = sample_failing_attempt\<lparr>ao_dial := \<lambda>n a k. Failure (OtherError ''connection refused'' None)\<rparr>"

theorem unreachable_gateway_exhausts_attempts_witness:
  "\<exists>e s' r. attemptReconnection sample_lib sample_order sample_pow sample_double EntryStarts [sample_refused, sample_refused] None sample_session
       = Done (False, [(StateReconnecting, None), (StateReconnectFailed, Some e)], s')
     \<and> same_address sample_transport (ss_conn s')
     \<and> reconnect_loop sample_lib sample_order sample_pow sample_double [sample_refused, sample_refused] 0 Second None sample_session
         = Done r
     \<and> rn_session r = s' \<and> rn_attempts r = 2 \<and> hd (rn_sleeps r) = Second"
proof -
  have M: "rc_MaxRetries (cf_ReconnectConfig (ss_cfg sample_session)) = 2"
    "GetInitialBackoff (cf_ReconnectConfig (ss_cfg sample_session)) = Second" "ss_conn sample_session = sample_transport"
    by (simp_all add: sample_session_def sample_config_def GetInitialBackoff_def)
  have "refused_attempt (ss_conn sample_session) sample_refused"
    by (simp add: refused_attempt_def sample_refused_def sample_failing_attempt_def)
  then have "list_all (refused_attempt (ss_conn sample_session)) [sample_refused, sample_refused]" by simp
  from unreachable_gateway_exhausts_attempts [OF _ _ this, of sample_lib sample_order sample_pow sample_double None, unfolded M]
  show ?thesis by (simp del: reconnect_loop.simps) blast
qed

text \<open>The request \<open>m2\<close> gets the late reply to \<open>m1\<close>.\<close>

definition sample_exchange :: sync_obs where
  "sample_exchange = \<lparr>so_now = 0, so_wait = None, so_writes = replicate 100 (1, None), so_reads = replicate 100 (sample_read 7)\<rparr>"

lemma sample_answered: "answered_by sample_lib sample_order (sample_exchange, sample_echo\<lparr>m_MessageId := ''m2''\<rparr>) (sample_response, sample_decoded)"
proof -
  have "case EncodeMessage sample_lib (so_now sample_exchange) (Some (sample_echo\<lparr>m_MessageId := ''m2''\<rparr>)) of
      Returned sm \<Rightarrow> sm_MessageBytes sm \<noteq> [] \<and> length (sm_MessageBytes sm) \<le> 100 | _ \<Rightarrow> False" by code_simp
  moreover have "encoded_frame sample_response"
    using encoded_is_frame [OF sample_frame_encoded] by (simp add: sample_frame_def sample_response_def)
  moreover have "length sample_response \<le> 100" by code_simp
  ultimately show ?thesis
    by (auto simp: answered_by_def accepting_def flowing_def sample_exchange_def sample_read_def sample_decoded list_all_iff
        split: outcome.splits)
qed

theorem sync_replies_by_position_witness:
  "sync_calls sample_lib sample_order [(sample_exchange, sample_echo\<lparr>m_MessageId := ''m2''\<rparr>)]
       (sample_session\<lparr>ss_stream := sample_response\<rparr>) = Done ([Some sample_decoded], sample_session)
     \<and> m_MessageId sample_decoded = ''m1''"
  using sync_replies_by_position [of "sample_session\<lparr>ss_stream := sample_response\<rparr>" sample_lib sample_order
      "[(sample_exchange, sample_echo\<lparr>m_MessageId := ''m2''\<rparr>)]" "[(sample_response, sample_decoded)]" "[]"]
    sample_answered sample_decoded(2)
  by (simp add: sample_session_def sample_transport_def IsConnected_def)

end
