(* ===== verification/EndToEnd.thy ===== *)
theory EndToEnd
  imports SessionProperties
begin

text \<open>
  The way of a response through all layers: the gateway's messages are encoded (\<open>message/encoder.go\<close>),
  their frames arrive on the socket one after the other, cut into reads anywhere
  (\<open>connection/client.go\<close>), each turn of the receive loop decodes one (\<open>message/decoder.go\<close>) and hands
  it to the caller with its id (\<open>client.go\<close>).
\<close>

section \<open>Runs of the client\<close>

fun client_run :: "golib \<Rightarrow> range_order \<Rightarrow> (f64 \<Rightarrow> nat \<Rightarrow> int) \<Rightarrow> (f64 \<Rightarrow> int \<Rightarrow> int) \<Rightarrow> client_event list \<Rightarrow> receiver
    \<Rightarrow> receiver option" where
  "client_run G ro pow scale [] r = Some r"
| "client_run G ro pow scale (e # es) r = Option.bind (client_do G ro pow scale e r) (client_run G ro pow scale es)"

text \<open>One response: the caller it is for, the message and its frame, and the turn that receives it.\<close>

record delivery =
  dv_caller :: nat
  dv_message :: Message
  dv_frame :: SocketMessage
  dv_data :: string
  dv_turn :: turn_obs

definition dv_bytes :: "delivery \<Rightarrow> string" where
  "dv_bytes d = sm_MessageBytes (dv_frame d)"

text \<open>The frame is one the encoder made and the decoder reads; the turn is not cancelled and data flows.\<close>

definition sent_by_gateway :: "golib \<Rightarrow> int \<Rightarrow> delivery \<Rightarrow> bool" where
  "sent_by_gateway G now d \<longleftrightarrow>
     EncodeMessage G now (Some (dv_message d)) = Returned (dv_frame d) \<and> wire_safe (dv_message d) (dv_frame d)
     \<and> encode_payload G (dv_message d) = Returned (dv_data d)
     \<and> (in_Name (m_Intent (dv_message d)) \<in> {''StoreBatchEvents'', ''StoreBatchEventsResponse''} \<longrightarrow>
          dv_data d = [] \<or> header_mime (decodeHeader (sm_Header (dv_frame d))) \<noteq> octet_stream)
     \<and> \<not> to_cancelled (dv_turn d) \<and> list_all flowing (to_reads (dv_turn d))
     \<and> length (dv_bytes d) \<le> length (to_reads (dv_turn d))"

text \<open>Its caller waits for it: the id is the caller's, and no raw request shadows a plain one.\<close>

definition awaited :: "requests \<Rightarrow> delivery \<Rightarrow> bool" where
  "awaited t d \<longleftrightarrow>
     dv_caller d < length (rq_callers t) \<and>
     (let c = rq_callers t ! dv_caller d in
        ca_state c = Waiting \<and> ca_buffer c = None \<and> \<not> ca_closed c \<and> ca_id c \<noteq> []
        \<and> ca_id c = get_or [] (decodeHeader (sm_Header (dv_frame d))) ''_msg_id''
        \<and> (ca_kind c = WithRaw \<or> map_of (rq_pending t) (WithRaw, ca_id c) = None))"

text \<open>What a decoded message has of the one that was sent.\<close>

definition conveys :: "golib \<Rightarrow> range_order \<Rightarrow> delivery \<Rightarrow> Message \<Rightarrow> bool" where
  "conveys G ro d m \<longleftrightarrow>
     DecodeMessage G ro (dv_bytes d) = Some (m, None)
     \<and> m_To m = m_To (dv_message d) \<and> m_From m = decode_from (m_From (dv_message d))
     \<and> m_Intent m = m_Intent (dv_message d)
     \<and> m_MessageId m = get_or [] (decodeHeader (sm_Header (dv_frame d))) ''_msg_id''
     \<and> PayloadData m = (if dv_data d = [] then ANil
          else payload_value (header_mime (decodeHeader (sm_Header (dv_frame d)))) (dv_data d))"

section \<open>One turn\<close>

definition registered_for :: "requests \<Rightarrow> delivery \<Rightarrow> bool" where
  "registered_for t d \<longleftrightarrow>
     map_of (rq_pending t) (ca_kind (rq_callers t ! dv_caller d), ca_id (rq_callers t ! dv_caller d)) = Some (dv_caller d)"

lemma sent_conveys:
  assumes "sent_by_gateway G now d"
  obtains m where "conveys G ro d m"
  using assms encoded_decodes [of G now "dv_message d" "dv_frame d" "dv_data d" ro]
  unfolding sent_by_gateway_def conveys_def dv_bytes_def by blast

lemma sent_receive:
  assumes "sent_by_gateway G now d" "IsConnected (Some c)" "0 < tr_ReceiveChunkSize c"
  shows "Receive G (to_reads (dv_turn d)) c (dv_bytes d @ rest) = received (Some (dv_bytes d)) (length (dv_bytes d)) None rest c"
    and "dv_bytes d \<noteq> []"
proof -
  have f: "encoded_frame (dv_bytes d)"
    using assms(1) encoded_is_frame unfolding sent_by_gateway_def dv_bytes_def by blast
  show "dv_bytes d \<noteq> []" using wire.frame_long f by fastforce
  show "Receive G (to_reads (dv_turn d)) c (dv_bytes d @ rest) = received (Some (dv_bytes d)) (length (dv_bytes d)) None rest c"
    using assms f wire.frame_long wire.frame_announced
    by (intro Receive_flowing) (auto simp: sent_by_gateway_def)
qed

lemma awaited_offer:
  assumes "awaited t d" "registered_for t d" "conveys G ro d m" "dv_bytes d \<noteq> []"
  shows "receive_frame G ro (dv_bytes d) t = Some (offer (dv_caller d) m (dv_bytes d) t)"
  using assms
  by (cases "ca_kind (rq_callers t ! dv_caller d)")
    (auto simp: receive_frame_def conveys_def awaited_def registered_for_def route_response_def Let_def)

lemma turn_delivers:
  assumes "sent_by_gateway G now d" "awaited (rx_table r) d" "registered_for (rx_table r) d" "conveys G ro d m"
    and "rx_running r" "IsConnected (Some (ss_conn (rx_session r)))" "0 < tr_ReceiveChunkSize (ss_conn (rx_session r))"
    and "ss_stream (rx_session r) = dv_bytes d @ rest"
  shows "client_do G ro pow scale (Turn (dv_turn d)) r =
    Some (r\<lparr>rx_session := (rx_session r)\<lparr>ss_stream := rest\<rparr>, rx_table := offer (dv_caller d) m (dv_bytes d) (rx_table r)\<rparr>)"
  using assms(1,5,6,8) sent_receive(1) [OF assms(1,6,7), of rest]
    awaited_offer [OF assms(2,3,4) sent_receive(2) [OF assms(1,6,7)]]
  by (simp add: receive_turn_def received_def sent_by_gateway_def Let_def)

section \<open>All turns\<close>

lemma offer_other: "j \<noteq> i \<Longrightarrow> rq_callers (offer i m b t) ! j = rq_callers t ! j"
  by (simp add: offer_def update_caller_def)

lemma offer_pending: "rq_pending (offer i m b t) = rq_pending t"
  "length (rq_callers (offer i m b t)) = length (rq_callers t)"
  by (simp_all add: offer_def)

lemma awaited_after_offer:
  assumes "awaited t d" "registered_for t d" "dv_caller d \<noteq> i"
  shows "awaited (offer i m b t) d \<and> registered_for (offer i m b t) d"
  using assms by (simp add: awaited_def registered_for_def offer_other offer_pending)

definition holds :: "golib \<Rightarrow> range_order \<Rightarrow> requests \<Rightarrow> delivery \<Rightarrow> bool" where
  "holds G ro t d \<longleftrightarrow> dv_caller d < length (rq_callers t) \<and> ca_state (rq_callers t ! dv_caller d) = Waiting
     \<and> (\<exists>m. conveys G ro d m \<and> ca_buffer (rq_callers t ! dv_caller d) = Some (m, dv_bytes d))"

lemma turns_deliver:
  assumes "list_all (sent_by_gateway G now) ds" "distinct (map dv_caller ds)"
    and "\<forall>d \<in> set ds. awaited (rx_table r) d \<and> registered_for (rx_table r) d"
    and "rx_running r" "IsConnected (Some (ss_conn (rx_session r)))" "0 < tr_ReceiveChunkSize (ss_conn (rx_session r))"
    and "ss_stream (rx_session r) = concat (map dv_bytes ds) @ rest"
  shows "\<exists>r'. client_run G ro pow scale (map (\<lambda>d. Turn (dv_turn d)) ds) r = Some r'
    \<and> rx_running r' \<and> rx_session r' = (rx_session r)\<lparr>ss_stream := rest\<rparr>
    \<and> list_all (holds G ro (rx_table r')) ds
    \<and> length (rq_callers (rx_table r')) = length (rq_callers (rx_table r))
    \<and> (\<forall>j. j \<notin> dv_caller ` set ds \<longrightarrow> rq_callers (rx_table r') ! j = rq_callers (rx_table r) ! j)"
  using assms
proof (induction ds arbitrary: r)
  case (Cons d ds)
  obtain m where m: "conveys G ro d m" using sent_conveys [of G now d ro] Cons.prems(1) by auto
  let ?t = "offer (dv_caller d) m (dv_bytes d) (rx_table r)"
  let ?r = "r\<lparr>rx_session := (rx_session r)\<lparr>ss_stream := concat (map dv_bytes ds) @ rest\<rparr>, rx_table := ?t\<rparr>"
  have d: "sent_by_gateway G now d" "awaited (rx_table r) d" "registered_for (rx_table r) d" "dv_caller d \<notin> dv_caller ` set ds"
    using Cons.prems(1-3) by simp_all
  have "ss_stream (rx_session r) = dv_bytes d @ concat (map dv_bytes ds) @ rest" using Cons.prems(7) by simp
  with d m Cons.prems(4-6) have do: "client_do G ro pow scale (Turn (dv_turn d)) r = Some ?r"
    by (intro turn_delivers)
  have ready: "\<forall>e \<in> set ds. awaited (rx_table ?r) e \<and> registered_for (rx_table ?r) e"
  proof
    fix e assume e: "e \<in> set ds"
    then have "dv_caller e \<noteq> dv_caller d" using d(4) by (metis imageI)
    with awaited_after_offer [of "rx_table r" e] Cons.prems(3) e
    show "awaited (rx_table ?r) e \<and> registered_for (rx_table ?r) e" by simp
  qed
  have "list_all (sent_by_gateway G now) ds" "distinct (map dv_caller ds)" "rx_running ?r"
    "IsConnected (Some (ss_conn (rx_session ?r)))" "0 < tr_ReceiveChunkSize (ss_conn (rx_session ?r))"
    "ss_stream (rx_session ?r) = concat (map dv_bytes ds) @ rest"
    using Cons.prems(1,2,4-6) by simp_all
  from Cons.IH [OF this(1,2) ready this(3-6)] obtain r' where r':
      "client_run G ro pow scale (map (\<lambda>d. Turn (dv_turn d)) ds) ?r = Some r'"
      "rx_running r'" "rx_session r' = (rx_session r)\<lparr>ss_stream := rest\<rparr>" "list_all (holds G ro (rx_table r')) ds"
      "length (rq_callers (rx_table r')) = length (rq_callers ?t)"
      "\<forall>j. j \<notin> dv_caller ` set ds \<longrightarrow> rq_callers (rx_table r') ! j = rq_callers ?t ! j"
    by auto
  have "holds G ro (rx_table r') d"
    using r'(5) mp [OF spec [OF r'(6)] d(4)] d(2) m by (simp add: holds_def awaited_def Let_def)
  moreover have "\<forall>j. j \<notin> dv_caller ` set (d # ds) \<longrightarrow> rq_callers (rx_table r') ! j = rq_callers (rx_table r) ! j"
    using r'(6) by (simp add: offer_other)
  ultimately show ?case
    using do r'(1-5) by (intro exI [of _ r']) (simp add: offer_pending)
qed simp

lemma awaited_registered:
  assumes "client_reachable G ro pow scale True r" "awaited (rx_table r) d"
  shows "registered_for (rx_table r) d"
proof -
  have "reachable_by_receiver (rx_table r) (dv_caller d)"
    using reachable_waiters [OF client_reachable_table [OF assms(1)]] assms(2)
    by (auto simp: waiters_ok_def all_registered_def active_def awaited_def Let_def)
  then show ?thesis using assms(2) by (auto simp: reachable_by_receiver_def registered_for_def awaited_def Let_def)
qed


section \<open>Two requests, answered in the other order\<close>

definition sample_echo_with :: "string \<Rightarrow> Message" where
  "sample_echo_with mid = sample_echo\<lparr>m_MessageId := mid\<rparr>"

definition sample_delivery :: "nat \<Rightarrow> string \<Rightarrow> delivery" where
  "sample_delivery i mid = \<lparr>dv_caller = i, dv_message = sample_echo_with mid,
     dv_frame = frame (sample_echo_with mid) (''_msg_id='' @ mid) ''hi'', dv_data = ''hi'',
     dv_turn = sample_turn (replicate 100 (sample_read 3)) 0\<rparr>"

definition sample_two :: "string \<Rightarrow> receiver" where
  "sample_two stream = (StartReceiver (sample_session\<lparr>ss_stream := stream\<rparr>))
     \<lparr>rx_table := \<lparr>rq_pending = [((Plain, ''m1''), 0), ((WithRaw, ''m2''), 1)],
        rq_callers = [\<lparr>ca_kind = Plain, ca_id = ''m1'', ca_buffer = None, ca_closed = False, ca_state = Waiting\<rparr>,
          \<lparr>ca_kind = WithRaw, ca_id = ''m2'', ca_buffer = None, ca_closed = False, ca_state = Waiting\<rparr>],
        rq_unmatched = []\<rparr>\<rparr>"

lemma client_reachable_do:
  "client_reachable G ro pow scale True r \<Longrightarrow> fresh_call e (rx_table r) \<Longrightarrow> client_do G ro pow scale e r = Some r'
    \<Longrightarrow> client_reachable G ro pow scale True r'"
  by (auto intro: client_reachable.step client_step.intros)

lemma sample_two_reachable: "client_reachable sample_lib sample_order sample_pow sample_double True (sample_two stream)"
proof -
  let ?s = "sample_session\<lparr>ss_stream := stream\<rparr>" and ?R = "client_reachable sample_lib sample_order sample_pow sample_double True"
  note step = client_reachable_do [where G = sample_lib and ro = sample_order and pow = sample_pow and scale = sample_double]
  have 0: "?R (StartReceiver ?s)" by (rule client_reachable.start)
  have 1: "?R ((StartReceiver ?s)\<lparr>rx_table := register_request Plain ''m1'' no_requests\<rparr>)"
    by (rule step [OF 0, of "Call (Request Plain ''m1'')"]) (simp_all add: StartReceiver_def no_requests_def)
  have 2: "?R ((StartReceiver ?s)\<lparr>rx_table := sample_waiting\<rparr>)"
    by (rule step [OF 1, of "Call (RequestSent 0)"])
      (simp_all add: StartReceiver_def no_requests_def register_request_def update_caller_def sample_waiting_def)
  have 3: "?R ((StartReceiver ?s)\<lparr>rx_table := register_request WithRaw ''m2'' sample_waiting\<rparr>)"
    by (rule step [OF 2, of "Call (Request WithRaw ''m2'')"]) (simp_all add: StartReceiver_def sample_waiting_def)
  show ?thesis
    by (rule step [OF 3, of "Call (RequestSent 1)"])
      (simp_all add: StartReceiver_def register_request_def update_caller_def sample_waiting_def sample_two_def)
qed

lemma sample_sent: "mid \<in> {''m1'', ''m2''} \<Longrightarrow> sent_by_gateway sample_lib 0 (sample_delivery i mid)"
proof -
  assume "mid \<in> {''m1'', ''m2''}"
  moreover have "EncodeMessage sample_lib 0 (Some (sample_echo_with ''m1'')) = Returned (frame (sample_echo_with ''m1'') ''_msg_id=m1'' ''hi'')"
    "EncodeMessage sample_lib 0 (Some (sample_echo_with ''m2'')) = Returned (frame (sample_echo_with ''m2'') ''_msg_id=m2'' ''hi'')"
    "wire_safe (sample_echo_with ''m1'') (frame (sample_echo_with ''m1'') ''_msg_id=m1'' ''hi'')"
    "wire_safe (sample_echo_with ''m2'') (frame (sample_echo_with ''m2'') ''_msg_id=m2'' ''hi'')"
    "encode_payload sample_lib (sample_echo_with ''m1'') = Returned ''hi''"
    "encode_payload sample_lib (sample_echo_with ''m2'') = Returned ''hi''"
    "in_Name (m_Intent (sample_echo_with ''m1'')) \<notin> {''StoreBatchEvents'', ''StoreBatchEventsResponse''}"
    "in_Name (m_Intent (sample_echo_with ''m2'')) \<notin> {''StoreBatchEvents'', ''StoreBatchEventsResponse''}"
    "length (sm_MessageBytes (frame (sample_echo_with ''m1'') ''_msg_id=m1'' ''hi'')) \<le> 100"
    "length (sm_MessageBytes (frame (sample_echo_with ''m2'') ''_msg_id=m2'' ''hi'')) \<le> 100"
    by code_simp+
  ultimately show ?thesis
    by (auto simp: sent_by_gateway_def sample_delivery_def dv_bytes_def sample_turn_def sample_read_def flowing_def list_all_iff)
qed


end
