(* ===== verification/Registry.thy ===== *)
theory Registry
  imports GatewayErrors "HOL-Library.AList"
begin

text \<open>
  The registry of clients (\<open>client.go\<close>): two maps shared by all goroutines, by client name with
  gateway and by gateway alone. Clients are numbered in the order of their creation. Every section
  under \<open>registryMu\<close> is one step, so that calls of \<open>NewClient\<close>, \<open>Close\<close> and the others interleave;
  dialling and the handshake are the event \<open>Opened\<close>.
\<close>

section \<open>State\<close>

text \<open>
  What the registry and \<open>Close\<close> know of a client; \<open>cl_stopped\<close>: its receiver context is cancelled;
  \<open>cl_dialling\<close>: a reconnection is past the checks at the head of its loop and has no socket yet.
\<close>

record client_rec =
  cl_clientName :: string
  cl_gatewayActorName :: string
  cl_key :: string
  cl_connected :: bool
  cl_stopped :: bool
  cl_dialling :: bool

record registry =
  rg_heap :: "client_rec list"
  rg_clients :: "(string \<times> nat) list"
  rg_actors :: "(string \<times> nat) list"

definition getClientKey :: "string \<Rightarrow> string \<Rightarrow> string" where
  "getClientKey clientName gatewayActorName = clientName @ '':'' @ gatewayActorName"

definition GetClientByGatewayActorName :: "string \<Rightarrow> registry \<Rightarrow> nat option" where
  "GetClientByGatewayActorName a g = map_of (rg_actors g) a"

definition GetClientCount :: "registry \<Rightarrow> nat" where
  "GetClientCount g = length (rg_actors g)"

definition is_connected :: "registry \<Rightarrow> nat \<Rightarrow> bool" where
  "is_connected g i = cl_connected (rg_heap g ! i)"

definition update_client :: "nat \<Rightarrow> (client_rec \<Rightarrow> client_rec) \<Rightarrow> registry \<Rightarrow> registry" where
  "update_client i f g = g\<lparr>rg_heap := (rg_heap g)[i := f (rg_heap g ! i)]\<rparr>"

text \<open>Both maps point to the client.\<close>

definition put_client :: "string \<Rightarrow> nat \<Rightarrow> registry \<Rightarrow> registry" where
  "put_client key i g =
     g\<lparr>rg_clients := AList.update key i (rg_clients g),
       rg_actors := AList.update (cl_gatewayActorName (rg_heap g ! i)) i (rg_actors g)\<rparr>"

section \<open>Operations\<close>

definition RegisterClient :: "nat option \<Rightarrow> registry \<Rightarrow> string option \<times> registry" where
  "RegisterClient client g =
     (case client of
        None \<Rightarrow> (Some ''cannot register nil client'', g)
      | Some i \<Rightarrow>
          let c = rg_heap g ! i; key = getClientKey (cl_clientName c) (cl_gatewayActorName c) in
          if cl_gatewayActorName c = [] then (Some ''client gatewayActorName cannot be empty'', g)
          else if cl_clientName c = [] then (Some ''client ClientName cannot be empty'', g)
          else (None, put_client key i (update_client i (\<lambda>c. c\<lparr>cl_key := key\<rparr>) g)))"

definition RemoveClientByGatewayActorName :: "string \<Rightarrow> registry \<Rightarrow> registry" where
  "RemoveClientByGatewayActorName a g =
     (case map_of (rg_actors g) a of
        None \<Rightarrow> g
      | Some i \<Rightarrow>
          g\<lparr>rg_actors := AList.delete a (rg_actors g),
            rg_clients := (if cl_key (rg_heap g ! i) \<noteq> [] then AList.delete (cl_key (rg_heap g ! i)) (rg_clients g)
              else rg_clients g)\<rparr>)"

text \<open>\<open>Close\<close> of a client removes what is registered under its key and its gateway.\<close>

definition Client_Close :: "nat \<Rightarrow> registry \<Rightarrow> registry" where
  "Client_Close i g =
     (let c = rg_heap g ! i;
          g1 = (if cl_key c \<noteq> [] then g\<lparr>rg_clients := AList.delete (cl_key c) (rg_clients g)\<rparr> else g);
          g2 = (if cl_gatewayActorName c \<noteq> [] then g1\<lparr>rg_actors := AList.delete (cl_gatewayActorName c) (rg_actors g1)\<rparr> else g1)
      in update_client i (\<lambda>c. c\<lparr>cl_connected := False, cl_stopped := True\<rparr>) g2)"

text \<open>
  \<open>NewClient\<close> in its critical sections. First the lookup: an existing client that is connected is
  returned, one that is not is taken out of the map of clients.
\<close>

datatype lookup_result = Existing nat | Stale nat | Missing

definition lookup_client :: "string \<Rightarrow> string \<Rightarrow> registry \<Rightarrow> lookup_result" where
  "lookup_client clientName actor g =
     (case map_of (rg_clients g) (getClientKey clientName actor) of
        None \<Rightarrow> Missing
      | Some i \<Rightarrow> if is_connected g i then Existing i else Stale i)"

definition drop_stale :: "string \<Rightarrow> registry \<Rightarrow> registry" where
  "drop_stale key g = g\<lparr>rg_clients := AList.delete key (rg_clients g)\<rparr>"

text \<open>The session is open: a new client with its key.\<close>

definition open_client :: "string \<Rightarrow> string \<Rightarrow> registry \<Rightarrow> registry" where
  "open_client clientName actor g =
     g\<lparr>rg_heap := rg_heap g @ [\<lparr>cl_clientName = clientName, cl_gatewayActorName = actor,
        cl_key = getClientKey clientName actor, cl_connected = True, cl_stopped = False, cl_dialling = False\<rparr>]\<rparr>"

text \<open>
  Then the registration of the new client \<open>i\<close>. Another client with the key, registered meanwhile,
  makes the call close its own connection; if that other one is connected it is returned, else the
  call goes on to replace it by the client it has just closed.
\<close>

datatype registered = Registered nat | ExistingClient nat | Replacing nat

definition register_new :: "nat \<Rightarrow> registry \<Rightarrow> registered \<times> registry" where
  "register_new i g =
     (case map_of (rg_clients g) (cl_key (rg_heap g ! i)) of
        None \<Rightarrow> (Registered i, put_client (cl_key (rg_heap g ! i)) i g)
      | Some j \<Rightarrow>
          let g' = update_client i (\<lambda>c. c\<lparr>cl_connected := False, cl_stopped := True\<rparr>) g in
          (if is_connected g' j then ExistingClient j else Replacing i, g'))"

definition replace_client :: "nat \<Rightarrow> registry \<Rightarrow> registry" where
  "replace_client i g =
     (let key = cl_key (rg_heap g ! i); a = cl_gatewayActorName (rg_heap g ! i) in
      put_client key i (g\<lparr>rg_clients := AList.delete key (rg_clients g), rg_actors := AList.delete a (rg_actors g)\<rparr>))"

section \<open>Interleaving\<close>

text \<open>
  \<open>Lost\<close> is the connection of a client going down; a reconnection is \<open>Redial\<close>, which a stopped client
  does not begin, then \<open>Restored\<close> or \<open>DialFailed\<close>, whether or not the client was stopped meanwhile.
\<close>

datatype registry_event =
    Opened string string
  | DropStale string
  | Admit nat
  | Replace nat
  | Register nat
  | Remove string
  | CloseClient nat
  | Lost nat
  | Redial nat
  | DialFailed nat
  | Restored nat

fun registry_do :: "registry_event \<Rightarrow> registry \<Rightarrow> registry option" where
  "registry_do (Opened n a) g = (if n = [] \<or> a = [] then None else Some (open_client n a g))"
| "registry_do (DropStale key) g = Some (drop_stale key g)"
| "registry_do (Admit i) g = (if i < length (rg_heap g) then Some (snd (register_new i g)) else None)"
| "registry_do (Replace i) g =
     (if i < length (rg_heap g) \<and> cl_stopped (rg_heap g ! i) then Some (replace_client i g) else None)"
| "registry_do (Register i) g = (if i < length (rg_heap g) then Some (snd (RegisterClient (Some i) g)) else None)"
| "registry_do (Remove a) g = Some (RemoveClientByGatewayActorName a g)"
| "registry_do (CloseClient i) g = (if i < length (rg_heap g) then Some (Client_Close i g) else None)"
| "registry_do (Lost i) g =
     (if i < length (rg_heap g) then Some (update_client i (\<lambda>c. c\<lparr>cl_connected := False\<rparr>) g) else None)"
| "registry_do (Redial i) g =
     (if i < length (rg_heap g) \<and> \<not> cl_stopped (rg_heap g ! i)
      then Some (update_client i (\<lambda>c. c\<lparr>cl_connected := False, cl_dialling := True\<rparr>) g) else None)"
| "registry_do (DialFailed i) g =
     (if i < length (rg_heap g) then Some (update_client i (\<lambda>c. c\<lparr>cl_dialling := False\<rparr>) g) else None)"
| "registry_do (Restored i) g =
     (if i < length (rg_heap g) \<and> cl_dialling (rg_heap g ! i)
      then Some (update_client i (\<lambda>c. c\<lparr>cl_connected := True, cl_dialling := False\<rparr>) g) else None)"

definition empty_registry :: registry where
  "empty_registry = \<lparr>rg_heap = [], rg_clients = [], rg_actors = []\<rparr>"

inductive registry_step :: "registry_event \<Rightarrow> registry \<Rightarrow> registry \<Rightarrow> bool" where
  "registry_do e g = Some g' \<Longrightarrow> registry_step e g g'"

inductive_cases registry_stepE: "registry_step e g g'"

inductive registry_reachable :: "registry \<Rightarrow> bool" where
  init: "registry_reachable empty_registry"
| step: "registry_reachable g \<Longrightarrow> registry_step e g g' \<Longrightarrow> registry_reachable g'"

section \<open>Invariant\<close>

text \<open>
  A client has its own key; an entry of the map of clients names a client with that key, an entry of
  the map of gateways one of that gateway; a client that is dialling is not connected.
\<close>

definition client_ok :: "client_rec \<Rightarrow> bool" where
  "client_ok c \<longleftrightarrow> cl_key c = getClientKey (cl_clientName c) (cl_gatewayActorName c)
     \<and> cl_clientName c \<noteq> [] \<and> cl_gatewayActorName c \<noteq> [] \<and> (cl_dialling c \<longrightarrow> \<not> cl_connected c)"

definition registry_ok :: "registry \<Rightarrow> bool" where
  "registry_ok g \<longleftrightarrow> list_all client_ok (rg_heap g)
     \<and> (\<forall>k i. (k, i) \<in> set (rg_clients g) \<longrightarrow> i < length (rg_heap g) \<and> cl_key (rg_heap g ! i) = k)
     \<and> (\<forall>a i. (a, i) \<in> set (rg_actors g) \<longrightarrow> i < length (rg_heap g) \<and> cl_gatewayActorName (rg_heap g ! i) = a)"

lemma getClientKey_nonempty [simp]: "getClientKey n a \<noteq> []"
  by (simp add: getClientKey_def)

lemma in_delete: "x \<in> set (AList.delete k xs) \<Longrightarrow> x \<in> set xs"
  by (auto simp: AList.delete_eq)

lemma in_update: "x \<in> set (AList.update k v xs) \<Longrightarrow> x = (k, v) \<or> x \<in> set xs"
  by (induction xs) (auto split: if_splits)

text \<open>Changing a client without its names keeps the registry sound.\<close>

lemma ok_update_client:
  assumes "registry_ok g" "client_ok (f (rg_heap g ! i))" "cl_key (f (rg_heap g ! i)) = cl_key (rg_heap g ! i)"
    and "cl_gatewayActorName (f (rg_heap g ! i)) = cl_gatewayActorName (rg_heap g ! i)"
  shows "registry_ok (update_client i f g)"
  using assms by (cases "i < length (rg_heap g)") (auto simp: registry_ok_def update_client_def nth_list_update list_all_length list_update_beyond)

lemma ok_maps:
  assumes "registry_ok g" "rg_heap g' = rg_heap g" "set (rg_clients g') \<subseteq> set (rg_clients g)" "set (rg_actors g') \<subseteq> set (rg_actors g)"
  shows "registry_ok g'"
  using assms by (auto simp: registry_ok_def)

lemma ok_put_client:
  assumes "registry_ok g" "i < length (rg_heap g)" "key = cl_key (rg_heap g ! i)"
  shows "registry_ok (put_client key i g)"
  using assms by (auto simp: registry_ok_def put_client_def dest!: in_update)

lemma ok_client: "registry_ok g \<Longrightarrow> i < length (rg_heap g) \<Longrightarrow> client_ok (rg_heap g ! i)"
  by (simp add: registry_ok_def list_all_length)

lemma registry_do_ok:
  assumes "registry_do e g = Some g'" "registry_ok g"
  shows "registry_ok g'"
proof (cases e)
  case (Opened n a)
  then show ?thesis using assms
    by (auto simp: registry_ok_def open_client_def client_ok_def nth_append less_Suc_eq split: if_splits)
next
  case (DropStale key)
  then show ?thesis using assms by (auto simp: drop_stale_def dest: in_delete intro!: ok_maps [of g])
next
  case (Admit i)
  then show ?thesis using assms ok_client [OF assms(2), of i]
    by (auto simp: register_new_def client_ok_def Let_def split: if_splits option.splits intro!: ok_update_client ok_put_client)
next
  case (Replace i)
  have "registry_ok (g\<lparr>rg_clients := AList.delete k (rg_clients g), rg_actors := AList.delete a (rg_actors g)\<rparr>)" for k a
    using assms(2) by (auto dest: in_delete intro!: ok_maps [of g])
  then show ?thesis using assms Replace
    by (auto simp: replace_client_def Let_def split: if_splits intro!: ok_put_client)
next
  case (Register i)
  then have g': "i < length (rg_heap g)" "g' = snd (RegisterClient (Some i) g)" using assms by (auto split: if_splits)
  have k: "cl_key (rg_heap g ! i) = getClientKey (cl_clientName (rg_heap g ! i)) (cl_gatewayActorName (rg_heap g ! i))"
    using ok_client [OF assms(2) g'(1)] by (simp add: client_ok_def)
  then have "update_client i (\<lambda>c. c\<lparr>cl_key := getClientKey (cl_clientName (rg_heap g ! i)) (cl_gatewayActorName (rg_heap g ! i))\<rparr>) g = g"
    by (simp add: update_client_def flip: k)
  then show ?thesis using g' k assms(2) by (auto simp: RegisterClient_def Let_def intro!: ok_put_client)
next
  case (Remove a)
  then show ?thesis using assms
    by (auto simp: RemoveClientByGatewayActorName_def dest: in_delete split: option.splits if_splits intro!: ok_maps [of g])
next
  case (CloseClient i)
  have "registry_ok (g\<lparr>rg_clients := AList.delete k (rg_clients g), rg_actors := AList.delete a (rg_actors g)\<rparr>)" for k a
    using assms(2) by (auto dest: in_delete intro!: ok_maps [of g])
  then show ?thesis using assms CloseClient ok_client [OF assms(2), of i]
    by (auto simp: Client_Close_def Let_def client_ok_def split: if_splits intro!: ok_update_client)
next
  case (Lost i)
  then show ?thesis using assms ok_client [OF assms(2), of i]
    by (auto simp: client_ok_def split: if_splits intro!: ok_update_client)
next
  case (Redial i)
  then show ?thesis using assms ok_client [OF assms(2), of i]
    by (auto simp: client_ok_def split: if_splits intro!: ok_update_client)
next
  case (DialFailed i)
  then show ?thesis using assms ok_client [OF assms(2), of i]
    by (auto simp: client_ok_def split: if_splits intro!: ok_update_client)
next
  case (Restored i)
  then show ?thesis using assms ok_client [OF assms(2), of i]
    by (auto simp: client_ok_def split: if_splits intro!: ok_update_client)
qed

lemma reachable_registry_ok: "registry_reachable g \<Longrightarrow> registry_ok g"
proof (induction rule: registry_reachable.induct)
  case init
  show ?case by (simp add: registry_ok_def empty_registry_def)
next
  case (step g e g')
  then show ?case by (auto elim!: registry_stepE intro: registry_do_ok)
qed

lemma registered_key: "registry_ok g \<Longrightarrow> map_of (rg_clients g) k = Some i \<Longrightarrow> i < length (rg_heap g) \<and> cl_key (rg_heap g ! i) = k"
  by (auto simp: registry_ok_def dest: map_of_SomeD)

text \<open>A client that was stopped while it was not dialling stays as it is.\<close>

definition dead :: "registry \<Rightarrow> nat \<Rightarrow> bool" where
  "dead g i \<longleftrightarrow> i < length (rg_heap g) \<and> cl_stopped (rg_heap g ! i) \<and> \<not> cl_connected (rg_heap g ! i)
     \<and> \<not> cl_dialling (rg_heap g ! i)"

lemma dead_maps [simp]:
  "rg_heap (put_client k j g) = rg_heap g" "rg_heap (drop_stale k g) = rg_heap g" "rg_heap (replace_client j g) = rg_heap g"
  "rg_heap (RemoveClientByGatewayActorName a g) = rg_heap g"
  by (auto simp: put_client_def drop_stale_def replace_client_def RemoveClientByGatewayActorName_def Let_def split: option.splits)

lemma dead_update_client:
  "dead g i \<Longrightarrow> (\<And>c. cl_stopped c \<Longrightarrow> \<not> cl_connected c \<Longrightarrow> \<not> cl_dialling c
      \<Longrightarrow> cl_stopped (f c) \<and> \<not> cl_connected (f c) \<and> \<not> cl_dialling (f c)) \<Longrightarrow> dead (update_client j f g) i"
  by (cases "j < length (rg_heap g)") (auto simp: dead_def update_client_def nth_list_update list_update_beyond)

lemma dead_heap: "rg_heap g' = rg_heap g \<Longrightarrow> dead g i \<Longrightarrow> dead g' i"
  by (simp add: dead_def)

lemma dead_step:
  assumes "registry_step e g g'" "dead g i"
  shows "dead g' i"
proof -
  from assms(1) have d: "registry_do e g = Some g'" by (rule registry_stepE)
  have off: "dead (update_client j (\<lambda>c. c\<lparr>cl_connected := False, cl_stopped := True\<rparr>) g0) i" if "rg_heap g0 = rg_heap g" for j g0
    by (rule dead_update_client [OF dead_heap [OF that assms(2)]]) simp
  show ?thesis
  proof (cases e)
    case (Opened n a)
    then show ?thesis using d assms(2) by (auto simp: open_client_def dead_def nth_append split: if_splits)
  next
    case (Admit j)
    then show ?thesis using d off [of g] dead_heap [OF _ assms(2)]
      by (auto simp: register_new_def Let_def split: if_splits option.splits)
  next
    case (Replace j)
    then show ?thesis using d assms(2) by (auto simp: dead_def split: if_splits)
  next
    case (Register j)
    have "dead (update_client j (\<lambda>c. c\<lparr>cl_key := k\<rparr>) g) i" for k
      by (rule dead_update_client [OF assms(2)]) simp
    then show ?thesis using d assms(2) Register dead_heap [OF dead_maps(1)]
      by (auto simp: RegisterClient_def Let_def split: if_splits)
  next
    case (CloseClient j)
    then show ?thesis using d off by (auto simp: Client_Close_def Let_def split: if_splits)
  next
    case (Lost j)
    have "dead (update_client j (\<lambda>c. c\<lparr>cl_connected := False\<rparr>) g) i"
      by (rule dead_update_client [OF assms(2)]) simp
    then show ?thesis using d Lost by (auto split: if_splits)
  next
    case (Redial j)
    then show ?thesis using d assms(2)
      by (auto simp: dead_def update_client_def nth_list_update split: if_splits)
  next
    case (DialFailed j)
    have "dead (update_client j (\<lambda>c. c\<lparr>cl_dialling := False\<rparr>) g) i"
      by (rule dead_update_client [OF assms(2)]) simp
    then show ?thesis using d DialFailed by (auto split: if_splits)
  next
    case (Restored j)
    then show ?thesis using d assms(2)
      by (auto simp: dead_def update_client_def nth_list_update split: if_splits)
  qed (use d assms(2) in \<open>auto simp: dead_def\<close>)
qed

text \<open>Two keys without a colon in their names are equal only when the names are.\<close>

lemma getClientKey_inject:
  "getClientKey n a = getClientKey n' a' \<Longrightarrow> CHR '':'' \<notin> set n \<Longrightarrow> CHR '':'' \<notin> set n' \<Longrightarrow> n = n' \<and> a = a'"
  unfolding getClientKey_def
proof (induction n arbitrary: n')
  case Nil
  then show ?case by (cases n') auto
next
  case (Cons c n)
  then show ?case by (cases n') auto
qed

lemma lookup_existing:
  assumes "registry_ok g" "lookup_client n a g = Existing i"
  shows "is_connected g i \<and> getClientKey (cl_clientName (rg_heap g ! i)) (cl_gatewayActorName (rg_heap g ! i)) = getClientKey n a"
  using assms registered_key [OF assms(1), of "getClientKey n a"] ok_client [OF assms(1)]
  by (auto simp: lookup_client_def client_ok_def split: option.splits if_splits)

section \<open>Properties\<close>

text \<open>
  Claim C29. The registry finds what was asked for, under any interleaving: a client the lookup of
  \<open>NewClient\<close> returns is connected and has the key of the request, hence the same name and gateway
  unless one of the two names contains a colon, and a client found by its gateway has that gateway.
\<close>

theorem registry_finds_requested_client:
  assumes "registry_reachable g"
  shows "(lookup_client n a g = Existing i \<longrightarrow> is_connected g i
       \<and> getClientKey (cl_clientName (rg_heap g ! i)) (cl_gatewayActorName (rg_heap g ! i)) = getClientKey n a
       \<and> (CHR '':'' \<notin> set n \<union> set (cl_clientName (rg_heap g ! i)) \<longrightarrow>
            cl_clientName (rg_heap g ! i) = n \<and> cl_gatewayActorName (rg_heap g ! i) = a))
     \<and> (GetClientByGatewayActorName b g = Some j \<longrightarrow> cl_gatewayActorName (rg_heap g ! j) = b)"
proof -
  note ok = reachable_registry_ok [OF assms]
  have "GetClientByGatewayActorName b g = Some j \<longrightarrow> cl_gatewayActorName (rg_heap g ! j) = b"
    using ok by (auto simp: GetClientByGatewayActorName_def registry_ok_def dest: map_of_SomeD)
  then show ?thesis using lookup_existing [OF ok, of n a i] getClientKey_inject [of "cl_clientName (rg_heap g ! i)" _ n a] by auto
qed

text \<open>
  Claim C28. What \<open>NewClient\<close> returns: a new client that finds its key free is registered under both
  names and connected; one that finds another client connected is closed and the other is returned.
  But when the other one, registered meanwhile, has lost its connection, the call registers and
  returns its own client after closing it: that client is stopped, and no later event connects it.
\<close>

theorem new_client_connected_unless_raced:
  assumes "registry_reachable g" and "i < length (rg_heap g)" and "is_connected g i"
    and "register_new i g = (r, g1)" and "map_of (rg_clients g) (cl_key (rg_heap g ! i)) \<noteq> Some i"
  shows "(r = Registered i \<and> is_connected g1 i \<and> map_of (rg_clients g1) (cl_key (rg_heap g ! i)) = Some i
            \<and> GetClientByGatewayActorName (cl_gatewayActorName (rg_heap g ! i)) g1 = Some i)
     \<or> (\<exists>j. r = ExistingClient j \<and> j \<noteq> i \<and> is_connected g1 j \<and> \<not> is_connected g1 i
            \<and> map_of (rg_clients g1) (cl_key (rg_heap g ! i)) = Some j)
     \<or> (r = Replacing i \<and> (\<exists>j. map_of (rg_clients g) (cl_key (rg_heap g ! i)) = Some j \<and> \<not> is_connected g j)
            \<and> GetClientByGatewayActorName (cl_gatewayActorName (rg_heap g ! i)) (replace_client i g1) = Some i
            \<and> (\<forall>g2. (\<lambda>a b. \<exists>e. registry_step e a b)\<^sup>*\<^sup>* (replace_client i g1) g2 \<longrightarrow> \<not> is_connected g2 i))"
proof (cases "map_of (rg_clients g) (cl_key (rg_heap g ! i))")
  case None
  then show ?thesis using assms(3,4)
    by (auto simp: register_new_def is_connected_def GetClientByGatewayActorName_def put_client_def update_conv')
next
  case (Some j)
  let ?g = "update_client i (\<lambda>c. c\<lparr>cl_connected := False, cl_stopped := True\<rparr>) g"
  have j: "j \<noteq> i" "j < length (rg_heap g)"
    using assms(5) Some registered_key [OF reachable_registry_ok [OF assms(1)]] by auto
  have g1: "g1 = ?g" "r = (if is_connected ?g j then ExistingClient j else Replacing i)"
    using assms(4) Some by (auto simp: register_new_def Let_def)
  have same: "is_connected ?g j = is_connected g j" "\<not> is_connected ?g i" "rg_clients ?g = rg_clients g" "dead ?g i"
    using j assms(2,3) ok_client [OF reachable_registry_ok [OF assms(1)] assms(2)]
    by (auto simp: is_connected_def update_client_def dead_def client_ok_def)
  have "\<not> is_connected g2 i" if "(\<lambda>a b. \<exists>e. registry_step e a b)\<^sup>*\<^sup>* (replace_client i ?g) g2" for g2
  proof -
    from that have "dead g2 i"
      by (induction rule: rtranclp_induct) (use same(4) dead_step dead_heap [OF dead_maps(3)] in blast)+
    then show ?thesis by (simp add: dead_def is_connected_def)
  qed
  moreover have "GetClientByGatewayActorName (cl_gatewayActorName (rg_heap g ! i)) (replace_client i ?g) = Some i"
    using assms(2) by (simp add: GetClientByGatewayActorName_def replace_client_def put_client_def update_client_def update_conv' Let_def)
  ultimately show ?thesis using g1 same Some j by (cases "is_connected g j") auto
qed

section \<open>Witnesses\<close>

text \<open>Two calls of \<open>NewClient\<close> for the same name race, and the first client is lost in between.\<close>

definition sample_race :: registry where
  "sample_race = \<lparr>rg_heap = [\<lparr>cl_clientName = ''me'', cl_gatewayActorName = ''gw'', cl_key = ''me:gw'', cl_connected = False, cl_stopped = False, cl_dialling = False\<rparr>,
       \<lparr>cl_clientName = ''me'', cl_gatewayActorName = ''gw'', cl_key = ''me:gw'', cl_connected = True, cl_stopped = False, cl_dialling = False\<rparr>],
     rg_clients = [(''me:gw'', 0)], rg_actors = [(''gw'', 0)]\<rparr>"

lemma registry_reachable_do: "registry_reachable g \<Longrightarrow> registry_do e g = Some g' \<Longrightarrow> registry_reachable g'"
  by (blast intro: registry_reachable.step registry_step.intros)

definition sample_single :: registry where
  "sample_single = put_client ''me:gw'' 0 (open_client ''me'' ''gw'' empty_registry)"

lemma sample_single_reachable: "registry_reachable sample_single"
proof (rule registry_reachable_do [where e = "Admit 0"])
  show "registry_reachable (open_client ''me'' ''gw'' empty_registry)"
    by (rule registry_reachable_do [OF registry_reachable.init, where e = "Opened ''me'' ''gw''"]) simp
qed (simp add: open_client_def empty_registry_def register_new_def sample_single_def getClientKey_def)

lemma sample_race_reachable: "registry_reachable sample_race"
proof (rule registry_reachable_do [where e = "Lost 0"])
  show "registry_reachable (open_client ''me'' ''gw'' sample_single)"
    by (rule registry_reachable_do [OF sample_single_reachable, where e = "Opened ''me'' ''gw''"]) simp
qed (simp add: open_client_def empty_registry_def sample_single_def sample_race_def update_client_def put_client_def getClientKey_def)

theorem registry_finds_requested_client_witness:
  "lookup_client ''me'' ''gw'' sample_single = Existing 0 \<and> cl_gatewayActorName (rg_heap sample_single ! 0) = ''gw''"
proof -
  have "lookup_client ''me'' ''gw'' sample_single = Existing 0" "cl_clientName (rg_heap sample_single ! 0) = ''me''" by code_simp+
  then show ?thesis using registry_finds_requested_client [OF sample_single_reachable, of "''me''" "''gw''" 0 "''gw''" 0] by simp
qed

theorem new_client_connected_unless_raced_witness:
  "fst (register_new 1 sample_race) = Replacing 1 \<and> \<not> is_connected (replace_client 1 (snd (register_new 1 sample_race))) 1
   \<and> GetClientByGatewayActorName ''gw'' (replace_client 1 (snd (register_new 1 sample_race))) = Some 1"
proof -
  obtain r g1 where r: "register_new 1 sample_race = (r, g1)" by fastforce
  moreover have "fst (register_new 1 sample_race) = Replacing 1" by code_simp
  ultimately have "r = Replacing 1" by simp
  moreover have "1 < length (rg_heap sample_race)" "is_connected sample_race 1" "cl_gatewayActorName (rg_heap sample_race ! 1) = ''gw''"
    "map_of (rg_clients sample_race) (cl_key (rg_heap sample_race ! 1)) \<noteq> Some 1" by code_simp+
  ultimately show ?thesis
    using new_client_connected_unless_raced [OF sample_race_reachable, of 1 r g1] r by auto
qed

end
