(* ===== verification/Readiness.thy ===== *)
theory Readiness
  imports Config Encoder
begin

text \<open>
  The readiness gate (\<open>readiness/gate.go\<close>, \<open>readiness/health_probe.go\<close>): probes are sent until a
  streak of them succeeds, with a pause between successes and a growing one between failures. The
  send function, the clock and the context are what one attempt observes; generated ids are
  arguments. The texts of the two errors are left out, their parts are kept.
\<close>

section \<open>Settings\<close>

record ActorAIPReadinessConfig =
  ac_Timeout :: int
  ac_InitialBackoff :: int
  ac_MaxBackoff :: int
  ac_RequiredConsecutive :: int
  ac_SuccessInterval :: int

definition readiness_normalized :: "ActorAIPReadinessConfig \<Rightarrow> ActorAIPReadinessConfig" where
  "readiness_normalized c =
     \<lparr>ac_Timeout = (if ac_Timeout c \<le> 0 then 60 * Second else ac_Timeout c),
      ac_InitialBackoff = (if ac_InitialBackoff c \<le> 0 then 2 * Second else ac_InitialBackoff c),
      ac_MaxBackoff = (if ac_MaxBackoff c \<le> 0 then 8 * Second else ac_MaxBackoff c),
      ac_RequiredConsecutive = (if ac_RequiredConsecutive c \<le> 0 then 1 else ac_RequiredConsecutive c),
      ac_SuccessInterval = (if ac_SuccessInterval c \<le> 0 then 2 * Second else ac_SuccessInterval c)\<rparr>"

section \<open>Probes\<close>

definition IsNeuralMemoryBackedForHealthProbe :: "string \<Rightarrow> bool" where
  "IsNeuralMemoryBackedForHealthProbe actorType =
     (let t = ToLower (TrimSpace actorType) in
      t = ''pod_db'' \<or> t = ''evolutionary-neural-memory'' \<or> t = ''neural_memory'' \<or> t = ''neural-memory'')"

definition zero_GetEventsForTagsOptions :: GetEventsForTagsOptions where
  "zero_GetEventsForTagsOptions =
     \<lparr>gt_EventPattern = [], gt_EventPatternHigh = [], gt_IncludeBriefHits = False, gt_GetAllData = False, gt_FirstLink = 0,
      gt_LinkCount = 0, gt_EventsPerMessage = 0, gt_StartResult = 0, gt_EndResult = 0, gt_MinEventHits = 0,
      gt_CountOnly = False, gt_GetMatchLinks = False, gt_CountMatchLinks = False, gt_GetLinkTags = False,
      gt_GetTargetTags = False, gt_LinkTagFilter = [], gt_LinkedEventsFilter = [], gt_LinkCategory = [], gt_Owner = [],
      gt_OwnerUniqueID = [], gt_GetEventObjectCount = False, gt_BufferResults = False, gt_IncludeTagStats = False,
      gt_InvertHitTagFilter = False, gt_HitTagFilter = [], gt_BufferFormat = [], gt_TagOwnerOutput = TagOwnerNone\<rparr>"

text \<open>\<open>mid\<close> and \<open>tag\<close> are the two generated ids.\<close>

definition BuildActorHealthProbeMessage :: "string \<Rightarrow> string \<Rightarrow> string \<Rightarrow> string \<Rightarrow> string \<Rightarrow> string \<Rightarrow> Message" where
  "BuildActorHealthProbeMessage mid tag actorAddress fromAddress clientName actorType =
     (let m = zero_Message\<lparr>m_To := actorAddress, m_From := fromAddress, m_ClientName := clientName, m_MessageId := mid\<rparr> in
      if IsNeuralMemoryBackedForHealthProbe actorType then
        m\<lparr>m_Intent := IT_GetEventsForTags,
          m_Payload := Some (zero_PayloadFields\<lparr>pl_Data := AString (''health_check=_podos_health_check_'' @ tag)\<rparr>),
          m_NeuralMemory := Some (zero_NeuralMemoryFields
            \<lparr>nm_GetEventsForTags := Some (zero_GetEventsForTagsOptions\<lparr>gt_CountOnly := True\<rparr>)\<rparr>)\<rparr>
      else m\<lparr>m_Intent := IT_StatusRequest\<rparr>)"

definition ActorHealthProbeSucceeded :: "go_error option \<Rightarrow> Message option \<Rightarrow> bool" where
  "ActorHealthProbeSucceeded err resp \<longleftrightarrow>
     err = None \<and> (case resp of None \<Rightarrow> True | Some m \<Rightarrow> ProcessingStatus m \<noteq> ''ERROR'')"

section \<open>The loop\<close>

text \<open>
  One attempt: whether the deadline had passed at its start, what the probe returned, and the error
  of the context if it ended during the pause that follows.
\<close>

record gate_obs =
  go_deadline :: bool
  go_err :: "go_error option"
  go_resp :: "Message option"
  go_cancelled :: "go_error option"

definition probe_ok :: "gate_obs \<Rightarrow> bool" where
  "probe_ok ob = ActorHealthProbeSucceeded (go_err ob) (go_resp ob)"

text \<open>The error a failed probe leaves.\<close>

definition probe_error :: "gate_obs \<Rightarrow> go_error" where
  "probe_error ob =
     (case go_err ob of
        Some e \<Rightarrow> e
      | None \<Rightarrow> OtherError (case go_resp ob of Some m \<Rightarrow> ''actor returned error: '' @ ProcessingMessage m
                  | None \<Rightarrow> ''probe returned no response'') None)"

text \<open>Ready, aborted after some attempts, or not reachable; \<open>Polling\<close> is a loop that still runs.\<close>

datatype gate_end = Ready | Aborted nat go_error | Unreachable go_error | Polling | NoSend | NoProbeActor

record gate_run =
  gr_end :: gate_end
  gr_waits :: "int list"

definition gate_stops :: "gate_end \<Rightarrow> gate_run" where
  "gate_stops e = \<lparr>gr_end = e, gr_waits = []\<rparr>"

definition gate_waits :: "int \<Rightarrow> gate_run \<Rightarrow> gate_run" where
  "gate_waits d r = r\<lparr>gr_waits := d # gr_waits r\<rparr>"

definition next_gate_backoff :: "ActorAIPReadinessConfig \<Rightarrow> int \<Rightarrow> int" where
  "next_gate_backoff rc d =
     (if d < ac_MaxBackoff rc then
        (let d' = wrap64 (d * 2) in if d' > ac_MaxBackoff rc then ac_MaxBackoff rc else d')
      else d)"

fun gate_loop :: "ActorAIPReadinessConfig \<Rightarrow> gate_obs list \<Rightarrow> nat \<Rightarrow> int \<Rightarrow> go_error option \<Rightarrow> int \<Rightarrow> gate_run" where
  "gate_loop rc [] attempt delay lastErr consecutive = gate_stops Polling"
| "gate_loop rc (ob # obs) attempt delay lastErr consecutive =
     (if go_deadline ob then
        gate_stops (Unreachable (case lastErr of Some e \<Rightarrow> e | None \<Rightarrow> OtherError ''deadline exceeded'' None))
      else if probe_ok ob then
        (if consecutive + 1 \<ge> ac_RequiredConsecutive rc then gate_stops Ready
         else case go_cancelled ob of
           Some e \<Rightarrow> gate_stops (Aborted attempt e)
         | None \<Rightarrow> gate_waits (ac_SuccessInterval rc)
             (gate_loop rc obs (Suc attempt) (ac_InitialBackoff rc) lastErr (consecutive + 1)))
      else
        (case go_cancelled ob of
           Some e \<Rightarrow> gate_stops (Aborted attempt e)
         | None \<Rightarrow> gate_waits delay
             (gate_loop rc obs (Suc attempt) (next_gate_backoff rc delay) (Some (probe_error ob)) 0)))"

definition waitForAIPReady :: "bool \<Rightarrow> ActorAIPReadinessConfig \<Rightarrow> gate_obs list \<Rightarrow> gate_run" where
  "waitForAIPReady hasSend rc obs =
     (if \<not> hasSend then gate_stops NoSend
      else let rc' = readiness_normalized rc in gate_loop rc' obs 1 (ac_InitialBackoff rc') None 0)"

definition WaitForActorAIPReady :: "bool \<Rightarrow> ActorAIPReadinessConfig \<Rightarrow> gate_obs list \<Rightarrow> gate_run" where
  "WaitForActorAIPReady hasSend rc obs = waitForAIPReady hasSend rc obs"

definition WaitForGatewayAIPReady :: "bool \<Rightarrow> string \<Rightarrow> ActorAIPReadinessConfig \<Rightarrow> gate_obs list \<Rightarrow> gate_run" where
  "WaitForGatewayAIPReady hasSend probeActor rc obs =
     (if probeActor = [] then gate_stops NoProbeActor else waitForAIPReady hasSend rc obs)"

section \<open>When the gate opens\<close>

text \<open>The last \<open>n\<close> of a history of probes all succeeded.\<close>

definition streak :: "nat \<Rightarrow> bool list \<Rightarrow> bool" where
  "streak n bs \<longleftrightarrow> n \<le> length bs \<and> list_all id (drop (length bs - n) bs)"

text \<open>The attempts up to the \<open>n\<close>-th take place: no deadline before them, no cancellation between them.\<close>

definition attempts_run :: "nat \<Rightarrow> gate_obs list \<Rightarrow> bool" where
  "attempts_run n obs \<longleftrightarrow> n \<le> length obs \<and> list_all (\<lambda>ob. \<not> go_deadline ob) (take n obs)
     \<and> list_all (\<lambda>ob. go_cancelled ob = None) (take (n - 1) obs)"

definition opens :: "nat \<Rightarrow> nat \<Rightarrow> gate_obs list \<Rightarrow> bool" where
  "opens r c obs \<longleftrightarrow> (\<exists>n > 0. attempts_run n obs \<and> streak r (replicate c True @ map probe_ok (take n obs)))"

lemma streak_after_failure: "streak n (as @ False # bs) = streak n bs"
proof (cases "n \<le> length bs")
  case True
  then show ?thesis by (simp add: streak_def Suc_diff_le)
next
  case False
  then have "False \<in> set (drop (length (as @ False # bs) - n) (as @ False # bs))" if "n \<le> length (as @ False # bs)"
    using that by (simp add: Suc_diff_le)
  then show ?thesis using False by (auto simp: streak_def list_all_iff)
qed

lemma streak_replicate: "streak n (replicate c True) \<longleftrightarrow> n \<le> c"
  by (simp add: streak_def list_all_iff)

lemma attempts_run_Cons:
  "attempts_run (Suc n) (ob # obs) \<longleftrightarrow> \<not> go_deadline ob \<and> (n = 0 \<or> go_cancelled ob = None \<and> attempts_run n obs)"
  by (cases n) (auto simp: attempts_run_def)

lemma opens_Cons:
  assumes "0 < r"
  shows "opens r c (ob # obs) \<longleftrightarrow> \<not> go_deadline ob \<and>
     (probe_ok ob \<and> r \<le> Suc c \<or> go_cancelled ob = None \<and> opens r (if probe_ok ob then Suc c else 0) obs)"
proof -
  have s: "streak r (replicate c True @ map probe_ok (take (Suc n) (ob # obs)))
      = streak r (replicate (if probe_ok ob then Suc c else 0) True @ map probe_ok (take n obs))" for n
    by (simp add: streak_after_failure replicate_app_Cons_same)
  have "opens r c (ob # obs) \<longleftrightarrow>
      (\<exists>n. attempts_run (Suc n) (ob # obs) \<and> streak r (replicate c True @ map probe_ok (take (Suc n) (ob # obs))))"
    unfolding opens_def by (metis Suc_pred zero_less_Suc)
  also have "\<dots> \<longleftrightarrow> (attempts_run (Suc 0) (ob # obs) \<and> streak r (replicate c True @ map probe_ok (take (Suc 0) (ob # obs))))
      \<or> (\<exists>n > 0. attempts_run (Suc n) (ob # obs) \<and> streak r (replicate c True @ map probe_ok (take (Suc n) (ob # obs))))"
    by (metis gr0I)
  also have "\<dots> \<longleftrightarrow> \<not> go_deadline ob \<and>
     (probe_ok ob \<and> r \<le> Suc c \<or> go_cancelled ob = None \<and> opens r (if probe_ok ob then Suc c else 0) obs)"
    unfolding s attempts_run_Cons opens_def using assms streak_replicate [of r "Suc c"] streak_replicate [of r 0] by auto
  finally show ?thesis .
qed

lemma gate_loop_Ready_iff:
  assumes "0 \<le> c" "c < ac_RequiredConsecutive rc"
  shows "gr_end (gate_loop rc obs k d e c) = Ready \<longleftrightarrow> opens (nat (ac_RequiredConsecutive rc)) (nat c) obs"
  using assms
proof (induction rc obs k d e c rule: gate_loop.induct)
  case (1 rc k d e c)
  then show ?case by (auto simp: gate_stops_def opens_def attempts_run_def)
next
  case (2 rc ob obs k d e c)
  have "nat (c + 1) = Suc (nat c)" "nat (ac_RequiredConsecutive rc) \<le> Suc (nat c) \<longleftrightarrow> ac_RequiredConsecutive rc \<le> c + 1"
    "0 < nat (ac_RequiredConsecutive rc)" using 2(3,4) by linarith+
  then show ?case using 2
    by (auto simp: opens_Cons gate_stops_def gate_waits_def split: option.splits)
qed

lemma gate_loop_waits:
  assumes "d \<le> m" "ac_InitialBackoff rc \<le> m" "ac_MaxBackoff rc \<le> m" "ac_SuccessInterval rc \<le> m"
  shows "list_all (\<lambda>w. w \<le> m) (gr_waits (gate_loop rc obs k d e c))"
  using assms
proof (induction rc obs k d e c rule: gate_loop.induct)
  case (2 rc ob obs k d e c)
  have "next_gate_backoff rc d \<le> m" using 2(3,5) by (auto simp: next_gate_backoff_def Let_def)
  then show ?case using 2 by (auto simp: gate_stops_def gate_waits_def split: option.splits)
qed (simp add: gate_stops_def)

section \<open>Properties\<close>

text \<open>
  Claim C31. The gate opens exactly on a streak: it reports readiness if and only if some attempt
  before the deadline and before any cancellation completes a run of \<open>RequiredConsecutive\<close> successful
  probes. A probe that brings neither a response nor an error counts as a success. No pause is longer
  than the longest of the three intervals.
\<close>

theorem gate_opens_on_streak:
  "(gr_end (waitForAIPReady True rc obs) = Ready \<longleftrightarrow>
       (\<exists>n > 0. attempts_run n obs
          \<and> streak (nat (ac_RequiredConsecutive (readiness_normalized rc))) (map probe_ok (take n obs))))
   \<and> (go_err ob = None \<and> go_resp ob = None \<longrightarrow> probe_ok ob)
   \<and> list_all (\<lambda>w. w \<le> max (ac_InitialBackoff (readiness_normalized rc))
         (max (ac_MaxBackoff (readiness_normalized rc)) (ac_SuccessInterval (readiness_normalized rc))))
       (gr_waits (waitForAIPReady True rc obs))"
proof (intro conjI)
  have "0 < ac_RequiredConsecutive (readiness_normalized rc)" by (simp add: readiness_normalized_def)
  then show "gr_end (waitForAIPReady True rc obs) = Ready \<longleftrightarrow>
       (\<exists>n > 0. attempts_run n obs
          \<and> streak (nat (ac_RequiredConsecutive (readiness_normalized rc))) (map probe_ok (take n obs)))"
    by (simp add: waitForAIPReady_def Let_def gate_loop_Ready_iff opens_def)
qed (simp_all add: probe_ok_def ActorHealthProbeSucceeded_def waitForAIPReady_def Let_def gate_loop_waits)

section \<open>Witnesses\<close>

definition sample_probe :: "bool \<Rightarrow> gate_obs" where
  "sample_probe b = \<lparr>go_deadline = False, go_err = (if b then None else Some (OtherError ''refused'' None)), go_resp = None,
     go_cancelled = None\<rparr>"

definition sample_gate :: ActorAIPReadinessConfig where
  "sample_gate = \<lparr>ac_Timeout = 0, ac_InitialBackoff = 0, ac_MaxBackoff = 0, ac_RequiredConsecutive = 2, ac_SuccessInterval = 0\<rparr>"

theorem gate_opens_on_streak_witness:
  "gr_end (waitForAIPReady True sample_gate (map sample_probe [True, False, True, True])) = Ready
   \<and> gr_end (waitForAIPReady True sample_gate (map sample_probe [True, False, True])) \<noteq> Ready"
proof
  have "attempts_run 4 (map sample_probe [True, False, True, True])
      \<and> streak (nat (ac_RequiredConsecutive (readiness_normalized sample_gate)))
          (map probe_ok (take 4 (map sample_probe [True, False, True, True])))"
    by code_simp
  then show "gr_end (waitForAIPReady True sample_gate (map sample_probe [True, False, True, True])) = Ready"
    using gate_opens_on_streak [of sample_gate "map sample_probe [True, False, True, True]" "sample_probe True"] by force
  show "gr_end (waitForAIPReady True sample_gate (map sample_probe [True, False, True])) \<noteq> Ready" by code_simp
qed

end
