(* ===== verification/Health.thy ===== *)
theory Health
  imports Session Readiness TransportProperties
begin

text \<open>
  Health checks end to end (\<open>health.go\<close>): the handler that answers an inbound status request, and the
  exchange between a prober and an actor over the encoder and the decoder.
\<close>

section \<open>The reply\<close>

definition BuildStatusHealthReply :: "session \<Rightarrow> Message option \<Rightarrow> Message" where
  "BuildStatusHealthReply c inbound = zero_Message
     \<lparr>m_To := (case inbound of Some m \<Rightarrow> m_From m | None \<Rightarrow> []), m_From := FromAddress c, m_Intent := IT_Status,
      m_ClientName := ss_clientName c, m_MessageId := (case inbound of Some m \<Rightarrow> m_MessageId m | None \<Rightarrow> []),
      m_Response := Some (zero_ResponseFields\<lparr>rs_Status := ''OK'', rs_Message := ''actor is healthy''\<rparr>)\<rparr>"

text \<open>The frame the handler sends, if any; an encoding error is only logged.\<close>

definition health_reply :: "golib \<Rightarrow> int \<Rightarrow> session \<Rightarrow> Message option \<Rightarrow> SocketMessage option" where
  "health_reply G now c inbound =
     (case inbound of
        None \<Rightarrow> None
      | Some m \<Rightarrow>
          if in_Name (m_Intent m) \<noteq> in_Name IT_StatusRequest then None
          else case EncodeMessage G now (Some (BuildStatusHealthReply c inbound)) of
            Returned sm \<Rightarrow> Some sm
          | _ \<Rightarrow> None)"

text \<open>The handler \<open>RespondToHealthChecks\<close> installs, with what the socket does.\<close>

definition RespondToHealthChecks :: "golib \<Rightarrow> int \<Rightarrow> write_obs list \<Rightarrow> Message option \<Rightarrow> session \<Rightarrow> session io" where
  "RespondToHealthChecks G now obs inbound c =
     (case health_reply G now c inbound of
        None \<Rightarrow> Done c
      | Some sm \<Rightarrow> io_bind (SendControlMessage obs sm c) (\<lambda>(e, c'). Done c'))"

section \<open>Frames without a payload\<close>

lemma DecodeMessage_no_payload:
  assumes "codable m h []" and "lookup_intent (in_MessageType (m_Intent m)) (decode_command (decodeHeader h)) = Some i"
    and "in_Name i \<noteq> ''GetEvent''" "in_Name i \<noteq> ''GetEventResponse''"
  shows "\<exists>r. DecodeMessage G ro (sm_MessageBytes (frame m h [])) = Some (r, None) \<and> m_From r = decode_from (m_From m)
     \<and> m_Intent r = i \<and> m_MessageId r = get_or [] (decodeHeader h) ''_msg_id''
     \<and> m_Response r = Some (header_response (decodeHeader h) zero_ResponseFields)"
  using assms atoi_field_frame [OF assms(1)]
  by (simp add: DecodeMessage_frame decode_body_def decode_payload_def set_payload_def
      transformHeaderMaptoMessageStruct_def Let_def set_if_def zero_Message_def ensureEvent_def ensurePayload_def
      ensureResponse_def get_or_def split: option.splits)

text \<open>Names and lengths the exchange needs: what both checks of addresses accept, in ASCII, without a bar.\<close>

definition plain_address :: "string \<Rightarrow> bool" where
  "plain_address a \<longleftrightarrow> address_ok a \<and> ascii_text a \<and> CHR ''|'' \<notin> set a \<and> length a < 2 ^ 28"

definition plain_id :: "string \<Rightarrow> bool" where
  "plain_id i \<longleftrightarrow> i \<noteq> [] \<and> ascii_text i \<and> clean_value i \<and> length i < 2 ^ 28"

lemma decode_from_plain: "CHR ''|'' \<notin> set a \<Longrightarrow> decode_from a = a"
  using Cut_None_iff [of "CHR ''|''" a] by (simp add: decode_from_def IndexByte_Cut)

lemma encode_no_payload:
  assumes "plain_address (m_To m)" "plain_address (m_From m)" "ascii_text h" "length h < 2 ^ 29" "m_Payload m = None"
    and "m_Intent m \<in> {IT_StatusRequest, IT_Status, IT_Keepalive, IT_GatewayDisconnect}" "ConstructHeader G now m (m_Intent m) = Some h"
  shows "EncodeMessage G now (Some m) = Returned (frame m h []) \<and> codable m h []"
proof -
  have i: "in_Name (m_Intent m) \<in> {''StatusRequest'', ''Status'', ''Keepalive'', ''GatewayDisconnect''}" "0 \<le> in_MessageType (m_Intent m)" "in_MessageType (m_Intent m) < 1000"
    using assms(6) by (auto simp: IT_StatusRequest_def IT_Status_def IT_Keepalive_def IT_GatewayDisconnect_def mk_intent_def)
  have p: "PayloadData m = ANil" "payloadDataType m = 0"
    using assms(5) by (simp_all add: PayloadData_def payloadDataType_def)
  have "length (dec9 (in_MessageType (m_Intent m))) = 9" "length (dec9 0) = 9"
    using i by (simp_all add: length_dec9)
  then have l: "total_length m h [] < 2 ^ 31"
    using assms(1,2,4) by (simp add: total_length_def plain_address_def p)
  have "check_link_event m = None" "encode_payload G m = Returned []" "check_payload_size (PayloadData m) = None"
    using i(1) by (auto simp: check_link_event_def encode_payload_def IT_defs mk_intent_def p check_payload_size_def Let_def)
  then show ?thesis using assms l i p
    by (auto simp: EncodeMessage_Returned_iff check_to_None_iff check_from_None_iff plain_address_def codable_def MaxMessageSizeBytes_def)
qed

lemma status_lookup:
  "lookup_intent (in_MessageType IT_StatusRequest) [] = Some IT_StatusRequest"
  "lookup_intent (in_MessageType IT_Status) [] = Some IT_GatewayStatus"
  by code_simp+

lemma clean_status: "clean_key ''_msg_id''" "clean_key ''_status''" "clean_value ''OK''" "clean_key ''_msg''" "clean_value ''actor is healthy''"
  by code_simp+

text \<open>What the actor decodes of a probe.\<close>

lemma probe_decodes:
  assumes "m_Intent m = IT_StatusRequest" "m_Payload m = None" "plain_address (m_To m)" "plain_address (m_From m)" "plain_id (m_MessageId m)"
  shows "\<exists>sm inbound. EncodeMessage G now (Some m) = Returned sm \<and> DecodeMessage G ro (sm_MessageBytes sm) = Some (inbound, None)
     \<and> m_From inbound = m_From m \<and> m_Intent inbound = IT_StatusRequest \<and> m_MessageId inbound = m_MessageId m"
proof -
  let ?h = "msg_id_tail m"
  have f: "EncodeMessage G now (Some m) = Returned (frame m ?h []) \<and> codable m ?h []"
    using assms
    by (intro encode_no_payload) (auto simp: ConstructHeader_def IT_StatusRequest_def mk_intent_def StatusRequestHeader_def
        msg_id_tail_def plain_id_def ascii_text_def is_ascii_def)
  have h: "decodeHeader ?h = [(''_msg_id'', m_MessageId m)]"
    using decodeHeader_tail [of "[]" m] assms(5)
    by (simp add: clean_fields_def tail_field_def opt_field_def plain_id_def update_all_def clean_status)
  then show ?thesis
    using DecodeMessage_no_payload [of m ?h IT_StatusRequest G ro] f status_lookup(1) assms(1,4)
    by (auto simp: decode_command_def first_of.simps decode_from_plain plain_address_def get_or_def IT_StatusRequest_def mk_intent_def)
qed

text \<open>What the prober decodes of a reply.\<close>

lemma reply_decodes:
  assumes "plain_address (m_From inbound)" "plain_address (FromAddress c)" "plain_id (m_MessageId inbound)"
  shows "\<exists>sm response. EncodeMessage G now (Some (BuildStatusHealthReply c (Some inbound))) = Returned sm
     \<and> DecodeMessage G ro (sm_MessageBytes sm) = Some (response, None)
     \<and> m_MessageId response = m_MessageId inbound \<and> ProcessingStatus response = ''OK''"
proof -
  let ?r = "BuildStatusHealthReply c (Some inbound)" and ?fs = "[(''_status'', ''OK''), (''_msg'', ''actor is healthy'')]"
  have r: "m_To ?r = m_From inbound" "m_From ?r = FromAddress c" "m_MessageId ?r = m_MessageId inbound" "m_Intent ?r = IT_Status"
    "m_Payload ?r = None" "m_Response ?r = Some (zero_ResponseFields\<lparr>rs_Status := ''OK'', rs_Message := ''actor is healthy''\<rparr>)"
    by (simp_all add: BuildStatusHealthReply_def zero_Message_def)
  have sh: "StatusHeader ?r = fields_text ?fs @ msg_id_tail ?r"
    by (simp add: StatusHeader_def r kv_fields opt_field_def zero_ResponseFields_def Let_def)
  have f: "EncodeMessage G now (Some ?r) = Returned (frame ?r (StatusHeader ?r) []) \<and> codable ?r (StatusHeader ?r) []"
    using assms r
    by (intro encode_no_payload)
      (auto simp: ConstructHeader_def IT_Status_def mk_intent_def sh msg_id_tail_def field_text_def ascii_text_def is_ascii_def plain_id_def)
  have "clean_fields (?fs @ tail_field ?r)"
    using assms(3) by (simp add: clean_fields_def tail_field_def opt_field_def r plain_id_def clean_status)
  then have "decodeHeader (StatusHeader ?r) = update_all (?fs @ [(''_msg_id'', m_MessageId inbound)]) []"
    using decodeHeader_tail [of ?fs ?r] assms(3) by (simp add: sh tail_field_def opt_field_def r plain_id_def)
  then show ?thesis
    using DecodeMessage_no_payload [of ?r "StatusHeader ?r" IT_GatewayStatus G ro] f status_lookup(2)
    by (auto simp: r decode_command_def first_of.simps get_or_def IT_GatewayStatus_def mk_intent_def map_of_fields
        header_response_def set_int_def zero_ResponseFields_def ProcessingStatus_def Let_def)
qed

section \<open>Property\<close>

text \<open>
  Claim C30. A health check works end to end: the probe of a readiness gate for an actor that is not
  backed by a neural memory, encoded, decoded by the actor, answered by its handler, encoded again and
  decoded by the prober, comes back as a response with the probe's message id that counts as a
  success.
\<close>

theorem health_check_succeeds:
  assumes "\<not> IsNeuralMemoryBackedForHealthProbe actorType"
    and "plain_address actor" "plain_address prober" "plain_address (FromAddress c)" "plain_id mid"
  shows "\<exists>probe inbound reply response.
     EncodeMessage G now (Some (BuildActorHealthProbeMessage mid tag actor prober name actorType)) = Returned probe
     \<and> DecodeMessage G ro (sm_MessageBytes probe) = Some (inbound, None)
     \<and> health_reply G now' c (Some inbound) = Some reply
     \<and> DecodeMessage G ro' (sm_MessageBytes reply) = Some (response, None)
     \<and> m_MessageId response = mid \<and> ActorHealthProbeSucceeded None (Some response)"
proof -
  let ?m = "BuildActorHealthProbeMessage mid tag actor prober name actorType"
  have m: "m_To ?m = actor" "m_From ?m = prober" "m_MessageId ?m = mid" "m_Intent ?m = IT_StatusRequest" "m_Payload ?m = None"
    using assms(1) by (simp_all add: BuildActorHealthProbeMessage_def zero_Message_def)
  obtain probe inbound where p: "EncodeMessage G now (Some ?m) = Returned probe"
      "DecodeMessage G ro (sm_MessageBytes probe) = Some (inbound, None)"
      "m_From inbound = prober" "m_Intent inbound = IT_StatusRequest" "m_MessageId inbound = mid"
    using probe_decodes [of ?m G now ro] m assms by auto
  obtain reply response where "EncodeMessage G now' (Some (BuildStatusHealthReply c (Some inbound))) = Returned reply"
      "DecodeMessage G ro' (sm_MessageBytes reply) = Some (response, None)"
      "m_MessageId response = mid" "ProcessingStatus response = ''OK''"
    using reply_decodes [of inbound c G now' ro'] p assms by auto
  with p show ?thesis by (auto simp: health_reply_def ActorHealthProbeSucceeded_def)
qed

section \<open>Witness\<close>

definition sample_actor :: session where
  "sample_actor = \<lparr>ss_conn = sample_transport, ss_stream = [], ss_cfg = zero_Config, ss_retry = None,
     ss_gatewayActorName = ''gw'', ss_clientName = ''shell''\<rparr>"

theorem health_check_succeeds_witness:
  "\<exists>probe inbound reply response.
     EncodeMessage sample_lib 0 (Some (BuildActorHealthProbeMessage ''m1'' [] ''shell@gw'' ''me@gw'' ''me'' ''shell'')) = Returned probe
     \<and> DecodeMessage sample_lib sample_order (sm_MessageBytes probe) = Some (inbound, None)
     \<and> health_reply sample_lib 1 sample_actor (Some inbound) = Some reply
     \<and> DecodeMessage sample_lib sample_order (sm_MessageBytes reply) = Some (response, None)
     \<and> m_MessageId response = ''m1'' \<and> ActorHealthProbeSucceeded None (Some response)"
proof (rule health_check_succeeds)
  show "\<not> IsNeuralMemoryBackedForHealthProbe ''shell''" by code_simp
  have "plain_address ''shell@gw'' \<and> plain_address ''me@gw''"
    by (auto simp: plain_address_def address_ok_def ascii_text_def is_ascii_def split: option.splits)
  moreover have "FromAddress sample_actor = ''shell@gw''" by (simp add: FromAddress_def sample_actor_def)
  ultimately show "plain_address ''shell@gw''" "plain_address ''me@gw''" "plain_address (FromAddress sample_actor)" by simp_all
  show "plain_id ''m1''" by code_simp
qed

end
