(* ===== verification/HeaderBuilder.thy ===== *)
theory HeaderBuilder
  imports ValidateAgreement Readiness "HOL-Library.Multiset"
begin

text \<open>
  The header builder over struct tags (\<open>message/mapping.go\<close>). Reflection over an options struct is a
  list of its fields with their Go name, their socket name and their value, in the order of the
  declaration; a field without a tag has no socket name. \<open>newId\<close> is the generated message id. The
  pointers and the fallback of \<open>transformValue\<close> concern no field of these structs and are left out.
\<close>

section \<open>Values\<close>

datatype field_value = VBool bool | VInt int | VString string | VNullInt NullInt

type_synonym struct_field = "string \<times> string \<times> field_value"

definition NullIntTransformer :: "NullInt \<Rightarrow> string" where
  "NullIntTransformer ni = (if \<not> ni_Valid ni then ''1'' else itoa (ni_Value ni))"

fun transformValue :: "field_value \<Rightarrow> string" where
  "transformValue (VBool b) = (if b then ''Y'' else ''N'')"
| "transformValue (VInt i) = itoa i"
| "transformValue (VString s) = s"
| "transformValue (VNullInt ni) = NullIntTransformer ni"

fun shouldIncludeField :: "string \<Rightarrow> field_value \<Rightarrow> bool" where
  "shouldIncludeField name (VBool b) = True"
| "shouldIncludeField name (VNullInt ni) = True"
| "shouldIncludeField name (VInt i) =
     (if name = ''RequestFormat'' then i = 2
      else if name = ''FirstLink'' then i \<ge> 0
      else if name = ''LinkCount'' then i > 0
      else True)"
| "shouldIncludeField name (VString s) = (s \<noteq> [])"

fun shouldIncludeEventsForTagsField :: "string \<Rightarrow> field_value \<Rightarrow> bool" where
  "shouldIncludeEventsForTagsField name (VBool b) = b"
| "shouldIncludeEventsForTagsField name (VInt i) = (if name = ''EventsPerMessage'' then i \<noteq> 0 else i > 0)"
| "shouldIncludeEventsForTagsField name (VString s) = (s \<noteq> [])"
| "shouldIncludeEventsForTagsField name (VNullInt ni) = (ni \<noteq> \<lparr>ni_Value = 0, ni_Valid = False\<rparr>)"

section \<open>The structs\<close>

definition get_event_struct :: "GetEventOptions \<Rightarrow> struct_field list" where
  "get_event_struct o' =
     [(''SendData'', ''send_data'', VBool (ge_SendData o')), (''LocalIdOnly'', ''local_id_only'', VBool (ge_LocalIdOnly o')),
      (''TagFormat'', ''tag_format'', VNullInt (ge_TagFormat o')), (''RequestFormat'', ''request_format'', VInt (ge_RequestFormat o')),
      (''FirstLink'', ''first_link'', VInt (ge_FirstLink o')), (''LinkCount'', ''link_count'', VInt (ge_LinkCount o')),
      (''GetTags'', ''get_tags'', VBool (ge_GetTags o')), (''GetLinks'', ''get_links'', VBool (ge_GetLinks o')),
      (''GetLinkTags'', ''get_link_tags'', VBool (ge_GetLinkTags o')), (''GetTargetTags'', ''get_target_tags'', VBool (ge_GetTargetTags o')),
      (''EventFacetFilter'', ''event_facet_filter'', VString (ge_EventFacetFilter o')),
      (''LinkFacetFilter'', ''link_facet_filter'', VString (ge_LinkFacetFilter o')),
      (''TargetFacetFilter'', ''target_facet_filter'', VString (ge_TargetFacetFilter o')),
      (''CategoryFilter'', ''category_filter'', VString (ge_CategoryFilter o')), (''TagFilter'', ''tag_filter'', VString (ge_TagFilter o'))]"

definition events_for_tags_struct :: "GetEventsForTagsOptions \<Rightarrow> struct_field list" where
  "events_for_tags_struct o' =
     [(''EventPattern'', ''event'', VString (gt_EventPattern o')), (''EventPatternHigh'', ''event_high'', VString (gt_EventPatternHigh o')),
      (''IncludeBriefHits'', ''include_brief_hits'', VBool (gt_IncludeBriefHits o')), (''GetAllData'', ''get_all_data'', VBool (gt_GetAllData o')),
      (''FirstLink'', ''first_link'', VInt (gt_FirstLink o')), (''LinkCount'', ''link_count'', VInt (gt_LinkCount o')),
      (''EventsPerMessage'', ''events_per_message'', VInt (gt_EventsPerMessage o')), (''StartResult'', ''start_result'', VInt (gt_StartResult o')),
      (''EndResult'', ''end_result'', VInt (gt_EndResult o')), (''MinEventHits'', ''min_event_hits'', VInt (gt_MinEventHits o')),
      (''CountOnly'', ''count_only'', VBool (gt_CountOnly o')), (''GetMatchLinks'', ''get_match_links'', VBool (gt_GetMatchLinks o')),
      (''CountMatchLinks'', ''count_match_links'', VBool (gt_CountMatchLinks o')), (''GetLinkTags'', ''get_link_tags'', VBool (gt_GetLinkTags o')),
      (''GetTargetTags'', ''get_target_tags'', VBool (gt_GetTargetTags o')), (''LinkTagFilter'', ''link_tag_pattern'', VString (gt_LinkTagFilter o')),
      (''LinkedEventsFilter'', ''linked_events_tag_filter'', VString (gt_LinkedEventsFilter o')),
      (''LinkCategory'', ''link_category'', VString (gt_LinkCategory o')), (''Owner'', ''owner'', VString (gt_Owner o')),
      (''OwnerUniqueID'', ''owner_unique_id'', VString (gt_OwnerUniqueID o')), (''GetEventObjectCount'', ''get_eo_count'', VBool (gt_GetEventObjectCount o')),
      (''BufferResults'', ''buffer_results'', VBool (gt_BufferResults o')), (''IncludeTagStats'', ''include_tag_stats'', VBool (gt_IncludeTagStats o')),
      (''InvertHitTagFilter'', ''invert_hit_tag_filter'', VBool (gt_InvertHitTagFilter o')), (''HitTagFilter'', ''hit_tag_filter'', VString (gt_HitTagFilter o')),
      (''BufferFormat'', ''buffer_format'', VString (gt_BufferFormat o'))]"

section \<open>The headers\<close>

definition struct_header :: "(string \<Rightarrow> field_value \<Rightarrow> bool) \<Rightarrow> (string \<Rightarrow> bool) \<Rightarrow> struct_field list \<Rightarrow> string" where
  "struct_header include written fs =
     concat (map (\<lambda>(name, socket, v). kv_if (include name v \<and> written (transformValue v)) socket (transformValue v)) fs)"

text \<open>\<open>strings.TrimSuffix(s, "\t")\<close>.\<close>

definition trim_tab :: "string \<Rightarrow> string" where
  "trim_tab s = (if s \<noteq> [] \<and> last s = TAB then butlast s else s)"

definition builder_tail :: "string \<Rightarrow> Message \<Rightarrow> string" where
  "builder_tail newId m = ''_msg_id='' @ (if m_MessageId m = [] then newId else m_MessageId m)"

definition BuildGetEventHeader :: "string \<Rightarrow> Message \<Rightarrow> string" where
  "BuildGetEventHeader newId m = trim_tab
     (kv ''_db_cmd'' ''get'' @ kv ''id:name'' (m_ClientName m)
      @ (case m_Event m of None \<Rightarrow> []
         | Some e \<Rightarrow> kv_nonempty ''event'' (ev_Id e) @ kv_nonempty ''unique_id'' (ev_UniqueId e))
      @ (case GetEventOpts m of None \<Rightarrow> []
         | Some opts \<Rightarrow> struct_header shouldIncludeField (\<lambda>s. s \<noteq> []) (get_event_struct opts)
             @ (case ge_TagOwnerOutput opts of
                  TagOwnerEventKey \<Rightarrow> kv ''output_tag_owner'' ''Y''
                | TagOwnerUniqueID \<Rightarrow> kv ''output_tag_owner'' ''N''
                | _ \<Rightarrow> []))
      @ builder_tail newId m)"

definition BuildGetEventsForTagsHeader :: "string \<Rightarrow> Message \<Rightarrow> string" where
  "BuildGetEventsForTagsHeader newId m = trim_tab
     (kv ''_db_cmd'' ''events_for_tag'' @ kv ''id:name'' (m_ClientName m)
      @ (case GetEventsForTagsOpts m of
           None \<Rightarrow> kv ''buffer_results'' ''N'' @ kv ''buffer_format'' ''0''
         | Some opts \<Rightarrow>
             struct_header shouldIncludeEventsForTagsField (\<lambda>s. s \<noteq> [] \<and> s \<noteq> ''N'') (events_for_tags_struct opts)
             @ (if gt_BufferResults opts then kv ''buffer_results'' ''Y'' else kv ''buffer_results'' ''N'')
             @ kv_if (gt_IncludeTagStats opts) ''include_tag_stats'' ''Y''
             @ kv_nonempty ''hit_tag_filter'' (gt_HitTagFilter opts)
             @ kv_if (gt_InvertHitTagFilter opts) ''invert_hit_tag_filter'' ''Y''
             @ (case gt_TagOwnerOutput opts of
                  TagOwnerEventKey \<Rightarrow> kv ''get_tag_owner'' ''Y''
                | TagOwnerUniqueID \<Rightarrow> kv ''get_tag_owner_unique_id'' ''Y''
                | _ \<Rightarrow> [])
             @ kv ''buffer_format'' (if gt_BufferFormat opts = [] then ''0'' else gt_BufferFormat opts))
      @ builder_tail newId m)"

text \<open>\<open>getCommand\<close>, by the name of the intent.\<close>

definition command_names :: "(string \<times> string) list" where
  "command_names = [(''GetEvent'', ''get''), (''StoreEvent'', ''store''), (''LinkEvents'', ''link''), (''UnLinkEvents'', ''unlink''),
     (''GetEventsForTags'', ''events_for_tag''), (''StoreBatchEvents'', ''store_batch'')]"

definition getCommand :: "string \<Rightarrow> string" where
  "getCommand intent = (case map_of command_names intent of Some cmd \<Rightarrow> cmd | None \<Rightarrow> [])"

lemma getCommand_of_intents:
  "getCommand (in_Name IT_GetEventsForTags) = in_NeuralMemoryCommand IT_GetEventsForTags"
  "getCommand (in_Name IT_LinkEvent) = []" "in_NeuralMemoryCommand IT_LinkEvent \<noteq> []"
  by code_simp+

section \<open>Headers as field lists\<close>

definition reflected_fields :: "(string \<Rightarrow> field_value \<Rightarrow> bool) \<Rightarrow> (string \<Rightarrow> bool) \<Rightarrow> struct_field list \<Rightarrow> strmap" where
  "reflected_fields include written fs =
     concat (map (\<lambda>(name, socket, v). opt_field (include name v \<and> written (transformValue v)) socket (transformValue v)) fs)"

lemma struct_header_fields: "struct_header include written fs = fields_text (reflected_fields include written fs)"
  by (induction fs) (auto simp: struct_header_def reflected_fields_def kv_if_field)

definition builder_fields :: "Message \<Rightarrow> strmap" where
  "builder_fields m =
     [(''_db_cmd'', ''events_for_tag''), (''id:name'', m_ClientName m)]
     @ (case GetEventsForTagsOpts m of
          None \<Rightarrow> [(''buffer_results'', ''N''), (''buffer_format'', ''0'')]
        | Some g \<Rightarrow>
            reflected_fields shouldIncludeEventsForTagsField (\<lambda>s. s \<noteq> [] \<and> s \<noteq> ''N'') (events_for_tags_struct g)
            @ [(''buffer_results'', if gt_BufferResults g then ''Y'' else ''N'')]
            @ opt_field (gt_IncludeTagStats g) ''include_tag_stats'' ''Y''
            @ opt_field (gt_HitTagFilter g \<noteq> []) ''hit_tag_filter'' (gt_HitTagFilter g)
            @ opt_field (gt_InvertHitTagFilter g) ''invert_hit_tag_filter'' ''Y''
            @ either_field (gt_TagOwnerOutput g = TagOwnerEventKey) (''get_tag_owner'', ''Y'')
                (opt_field (gt_TagOwnerOutput g = TagOwnerUniqueID) ''get_tag_owner_unique_id'' ''Y'')
            @ [(''buffer_format'', if gt_BufferFormat g = [] then ''0'' else gt_BufferFormat g)])"

text \<open>The texts of the options, which both headers write: ASCII, without a tab, trimmed, and not \<open>N\<close>.\<close>

definition plain_text :: "string \<Rightarrow> bool" where
  "plain_text s \<longleftrightarrow> ascii_text s \<and> clean_value s \<and> s \<noteq> ''N''"

definition plain_options :: "GetEventsForTagsOptions \<Rightarrow> bool" where
  "plain_options g \<longleftrightarrow> list_all plain_text [gt_EventPattern g, gt_EventPatternHigh g, gt_LinkTagFilter g, gt_LinkedEventsFilter g,
     gt_LinkCategory g, gt_Owner g, gt_OwnerUniqueID g, gt_HitTagFilter g, gt_BufferFormat g]
     \<and> (gt_Owner g = [] \<or> gt_OwnerUniqueID g = [])"

lemma itoa_written: "itoa i \<noteq> []" "itoa i \<noteq> ''N''" "clean_value (itoa i)"
proof -
  have d: "digits 10 n \<noteq> ''N''" for n
  proof
    assume "digits 10 n = ''N''"
    then have "\<exists>d < 10. CHR ''N'' = digit_char d" using digits_set [of 10 "CHR ''N''" n] by simp
    then show False by (auto simp: digit_char_code dest!: arg_cong [of _ _ code])
  qed
  show "itoa i \<noteq> []" by (simp add: itoa_def digits_not_Nil)
  show "itoa i \<noteq> ''N''" using d by (auto simp: itoa_def)
  show "clean_value (itoa i)"
    using itoa_graphic [of _ i] TrimSpace_all_graphic [of "itoa i"] itoa_graphic [of TAB i]
    by (auto simp: clean_value_def graphic_def)
qed

lemma BuildGetEventsForTagsHeader_fields:
  assumes "m_MessageId m \<noteq> []" "clean_value (m_MessageId m)"
  shows "BuildGetEventsForTagsHeader newId m = fields_text (builder_fields m) @ msg_id_tail m"
proof -
  have "last (fields_text (builder_fields m) @ ''_msg_id='' @ m_MessageId m) \<noteq> TAB"
    using assms by (auto simp: clean_value_def dest: last_in_set)
  moreover have "BuildGetEventsForTagsHeader newId m = trim_tab (fields_text (builder_fields m) @ ''_msg_id='' @ m_MessageId m)"
    using assms(1)
    by (simp add: BuildGetEventsForTagsHeader_def builder_fields_def builder_tail_def kv_lists struct_header_fields
        split: option.splits TagOwnerOutput.splits) (simp add: either_field_def opt_field_def)
  ultimately show ?thesis using assms(1) by (simp add: trim_tab_def msg_id_tail_def)
qed

lemma reflected_fields_simps [simp]:
  "reflected_fields include written [] = []"
  "reflected_fields include written ((name, socket, v) # fs) =
     opt_field (include name v \<and> written (transformValue v)) socket (transformValue v) @ reflected_fields include written fs"
  by (simp_all add: reflected_fields_def)

section \<open>Optional fields as a table\<close>

text \<open>A header of optional fields with distinct keys: its lookups are the lookups of the table, whatever the order.\<close>

type_synonym table = "(string \<times> bool \<times> string) list"

definition opt_fields :: "table \<Rightarrow> strmap" where
  "opt_fields tbl = concat (map (\<lambda>(k, b, v). opt_field b k v) tbl)"

lemma opt_fields_simps [simp]:
  "opt_fields [] = []" "opt_fields ((k, b, v) # tbl) = opt_field b k v @ opt_fields tbl"
  "opt_fields (xs @ ys) = opt_fields xs @ opt_fields ys"
  by (simp_all add: opt_fields_def)

lemma reflected_fields_table:
  "reflected_fields include written fs =
     opt_fields (map (\<lambda>(name, socket, v). (socket, include name v \<and> written (transformValue v), transformValue v)) fs)"
  by (induction fs) (auto simp: reflected_fields_def)

lemma opt_field_or: "either_field b (k, v) (opt_field c k' v') = opt_fields [(k, b, v), (k', \<not> b \<and> c, v')]"
  by (simp add: either_field_def opt_field_def)

lemma opt_fields_in: "(k, v) \<in> set (opt_fields tbl) \<Longrightarrow> \<exists>b. (k, b, v) \<in> set tbl \<and> b"
  by (force simp: opt_fields_def opt_field_def split: if_splits)

lemma distinct_opt_fields: "distinct (map fst tbl) \<Longrightarrow> distinct (map fst (opt_fields tbl))"
proof (induction tbl)
  case (Cons t tbl)
  have "fst ` set (opt_fields tbl) \<subseteq> fst ` set tbl" using opt_fields_in [of _ _ tbl] by force
  with Cons show ?case by (cases t) (auto simp: opt_field_def)
qed simp

lemma map_of_opt_fields_perm:
  assumes "mset xs = mset ys" "distinct (map fst xs)"
  shows "map_of (rev (opt_fields xs)) = map_of (rev (opt_fields ys))"
proof -
  have m: "mset (map fst ys) = mset (map fst xs)" using assms(1) by simp
  have d: "distinct (map fst ys)" using assms(2) mset_eq_imp_distinct_iff [OF m] by simp
  have "set (opt_fields xs) = set (opt_fields ys)" using mset_eq_setD [OF assms(1)] by (simp add: opt_fields_def)
  then show ?thesis
    using distinct_opt_fields [OF assms(2)] distinct_opt_fields [OF d]
    by (subst map_of_inject_set) (simp_all add: rev_map [symmetric])
qed

lemma opt_fields_absent: "k \<notin> fst ` set tbl \<Longrightarrow> map_of (rev (opt_fields tbl)) k = None"
  using opt_fields_in by (force simp: map_of_eq_None_iff)

lemma clean_opt_fields:
  "list_all (\<lambda>(k, b, v). clean_key k \<and> (b \<longrightarrow> clean_value v)) tbl \<Longrightarrow> clean_fields (opt_fields tbl)"
  by (induction tbl) (auto simp: clean_fields_def opt_field_def)

section \<open>The two headers of a search\<close>

definition main_keys :: "string list" where
  "main_keys = [''event'', ''event_high'', ''include_brief_hits'', ''get_all_data'', ''first_link'', ''link_count'',
     ''events_per_message'', ''start_result'', ''end_result'', ''min_event_hits'', ''count_only'', ''get_match_links'',
     ''count_match_links'', ''get_link_tags'', ''get_target_tags'', ''link_tag_pattern'', ''linked_events_tag_filter'',
     ''link_category'', ''owner'', ''owner_unique_id'', ''get_eo_count'']"

definition common_keys :: "string list" where
  "common_keys = [''invert_hit_tag_filter'', ''get_tag_owner'', ''get_tag_owner_unique_id'', ''hit_tag_filter'',
     ''_db_cmd'', ''buffer_results'', ''include_tag_stats'', ''buffer_format'', ''id:name'', ''_msg_id'']"

lemma search_keys_facts: "distinct (main_keys @ common_keys)" "list_all clean_key (main_keys @ common_keys)"
  by code_simp+

definition main_table :: "GetEventsForTagsOptions \<Rightarrow> table" where
  "main_table g =
     [(''event'', gt_EventPattern g \<noteq> [], gt_EventPattern g), (''event_high'', gt_EventPatternHigh g \<noteq> [], gt_EventPatternHigh g),
      (''include_brief_hits'', gt_IncludeBriefHits g, ''Y''), (''get_all_data'', gt_GetAllData g, ''Y''),
      (''first_link'', 0 < gt_FirstLink g, itoa (gt_FirstLink g)), (''link_count'', 0 < gt_LinkCount g, itoa (gt_LinkCount g)),
      (''events_per_message'', gt_EventsPerMessage g \<noteq> 0, itoa (gt_EventsPerMessage g)),
      (''start_result'', 0 < gt_StartResult g, itoa (gt_StartResult g)), (''end_result'', 0 < gt_EndResult g, itoa (gt_EndResult g)),
      (''min_event_hits'', 0 < gt_MinEventHits g, itoa (gt_MinEventHits g)), (''count_only'', gt_CountOnly g, ''Y''),
      (''get_match_links'', gt_GetMatchLinks g, ''Y''), (''count_match_links'', gt_CountMatchLinks g, ''Y''),
      (''get_link_tags'', gt_GetLinkTags g, ''Y''), (''get_target_tags'', gt_GetTargetTags g, ''Y''),
      (''link_tag_pattern'', gt_LinkTagFilter g \<noteq> [], gt_LinkTagFilter g),
      (''linked_events_tag_filter'', gt_LinkedEventsFilter g \<noteq> [], gt_LinkedEventsFilter g),
      (''link_category'', gt_LinkCategory g \<noteq> [], gt_LinkCategory g), (''owner'', gt_Owner g \<noteq> [], gt_Owner g),
      (''owner_unique_id'', gt_OwnerUniqueID g \<noteq> [], gt_OwnerUniqueID g), (''get_eo_count'', gt_GetEventObjectCount g, ''Y'')]"

definition extra_table :: "GetEventsForTagsOptions \<Rightarrow> table" where
  "extra_table g =
     [(''invert_hit_tag_filter'', gt_InvertHitTagFilter g, ''Y''), (''get_tag_owner'', gt_TagOwnerOutput g = TagOwnerEventKey, ''Y''),
      (''get_tag_owner_unique_id'', gt_TagOwnerOutput g = TagOwnerUniqueID, ''Y''), (''hit_tag_filter'', gt_HitTagFilter g \<noteq> [], gt_HitTagFilter g)]"

definition shared_table :: "GetEventsForTagsOptions \<Rightarrow> table" where
  "shared_table g =
     [(''buffer_results'', gt_BufferResults g, ''Y''), (''include_tag_stats'', gt_IncludeTagStats g, ''Y''),
      (''invert_hit_tag_filter'', gt_InvertHitTagFilter g, ''Y''), (''hit_tag_filter'', gt_HitTagFilter g \<noteq> [], gt_HitTagFilter g),
      (''buffer_format'', gt_BufferFormat g \<noteq> [], gt_BufferFormat g)]"

lemma main_table_keys: "map fst (main_table g) = main_keys"
  by (simp add: main_table_def main_keys_def)

lemma main_table_absent: "k \<in> set common_keys \<Longrightarrow> map_of (rev (opt_fields (main_table g))) k = None"
  using search_keys_facts(1) main_table_keys [of g] by (intro opt_fields_absent) (auto simp flip: set_map)

text \<open>What the two headers write of the options, as tables.\<close>

lemma plain_optionsD:
  assumes "plain_options g"
  shows "gt_Owner g = [] \<or> gt_OwnerUniqueID g = []"
    and "list_all (\<lambda>s. forceASCII s = s \<and> clean_value s \<and> s \<noteq> ''N'') [gt_EventPattern g, gt_EventPatternHigh g, gt_LinkTagFilter g,
           gt_LinkedEventsFilter g, gt_LinkCategory g, gt_Owner g, gt_OwnerUniqueID g, gt_HitTagFilter g, gt_BufferFormat g]"
  using assms by (auto simp: plain_options_def plain_text_def)

lemma struct_field_cases:
  "opt_field (shouldIncludeEventsForTagsField n (VBool b) \<and> transformValue (VBool b) \<noteq> [] \<and> transformValue (VBool b) \<noteq> ''N'')
     k (transformValue (VBool b)) = opt_field b k ''Y''"
  "n \<noteq> ''EventsPerMessage'' \<Longrightarrow>
     opt_field (shouldIncludeEventsForTagsField n (VInt i) \<and> transformValue (VInt i) \<noteq> [] \<and> transformValue (VInt i) \<noteq> ''N'')
       k (transformValue (VInt i)) = opt_field (0 < i) k (itoa i)"
  "opt_field (shouldIncludeEventsForTagsField ''EventsPerMessage'' (VInt i) \<and> transformValue (VInt i) \<noteq> [] \<and> transformValue (VInt i) \<noteq> ''N'')
     k (transformValue (VInt i)) = opt_field (i \<noteq> 0) k (itoa i)"
  "s \<noteq> ''N'' \<Longrightarrow>
     opt_field (shouldIncludeEventsForTagsField n (VString s) \<and> transformValue (VString s) \<noteq> [] \<and> transformValue (VString s) \<noteq> ''N'')
       k (transformValue (VString s)) = opt_field (s \<noteq> []) k s"
  by (auto simp: opt_field_def itoa_written)

lemma struct_part:
  assumes "plain_options g"
  shows "reflected_fields shouldIncludeEventsForTagsField (\<lambda>s. s \<noteq> [] \<and> s \<noteq> ''N'') (events_for_tags_struct g)
    = opt_fields (main_table g @ shared_table g)"
  using plain_optionsD [OF assms] unfolding events_for_tags_struct_def reflected_fields_simps
  by (simp add: struct_field_cases main_table_def shared_table_def del: transformValue.simps shouldIncludeEventsForTagsField.simps)

lemma search_option_perm:
  assumes "plain_options g"
  obtains tbl where "search_option_fields g = opt_fields tbl" "mset tbl = mset (main_table g @ extra_table g)"
proof -
  define tbl where "tbl = [(''include_brief_hits'', gt_IncludeBriefHits g, ''Y''), (''get_all_data'', gt_GetAllData g, ''Y''),
      (''count_only'', gt_CountOnly g, ''Y''), (''get_match_links'', gt_GetMatchLinks g, ''Y''),
      (''count_match_links'', gt_CountMatchLinks g, ''Y''), (''get_link_tags'', gt_GetLinkTags g, ''Y''),
      (''get_target_tags'', gt_GetTargetTags g, ''Y''), (''get_eo_count'', gt_GetEventObjectCount g, ''Y''),
      (''invert_hit_tag_filter'', gt_InvertHitTagFilter g, ''Y''), (''event'', gt_EventPattern g \<noteq> [], gt_EventPattern g),
      (''event_high'', gt_EventPatternHigh g \<noteq> [], gt_EventPatternHigh g),
      (''link_tag_pattern'', gt_LinkTagFilter g \<noteq> [], gt_LinkTagFilter g),
      (''linked_events_tag_filter'', gt_LinkedEventsFilter g \<noteq> [], gt_LinkedEventsFilter g),
      (''link_category'', gt_LinkCategory g \<noteq> [], gt_LinkCategory g), (''owner'', gt_Owner g \<noteq> [], gt_Owner g),
      (''owner_unique_id'', gt_OwnerUniqueID g \<noteq> [], gt_OwnerUniqueID g),
      (''get_tag_owner'', gt_TagOwnerOutput g = TagOwnerEventKey, ''Y''),
      (''get_tag_owner_unique_id'', gt_TagOwnerOutput g = TagOwnerUniqueID, ''Y''),
      (''hit_tag_filter'', gt_HitTagFilter g \<noteq> [], gt_HitTagFilter g),
      (''first_link'', 0 < gt_FirstLink g, itoa (gt_FirstLink g)), (''link_count'', 0 < gt_LinkCount g, itoa (gt_LinkCount g)),
      (''events_per_message'', gt_EventsPerMessage g \<noteq> 0, itoa (gt_EventsPerMessage g)),
      (''start_result'', 0 < gt_StartResult g, itoa (gt_StartResult g)), (''end_result'', 0 < gt_EndResult g, itoa (gt_EndResult g)),
      (''min_event_hits'', 0 < gt_MinEventHits g, itoa (gt_MinEventHits g))]"
  have "search_option_fields g = opt_fields tbl"
    using plain_optionsD [OF assms] by (auto simp: search_option_fields_def tbl_def opt_field_def either_field_def)
  moreover have "mset tbl = mset (main_table g @ extra_table g)"
    by (simp add: tbl_def main_table_def extra_table_def add_mset_commute)
  ultimately show ?thesis by (rule that)
qed

lemma search_part:
  assumes "plain_options g"
  shows "map_of (rev (search_option_fields g)) = map_of (rev (opt_fields (main_table g @ extra_table g)))"
    and "set (search_option_fields g) = set (opt_fields (main_table g @ extra_table g))"
proof -
  obtain tbl where tbl: "search_option_fields g = opt_fields tbl" "mset tbl = mset (main_table g @ extra_table g)"
    using search_option_perm [OF assms] .
  have "distinct (map fst (main_table g @ extra_table g))"
    using search_keys_facts(1) by (simp add: main_table_keys extra_table_def common_keys_def)
  then show "map_of (rev (search_option_fields g)) = map_of (rev (opt_fields (main_table g @ extra_table g)))"
    using map_of_opt_fields_perm [of "main_table g @ extra_table g" tbl] tbl by simp
  have "set tbl = set (main_table g @ extra_table g)" using tbl(2) by (rule mset_eq_setD)
  then show "set (search_option_fields g) = set (opt_fields (main_table g @ extra_table g))"
    by (simp add: tbl(1) opt_fields_def)
qed

lemma builder_lookup:
  assumes "GetEventsForTagsOpts m = Some g" "plain_options g"
  shows "map_of (rev (builder_fields m)) k =
    (if k = ''_db_cmd'' then Some ''events_for_tag'' else if k = ''id:name'' then Some (m_ClientName m)
     else if k = ''buffer_results'' then Some (if gt_BufferResults g then ''Y'' else ''N'')
     else if k = ''include_tag_stats'' then if gt_IncludeTagStats g then Some ''Y'' else None
     else if k = ''buffer_format'' then Some (if gt_BufferFormat g = [] then ''0'' else gt_BufferFormat g)
     else map_of (rev (opt_fields (main_table g @ extra_table g))) k)"
proof (cases "k \<in> set common_keys")
  case True
  then show ?thesis using main_table_absent [OF True, of g] assms
    unfolding common_keys_def list.set
    by (elim insertE emptyE) (simp_all add: builder_fields_def struct_part shared_table_def extra_table_def map_add_def)
next
  case False
  then have "list_all (\<lambda>x. x \<noteq> k \<and> k \<noteq> x) common_keys" by (auto simp: list_all_iff)
  then show ?thesis using assms unfolding common_keys_def
    by (simp add: builder_fields_def struct_part shared_table_def extra_table_def map_add_def split: option.splits)
qed

lemma search_lookup:
  assumes "GetEventsForTagsOpts m = Some g" "plain_options g"
  shows "map_of (rev (search_fields m)) k =
    (if k = ''_db_cmd'' then Some ''events_for_tag''
     else if k = ''buffer_results'' then Some (if gt_BufferResults g then ''Y'' else ''N'')
     else if k = ''include_tag_stats'' then if gt_IncludeTagStats g then Some ''Y'' else None
     else if k = ''buffer_format'' then Some (if gt_BufferFormat g = [] then ''0'' else gt_BufferFormat g)
     else map_of (rev (opt_fields (main_table g @ extra_table g))) k)"
proof -
  define M where "M = map_of (rev (opt_fields (main_table g @ extra_table g)))"
  have M: "map_of (rev (search_option_fields g)) = M" using search_part(1) [OF assms(2)] by (simp add: M_def)
  have none: "M ''_db_cmd'' = None" "M ''buffer_results'' = None" "M ''include_tag_stats'' = None" "M ''buffer_format'' = None"
    using main_table_absent [of _ g] by (simp_all add: M_def common_keys_def extra_table_def map_add_def)
  show ?thesis unfolding M_def [symmetric]
    using none assms(1) by (cases "M k") (auto simp: search_fields_def M map_add_def)
qed

lemma clean_fields_simps:
  "clean_fields []" "clean_fields (fs @ gs) \<longleftrightarrow> clean_fields fs \<and> clean_fields gs"
  "clean_fields ((k, v) # fs) \<longleftrightarrow> clean_key k \<and> clean_value v \<and> clean_fields fs"
  "clean_fields (opt_field b k v) \<longleftrightarrow> (b \<longrightarrow> clean_key k \<and> clean_value v)"
  "clean_fields (either_field b (k, v) fs) \<longleftrightarrow> (if b then clean_key k \<and> clean_value v else clean_fields fs)"
  by (auto simp: clean_fields_def opt_field_def either_field_def)

lemma clean_constants: "clean_value ''Y''" "clean_value ''N''" "clean_value ''0''" "clean_value ''events_for_tag''"
  by code_simp+

lemma tables_clean:
  assumes "plain_options g"
  shows "clean_fields (opt_fields (main_table g))" "clean_fields (opt_fields (shared_table g))" "clean_fields (opt_fields (extra_table g))"
  using plain_optionsD(2) [OF assms] search_keys_facts(2)
  by (intro clean_opt_fields, simp add: main_table_def shared_table_def extra_table_def main_keys_def common_keys_def
      clean_constants itoa_written)+

lemma clean_fields_set: "clean_fields fs \<Longrightarrow> set gs \<subseteq> set fs \<Longrightarrow> clean_fields gs"
  by (auto simp: clean_fields_def)

lemma search_headers_clean:
  assumes "\<And>g. GetEventsForTagsOpts m = Some g \<Longrightarrow> plain_options g" "clean_value (m_ClientName m)" "clean_value (m_MessageId m)"
  shows "clean_fields (builder_fields m @ tail_field m)" "clean_fields (search_fields m @ tail_field m)"
proof -
  note clean = clean_fields_simps clean_constants tail_field_def
  have ks: "list_all clean_key common_keys" using search_keys_facts(2) by simp
  show "clean_fields (builder_fields m @ tail_field m)"
  proof (cases "GetEventsForTagsOpts m")
    case None
    then show ?thesis using assms(2,3) ks by (simp add: builder_fields_def clean common_keys_def)
  next
    case (Some g)
    then show ?thesis
      using assms(2,3) ks tables_clean [OF assms(1) [OF Some]] plain_optionsD(2) [OF assms(1) [OF Some]]
      by (simp add: builder_fields_def struct_part [OF assms(1) [OF Some]] clean common_keys_def)
  qed
  show "clean_fields (search_fields m @ tail_field m)"
  proof (cases "GetEventsForTagsOpts m")
    case None
    then show ?thesis using assms(3) ks by (simp add: search_fields_def clean common_keys_def)
  next
    case (Some g)
    note g = assms(1) [OF Some]
    have "clean_fields (search_option_fields g)"
      using clean_fields_set [OF _ equalityD1 [OF search_part(2) [OF g]]] tables_clean [OF g] by (simp add: clean_fields_simps)
    then show ?thesis
      using Some assms(3) ks plain_optionsD(2) [OF g] by (simp add: search_fields_def clean common_keys_def)
  qed
qed

lemma header_lookups:
  assumes "\<And>g. GetEventsForTagsOpts m = Some g \<Longrightarrow> plain_options g" "clean_value (m_ClientName m)"
    and "clean_value (m_MessageId m)" "m_MessageId m \<noteq> []"
  shows "map_of (decodeHeader (BuildGetEventsForTagsHeader newId m)) k = map_of (rev (builder_fields m @ tail_field m)) k"
    and "map_of (decodeHeader (GetEventsForTagMessageHeader m)) k = map_of (rev (search_fields m @ tail_field m)) k"
  using assms(4,3) search_headers_clean [OF assms(1-3)]
  by (simp_all add: BuildGetEventsForTagsHeader_fields GetEventsForTagMessageHeader_fields decodeHeader_tail map_of_fields)


definition sample_options :: GetEventsForTagsOptions where
  "sample_options = zero_GetEventsForTagsOptions
     \<lparr>gt_EventPattern := ''2024.*'', gt_BufferResults := True, gt_Owner := ''$sys'', gt_EventsPerMessage := - 1\<rparr>"

definition sample_search :: Message where
  "sample_search = zero_Message\<lparr>m_ClientName := ''me'', m_MessageId := ''7'',
     m_NeuralMemory := Some (zero_NeuralMemoryFields\<lparr>nm_GetEventsForTags := Some sample_options\<rparr>)\<rparr>"


end
