(* ===== verification/Reconnection.thy ===== *)
theory Reconnection
  imports Session
begin

text \<open>
  The threads around a reconnection (\<open>attemptReconnection\<close>, \<open>waitForReconnect\<close>, \<open>Close\<close> and the
  senders of \<open>client.go\<close>), interleaved. A step is what one thread does between two points where
  another may run: a critical section of \<open>reconnectingMu\<close>, one call of the transport, one callback.
  What the dials and the handshake return is part of the event. \<open>Session\<close> has the same code
  sequentially, with the data.
\<close>

section \<open>State\<close>

text \<open>The frames written to the current socket.\<close>

datatype wire_frame = Identification | StreamOn | Disconnect | Sent nat

text \<open>
  The goroutine of one \<open>waitForReconnect\<close>: about to look, with the lock; in \<open>reconnectCond.Wait\<close>; gone,
  its answer in the channel. The caller waits for it or for its own context.
\<close>

datatype helper = Checking | Suspended | Answered bool

datatype wait_caller = Listening | Told bool

type_synonym wait = "helper \<times> wait_caller"

text \<open>
  A call of \<open>attemptReconnection\<close> that runs the loop, with the number of attempts made: before its first
  callback; at the head of the loop; in \<open>Reconnect\<close>, before and after the old socket is closed; with the
  new socket, before and after the identification is sent; in the back-off; before its last callback.
\<close>

datatype reconnect_call = Starting | AtHead nat | Shutting nat | Dialling nat | Greeting nat | Greeted nat | Pausing nat
  | Ending bool | Over bool

record reconnection =
  rc_connected :: bool
  rc_closed :: bool
  rc_reconnecting :: bool
  rc_cancelled :: bool
  rc_wire :: "wire_frame list"
  rc_waits :: "wait list"
  rc_runs :: "reconnect_call list"
  rc_states :: "ConnectionState list"

text \<open>A client as \<open>NewClient\<close> returns it.\<close>

definition identified_client :: "bool \<Rightarrow> reconnection" where
  "identified_client streaming =
     \<lparr>rc_connected = True, rc_closed = False, rc_reconnecting = False, rc_cancelled = False,
      rc_wire = Identification # (if streaming then [StreamOn] else []), rc_waits = [], rc_runs = [], rc_states = []\<rparr>"

section \<open>Steps\<close>

fun awake :: "wait \<Rightarrow> wait" where
  "awake (Suspended, c) = (Checking, c)"
| "awake w = w"

definition Broadcast :: "reconnection \<Rightarrow> reconnection" where
  "Broadcast s = s\<lparr>rc_waits := map awake (rc_waits s)\<rparr>"

text \<open>\<open>waitForReconnect\<close>: a connected client is an answer at once.\<close>

definition wait_call :: "reconnection \<Rightarrow> reconnection" where
  "wait_call s = s\<lparr>rc_waits := rc_waits s @ [if rc_connected s then (Answered True, Told True) else (Checking, Listening)]\<rparr>"

text \<open>
  One look of the goroutine, with the lock held. The connection is read twice; \<open>lost\<close> says that it was
  lost in between.
\<close>

definition helper_look :: "bool \<Rightarrow> reconnection \<Rightarrow> helper" where
  "helper_look lost s =
     (if rc_connected s \<or> rc_closed s then Answered (rc_connected s \<and> \<not> lost \<and> \<not> rc_closed s)
      else if \<not> rc_reconnecting s then Answered False
      else Suspended)"

definition set_wait :: "nat \<Rightarrow> wait \<Rightarrow> reconnection \<Rightarrow> reconnection" where
  "set_wait i w s = s\<lparr>rc_waits := (rc_waits s)[i := w]\<rparr>"

definition set_run :: "nat \<Rightarrow> reconnect_call \<Rightarrow> reconnection \<Rightarrow> reconnection" where
  "set_run i a s = s\<lparr>rc_runs := (rc_runs s)[i := a]\<rparr>"

text \<open>\<open>finishReconnect\<close>, up to its callback.\<close>

definition finish_reconnect :: "nat \<Rightarrow> bool \<Rightarrow> reconnection \<Rightarrow> reconnection" where
  "finish_reconnect i ok s = set_run i (Ending ok) (Broadcast (s\<lparr>rc_reconnecting := False\<rparr>))"

definition emit_state :: "ConnectionState \<Rightarrow> reconnection \<Rightarrow> reconnection" where
  "emit_state st s = s\<lparr>rc_states := rc_states s @ [st]\<rparr>"

text \<open>The entry: closed, already running elsewhere (then a wait), or a new run.\<close>

definition attempt_call :: "reconnection \<Rightarrow> reconnection" where
  "attempt_call s =
     (if rc_closed s then s
      else if rc_reconnecting s then wait_call s
      else s\<lparr>rc_reconnecting := True, rc_runs := rc_runs s @ [Starting]\<rparr>)"

definition head_step :: "nat \<Rightarrow> nat \<Rightarrow> nat \<Rightarrow> reconnection \<Rightarrow> reconnection" where
  "head_step maxRetries i n s =
     (if maxRetries \<noteq> 0 \<and> maxRetries \<le> n then finish_reconnect i False s
      else if rc_cancelled s \<or> rc_closed s then finish_reconnect i False s
      else set_run i (Shutting n) s)"

text \<open>The socket closed, or a new one without any frame.\<close>

definition drop_socket :: "reconnection \<Rightarrow> reconnection" where
  "drop_socket s = s\<lparr>rc_connected := False\<rparr>"

definition new_socket :: "reconnection \<Rightarrow> reconnection" where
  "new_socket s = s\<lparr>rc_connected := True, rc_wire := []\<rparr>"

text \<open>A send on the transport: nothing goes out when it is not connected.\<close>

definition write_frame :: "wire_frame \<Rightarrow> reconnection \<Rightarrow> reconnection" where
  "write_frame f s = (if rc_connected s then s\<lparr>rc_wire := rc_wire s @ [f]\<rparr> else s)"

definition greeted :: "bool \<Rightarrow> nat \<Rightarrow> reconnection \<Rightarrow> reconnection" where
  "greeted streaming i s = finish_reconnect i True (if streaming then write_frame StreamOn s else s)"

datatype reconnect_event =
    WaitCall
  | Look nat bool
  | Collect nat
  | GiveUp nat
  | AttemptCall
  | Callback nat
  | Head nat
  | Shut nat
  | Dialled nat bool
  | Identify nat bool
  | Greet nat bool
  | Resume nat
  | CloseCalled
  | CancelReceiver
  | CloseSocket
  | SocketLost
  | SendFrame nat

definition wait_at :: "nat \<Rightarrow> reconnection \<Rightarrow> wait option" where
  "wait_at i s = (if i < length (rc_waits s) then Some (rc_waits s ! i) else None)"

definition run_at :: "nat \<Rightarrow> reconnection \<Rightarrow> reconnect_call option" where
  "run_at i s = (if i < length (rc_runs s) then Some (rc_runs s ! i) else None)"

text \<open>
  An event that cannot happen is \<open>None\<close>. The identification and the rest of the handshake succeed only on
  a connected transport; a run that fails closes the socket and pauses.
\<close>

fun reconnect_do :: "nat \<Rightarrow> bool \<Rightarrow> reconnect_event \<Rightarrow> reconnection \<Rightarrow> reconnection option" where
  "reconnect_do maxRetries streaming WaitCall s = Some (wait_call s)"
| "reconnect_do maxRetries streaming (Look i lost) s =
     (case wait_at i s of
        Some (Checking, c) \<Rightarrow>
          Some (set_wait i (helper_look lost s, c) (if lost then drop_socket s else s))
      | _ \<Rightarrow> None)"
| "reconnect_do maxRetries streaming (Collect i) s =
     (case wait_at i s of Some (Answered b, Listening) \<Rightarrow> Some (set_wait i (Answered b, Told b) s) | _ \<Rightarrow> None)"
| "reconnect_do maxRetries streaming (GiveUp i) s =
     (case wait_at i s of Some (h, Listening) \<Rightarrow> Some (Broadcast (set_wait i (h, Told False) s)) | _ \<Rightarrow> None)"
| "reconnect_do maxRetries streaming AttemptCall s = Some (attempt_call s)"
| "reconnect_do maxRetries streaming (Callback i) s =
     (case run_at i s of
        Some Starting \<Rightarrow> Some (set_run i (AtHead 0) (emit_state StateReconnecting s))
      | Some (Ending ok) \<Rightarrow>
          Some (set_run i (Over ok) (emit_state (if ok then StateConnected else StateReconnectFailed) s))
      | _ \<Rightarrow> None)"
| "reconnect_do maxRetries streaming (Head i) s =
     (case run_at i s of Some (AtHead n) \<Rightarrow> Some (head_step maxRetries i n s) | _ \<Rightarrow> None)"
| "reconnect_do maxRetries streaming (Shut i) s =
     (case run_at i s of Some (Shutting n) \<Rightarrow> Some (set_run i (Dialling n) (drop_socket s)) | _ \<Rightarrow> None)"
| "reconnect_do maxRetries streaming (Dialled i ok) s =
     (case run_at i s of
        Some (Dialling n) \<Rightarrow> Some (if ok then set_run i (Greeting n) (new_socket s) else set_run i (Pausing n) s)
      | _ \<Rightarrow> None)"
| "reconnect_do maxRetries streaming (Identify i ok) s =
     (case run_at i s of
        Some (Greeting n) \<Rightarrow>
          if ok then (if rc_connected s then Some (set_run i (Greeted n) (write_frame Identification s)) else None)
          else Some (set_run i (Pausing n) (drop_socket s))
      | _ \<Rightarrow> None)"
| "reconnect_do maxRetries streaming (Greet i ok) s =
     (case run_at i s of
        Some (Greeted n) \<Rightarrow>
          if ok then (if rc_connected s then Some (greeted streaming i s) else None)
          else Some (set_run i (Pausing n) (drop_socket s))
      | _ \<Rightarrow> None)"
| "reconnect_do maxRetries streaming (Resume i) s =
     (case run_at i s of
        Some (Pausing n) \<Rightarrow> Some (if rc_cancelled s then finish_reconnect i False s else set_run i (AtHead (Suc n)) s)
      | _ \<Rightarrow> None)"
| "reconnect_do maxRetries streaming CloseCalled s = Some (Broadcast (s\<lparr>rc_closed := True\<rparr>))"
| "reconnect_do maxRetries streaming CancelReceiver s = Some (s\<lparr>rc_cancelled := True\<rparr>)"
| "reconnect_do maxRetries streaming CloseSocket s =
     (if rc_closed s \<and> rc_cancelled s then Some (drop_socket (write_frame Disconnect s)) else None)"
| "reconnect_do maxRetries streaming SocketLost s = Some (drop_socket s)"
| "reconnect_do maxRetries streaming (SendFrame r) s = Some (write_frame (Sent r) s)"

text \<open>Runs of events.\<close>

fun reconnect_run_events :: "nat \<Rightarrow> bool \<Rightarrow> reconnect_event list \<Rightarrow> reconnection \<Rightarrow> reconnection option" where
  "reconnect_run_events m st [] s = Some s"
| "reconnect_run_events m st (e # es) s = Option.bind (reconnect_do m st e s) (reconnect_run_events m st es)"

inductive reconnect_step :: "nat \<Rightarrow> bool \<Rightarrow> reconnection \<Rightarrow> reconnection \<Rightarrow> bool" for m st where
  "reconnect_do m st e s = Some s' \<Longrightarrow> reconnect_step m st s s'"

inductive_cases reconnect_stepE: "reconnect_step m st s s'"

inductive reconnect_reachable :: "nat \<Rightarrow> bool \<Rightarrow> reconnection \<Rightarrow> bool" for m st where
  init: "reconnect_reachable m st (identified_client st)"
| step: "reconnect_reachable m st s \<Longrightarrow> reconnect_step m st s s' \<Longrightarrow> reconnect_reachable m st s'"

section \<open>Invariants\<close>

fun run_active :: "reconnect_call \<Rightarrow> bool" where
  "run_active (Ending ok) = False"
| "run_active (Over ok) = False"
| "run_active _ = True"

definition running :: "reconnection \<Rightarrow> nat" where
  "running s = length (filter run_active (rc_runs s))"

definition greeting :: "reconnection \<Rightarrow> bool" where
  "greeting s \<longleftrightarrow> (\<exists>a \<in> set (rc_runs s). \<exists>n. a = Greeting n)"

definition wait_ok :: "reconnection \<Rightarrow> wait \<Rightarrow> bool" where
  "wait_ok s w \<longleftrightarrow> (fst w = Suspended \<longrightarrow> rc_reconnecting s \<and> \<not> rc_closed s) \<and> (snd w = Told True \<longrightarrow> fst w = Answered True)"

definition reconnection_ok :: "reconnection \<Rightarrow> bool" where
  "reconnection_ok s \<longleftrightarrow>
     running s = (if rc_reconnecting s then 1 else 0)
     \<and> (\<forall>w \<in> set (rc_waits s). wait_ok s w)
     \<and> (rc_connected s \<longrightarrow> Identification \<in> set (rc_wire s) \<or> greeting s)"

lemmas step_defs = wait_call_def helper_look_def set_wait_def set_run_def finish_reconnect_def emit_state_def attempt_call_def
  head_step_def drop_socket_def new_socket_def write_frame_def greeted_def Broadcast_def

lemma filter_update:
  "i < length xs \<Longrightarrow> length (filter P (xs[i := a])) + (if P (xs ! i) then 1 else 0) = length (filter P xs) + (if P a then 1 else 0)"
proof (induction xs arbitrary: i)
  case (Cons x xs)
  then show ?case using Cons.IH [of "i - 1"] by (cases i) (auto split: if_splits)
qed simp

lemma run_atD: "run_at i s = Some a \<Longrightarrow> i < length (rc_runs s) \<and> rc_runs s ! i = a"
  by (auto simp: run_at_def split: if_splits)

lemma wait_atD: "wait_at i s = Some w \<Longrightarrow> i < length (rc_waits s) \<and> rc_waits s ! i = w"
  by (auto simp: wait_at_def split: if_splits)

lemma running_update:
  "run_at i s = Some b \<Longrightarrow> rc_runs s' = (rc_runs s)[i := a]
    \<Longrightarrow> running s' + (if run_active b then 1 else 0) = running s + (if run_active a then 1 else 0)"
  using filter_update [of i "rc_runs s" run_active a] run_atD [of i s b] by (simp add: running_def)

lemma greeting_update:
  assumes "run_at i s = Some b" "rc_runs s' = (rc_runs s)[i := a]" "greeting s" "\<And>n. b \<noteq> Greeting n"
  shows "greeting s'"
proof -
  obtain n where "Greeting n \<in> set (rc_runs s)" using assms(3) by (auto simp: greeting_def)
  then obtain j where "j < length (rc_runs s)" "rc_runs s ! j = Greeting n" by (auto simp: in_set_conv_nth)
  moreover have "j \<noteq> i" using calculation assms(4) run_atD [OF assms(1)] by auto
  ultimately have "Greeting n \<in> set ((rc_runs s)[i := a])" by (force simp: in_set_conv_nth)
  then show ?thesis using assms(2) by (auto simp: greeting_def)
qed

lemma awake_ok: "wait_ok s w \<Longrightarrow> wait_ok s' (awake w)"
  by (cases w rule: awake.cases) (auto simp: wait_ok_def)

lemma wait_ok_same:
  "wait_ok s w \<Longrightarrow> rc_reconnecting s' = rc_reconnecting s \<Longrightarrow> rc_closed s' = rc_closed s \<Longrightarrow> wait_ok s' w"
  by (simp add: wait_ok_def)

lemma active_reconnecting:
  assumes "reconnection_ok s" "run_at i s = Some b" "run_active b"
  shows "rc_reconnecting s"
proof -
  have "b \<in> set (filter run_active (rc_runs s))" using assms(3) run_atD [OF assms(2)] by auto
  then have "running s \<noteq> 0" unfolding running_def by (metis length_0_conv list.set(1) empty_iff)
  then show ?thesis using assms(1) by (simp add: reconnection_ok_def split: if_splits)
qed

text \<open>An update of one run, and of the rest of the state, that keeps the invariant.\<close>

lemma run_keeps:
  assumes ok: "reconnection_ok s" and b: "run_at i s = Some b" and runs: "rc_runs s' = (rc_runs s)[i := a]"
    and act: "run_active b" "rc_reconnecting s' = run_active a"
    and waits: "run_active a \<and> rc_waits s' = rc_waits s \<and> rc_closed s' = rc_closed s \<or> rc_waits s' = map awake (rc_waits s)"
    and wire: "rc_connected s' \<Longrightarrow> Identification \<in> set (rc_wire s') \<or> greeting s'"
  shows "reconnection_ok s'"
proof -
  have rec: "rc_reconnecting s" "running s = 1"
    using active_reconnecting [OF ok b act(1)] ok by (auto simp: reconnection_ok_def)
  then have "running s' = (if rc_reconnecting s' then 1 else 0)"
    using running_update [OF b runs] act by (auto split: if_splits)
  moreover have "\<forall>w \<in> set (rc_waits s'). wait_ok s' w"
    using waits
  proof
    assume "run_active a \<and> rc_waits s' = rc_waits s \<and> rc_closed s' = rc_closed s"
    then show ?thesis using ok act(2) rec(1) by (auto simp: reconnection_ok_def intro: wait_ok_same)
  next
    assume "rc_waits s' = map awake (rc_waits s)"
    then show ?thesis using ok by (auto simp: reconnection_ok_def intro: awake_ok)
  qed
  ultimately show ?thesis using wire by (simp add: reconnection_ok_def)
qed

lemma greeting_new: "i < length (rc_runs s) \<Longrightarrow> rc_runs s' = (rc_runs s)[i := Greeting n] \<Longrightarrow> greeting s'"
  using set_update_memI [of i "rc_runs s" "Greeting n"] by (auto simp: greeting_def)

lemma identified_client_ok: "reconnection_ok (identified_client st)"
  by (simp add: reconnection_ok_def identified_client_def running_def)

text \<open>The identification survives a step of a run that is not greeting and leaves the socket alone.\<close>

lemma wire_keeps:
  assumes "reconnection_ok s" "run_at i s = Some b" "\<And>n. b \<noteq> Greeting n" "rc_runs s' = (rc_runs s)[i := a]"
    and "rc_connected s' \<Longrightarrow> rc_connected s" "set (rc_wire s) \<subseteq> set (rc_wire s')" "rc_connected s'"
  shows "Identification \<in> set (rc_wire s') \<or> greeting s'"
  using assms greeting_update [OF assms(2,4) _ assms(3)] unfolding reconnection_ok_def by blast

lemma finish_reconnect_ok:
  assumes "reconnection_ok s" "run_at i s = Some b" "run_active b" "\<And>n. b \<noteq> Greeting n"
    and "rc_runs t = rc_runs s" "rc_waits t = rc_waits s" "rc_connected t \<Longrightarrow> rc_connected s" "set (rc_wire s) \<subseteq> set (rc_wire t)"
  shows "reconnection_ok (finish_reconnect i ok t)"
proof (rule run_keeps [OF assms(1-2), of _ "Ending ok"])
  show runs: "rc_runs (finish_reconnect i ok t) = (rc_runs s)[i := Ending ok]"
    using assms(5) by (simp add: finish_reconnect_def set_run_def Broadcast_def)
  show "Identification \<in> set (rc_wire (finish_reconnect i ok t)) \<or> greeting (finish_reconnect i ok t)"
    if "rc_connected (finish_reconnect i ok t)"
    by (rule wire_keeps [OF assms(1,2,4) runs _ _ that]; use assms(7,8) in \<open>simp add: finish_reconnect_def set_run_def Broadcast_def\<close>)
qed (use assms(3,6) in \<open>simp_all add: finish_reconnect_def set_run_def Broadcast_def\<close>)

lemma set_run_ok:
  assumes "reconnection_ok s" "run_at i s = Some b" "run_active b" "\<And>n. b \<noteq> Greeting n" "run_active a"
    and "rc_runs t = rc_runs s" "rc_waits t = rc_waits s" "rc_reconnecting t = rc_reconnecting s" "rc_closed t = rc_closed s"
    and "rc_connected t \<Longrightarrow> rc_connected s" "set (rc_wire s) \<subseteq> set (rc_wire t)"
  shows "reconnection_ok (set_run i a t)"
proof (rule run_keeps [OF assms(1-2), of _ a])
  show runs: "rc_runs (set_run i a t) = (rc_runs s)[i := a]" using assms(6) by (simp add: set_run_def)
  show "Identification \<in> set (rc_wire (set_run i a t)) \<or> greeting (set_run i a t)" if "rc_connected (set_run i a t)"
    by (rule wire_keeps [OF assms(1,2,4) runs _ _ that]; use assms(10,11) in \<open>simp add: set_run_def\<close>)
qed (use assms active_reconnecting [OF assms(1-3)] in \<open>simp_all add: set_run_def\<close>)

text \<open>The steps of the other threads.\<close>

lemma others_keep:
  assumes "reconnection_ok s" "rc_runs s' = rc_runs s" "rc_reconnecting s' = rc_reconnecting s"
    and "\<forall>w \<in> set (rc_waits s'). wait_ok s' w" "rc_connected s' \<Longrightarrow> rc_connected s" "set (rc_wire s) \<subseteq> set (rc_wire s')"
  shows "reconnection_ok s'"
  using assms by (auto simp: reconnection_ok_def running_def greeting_def)

lemma waits_awake: "reconnection_ok s \<Longrightarrow> \<forall>w \<in> set (map awake (rc_waits s)). wait_ok s' w"
  by (auto simp: reconnection_ok_def intro: awake_ok)

lemma waits_same:
  assumes "reconnection_ok s" "rc_reconnecting s' = rc_reconnecting s" "rc_closed s' = rc_closed s" "wait_ok s' w"
    and "set ws \<subseteq> insert w (set (rc_waits s))"
  shows "\<forall>w \<in> set ws. wait_ok s' w"
  using assms by (auto simp: reconnection_ok_def intro: wait_ok_same)

lemma wait_call_ok: "reconnection_ok s \<Longrightarrow> reconnection_ok (wait_call s)"
  by (rule others_keep, assumption) (auto simp: wait_call_def reconnection_ok_def wait_ok_def)

lemma set_wait_ok:
  assumes "reconnection_ok s" "wait_ok s w" "rc_waits t = rc_waits s" "rc_runs t = rc_runs s" "rc_reconnecting t = rc_reconnecting s"
    "rc_closed t = rc_closed s" "rc_connected t \<Longrightarrow> rc_connected s" "set (rc_wire s) \<subseteq> set (rc_wire t)"
  shows "reconnection_ok (set_wait i w t)"
proof (rule others_keep [OF assms(1)])
  have same: "rc_reconnecting (set_wait i w t) = rc_reconnecting s" "rc_closed (set_wait i w t) = rc_closed s"
    "rc_waits (set_wait i w t) = (rc_waits s)[i := w]"
    using assms(3-6) by (simp_all add: set_wait_def)
  show "\<forall>w' \<in> set (rc_waits (set_wait i w t)). wait_ok (set_wait i w t) w'"
    unfolding same(3)
    by (rule waits_same [OF assms(1) same(1,2) wait_ok_same [OF assms(2) same(1,2)] set_update_subset_insert])
qed (use assms in \<open>simp_all add: set_wait_def\<close>)

lemma Broadcast_ok:
  assumes "reconnection_ok s" "rc_runs t = rc_runs s" "rc_reconnecting t = rc_reconnecting s" "rc_connected t = rc_connected s"
    "rc_wire t = rc_wire s" "rc_waits t = rc_waits s"
  shows "reconnection_ok (Broadcast t)"
  by (rule others_keep [OF assms(1)]) (use assms waits_awake [OF assms(1)] in \<open>simp_all add: Broadcast_def\<close>)

lemma write_frame_ok: "reconnection_ok s \<Longrightarrow> reconnection_ok (write_frame f s)"
  by (rule others_keep, assumption) (auto simp: write_frame_def reconnection_ok_def wait_ok_def split: if_splits)

lemma drop_socket_ok: "reconnection_ok s \<Longrightarrow> reconnection_ok (drop_socket s)"
  by (rule others_keep, assumption) (auto simp: drop_socket_def reconnection_ok_def wait_ok_def)

lemma attempt_call_ok: "reconnection_ok s \<Longrightarrow> reconnection_ok (attempt_call s)"
  by (auto simp: attempt_call_def wait_call_ok)
    (auto simp: reconnection_ok_def running_def greeting_def wait_ok_def)

lemma look_ok: "wait_ok s (Checking, c) \<Longrightarrow> wait_ok s (helper_look lost s, c)"
  by (auto simp: wait_ok_def helper_look_def split: if_splits)

lemma wait_at_ok: "reconnection_ok s \<Longrightarrow> wait_at i s = Some w \<Longrightarrow> wait_ok s w"
  using wait_atD [of i s w] by (force simp: reconnection_ok_def)

lemma greeting_end_ok:
  assumes "reconnection_ok s" "run_at i s = Some (Ending ok)" "rc_runs t = rc_runs s" "rc_waits t = rc_waits s"
    "rc_reconnecting t = rc_reconnecting s" "rc_closed t = rc_closed s" "rc_connected t = rc_connected s" "rc_wire t = rc_wire s"
  shows "reconnection_ok (set_run i (Over ok) t)"
proof -
  have runs: "rc_runs (set_run i (Over ok) t) = (rc_runs s)[i := Over ok]" using assms(3) by (simp add: set_run_def)
  have "running (set_run i (Over ok) t) = running s" using running_update [OF assms(2) runs] by simp
  moreover have "Identification \<in> set (rc_wire (set_run i (Over ok) t)) \<or> greeting (set_run i (Over ok) t)"
    if "rc_connected (set_run i (Over ok) t)"
    by (rule wire_keeps [OF assms(1,2) _ runs _ _ that]; use assms in \<open>simp add: set_run_def\<close>)
  ultimately show ?thesis using assms(1,4-8) by (auto simp: reconnection_ok_def set_run_def wait_ok_def)
qed

lemma reconnect_do_ok:
  assumes ok: "reconnection_ok s" and do: "reconnect_do m st e s = Some s'"
  shows "reconnection_ok s'"
proof (cases e)
  case (Look i lost)
  then show ?thesis using ok do wait_at_ok [OF ok, of i]
    by (auto split: option.splits prod.splits helper.splits if_splits intro!: set_wait_ok look_ok drop_socket_ok simp: drop_socket_def)
next
  case (Collect i)
  then show ?thesis using ok do wait_at_ok [OF ok, of i]
    by (auto split: option.splits prod.splits helper.splits wait_caller.splits intro!: set_wait_ok simp: wait_ok_def)
next
  case (GiveUp i)
  then show ?thesis using ok do wait_at_ok [OF ok, of i]
    by (auto split: option.splits prod.splits wait_caller.splits intro!: Broadcast_ok [of "set_wait i _ s"] set_wait_ok simp: wait_ok_def)
next
  case (Callback i)
  then show ?thesis using ok do
    by (auto split: option.splits reconnect_call.splits intro!: set_run_ok [OF ok] greeting_end_ok [OF ok] simp: emit_state_def)
next
  case (Head i)
  then show ?thesis using ok do
    by (auto split: option.splits reconnect_call.splits intro!: set_run_ok [OF ok] finish_reconnect_ok [OF ok] simp: head_step_def)
next
  case (Shut i)
  then show ?thesis using ok do
    by (auto split: option.splits reconnect_call.splits intro!: set_run_ok [OF ok] simp: drop_socket_def)
next
  case (Resume i)
  then show ?thesis using ok do
    by (auto split: option.splits reconnect_call.splits if_splits intro!: set_run_ok [OF ok] finish_reconnect_ok [OF ok])
next
  case (Greet i g)
  then show ?thesis using ok do
    by (auto split: option.splits reconnect_call.splits if_splits intro!: set_run_ok [OF ok] finish_reconnect_ok [OF ok]
        simp: greeted_def write_frame_def drop_socket_def)
next
  case (Dialled i up)
  then obtain n where b: "run_at i s = Some (Dialling n)"
    and s': "s' = (if up then set_run i (Greeting n) (new_socket s) else set_run i (Pausing n) s)"
    using do by (auto split: option.splits reconnect_call.splits)
  show ?thesis
  proof (cases up)
    case True
    then have "rc_runs s' = (rc_runs s)[i := Greeting n]" by (simp add: s' set_run_def new_socket_def)
    then have "greeting s'" using run_atD [OF b] by (auto intro: greeting_new)
    with True show ?thesis using active_reconnecting [OF ok b]
      by (intro run_keeps [OF ok b, of _ "Greeting n"]) (simp_all add: s' set_run_def new_socket_def)
  qed (use set_run_ok [OF ok b] s' in simp)
next
  case (Identify i sent)
  then obtain n where b: "run_at i s = Some (Greeting n)"
    and s': "s' = (if sent then set_run i (Greeted n) (write_frame Identification s) else set_run i (Pausing n) (drop_socket s))"
    using do by (auto split: option.splits reconnect_call.splits if_splits)
  show ?thesis using active_reconnecting [OF ok b]
    by (intro run_keeps [OF ok b, of _ "if sent then Greeted n else Pausing n"])
      (auto simp: s' set_run_def write_frame_def drop_socket_def)
next
  case CancelReceiver
  then show ?thesis using do by (intro others_keep [OF ok]) (use ok in \<open>auto simp: reconnection_ok_def wait_ok_def\<close>)
qed (use ok do in \<open>auto simp: wait_call_ok attempt_call_ok write_frame_ok drop_socket_ok intro!: Broadcast_ok [OF ok] split: if_splits\<close>)

lemma reconnect_reachable_ok: "reconnect_reachable m st s \<Longrightarrow> reconnection_ok s"
  by (induction rule: reconnect_reachable.induct) (auto simp: identified_client_ok elim!: reconnect_stepE intro: reconnect_do_ok)

lemma reachable_events:
  "reconnect_reachable m st s \<Longrightarrow> reconnect_run_events m st es s = Some s' \<Longrightarrow> reconnect_reachable m st s'"
proof (induction es arbitrary: s)
  case (Cons e es)
  then show ?case
    using reconnect_reachable.step [OF Cons.prems(1) reconnect_step.intros] by (auto simp: bind_eq_Some_conv)
qed simp

section \<open>Properties\<close>

text \<open>
  Claim C19. Reconnections never overlap, and a connected client is an identified one, except for the
  moment a run has a new socket and has not sent the identification: whatever the interleaving, at most
  one run of the loop is under way, and exactly when \<open>reconnecting\<close> says so.
\<close>

theorem single_reconnection:
  assumes "reconnect_reachable m st s"
  shows "length (filter run_active (rc_runs s)) = (if rc_reconnecting s then 1 else 0)
    \<and> (rc_connected s \<longrightarrow> Identification \<in> set (rc_wire s) \<or> (\<exists>n. Greeting n \<in> set (rc_runs s)))"
  using reconnect_reachable_ok [OF assms] by (auto simp: reconnection_ok_def running_def greeting_def)

text \<open>
  Claim C20. A wait ends with the reconnection: once no run is under way, or the client is closed, the
  goroutine of a wait is never suspended and the caller has its answer after at most two steps, true
  exactly on a connected client that is not closed. Until then, a caller that gives up returns at once,
  but its goroutine looks, and is suspended again.
\<close>

theorem wait_ends_with_reconnection:
  assumes "reconnect_reachable m st s" "wait_at i s = Some (h, Listening)"
  shows "(\<not> rc_reconnecting s \<or> rc_closed s \<longrightarrow>
      (\<exists>es b s'. set es \<subseteq> {Look i False, Collect i} \<and> length es \<le> 2 \<and> reconnect_run_events m st es s = Some s'
        \<and> wait_at i s' = Some (Answered b, Told b) \<and> (h = Checking \<longrightarrow> b = (rc_connected s \<and> \<not> rc_closed s))))
    \<and> (h = Suspended \<and> \<not> rc_connected s \<longrightarrow>
      (\<exists>s'. reconnect_run_events m st [GiveUp i, Look i False] s = Some s' \<and> wait_at i s' = Some (Suspended, Told False)))"
proof (intro conjI impI)
  have w: "wait_ok s (h, Listening)" using wait_at_ok [OF reconnect_reachable_ok [OF assms(1)] assms(2)] .
  have i: "i < length (rc_waits s)" "rc_waits s ! i = (h, Listening)" using wait_atD [OF assms(2)] by simp_all
  show "\<exists>es b s'. set es \<subseteq> {Look i False, Collect i} \<and> length es \<le> 2 \<and> reconnect_run_events m st es s = Some s'
        \<and> wait_at i s' = Some (Answered b, Told b) \<and> (h = Checking \<longrightarrow> b = (rc_connected s \<and> \<not> rc_closed s))"
    if over: "\<not> rc_reconnecting s \<or> rc_closed s"
  proof (cases h)
    case Checking
    have "\<exists>s'. reconnect_run_events m st [Look i False, Collect i] s = Some s'
        \<and> wait_at i s' = Some (Answered (rc_connected s \<and> \<not> rc_closed s), Told (rc_connected s \<and> \<not> rc_closed s))"
      using over i Checking by (auto simp: assms(2) helper_look_def set_wait_def wait_at_def)
    then show ?thesis by (metis Checking insertI1 insert_subset list.set(1,2) empty_subsetI insertI2 length_Cons list.size(3) le_refl numeral_2_eq_2)
  next
    case (Answered b)
    have "reconnect_run_events m st [Collect i] s = Some (set_wait i (Answered b, Told b) s)"
      by (simp add: assms(2) Answered)
    then show ?thesis using i Answered by (intro exI [of _ "[Collect i]"] exI [of _ b]) (simp add: set_wait_def wait_at_def)
  qed (use w over in \<open>auto simp: wait_ok_def\<close>)
  show "\<exists>s'. reconnect_run_events m st [GiveUp i, Look i False] s = Some s' \<and> wait_at i s' = Some (Suspended, Told False)"
    if "h = Suspended \<and> \<not> rc_connected s"
    using that w i by (auto simp: assms(2) Broadcast_def set_wait_def wait_at_def helper_look_def wait_ok_def)
qed

text \<open>A closed client without a connection, none of whose runs is about to dial, stays without one.\<close>

fun dialling :: "reconnect_call \<Rightarrow> bool" where
  "dialling (Shutting n) = True"
| "dialling (Dialling n) = True"
| "dialling _ = False"

definition shut :: "reconnection \<Rightarrow> bool" where
  "shut s \<longleftrightarrow> rc_closed s \<and> \<not> rc_connected s \<and> list_all (\<lambda>a. \<not> dialling a) (rc_runs s)"

lemma list_all_update: "list_all P xs \<Longrightarrow> P a \<Longrightarrow> list_all P (xs[i := a])"
  by (auto simp: list_all_iff dest: set_update_subset_insert [THEN subsetD])

lemma run_at_list_all: "list_all P (rc_runs s) \<Longrightarrow> run_at i s = Some a \<Longrightarrow> P a"
  using run_atD [of i s a] by (auto simp: list_all_length)

lemma shut_step:
  assumes "shut s" "reconnect_do m st e s = Some s'"
  shows "shut s'"
proof -
  have "run_at i s \<noteq> Some (Shutting n)" "run_at i s \<noteq> Some (Dialling n)" for i n
    using assms(1) run_at_list_all [of "\<lambda>a. \<not> dialling a" s i] by (auto simp: shut_def)
  then show ?thesis using assms
    by (cases e) (auto simp: shut_def step_defs list_all_update split: option.splits reconnect_call.splits prod.splits helper.splits
        wait_caller.splits if_splits)
qed

lemma shut_events: "shut s \<Longrightarrow> reconnect_run_events m st es s = Some s' \<Longrightarrow> shut s'"
  by (induction es arbitrary: s) (auto simp: bind_eq_Some_conv intro: shut_step)


text \<open>
  Claim C22. A request can overtake the identification: between the dial and the handshake of a
  reconnection a caller is told at once that the client is connected, and its frame is the first on the
  new socket, before the identification.
\<close>

theorem request_overtakes_identification:
  assumes "run_at i s = Some (Dialling n)"
  shows "\<exists>s'. reconnect_run_events m st [Dialled i True, WaitCall, SendFrame r, Identify i True] s = Some s'
    \<and> last (rc_waits s') = (Answered True, Told True) \<and> rc_wire s' = [Sent r, Identification]"
  using run_atD [OF assms] by (simp add: assms run_at_def step_defs)

text \<open>The callbacks of two runs may come out of order: the last state reported is not the current one.\<close>

lemma callbacks_out_of_order:
  "\<exists>s. reconnect_run_events 0 True [SocketLost, AttemptCall, Callback 0, Head 0, Shut 0, Dialled 0 True, Identify 0 True, Greet 0 True,
      SocketLost, AttemptCall, Callback 1, Callback 0] (identified_client True) = Some s
    \<and> rc_states s = [StateReconnecting, StateReconnecting, StateConnected] \<and> rc_reconnecting s"
  by (simp add: identified_client_def run_at_def step_defs)

section \<open>A reconnection with a waiting caller\<close>

definition sample_dialling :: reconnection where
  "sample_dialling = \<lparr>rc_connected = False, rc_closed = False, rc_reconnecting = True, rc_cancelled = False,
     rc_wire = [Identification, StreamOn], rc_waits = [(Suspended, Listening)], rc_runs = [Dialling 0],
     rc_states = [StateReconnecting]\<rparr>"

lemma sample_dialling: "reconnect_reachable 3 True sample_dialling"
proof (rule reachable_events [OF reconnect_reachable.init])
  show "reconnect_run_events 3 True [SocketLost, AttemptCall, Callback 0, WaitCall, Look 0 False, Head 0, Shut 0]
      (identified_client True) = Some sample_dialling"
    by (simp add: identified_client_def sample_dialling_def run_at_def wait_at_def step_defs)
qed

theorem single_reconnection_witness: "length (filter run_active (rc_runs sample_dialling)) = 1"
  using single_reconnection [OF sample_dialling] by (simp add: sample_dialling_def)

theorem wait_ends_with_reconnection_witness:
  "\<exists>s'. reconnect_run_events 3 True [GiveUp 0, Look 0 False] sample_dialling = Some s' \<and> wait_at 0 s' = Some (Suspended, Told False)"
  using wait_ends_with_reconnection [OF sample_dialling, of 0 Suspended] by (simp add: sample_dialling_def wait_at_def)


theorem request_overtakes_identification_witness:
  "\<exists>s'. reconnect_run_events 3 True [Dialled 0 True, WaitCall, SendFrame 7, Identify 0 True] sample_dialling = Some s'
    \<and> last (rc_waits s') = (Answered True, Told True) \<and> rc_wire s' = [Sent 7, Identification]"
proof -
  have "run_at 0 sample_dialling = Some (Dialling 0)" by (simp add: sample_dialling_def run_at_def)
  then show ?thesis by (rule request_overtakes_identification)
qed

end
