(* ===== verification/Keepalive.thy ===== *)
theory Keepalive
  imports Health Pool
begin

text \<open>
  The keepalive loop of the client (\<open>keepaliveLoop\<close>, \<open>sendPoolKeepalives\<close> of \<open>client.go\<close>) over its
  session and its pool, and the end of \<open>NewClient\<close>, which sets up pool, receiver and loop. The ticker is
  the list of the ticks; what the flags say at a tick, the writes and the generated ids are part of it.
\<close>

section \<open>Pooled connections\<close>

text \<open>
  The ping of one pooled connection: the result of \<open>SetWriteDeadline\<close>, and the count and the error of the
  one \<open>Write\<close>.
\<close>

record pooled_write =
  pw_deadline :: "go_error option"
  pw_n :: nat
  pw_err :: "go_error option"

definition ping_connection :: "pooled_write \<Rightarrow> go_error option" where
  "ping_connection w =
     (case pw_deadline w of
        Some e \<Rightarrow> Some e
      | None \<Rightarrow>
          (case pw_err w of
             Some e \<Rightarrow> Some e
           | None \<Rightarrow> if pw_n w = 0 then Some (plain_error ''no bytes sent on pooled connection'') else None))"

text \<open>The frame does not depend on the connection; a pool that blocks is \<open>Blocked\<close>.\<close>

definition sendPoolKeepalives :: "golib \<Rightarrow> int \<Rightarrow> string \<Rightarrow> (nat \<Rightarrow> pooled_write) \<Rightarrow> session \<Rightarrow> pool \<Rightarrow> pool io" where
  "sendPoolKeepalives G now mid writes s pool =
     (case EncodeMessage G now (Some (buildKeepaliveMessage mid s)) of
        Panicked \<Rightarrow> Crashed
      | Failed e \<Rightarrow> Done pool
      | Returned sm \<Rightarrow>
          (case PingIdleConnections (Some (\<lambda>k. ping_connection (writes k) = None)) pool of
             None \<Rightarrow> Blocked
           | Some (sent, pool') \<Rightarrow> Done pool'))"

section \<open>The loop\<close>

text \<open>
  One tick: the receiver's context, the flags \<open>closed\<close> and \<open>reconnecting\<close> as the loop reads them, and
  what the two rounds of sends observe.
\<close>

record tick =
  tk_cancelled :: bool
  tk_closed :: bool
  tk_reconnecting :: bool
  tk_now :: int
  tk_id :: string
  tk_writes :: "write_obs list"
  tk_pool_now :: int
  tk_pool_id :: string
  tk_pool_writes :: "nat \<Rightarrow> pooled_write"

type_synonym kept = "session \<times> pool option"

definition keepalive_tick :: "golib \<Rightarrow> tick \<Rightarrow> kept \<Rightarrow> kept io" where
  "keepalive_tick G t k =
     (case k of (s, pool) \<Rightarrow>
       if tk_closed t \<or> \<not> IsConnected (Some (ss_conn s)) then Done (s, pool)
       else if tk_reconnecting t then Done (s, pool)
       else io_bind (sendKeepalive G (tk_now t) (tk_id t) (tk_writes t) s) (\<lambda>(e, s').
         case pool of
           None \<Rightarrow> Done (s', None)
         | Some p \<Rightarrow> io_bind (sendPoolKeepalives G (tk_pool_now t) (tk_pool_id t) (tk_pool_writes t) s' p) (\<lambda>p'. Done (s', Some p'))))"

text \<open>The loop over its ticks; \<open>True\<close> says that it returned.\<close>

fun keepaliveLoop :: "golib \<Rightarrow> tick list \<Rightarrow> kept \<Rightarrow> (bool \<times> kept) io" where
  "keepaliveLoop G [] k = Done (False, k)"
| "keepaliveLoop G (t # ts) k =
     (if tk_cancelled t then Done (True, k)
      else io_bind (keepalive_tick G t k) (keepaliveLoop G ts))"

definition startKeepaliveLoop :: "golib \<Rightarrow> tick list \<Rightarrow> kept \<Rightarrow> (bool \<times> kept) io" where
  "startKeepaliveLoop G ts k =
     (if GetKeepaliveInterval (ss_cfg (fst k)) \<le> 0 then Done (True, k) else keepaliveLoop G ts k)"

section \<open>The end of NewClient\<close>

text \<open>The pool of the configuration: the factory's connections are dialled, without a handshake.\<close>

definition client_pool :: "(nat \<Rightarrow> go_error + conn_data) \<Rightarrow> PoolConfig \<Rightarrow> (go_error option \<times> pool option) io" where
  "client_pool factory pc =
     (if pc_MaxCapacity pc > 0 then
        (case InitializeChannelPool factory (pc_InitialCapacity pc) (NewChannelPool (nat (pc_MaxCapacity pc))) of
           None \<Rightarrow> Blocked
         | Some (Some e, p) \<Rightarrow> Done (Some (wrapped ''failed to initialize connection pool: '' e), Some p)
         | Some (None, p) \<Rightarrow> Done (None, Some p))
      else Done (None, None))"

text \<open>
  The client: its session or, in concurrent mode, its receiver, and its pool; \<open>kc_keepalive\<close> says whether
  the loop was started. The registration in between is in \<open>Registry\<close>.
\<close>

record client =
  kc_session :: session
  kc_receiver :: "receiver option"
  kc_pool :: "pool option"
  kc_keepalive :: bool

definition start_client :: "session \<Rightarrow> pool option \<Rightarrow> client" where
  "start_client s pool =
     \<lparr>kc_session = s, kc_receiver = (if cf_EnableConcurrentMode (ss_cfg s) then Some (StartReceiver s) else None),
      kc_pool = pool, kc_keepalive = (GetKeepaliveInterval (ss_cfg s) > 0)\<rparr>"

definition NewClient :: "golib \<Rightarrow> range_order \<Rightarrow> (f64 \<Rightarrow> nat \<Rightarrow> int) \<Rightarrow> (string \<Rightarrow> string \<Rightarrow> go_error + string) \<Rightarrow> dialer
    \<Rightarrow> string \<Rightarrow> handshake_obs \<Rightarrow> (nat \<Rightarrow> go_error + conn_data) \<Rightarrow> Config \<Rightarrow> (go_error + client) io" where
  "NewClient G ro pow resolver dial peer ob factory cfg =
     io_bind (open_session G ro pow resolver dial peer ob cfg) (\<lambda>r.
       case r of
         Inl e \<Rightarrow> Done (Inl e)
       | Inr s \<Rightarrow> io_bind (client_pool factory (cf_PoolConfig cfg)) (\<lambda>(e, pool).
           Done (case e of Some err \<Rightarrow> Inl err | None \<Rightarrow> Inr (start_client s pool))))"

section \<open>Facts\<close>

lemma lookup_service_intents:
  "lookup_intent (in_MessageType IT_Keepalive) [] = Some IT_Keepalive"
  "lookup_intent (in_MessageType IT_GatewayDisconnect) [] = Some IT_GatewayDisconnect"
  by code_simp+

text \<open>A send leaves the session as it is, or marks its connection as lost.\<close>

definition kept_or_lost :: "session \<Rightarrow> session \<Rightarrow> bool" where
  "kept_or_lost s s' \<longleftrightarrow>
     s' = s \<or> IsConnected (Some (ss_conn s)) \<and> s' = s\<lparr>ss_conn := markDisconnected (ss_conn s)\<rparr>"

lemma kept_or_lost_refl: "kept_or_lost s s"
  by (simp add: kept_or_lost_def)

lemma kept_or_lost_trans: "kept_or_lost s t \<Longrightarrow> kept_or_lost t u \<Longrightarrow> kept_or_lost s u"
  by (auto simp: kept_or_lost_def IsConnected_def markDisconnected_def)

lemma kept_or_lost_connected: "kept_or_lost s s' \<Longrightarrow> IsConnected (Some (ss_conn s')) \<Longrightarrow> s' = s"
  by (auto simp: kept_or_lost_def IsConnected_def markDisconnected_def)

lemma io_bind_Done_iff: "io_bind x f = Done b \<longleftrightarrow> (\<exists>a. x = Done a \<and> f a = Done b)"
  by (cases x) auto

lemma send_bytes_keeps: "send_bytes what obs bytes s = Done (e, s') \<Longrightarrow> kept_or_lost s s'"
  by (auto simp: send_bytes_def io_bind_Done_iff Send_def kept_or_lost_def IsConnected_def Let_def
      split: if_splits io.splits option.splits)

lemma sendKeepalive_keeps: "sendKeepalive G now mid obs s = Done (e, s') \<Longrightarrow> kept_or_lost s s'"
  by (auto simp: sendKeepalive_def kept_or_lost_def split: outcome.splits if_splits dest: send_bytes_keeps)

text \<open>The pool of a round: unchanged, or without the entries that hold no connection.\<close>

definition pool_kept :: "pool option \<Rightarrow> pool option \<Rightarrow> bool" where
  "pool_kept pool pool' \<longleftrightarrow> (\<forall>p. pool = Some p \<and> po_open p \<and> length (po_chan p) \<le> po_maxCap p \<longrightarrow>
     pool' = Some p \<or> pool' = Some (p\<lparr>po_chan := filter (\<lambda>c. cd_Conns c \<noteq> None) (po_chan p)\<rparr>))"

lemma pool_kept_refl: "pool_kept p p"
  by (simp add: pool_kept_def)

lemma pool_kept_trans: "pool_kept p q \<Longrightarrow> pool_kept q r \<Longrightarrow> pool_kept p r"
  by (auto simp: pool_kept_def) (metis le_trans length_filter_le)+

lemma sendPoolKeepalives_keeps: "sendPoolKeepalives G now mid ws s p = Done p' \<Longrightarrow> pool_kept (Some p) (Some p')"
  by (auto simp: sendPoolKeepalives_def pool_kept_def ping_keeps_idle split: outcome.splits option.splits)

lemma keepalive_tick_keeps:
  assumes "keepalive_tick G t (s, pool) = Done (s', pool')"
  shows "kept_or_lost s s' \<and> pool_kept pool pool' \<and> (\<not> IsConnected (Some (ss_conn s)) \<longrightarrow> s' = s \<and> pool' = pool)"
  using assms
  by (auto simp: keepalive_tick_def io_bind_Done_iff kept_or_lost_refl pool_kept_refl
      split: if_splits option.splits prod.splits dest: sendKeepalive_keeps sendPoolKeepalives_keeps)

section \<open>Properties\<close>

text \<open>
  Claim C23. The keepalive loop can only lose the connection: whatever its ticks observe, the session is
  unchanged or its connection is marked as lost, a client without a connection is left alone with its
  pool, the loop returns exactly on a tick with a cancelled context, and a round keeps every idle
  connection of the pool, those whose write failed included.
\<close>

theorem keepalive_only_loses_connection:
  assumes "keepaliveLoop G ts (s, pool) = Done (returned, s', pool')"
  shows "(s' = s \<or> IsConnected (Some (ss_conn s)) \<and> s' = s\<lparr>ss_conn := markDisconnected (ss_conn s)\<rparr>)
    \<and> (\<not> IsConnected (Some (ss_conn s)) \<longrightarrow> pool' = pool)
    \<and> (returned \<longleftrightarrow> (\<exists>t \<in> set ts. tk_cancelled t))
    \<and> (\<forall>p. pool = Some p \<and> po_open p \<and> length (po_chan p) \<le> po_maxCap p \<longrightarrow>
         pool' = Some p \<or> pool' = Some (p\<lparr>po_chan := filter (\<lambda>c. cd_Conns c \<noteq> None) (po_chan p)\<rparr>))"
proof -
  have "kept_or_lost s s' \<and> pool_kept pool pool' \<and> (\<not> IsConnected (Some (ss_conn s)) \<longrightarrow> pool' = pool)
      \<and> (returned \<longleftrightarrow> (\<exists>t \<in> set ts. tk_cancelled t))"
    using assms
  proof (induction ts arbitrary: s pool)
    case (Cons t ts)
    show ?case
    proof (cases "tk_cancelled t")
      case False
      then obtain s1 pool1 where "keepalive_tick G t (s, pool) = Done (s1, pool1)"
        "keepaliveLoop G ts (s1, pool1) = Done (returned, s', pool')"
        using Cons.prems by (auto simp: io_bind_Done_iff)
      with Cons.IH [of s1 pool1] keepalive_tick_keeps [of G t s pool s1 pool1] False show ?thesis
        by (auto intro: kept_or_lost_trans pool_kept_trans)
    qed (use Cons.prems in \<open>simp add: kept_or_lost_refl pool_kept_refl\<close>)
  qed (simp add: kept_or_lost_refl pool_kept_refl)
  then show ?thesis unfolding kept_or_lost_def pool_kept_def by blast
qed

text \<open>
  The frames a client sends on its own account arrive as what they are: a keepalive and a
  disconnect, encoded and decoded, come back without error with their intents and the sender's
  address; the disconnect keeps its message id, that of the keepalive is never sent.
\<close>

lemma service_frames_decode:
  assumes "plain_address (''$system@'' @ ss_gatewayActorName s)" "plain_address (FromAddress s)" "plain_id mid"
  shows "\<exists>ka dis m n. EncodeMessage G now (Some (buildKeepaliveMessage mid s)) = Returned ka
    \<and> EncodeMessage G now (Some (buildDisconnectMessage mid s)) = Returned dis
    \<and> DecodeMessage G ro (sm_MessageBytes ka) = Some (m, None) \<and> DecodeMessage G ro (sm_MessageBytes dis) = Some (n, None)
    \<and> m_Intent m = IT_Keepalive \<and> m_Intent n = IT_GatewayDisconnect \<and> m_From m = FromAddress s \<and> m_From n = FromAddress s
    \<and> m_MessageId m = [] \<and> m_MessageId n = mid"
proof -
  let ?k = "buildKeepaliveMessage mid s" and ?d = "buildDisconnectMessage mid s"
  have k: "m_To ?k = ''$system@'' @ ss_gatewayActorName s" "m_From ?k = FromAddress s" "m_Intent ?k = IT_Keepalive" "m_Payload ?k = None"
    and d: "m_To ?d = ''$system@'' @ ss_gatewayActorName s" "m_From ?d = FromAddress s" "m_Intent ?d = IT_GatewayDisconnect"
      "m_Payload ?d = None" "m_MessageId ?d = mid"
    by (simp_all add: buildKeepaliveMessage_def buildDisconnectMessage_def zero_Message_def)
  have ek: "EncodeMessage G now (Some ?k) = Returned (frame ?k [] []) \<and> codable ?k [] []"
    using assms(1,2) by (intro encode_no_payload) (auto simp: k ConstructHeader_def IT_Keepalive_def mk_intent_def ascii_text_def)
  have ed: "EncodeMessage G now (Some ?d) = Returned (frame ?d (msg_id_tail ?d) []) \<and> codable ?d (msg_id_tail ?d) []"
    using assms
    by (intro encode_no_payload)
      (auto simp: d ConstructHeader_def IT_GatewayDisconnect_def mk_intent_def GatewayDisconnectHeader_def msg_id_tail_def plain_id_def
        ascii_text_def is_ascii_def)
  have hk: "decodeHeader [] = []" by code_simp
  have hd: "decodeHeader (msg_id_tail ?d) = [(''_msg_id'', mid)]"
    using decodeHeader_tail [of "[]" ?d] assms(3)
    by (simp add: clean_fields_def tail_field_def opt_field_def plain_id_def update_all_def clean_status d)
  have fr: "decode_from (FromAddress s) = FromAddress s" using assms(2) by (simp add: decode_from_plain plain_address_def)
  obtain m where "DecodeMessage G ro (sm_MessageBytes (frame ?k [] [])) = Some (m, None)" "m_From m = FromAddress s"
    "m_Intent m = IT_Keepalive" "m_MessageId m = []"
    using DecodeMessage_no_payload [of ?k "[]" IT_Keepalive G ro] ek lookup_service_intents(1) fr
    by (auto simp: k hk decode_command_def first_of.simps get_or_def IT_Keepalive_def mk_intent_def)
  moreover obtain n where "DecodeMessage G ro (sm_MessageBytes (frame ?d (msg_id_tail ?d) [])) = Some (n, None)" "m_From n = FromAddress s"
    "m_Intent n = IT_GatewayDisconnect" "m_MessageId n = mid"
    using DecodeMessage_no_payload [of ?d "msg_id_tail ?d" IT_GatewayDisconnect G ro] ed lookup_service_intents(2) fr
    by (auto simp: d hd decode_command_def first_of.simps get_or_def IT_GatewayDisconnect_def mk_intent_def)
  ultimately show ?thesis using ek ed by blast
qed

section \<open>Witnesses\<close>

text \<open>A tick that finds the client connected and whose write fails, then one whose context is cancelled.\<close>

definition sample_tick :: "bool \<Rightarrow> tick" where
  "sample_tick b = \<lparr>tk_cancelled = b, tk_closed = False, tk_reconnecting = False, tk_now = 0, tk_id = ''k1'',
     tk_writes = [(0, Some (OtherError ''broken pipe'' None))], tk_pool_now = 0, tk_pool_id = ''k2'',
     tk_pool_writes = (\<lambda>k. \<lparr>pw_deadline = None, pw_n = 0, pw_err = Some (OtherError ''broken pipe'' None)\<rparr>)\<rparr>"

theorem keepalive_only_loses_connection_witness:
  "keepaliveLoop sample_lib [sample_tick False, sample_tick True] (sample_actor, Some sample_pool)
     = Done (True, sample_actor\<lparr>ss_conn := markDisconnected (ss_conn sample_actor)\<rparr>, Some sample_pool)
   \<and> IsConnected (Some (ss_conn sample_actor)) \<and> (\<exists>t \<in> {sample_tick False, sample_tick True}. tk_cancelled t)"
proof -
  have run: "keepaliveLoop sample_lib [sample_tick False, sample_tick True] (sample_actor, Some sample_pool)
     = Done (True, sample_actor\<lparr>ss_conn := markDisconnected (ss_conn sample_actor)\<rparr>, Some sample_pool)"
    by code_simp
  moreover have "IsConnected (Some (ss_conn sample_actor))" by code_simp
  moreover have "\<exists>t \<in> set [sample_tick False, sample_tick True]. tk_cancelled t"
    using keepalive_only_loses_connection [OF run] by blast
  ultimately show ?thesis by simp
qed

end
