(* ===== verification/ErrorCatalog.thy ===== *)
theory ErrorCatalog
  imports GatewayErrors
begin

text \<open>
  The catalogue of \<open>errors/errors.go\<close>: the number of every code and every sentinel of the package, with
  the classification that \<open>IsConnectionLost\<close> and \<open>IsIdleTimeout\<close> give them.
\<close>

section \<open>Codes\<close>

text \<open>The constants, in the order of \<open>iota\<close>.\<close>

definition gw_codes :: "gw_code list" where
  "gw_codes = [G_ErrCodeUnknown, G_ErrCodeNilContext, G_ErrCodeClientNotFound, G_ErrCodeClientNotConnected,
     G_ErrCodeClientConnectionFailed, G_ErrCodeNetworkNotSupported, G_ErrCodeResolveFailed,
     G_ErrCodePoolExhausted, G_ErrCodePluginNotFound, G_ErrCodePluginNotReady, G_ErrCodeStartPluginFailed,
     G_ErrCodeGetRPCClientFailed, G_ErrCodeDispensePluginFailed, G_ErrCodePluginMetricsMergeFailed,
     G_ErrCodePluginPingFailed, G_ErrCodePluginScaffoldFailed, G_ErrCopyEmbeddedFilesFailed,
     G_ErrCodePluginScaffoldInputFileReadFailed, G_ErrCodeClientReceiveFailed, G_ErrCodeClientSendFailed,
     G_ErrCodeServerReceiveFailed, G_ErrCodeServerSendFailed, G_ErrCodeServerListenFailed,
     G_ErrCodeSplitHostPortFailed, G_ErrCodeAcceptFailed, G_ErrCodeGetTLSConfigFailed,
     G_ErrCodeTLSDisabled, G_ErrCodeUpgradeToTLSFailed, G_ErrCodeReadFailed, G_ErrCodePutFailed,
     G_ErrCodeNilPointer, G_ErrCodeCastFailed, G_ErrCodeHookReturnedError,
     G_ErrCodeHookTerminatedConnection, G_ErrCodeFileNotFound, G_ErrCodeFileOpenFailed,
     G_ErrCodeFileReadFailed, G_ErrCodeDuplicateMetricsCollector, G_ErrCodeInvalidMetricType,
     G_ErrCodeValidationFailed, G_ErrCodeLintingFailed, G_ErrCodeExtractFailed, G_ErrCodeDownloadFailed,
     G_ErrCodeKeyNotFound, G_ErrCodeRunError, G_ErrCodeAsyncAction, G_ErrCodeEvalError,
     G_ErrCodeMsgEncodeError, G_ErrCodeConfigParseError, G_ErrCodePublishAsyncAction,
     G_ErrCodeLoadBalancerStrategyNotFound, G_ErrCodeNoProxiesAvailable, G_ErrCodeNoLoadBalancerRules,
     G_ErrCodeConnectionLost, G_ErrCodeReceiveIdleTimeout]"

fun position :: "gw_code \<Rightarrow> gw_code list \<Rightarrow> nat" where
  "position c [] = 0"
| "position c (d # ds) = (if c = d then 0 else Suc (position c ds))"

definition gw_code_value :: "gw_code \<Rightarrow> nat" where
  "gw_code_value c = position c gw_codes"

section \<open>Sentinels\<close>

definition ErrClientNotFound :: go_error where
  "ErrClientNotFound = GatewayDError G_ErrCodeClientNotFound ''client not found'' None"

definition ErrNilContext :: go_error where
  "ErrNilContext = GatewayDError G_ErrCodeNilContext ''context is nil'' None"

definition ErrPoolExhausted :: go_error where
  "ErrPoolExhausted = GatewayDError G_ErrCodePoolExhausted ''pool is exhausted'' None"

definition ErrPluginNotReady :: go_error where
  "ErrPluginNotReady = GatewayDError G_ErrCodePluginNotReady ''plugin is not ready'' None"

definition ErrFailedToStartPlugin :: go_error where
  "ErrFailedToStartPlugin = GatewayDError G_ErrCodeStartPluginFailed ''failed to start plugin'' None"

definition ErrFailedToGetRPCClient :: go_error where
  "ErrFailedToGetRPCClient = GatewayDError G_ErrCodeGetRPCClientFailed ''failed to get RPC client'' None"

definition ErrFailedToDispensePlugin :: go_error where
  "ErrFailedToDispensePlugin = GatewayDError G_ErrCodeDispensePluginFailed ''failed to dispense plugin'' None"

definition ErrFailedToMergePluginMetrics :: go_error where
  "ErrFailedToMergePluginMetrics = GatewayDError G_ErrCodePluginMetricsMergeFailed ''failed to merge plugin metrics'' None"

definition ErrFailedToPingPlugin :: go_error where
  "ErrFailedToPingPlugin = GatewayDError G_ErrCodePluginPingFailed ''failed to ping plugin'' None"

definition ErrFailedToScaffoldPlugin :: go_error where
  "ErrFailedToScaffoldPlugin = GatewayDError G_ErrCodePluginScaffoldFailed ''failed to scaffold plugin'' None"

definition ErrFailedToCopyEmbeddedFiles :: go_error where
  "ErrFailedToCopyEmbeddedFiles = GatewayDError G_ErrCopyEmbeddedFilesFailed ''failed to copy embedded files'' None"

definition ErrFailedToReadPluginScaffoldInputFile :: go_error where
  "ErrFailedToReadPluginScaffoldInputFile = GatewayDError G_ErrCodePluginScaffoldInputFileReadFailed ''failed to read plugin scaffold input file'' None"

definition ErrClientReceiveFailed :: go_error where
  "ErrClientReceiveFailed = GatewayDError G_ErrCodeClientReceiveFailed ''couldn't receive data from the server'' None"

definition ErrClientSendFailed :: go_error where
  "ErrClientSendFailed = GatewayDError G_ErrCodeClientSendFailed ''couldn't send data to the server'' None"

definition ErrServerSendFailed :: go_error where
  "ErrServerSendFailed = GatewayDError G_ErrCodeServerSendFailed ''couldn't send data to the client'' None"

definition ErrServerListenFailed :: go_error where
  "ErrServerListenFailed = GatewayDError G_ErrCodeServerListenFailed ''couldn't listen on the server'' None"

definition ErrSplitHostPortFailed :: go_error where
  "ErrSplitHostPortFailed = GatewayDError G_ErrCodeSplitHostPortFailed ''failed to split host:port'' None"

definition ErrAcceptFailed :: go_error where
  "ErrAcceptFailed = GatewayDError G_ErrCodeAcceptFailed ''failed to accept connection'' None"

definition ErrGetTLSConfigFailed :: go_error where
  "ErrGetTLSConfigFailed = GatewayDError G_ErrCodeGetTLSConfigFailed ''failed to get TLS config'' None"

definition ErrUpgradeToTLSFailed :: go_error where
  "ErrUpgradeToTLSFailed = GatewayDError G_ErrCodeUpgradeToTLSFailed ''failed to upgrade to TLS'' None"

definition ErrReadFailed :: go_error where
  "ErrReadFailed = GatewayDError G_ErrCodeReadFailed ''failed to read from the client'' None"

definition ErrNilPointer :: go_error where
  "ErrNilPointer = GatewayDError G_ErrCodeNilPointer ''nil pointer'' None"

definition ErrCastFailed :: go_error where
  "ErrCastFailed = GatewayDError G_ErrCodeCastFailed ''failed to cast'' None"

definition ErrHookTerminatedConnection :: go_error where
  "ErrHookTerminatedConnection = GatewayDError G_ErrCodeHookTerminatedConnection ''hook terminated connection'' None"

definition ErrValidationFailed :: go_error where
  "ErrValidationFailed = GatewayDError G_ErrCodeValidationFailed ''validation failed'' None"

definition ErrLintingFailed :: go_error where
  "ErrLintingFailed = GatewayDError G_ErrCodeLintingFailed ''linting failed'' None"

definition ErrExtractFailed :: go_error where
  "ErrExtractFailed = GatewayDError G_ErrCodeExtractFailed ''failed to extract the archive'' None"

definition ErrDownloadFailed :: go_error where
  "ErrDownloadFailed = GatewayDError G_ErrCodeDownloadFailed ''failed to download the file'' None"

definition ErrActionNotExist :: go_error where
  "ErrActionNotExist = GatewayDError G_ErrCodeKeyNotFound ''action does not exist'' None"

definition ErrRunningAction :: go_error where
  "ErrRunningAction = GatewayDError G_ErrCodeRunError ''error running action'' None"

definition ErrAsyncAction :: go_error where
  "ErrAsyncAction = GatewayDError G_ErrCodeAsyncAction ''async action'' None"

definition ErrRunningActionTimeout :: go_error where
  "ErrRunningActionTimeout = GatewayDError G_ErrCodeRunError ''timeout running action'' None"

definition ErrActionNotMatched :: go_error where
  "ErrActionNotMatched = GatewayDError G_ErrCodeKeyNotFound ''no matching action'' None"

definition ErrPolicyNotMatched :: go_error where
  "ErrPolicyNotMatched = GatewayDError G_ErrCodeKeyNotFound ''no matching policy'' None"

definition ErrEvalError :: go_error where
  "ErrEvalError = GatewayDError G_ErrCodeEvalError ''error evaluating expression'' None"

definition ErrMsgEncodeError :: go_error where
  "ErrMsgEncodeError = GatewayDError G_ErrCodeMsgEncodeError ''error encoding message'' None"

definition ErrConfigParseError :: go_error where
  "ErrConfigParseError = GatewayDError G_ErrCodeConfigParseError ''error parsing config'' None"

definition ErrPublishingAsyncAction :: go_error where
  "ErrPublishingAsyncAction = GatewayDError G_ErrCodePublishAsyncAction ''error publishing async action'' None"

definition ErrLoadBalancerStrategyNotFound :: go_error where
  "ErrLoadBalancerStrategyNotFound = GatewayDError G_ErrCodeLoadBalancerStrategyNotFound ''The specified load balancer strategy does not exist.'' None"

definition ErrNoProxiesAvailable :: go_error where
  "ErrNoProxiesAvailable = GatewayDError G_ErrCodeNoProxiesAvailable ''No proxies available to select.'' None"

definition ErrNoLoadBalancerRules :: go_error where
  "ErrNoLoadBalancerRules = GatewayDError G_ErrCodeNoLoadBalancerRules ''No load balancer rules provided.'' None"

text \<open>All of them, in the order of the file.\<close>

definition sentinels :: "go_error list" where
  "sentinels = [ErrClientNotFound, ErrNilContext, ErrClientNotConnected, ErrClientConnectionFailed,
     ErrNetworkNotSupported, ErrResolveFailed, ErrPoolExhausted, ErrPluginNotReady,
     ErrFailedToStartPlugin, ErrFailedToGetRPCClient, ErrFailedToDispensePlugin,
     ErrFailedToMergePluginMetrics, ErrFailedToPingPlugin, ErrFailedToScaffoldPlugin,
     ErrFailedToCopyEmbeddedFiles, ErrFailedToReadPluginScaffoldInputFile, ErrClientReceiveFailed,
     ErrClientSendFailed, ErrServerSendFailed, ErrServerListenFailed, ErrSplitHostPortFailed,
     ErrAcceptFailed, ErrGetTLSConfigFailed, ErrUpgradeToTLSFailed, ErrReadFailed, ErrNilPointer,
     ErrCastFailed, ErrHookTerminatedConnection, ErrValidationFailed, ErrLintingFailed, ErrExtractFailed,
     ErrDownloadFailed, ErrActionNotExist, ErrRunningAction, ErrAsyncAction, ErrRunningActionTimeout,
     ErrActionNotMatched, ErrPolicyNotMatched, ErrEvalError, ErrMsgEncodeError, ErrConfigParseError,
     ErrPublishingAsyncAction, ErrLoadBalancerStrategyNotFound, ErrNoProxiesAvailable,
     ErrNoLoadBalancerRules, ErrConnectionLost, ErrReceiveIdleTimeout]"

lemmas sentinel_defs = ErrClientNotFound_def ErrNilContext_def ErrClientNotConnected_def ErrClientConnectionFailed_def
  ErrNetworkNotSupported_def ErrResolveFailed_def ErrPoolExhausted_def ErrPluginNotReady_def
  ErrFailedToStartPlugin_def ErrFailedToGetRPCClient_def ErrFailedToDispensePlugin_def
  ErrFailedToMergePluginMetrics_def ErrFailedToPingPlugin_def ErrFailedToScaffoldPlugin_def
  ErrFailedToCopyEmbeddedFiles_def ErrFailedToReadPluginScaffoldInputFile_def ErrClientReceiveFailed_def
  ErrClientSendFailed_def ErrServerSendFailed_def ErrServerListenFailed_def ErrSplitHostPortFailed_def
  ErrAcceptFailed_def ErrGetTLSConfigFailed_def ErrUpgradeToTLSFailed_def ErrReadFailed_def
  ErrNilPointer_def ErrCastFailed_def ErrHookTerminatedConnection_def ErrValidationFailed_def
  ErrLintingFailed_def ErrExtractFailed_def ErrDownloadFailed_def ErrActionNotExist_def
  ErrRunningAction_def ErrAsyncAction_def ErrRunningActionTimeout_def ErrActionNotMatched_def
  ErrPolicyNotMatched_def ErrEvalError_def ErrMsgEncodeError_def ErrConfigParseError_def
  ErrPublishingAsyncAction_def ErrLoadBalancerStrategyNotFound_def ErrNoProxiesAvailable_def
  ErrNoLoadBalancerRules_def ErrConnectionLost_def ErrReceiveIdleTimeout_def

section \<open>Classification\<close>

lemma distinct_codes: "distinct gw_codes" "length gw_codes = 55"
  by code_simp+

lemma gw_codes_complete: "c \<in> set gw_codes"
  by (cases c) (simp_all add: gw_codes_def)

lemma position_nth: "c \<in> set cs \<Longrightarrow> position c cs < length cs \<and> cs ! position c cs = c"
  by (induction cs) auto

text \<open>Different codes have different numbers, below 55.\<close>

lemma gw_code_value_nth: "gw_codes ! gw_code_value c = c" "gw_code_value c < 55"
  using position_nth [OF gw_codes_complete, of c] distinct_codes(2) by (simp_all add: gw_code_value_def)

lemma gw_code_value_inject: "gw_code_value c = gw_code_value d \<longleftrightarrow> c = d"
  using gw_code_value_nth(1) by metis

lemma sentinels_plain: "list_all (\<lambda>s. Unwrap s = None \<and> codeOf s \<noteq> None) sentinels"
  by (simp add: sentinels_def sentinel_defs)

lemma sentinel_texts: "distinct (map error_text sentinels)"
  by (simp add: sentinels_def sentinel_defs)

lemma sentinel_codes_distinct:
  "distinct (map codeOf (filter (\<lambda>s. codeOf s \<noteq> Some G_ErrCodeKeyNotFound \<and> codeOf s \<noteq> Some G_ErrCodeRunError) sentinels))"
  by (simp add: sentinels_def sentinel_defs)

lemma sentinel_codes:
  "list_all (\<lambda>s. (codeOf s = Some G_ErrCodeConnectionLost) = (s = ErrConnectionLost)
     \<and> (codeOf s = Some G_ErrCodeReceiveIdleTimeout) = (s = ErrReceiveIdleTimeout)) sentinels"
  by (simp add: sentinels_def sentinel_defs)

text \<open>
  The catalogue tells its errors apart: every sentinel, whatever it wraps, is a lost connection
  or an idle timeout exactly when it is that sentinel, two sentinels with one text are one, and two with
  one code number too, but for the codes of missing keys and failed runs. A wrapped error is not
  looked at: a lost connection inside another sentinel is not a lost connection.
\<close>

lemma sentinels_told_apart:
  assumes "s \<in> set sentinels" "t \<in> set sentinels"
  shows "(IsConnectionLost (Some (Wrap s e)) \<longleftrightarrow> s = ErrConnectionLost)
    \<and> (IsIdleTimeout (Some (Wrap s e)) \<longleftrightarrow> s = ErrReceiveIdleTimeout)
    \<and> (error_text s = error_text t \<longrightarrow> s = t)
    \<and> (map_option gw_code_value (codeOf s) = map_option gw_code_value (codeOf t)
         \<and> codeOf s \<notin> {Some G_ErrCodeKeyNotFound, Some G_ErrCodeRunError} \<longrightarrow> s = t)"
proof (intro conjI impI)
  obtain c m where s: "s = GatewayDError c m None" using sentinels_plain assms(1) by (cases s) (auto simp: list_all_iff)
  have codes: "(codeOf s = Some G_ErrCodeConnectionLost) = (s = ErrConnectionLost)"
    "(codeOf s = Some G_ErrCodeReceiveIdleTimeout) = (s = ErrReceiveIdleTimeout)"
    using sentinel_codes assms(1) by (simp_all add: list_all_iff)
  show "IsConnectionLost (Some (Wrap s e)) \<longleftrightarrow> s = ErrConnectionLost"
    "IsIdleTimeout (Some (Wrap s e)) \<longleftrightarrow> s = ErrReceiveIdleTimeout"
    using codes by (simp_all add: s IsConnectionLost_def IsIdleTimeout_def)
  show "s = t" if "error_text s = error_text t"
    using sentinel_texts assms that by (auto simp: distinct_map inj_on_def)
  show "s = t" if same: "map_option gw_code_value (codeOf s) = map_option gw_code_value (codeOf t)
      \<and> codeOf s \<notin> {Some G_ErrCodeKeyNotFound, Some G_ErrCodeRunError}"
  proof -
    have "inj gw_code_value" by (simp add: inj_def gw_code_value_inject)
    then have "codeOf s = codeOf t" using same option.inj_map by (metis injD)
    then show ?thesis using same sentinel_codes_distinct assms by (auto simp: distinct_map inj_on_def)
  qed
qed

end
