(* ===== verification/ValidationReport.thy ===== *)
theory ValidationReport
  imports Validate GatewayErrors
begin

text \<open>
  The reports on violations (\<open>message/validate.go\<close>): the text for engineers (\<open>Error\<close>), the JSON for
  language models (\<open>LLMJson\<close>) and the remote explanation (\<open>ExplainValidationErrors\<close>). The reports print
  four prose fields as well, which no validator depends on; a reported violation extends the violation
  of \<open>Validate\<close> by them, with any text.
\<close>

record ReportedError = ValidationError +
  ve_Message :: string
  ve_Fix :: string
  ve_ExampleCode :: string
  ve_References :: "string list"


section \<open>The text report\<close>

definition heading :: "ReportedError \<Rightarrow> string" where
  "heading ve =
     (if EqualFold (ve_Severity ve) ''warn'' then ''[WARN]'' else ''[ERROR]'') @ '' '' @ ve_Intent ve @ '' / ''
     @ (if ve_Field ve = [] then ve_Intent ve else ve_Field ve)
     @ (if ve_WireField ve \<noteq> [] then '' ('' @ ve_WireField ve @ '')'' else []) @ '': '' @ ve_Rule ve"

definition detail :: "string \<Rightarrow> string \<Rightarrow> string list" where
  "detail label s = (if s \<noteq> [] then [label @ s] else [])"

definition report_lines :: "ReportedError \<Rightarrow> string list" where
  "report_lines ve = heading ve # detail ''  What: '' (ve_Message ve) @ detail ''  Fix:  '' (ve_Fix ve)
     @ detail ''  Code: '' (ve_ExampleCode ve)"

definition ValidationErrors_Error :: "ReportedError list \<Rightarrow> string" where
  "ValidationErrors_Error e = concat (map (\<lambda>l. l @ [NL]) (concat (map report_lines e)))"

section \<open>The JSON report\<close>

text \<open>A string as \<open>encoding/json\<close> writes it, with the HTML characters escaped.\<close>

definition json_rune :: "nat \<Rightarrow> string \<Rightarrow> string" where
  "json_rune r bytes =
     (if r < 128 then
        (if r = 0x22 \<or> r = 0x5C then [CHR 0x5C, char_of r]
         else if r = 8 then [CHR 0x5C, CHR ''b''] else if r = 12 then [CHR 0x5C, CHR ''f'']
         else if r = 10 then [CHR 0x5C, CHR ''n''] else if r = 13 then [CHR 0x5C, CHR ''r'']
         else if r = 9 then [CHR 0x5C, CHR ''t'']
         else if r < 32 \<or> r = 0x3C \<or> r = 0x3E \<or> r = 0x26 then CHR 0x5C # CHR ''u'' # hex_pad 4 r
         else [char_of r])
      else if r = 65533 \<and> length bytes = 1 then CHR 0x5C # ''ufffd''
      else if r = 0x2028 \<or> r = 0x2029 then CHR 0x5C # CHR ''u'' # hex_pad 4 r
      else bytes)"

function json_runes :: "string \<Rightarrow> string" where
  "json_runes s = (if s = [] then [] else
     (let (r, w) = decode_rune s in json_rune r (take w s) @ json_runes (drop w s)))"
  by pat_completeness auto
termination
proof (relation "measure length", goal_cases)
  case (2 s x r w)
  then show ?case using decode_rune_width [of s] by (cases "decode_rune s") auto
qed simp

declare json_runes.simps [simp del]

definition json_string :: "string \<Rightarrow> string" where
  "json_string s = CHR 0x22 # json_runes s @ [CHR 0x22]"

text \<open>\<open>json.MarshalIndent\<close> of the records, line by line.\<close>

definition json_field :: "string \<Rightarrow> string \<Rightarrow> string" where
  "json_field key v = ''    '' @ CHR 0x22 # key @ CHR 0x22 # '': '' @ v"

fun with_commas :: "string list \<Rightarrow> string list" where
  "with_commas [] = []"
| "with_commas [x] = [x]"
| "with_commas (x # y # ys) = (x @ '','') # with_commas (y # ys)"

definition json_references :: "string list \<Rightarrow> string list" where
  "json_references refs =
     (if refs = [] then [json_field ''references'' ''[]'']
      else json_field ''references'' ''['' # with_commas (map (\<lambda>r. ''      '' @ json_string r) refs) @ [''    ]''])"

definition json_object :: "ReportedError \<Rightarrow> string list" where
  "json_object ve =
     with_commas [json_field ''severity'' (json_string (ve_Severity ve)), json_field ''intent'' (json_string (ve_Intent ve)),
       json_field ''struct_path'' (json_string (ve_Field ve)), json_field ''wire_field'' (json_string (ve_WireField ve)),
       json_field ''rule'' (json_string (ve_Rule ve)), json_field ''description'' (json_string (ve_Message ve)),
       json_field ''fix'' (json_string (ve_Fix ve)), json_field ''example_code'' (json_string (ve_ExampleCode ve)) @ '','']
     @ json_references (ve_References ve)"

fun json_objects :: "ReportedError list \<Rightarrow> string list" where
  "json_objects [] = []"
| "json_objects [v] = ''  {'' # json_object v @ [''  }'']"
| "json_objects (v # w # ws) = ''  {'' # json_object v @ [''  },''] @ json_objects (w # ws)"

definition LLMJson :: "ReportedError list \<Rightarrow> string" where
  "LLMJson e = (if e = [] then ''[]'' else Join [NL] (''['' # json_objects e @ ['']'']))"

section \<open>The remote explanation\<close>

definition renderErrorPrompt :: "ReportedError \<Rightarrow> string" where
  "renderErrorPrompt ve =
     ''You are a Pod-OS Go client expert. A message validation error occurred.'' @ [NL, NL]
     @ ''Intent: '' @ ve_Intent ve @ [NL] @ ''Struct Path: '' @ ve_Field ve @ [NL] @ ''Wire Field: '' @ ve_WireField ve @ [NL]
     @ ''Rule Violated: '' @ ve_Rule ve @ [NL] @ ''Description: '' @ ve_Message ve @ [NL] @ ''Suggested Fix: '' @ ve_Fix ve @ [NL]
     @ ''Example Code: '' @ ve_ExampleCode ve @ [NL] @ ''Source References: '' @ Join '', '' (ve_References ve) @ [NL, NL]
     @ ''Task: Provide corrected Go code for this message construction. Show all required fields ''
     @ ''for the '' @ ve_Intent ve @ '' intent. If multiple valid approaches exist (e.g. EventA/EventB vs UniqueIdA/UniqueIdB), ''
     @ ''show both. Use only types from the message package.''"

text \<open>A request to the endpoint: its address, the model, and the prompts of system and user.\<close>

record chat_request =
  cq_url :: string
  cq_model :: string
  cq_system :: string
  cq_user :: string

text \<open>
  What a request comes to: the post fails, reading the body fails, the body is not the JSON expected, or
  it is, with the content of the first choice if there is one. The status code is not looked at.
\<close>

datatype chat_reply = PostFailed go_error | ReadFailed go_error | NotJson go_error | Choices "string option"

definition chat_request_for :: "string \<Rightarrow> string \<Rightarrow> ReportedError \<Rightarrow> chat_request" where
  "chat_request_for endpoint model ve =
     \<lparr>cq_url = endpoint @ ''/v1/chat/completions'', cq_model = model,
      cq_system = ''You are an expert in the Pod-OS Go client message library. Provide concise, correct Go code examples.'',
      cq_user = renderErrorPrompt ve\<rparr>"

definition explanation :: "ReportedError \<Rightarrow> string \<Rightarrow> string" where
  "explanation ve content = ''=== '' @ ve_Intent ve @ '' / '' @ ve_Rule ve @ '' ==='' @ [NL] @ content @ [NL, NL]"

text \<open>The loop: \<open>remote q\<close> is the reply to request \<open>q\<close>; the result has the requests made, in order.\<close>

fun explain_loop :: "(chat_request \<Rightarrow> chat_reply) \<Rightarrow> string \<Rightarrow> string \<Rightarrow> ReportedError list \<Rightarrow> string
    \<Rightarrow> string \<times> go_error option \<times> chat_request list" where
  "explain_loop remote endpoint model [] sb = (TrimRightByte NL sb, None, [])"
| "explain_loop remote endpoint model (ve # ves) sb =
     (let q = chat_request_for endpoint model ve in
      case remote q of
        PostFailed e \<Rightarrow> (sb, Some (OtherError (''vLLM request failed: '' @ error_text e) (Some e)), [q])
      | ReadFailed e \<Rightarrow> (sb, Some (OtherError (''read vLLM response: '' @ error_text e) (Some e)), [q])
      | NotJson e \<Rightarrow> (sb, Some (OtherError (''unmarshal vLLM response: '' @ error_text e) (Some e)), [q])
      | Choices c \<Rightarrow>
          (case explain_loop remote endpoint model ves (sb @ (case c of None \<Rightarrow> [] | Some t \<Rightarrow> explanation ve t)) of
             (out, e, qs) \<Rightarrow> (out, e, q # qs)))"

definition ExplainValidationErrors :: "bool \<Rightarrow> (chat_request \<Rightarrow> chat_reply) \<Rightarrow> ReportedError list \<Rightarrow> string \<Rightarrow> string
    \<Rightarrow> string \<times> go_error option \<times> chat_request list" where
  "ExplainValidationErrors enabled remote errs endpoint model =
     (if \<not> enabled \<or> errs = [] then ([], None, [])
      else if endpoint = [] then ([], Some (OtherError ''vLLM endpoint is required'' None), [])
      else explain_loop remote endpoint (if model = [] then ''default'' else model) errs [])"

section \<open>Facts\<close>

lemma Split_lines: "(\<And>l. l \<in> set ls \<Longrightarrow> c \<notin> set l) \<Longrightarrow> Split c (concat (map (\<lambda>l. l @ [c]) ls)) = ls @ [[]]"
  by (induction ls) (auto simp: Split_append)

text \<open>No byte of a JSON string is a control character.\<close>

lemma hex_pad_code: "c \<in> set (hex_pad w n) \<Longrightarrow> 48 \<le> code c"
  using digits_code [of 16 c n] by (auto simp: hex_pad_def pad0_def split: if_splits)

lemma take_decode_rune:
  assumes "decode_rune s = (r, w)" "s \<noteq> []" "\<not> (r = 65533 \<and> length (take w s) = 1)" "c \<in> set (take w s)" "128 \<le> r"
  shows "128 \<le> code c"
proof -
  obtain b t where s: "s = b # t" using assms(2) by (cases s) auto
  have b: "128 \<le> code b" using assms(1,5) by (auto simp: s split: if_splits)
  show ?thesis
  proof (cases "decode_tail (code b) t")
    case None
    then show ?thesis using assms b by (auto simp: s)
  next
    case (Some rw)
    then have "decode_tail (code b) t = Some (r, w)" using assms(1) b by (auto simp: s)
    then show ?thesis using assms(4) b cont_byte_le by (cases rule: decode_tail_cases) (auto simp: s)
  qed
qed

lemma json_rune_code:
  assumes "decode_rune s = (r, w)" "s \<noteq> []" "c \<in> set (json_rune r (take w s))"
  shows "32 \<le> code c"
proof (cases "r < 128")
  case True
  then show ?thesis using assms(3) hex_pad_code [of c 4 r] by (auto simp: json_rune_def code_char_of split: if_splits)
next
  case False
  then show ?thesis using assms take_decode_rune [OF assms(1,2), of c] hex_pad_code [of c 4 r]
    by (auto simp: json_rune_def split: if_splits)
qed

lemma json_runes_code: "c \<in> set (json_runes s) \<Longrightarrow> 32 \<le> code c"
proof (induction s rule: json_runes.induct)
  case (1 s)
  obtain r w where d: "decode_rune s = (r, w)" by fastforce
  from "1.prems" have "s \<noteq> [] \<and> (c \<in> set (json_rune r (take w s)) \<or> c \<in> set (json_runes (drop w s)))"
    by (auto simp: json_runes.simps [of s] d split: if_splits)
  then show ?case using json_rune_code [OF d] "1.IH" [OF _ d [symmetric] refl] by blast
qed

lemma json_string_no_newline [simp]: "NL \<notin> set (json_string s)"
  using json_runes_code [of NL s] by (auto simp: json_string_def)

lemma with_commas_lines: "l \<in> set (with_commas ls) \<Longrightarrow> \<exists>k \<in> set ls. l = k \<or> l = k @ '',''"
  by (induction ls rule: with_commas.induct) auto

lemma length_with_commas [simp]: "length (with_commas ls) = length ls"
  by (induction ls rule: with_commas.induct) auto

text \<open>The lines of an object: indented by four at least, and free of newlines whatever the violation holds.\<close>

definition inner_line :: "string \<Rightarrow> bool" where
  "inner_line l \<longleftrightarrow> NL \<notin> set l \<and> (\<exists>r. l = ''    '' @ r)"

lemma inner_line_comma: "inner_line l \<Longrightarrow> inner_line (l @ '','')"
  by (auto simp: inner_line_def)

lemma inner_line_field: "NL \<notin> set key \<Longrightarrow> NL \<notin> set v \<Longrightarrow> inner_line (json_field key v)"
  by (simp add: inner_line_def json_field_def)

lemma with_commas_inner: "list_all inner_line ls \<Longrightarrow> list_all inner_line (with_commas ls)"
  using with_commas_lines [of _ ls] inner_line_comma by (auto simp: list_all_iff)

lemma json_object_inner: "list_all inner_line (json_object ve)"
proof -
  have "list_all inner_line (map (\<lambda>r. ''      '' @ json_string r) (ve_References ve))"
    by (simp add: list_all_iff inner_line_def)
  then have "list_all inner_line (json_references (ve_References ve))"
    by (simp add: json_references_def inner_line_field with_commas_inner) (simp add: inner_line_def)
  then show ?thesis
    unfolding json_object_def by (simp add: inner_line_field inner_line_comma with_commas_inner)
qed

lemma json_objects_lines: "l \<in> set (json_objects vs) \<Longrightarrow> NL \<notin> set l"
  using json_object_inner
  by (induction vs rule: json_objects.induct) (force simp: list_all_iff inner_line_def)+

lemma json_objects_count: "filter (\<lambda>l. l = ''  {'') (json_objects vs) = replicate (length vs) ''  {''"
proof (induction vs rule: json_objects.induct)
  case (2 v)
  then show ?case using json_object_inner [of v] by (auto simp: list_all_iff inner_line_def filter_empty_conv)
next
  case (3 v w ws)
  then show ?case using json_object_inner [of v] by (auto simp: list_all_iff inner_line_def filter_empty_conv)
qed simp

section \<open>Properties\<close>

text \<open>
  The reports list every violation, in order. The text report has one heading line per
  violation, when no field holds a newline: its lines that start with a bracket are the headings. The
  JSON report has one object per violation whatever the fields hold, because a string in it has no
  newline.
\<close>

definition one_line :: "ReportedError \<Rightarrow> bool" where
  "one_line ve \<longleftrightarrow> (\<forall>s \<in> {ve_Intent ve, ve_Field ve, ve_WireField ve, ve_Rule ve, ve_Message ve, ve_Fix ve, ve_ExampleCode ve}.
     NL \<notin> set s)"

lemma report_lines_clean: "one_line ve \<Longrightarrow> l \<in> set (report_lines ve) \<Longrightarrow> NL \<notin> set l"
  by (auto simp: one_line_def report_lines_def heading_def detail_def split: if_splits)

lemma report_lines_headings: "filter (\<lambda>l. hd l = CHR ''['') (concat (map report_lines vs)) = map heading vs"
  by (induction vs) (auto simp: report_lines_def detail_def heading_def)

lemma reports_list_every_violation:
  "(list_all one_line vs \<longrightarrow>
      filter (\<lambda>l. l \<noteq> [] \<and> hd l = CHR ''['') (Split NL (ValidationErrors_Error vs)) = map heading vs)
   \<and> length (filter (\<lambda>l. l = ''  {'') (Split NL (LLMJson vs))) = length vs"
proof (intro conjI impI)
  assume "list_all one_line vs"
  then have "Split NL (ValidationErrors_Error vs) = concat (map report_lines vs) @ [[]]"
    unfolding ValidationErrors_Error_def by (intro Split_lines) (auto simp: list_all_iff dest: report_lines_clean)
  moreover have "filter (\<lambda>l. l \<noteq> [] \<and> hd l = CHR ''['') ls = filter (\<lambda>l. hd l = CHR ''['') ls" if "[] \<notin> set ls" for ls :: "string list"
    using that by (induction ls) auto
  moreover have "[] \<notin> set (concat (map report_lines vs))"
    by (auto simp: report_lines_def detail_def heading_def split: if_splits)
  ultimately show "filter (\<lambda>l. l \<noteq> [] \<and> hd l = CHR ''['') (Split NL (ValidationErrors_Error vs)) = map heading vs"
    by (simp add: report_lines_headings)
next
  have "Split NL (LLMJson vs) = (if vs = [] then [''[]''] else ''['' # json_objects vs @ ['']''])"
    using json_objects_lines by (auto simp: LLMJson_def Split_no_sep intro!: Split_Join)
  then show "length (filter (\<lambda>l. l = ''  {'') (Split NL (LLMJson vs))) = length vs"
    using json_objects_count [of vs] by auto
qed

text \<open>
  An explanation stops at the first failure: the requests made are those of the violations up to it, in
  order, and the text is that of the explanations before it.
\<close>

fun answered :: "chat_reply \<Rightarrow> bool" where
  "answered (Choices c) = True"
| "answered r = False"

lemma explain_requests:
  "snd (snd (explain_loop remote endpoint model vs sb)) =
     map (chat_request_for endpoint model)
       (take (Suc (length (takeWhile (\<lambda>v. answered (remote (chat_request_for endpoint model v))) vs))) vs)"
proof (induction vs arbitrary: sb)
  case (Cons v vs)
  then show ?case
    by (cases "remote (chat_request_for endpoint model v)") (simp_all add: Let_def case_prod_beta)
qed simp

end
