(* ===== verification/TagValues.thy ===== *)
theory TagValues
  imports GatewayErrors Roundtrip "HOL-Library.Word"
begin

text \<open>
  The accessors of a tag's dynamic value (\<open>message/types.go\<close>): as a string, an \<open>int\<close>, a \<open>float64\<close> or
  JSON. Integers are kept at their width: a conversion from \<open>uint64\<close> to \<open>int\<close> wraps, one from an
  integer to \<open>float64\<close> rounds to 53 bits, to the nearest and to even. The result of converting a
  float that no \<open>int\<close> represents is left to the implementation by the language and is an argument,
  as are the formatting of a \<open>float32\<close> and the two directions of \<open>encoding/json\<close>.
\<close>

section \<open>Conversions\<close>

text \<open>The conversion of an unsigned integer of at most 64 bits to \<open>int\<close>.\<close>

definition int_of_uint :: "nat \<Rightarrow> int" where
  "int_of_uint n = sint (word_of_nat n :: 64 word)"

definition int_range :: "int \<Rightarrow> bool" where
  "int_range i \<longleftrightarrow> - (2 ^ 63) \<le> i \<and> i < 2 ^ 63"

text \<open>A float is \<open>m * 2 ^ e\<close> with a sign; the conversion drops the fraction.\<close>

definition f64_magnitude :: "nat \<Rightarrow> int \<Rightarrow> nat" where
  "f64_magnitude m e = (if 0 \<le> e then m * 2 ^ nat e else m div 2 ^ nat (- e))"

definition f64_trunc :: "bool \<Rightarrow> nat \<Rightarrow> int \<Rightarrow> int" where
  "f64_trunc s m e = (if s then - int (f64_magnitude m e) else int (f64_magnitude m e))"

fun int_of_f64 :: "(f64 \<Rightarrow> int) \<Rightarrow> f64 \<Rightarrow> int" where
  "int_of_f64 unrepresentable (F64Fin s m e) =
     (if int_range (f64_trunc s m e) then f64_trunc s m e else unrepresentable (F64Fin s m e))"
| "int_of_f64 unrepresentable f = unrepresentable f"

text \<open>An integer to the nearest \<open>float64\<close>.\<close>

fun bit_length :: "nat \<Rightarrow> nat" where
  "bit_length n = (if n = 0 then 0 else Suc (bit_length (n div 2)))"

declare bit_length.simps [simp del]

definition f64_of_nat :: "bool \<Rightarrow> nat \<Rightarrow> f64" where
  "f64_of_nat s n =
     (if bit_length n \<le> 53 then F64Fin s n 0
      else let k = bit_length n - 53; q = n div 2 ^ k; r = n mod 2 ^ k;
               up = (2 ^ (k - 1) < r \<or> r = 2 ^ (k - 1) \<and> odd q)
           in F64Fin s (if up then q + 1 else q) (int k))"

definition f64_of_int :: "int \<Rightarrow> f64" where
  "f64_of_int i = f64_of_nat (i < 0) (nat \<bar>i\<bar>)"

section \<open>Accessors\<close>

text \<open>\<open>fmt.Sprintf("%v", v)\<close>.\<close>

definition Sprint_bytes :: "string \<Rightarrow> string" where
  "Sprint_bytes b = CHR ''['' # Join '' '' (map (\<lambda>c. digits 10 (code c)) b) @ '']''"

fun Sprint_value :: "golib \<Rightarrow> (f64 \<Rightarrow> string) \<Rightarrow> tag_value \<Rightarrow> string" where
  "Sprint_value G sprint32 VNil = ''<nil>''"
| "Sprint_value G sprint32 (VString s) = s"
| "Sprint_value G sprint32 (VInt i) = itoa i"
| "Sprint_value G sprint32 (VUint n) = digits 10 n"
| "Sprint_value G sprint32 (VFloat32 f) = sprint32 f"
| "Sprint_value G sprint32 (VFloat64 f) = Sprint_f64 G f"
| "Sprint_value G sprint32 (VBool b) = (if b then ''true'' else ''false'')"
| "Sprint_value G sprint32 (VBytes b) = Sprint_bytes b"
| "Sprint_value G sprint32 (VOther json v) = v"

definition StringValue :: "golib \<Rightarrow> (f64 \<Rightarrow> string) \<Rightarrow> Tag \<Rightarrow> string \<times> bool" where
  "StringValue G sprint32 t =
     (case tag_Value t of
        VString s \<Rightarrow> (s, True)
      | VNil \<Rightarrow> ([], False)
      | v \<Rightarrow> (Sprint_value G sprint32 v, False))"

definition IntValue :: "(f64 \<Rightarrow> int) \<Rightarrow> Tag \<Rightarrow> int \<times> bool" where
  "IntValue unrepresentable t =
     (case tag_Value t of
        VInt i \<Rightarrow> (i, True)
      | VUint n \<Rightarrow> (int_of_uint n, True)
      | VFloat32 f \<Rightarrow> (int_of_f64 unrepresentable f, True)
      | VFloat64 f \<Rightarrow> (int_of_f64 unrepresentable f, True)
      | _ \<Rightarrow> (0, False))"

definition FloatValue :: "Tag \<Rightarrow> f64 \<times> bool" where
  "FloatValue t =
     (case tag_Value t of
        VFloat64 f \<Rightarrow> (f, True)
      | VFloat32 f \<Rightarrow> (f, True)
      | VInt i \<Rightarrow> (f64_of_int i, True)
      | VUint n \<Rightarrow> (f64_of_nat False n, True)
      | _ \<Rightarrow> (zero_f64, False))"

text \<open>\<open>JSONValue\<close>: what it hands to \<open>json.Unmarshal\<close>, whose error it returns, or its own error.\<close>

definition JSONValue :: "(tag_value \<Rightarrow> go_error + string) \<Rightarrow> (string \<Rightarrow> go_error option) \<Rightarrow> Tag \<Rightarrow> go_error option" where
  "JSONValue marshal unmarshal t =
     (case tag_Value t of
        VNil \<Rightarrow> Some (OtherError ''tag value is nil'' None)
      | VString s \<Rightarrow> unmarshal s
      | v \<Rightarrow>
          (case marshal v of
             Inl e \<Rightarrow> Some (OtherError (''failed to marshal tag value: '' @ error_text e) (Some e))
           | Inr json \<Rightarrow> unmarshal json))"

section \<open>Facts\<close>

lemma bit_length_0 [simp]: "bit_length 0 = 0"
  by (simp add: bit_length.simps)

lemma bit_length_pos: "0 < n \<Longrightarrow> bit_length n = Suc (bit_length (n div 2))"
  by (subst bit_length.simps) simp

lemma bit_length_le_iff: "bit_length n \<le> k \<longleftrightarrow> n < 2 ^ k"
proof (induction k arbitrary: n)
  case 0
  then show ?case by (cases "n = 0") (simp_all add: bit_length_pos)
next
  case (Suc k)
  show ?case
  proof (cases "n = 0")
    case False
    then have "bit_length n \<le> Suc k \<longleftrightarrow> n div 2 < 2 ^ k"
      using Suc.IH [of "n div 2"] by (simp add: bit_length_pos)
    also have "\<dots> \<longleftrightarrow> n < 2 ^ Suc k"
      by (simp add: div_less_iff_less_mult mult.commute)
    finally show ?thesis .
  qed simp
qed

lemma f64_of_nat_small: "n < 2 ^ 53 \<Longrightarrow> f64_of_nat s n = F64Fin s n 0"
  by (simp add: f64_of_nat_def bit_length_le_iff)

lemma int_of_uint_eq:
  assumes "n < 2 ^ 64"
  shows "int_of_uint n = (if n < 2 ^ 63 then int n else int n - 2 ^ 64)"
proof (cases "n < 2 ^ 63")
  case True
  have "int_of_uint n = signed_take_bit 63 (int n)"
    by (simp add: int_of_uint_def signed_of_nat)
  also have "\<dots> = int n"
    using True by (intro signed_take_bit_int_eq_self) simp_all
  finally show ?thesis using True by simp
next
  case False
  have "int n + 2 ^ 63 = (int n - 2 ^ 63) + 2 ^ 64" by simp
  then have "(int n + 2 ^ 63) mod 2 ^ 64 = (int n - 2 ^ 63) mod 2 ^ 64"
    by (metis mod_add_self2)
  also have "\<dots> = int n - 2 ^ 63"
    using False assms by (intro mod_pos_pos_trivial) simp_all
  finally have "(int n + 2 ^ 63) mod 2 ^ 64 = int n - 2 ^ 63" .
  then have "signed_take_bit 63 (int n) = int n - 2 ^ 64"
    by (simp add: signed_take_bit_eq_take_bit_shift take_bit_eq_mod)
  with False show ?thesis
    by (simp add: int_of_uint_def signed_of_nat)
qed

lemma f64_magnitude_shift:
  assumes "1 \<le> k"
  shows "f64_magnitude q (int k) = q * 2 ^ k"
  by (simp add: f64_magnitude_def)

lemma int_of_f64_small:
  "n \<le> 2 ^ 53 \<Longrightarrow> int_of_f64 u (f64_of_nat s n) = (if s then - int n else int n)"
proof (cases "n = 2 ^ 53")
  case True
  have "bit_length (2 ^ 53) = 54"
    using bit_length_le_iff [of "2 ^ 53" 53] bit_length_le_iff [of "2 ^ 53" 54] by simp
  with True show ?thesis
    by (simp add: f64_of_nat_def f64_trunc_def f64_magnitude_def int_range_def)
next
  assume "n \<le> 2 ^ 53" "n \<noteq> 2 ^ 53"
  then have n: "n < 2 ^ 53" by simp
  then have "int n < 2 ^ 53" by simp
  with n show ?thesis
    by (simp add: f64_of_nat_small f64_trunc_def f64_magnitude_def int_range_def)
qed

text \<open>
  Claim C39. The number accessors of a tag. An integer of at most 53 bits comes back from the tag that
  holds its \<open>FloatValue\<close>; an unsigned value comes back from \<open>IntValue\<close> as itself exactly below
  \<open>2 ^ 63\<close>, and as a negative number, still reported as a success, from there on. What \<open>StringValue\<close>
  prints of an integer is not reported as a string.
\<close>

theorem tag_numbers_convert:
  assumes "\<bar>i\<bar> \<le> 2 ^ 53" "n < 2 ^ 64"
  shows "IntValue u (t\<lparr>tag_Value := VFloat64 (fst (FloatValue (t\<lparr>tag_Value := VInt i\<rparr>)))\<rparr>) = (i, True) \<and>
    (fst (IntValue u (t\<lparr>tag_Value := VUint n\<rparr>)) = int n \<longleftrightarrow> n < 2 ^ 63) \<and>
    (2 ^ 63 \<le> n \<longrightarrow> IntValue u (t\<lparr>tag_Value := VUint n\<rparr>) = (int n - 2 ^ 64, True)) \<and>
    StringValue G p (t\<lparr>tag_Value := VInt i\<rparr>) = (itoa i, False)"
proof (intro conjI impI)
  have "nat \<bar>i\<bar> \<le> 2 ^ 53" using assms(1) by simp
  then show "IntValue u (t\<lparr>tag_Value := VFloat64 (fst (FloatValue (t\<lparr>tag_Value := VInt i\<rparr>)))\<rparr>) = (i, True)"
    by (simp add: IntValue_def FloatValue_def f64_of_int_def int_of_f64_small)
  show "fst (IntValue u (t\<lparr>tag_Value := VUint n\<rparr>)) = int n \<longleftrightarrow> n < 2 ^ 63"
    using assms(2) by (simp add: IntValue_def int_of_uint_eq)
  show "IntValue u (t\<lparr>tag_Value := VUint n\<rparr>) = (int n - 2 ^ 64, True)" if "2 ^ 63 \<le> n"
    using assms(2) that by (simp add: IntValue_def int_of_uint_eq)
  show "StringValue G p (t\<lparr>tag_Value := VInt i\<rparr>) = (itoa i, False)"
    by (simp add: StringValue_def)
qed

definition sample_tag :: "tag_value \<Rightarrow> Tag" where
  "sample_tag v = \<lparr>tag_Frequency = 1, tag_Key = ''seq'', tag_Value = v, tag_Timestamp = [], tag_Id = [],
     tag_Owner = [], tag_OwnerUniqueID = []\<rparr>"

theorem tag_numbers_convert_witness:
  "IntValue (\<lambda>_. 0) (sample_tag (VUint (2 ^ 63 + 5))) = (5 - 2 ^ 63, True) \<and>
   StringValue sample_lib (\<lambda>_. []) (sample_tag (VInt 7)) = (''7'', False)"
  using tag_numbers_convert [of 7 "2 ^ 63 + 5" "\<lambda>_. 0" "sample_tag VNil" sample_lib "\<lambda>_. []"]
  by (simp add: sample_tag_def itoa_def digits.simps digit_char_def char_of_def bit_0)

end
