(* ===== verification/Timeouts.thy ===== *)
theory Timeouts
  imports Complex_Main Transport Config
begin

text \<open>
  The times of the socket client (\<open>connection/client.go\<close>): the defaults of \<open>NewClient\<close>, the options
  \<open>applyTCPOptions\<close> sets, and the deadlines and the activity timeout of \<open>Receive\<close>, whose verdicts are
  observations in \<open>Transport\<close>. A \<open>time.Duration\<close> is its count of nanoseconds, an instant the nanoseconds
  from some origin; every reading of the clock is an argument. The floating-point operations of the
  activity timeout are exact ones followed by a rounding, an argument.
\<close>

definition Minute :: int where "Minute = 60 * Second"
definition Millisecond :: int where "Millisecond = 1000000"

lemmas duration_defs = Second_def Minute_def Millisecond_def

section \<open>Settings\<close>

text \<open>The fields of \<open>ClientConfig\<close> and \<open>Client\<close> that hold times, as the client's configuration fills them.\<close>

record socket_times =
  st_DialTimeout :: int
  st_SendDeadline :: int
  st_ReceiveTimeout :: int
  st_ReceiveDeadline :: int
  st_KeepAliveIdle :: int
  st_KeepAliveInterval :: int
  st_KeepAliveCount :: int
  st_UserTimeout :: int

definition or_default :: "int \<Rightarrow> int \<Rightarrow> int" where
  "or_default v d = (if v = 0 then d else v)"

definition positive_part :: "int \<Rightarrow> int" where
  "positive_part v = (if v > 0 then v else 0)"

definition NewClient_times :: "Config \<Rightarrow> socket_times" where
  "NewClient_times cfg =
     \<lparr>st_DialTimeout = or_default (cf_DialTimeout cfg) (5 * Second), st_SendDeadline = or_default (cf_SendTimeout cfg) (5 * Second),
      st_ReceiveTimeout = or_default (cf_ReceiveTimeout cfg) (5 * Second), st_ReceiveDeadline = 0,
      st_KeepAliveIdle = positive_part (cf_TCPKeepAliveIdle cfg), st_KeepAliveInterval = positive_part (cf_TCPKeepAliveInterval cfg),
      st_KeepAliveCount = positive_part (cf_TCPKeepAliveCount cfg), st_UserTimeout = positive_part (cf_TCPUserTimeout cfg)\<rparr>"

section \<open>Socket options\<close>

definition keepAliveIdle :: int where "keepAliveIdle = 15 * Second"
definition keepAliveInterval :: int where "keepAliveInterval = 5 * Second"
definition keepAliveCount :: int where "keepAliveCount = 3"
definition tcpUserTimeoutMS :: int where "tcpUserTimeoutMS = 60000"

text \<open>The calls on the socket, in order; an error is logged, only that of the keepalive settings has a fallback.\<close>

datatype sock_call =
    SetNoDelay bool
  | SetKeepAliveConfig int int int
  | SetKeepAlive bool
  | SetKeepAlivePeriod int
  | SetUserTimeout int

text \<open>\<open>TCP_USER_TIMEOUT\<close> exists on Linux only (\<open>tcp_linux.go\<close>, \<open>tcp_other.go\<close>).\<close>

definition setTCPUserTimeout :: "bool \<Rightarrow> bool \<Rightarrow> int \<Rightarrow> sock_call list" where
  "setTCPUserTimeout linux isTCP ms = (if linux \<and> isTCP then [SetUserTimeout ms] else [])"

definition applyTCPOptions :: "bool \<Rightarrow> bool \<Rightarrow> (sock_call \<Rightarrow> bool) \<Rightarrow> socket_times \<Rightarrow> sock_call list" where
  "applyTCPOptions linux isTCP fails c =
     (if \<not> isTCP then []
      else
        let kaIdle = (if st_KeepAliveIdle c > 0 then st_KeepAliveIdle c else keepAliveIdle);
            kaInterval = (if st_KeepAliveInterval c > 0 then st_KeepAliveInterval c else keepAliveInterval);
            kaCount = (if st_KeepAliveCount c > 0 then st_KeepAliveCount c else keepAliveCount);
            userTimeoutMS = (if st_UserTimeout c > 0 then st_UserTimeout c div Millisecond else tcpUserTimeoutMS);
            kaCfg = SetKeepAliveConfig kaIdle kaInterval kaCount
        in [SetNoDelay True, kaCfg]
           @ (if fails kaCfg then [SetKeepAlive True, SetKeepAlivePeriod kaIdle] else [])
           @ setTCPUserTimeout linux isTCP userTimeoutMS)"

text \<open>
  With the defaults a dead peer is found after 15 + 3 * 5 seconds without an answer, as the comment
  announces. A user timeout below a millisecond becomes 0, which asks for the default of the system.
\<close>

lemma default_tcp_options:
  assumes "cf_TCPKeepAliveIdle cfg \<le> 0" "cf_TCPKeepAliveInterval cfg \<le> 0" "cf_TCPKeepAliveCount cfg \<le> 0" "cf_TCPUserTimeout cfg \<le> 0"
  shows "applyTCPOptions True True (\<lambda>_. False) (NewClient_times cfg)
    = [SetNoDelay True, SetKeepAliveConfig (15 * Second) (5 * Second) 3, SetUserTimeout 60000]"
  using assms
  by (simp add: applyTCPOptions_def NewClient_times_def positive_part_def setTCPUserTimeout_def keepAliveIdle_def
      keepAliveInterval_def keepAliveCount_def tcpUserTimeoutMS_def)

lemma small_user_timeout_is_zero:
  assumes "0 < cf_TCPUserTimeout cfg" "cf_TCPUserTimeout cfg < Millisecond"
  shows "last (applyTCPOptions True True fails (NewClient_times cfg)) = SetUserTimeout 0"
  using assms by (simp add: applyTCPOptions_def NewClient_times_def positive_part_def setTCPUserTimeout_def Let_def)

section \<open>Deadlines of a receive\<close>

text \<open>The deadline of the context \<open>Receive\<close> works with, at the time \<open>now\<close> of its start.\<close>

definition receive_context :: "socket_times \<Rightarrow> int \<Rightarrow> int option \<Rightarrow> int option" where
  "receive_context c now deadline =
     (case deadline of
        Some d \<Rightarrow> Some d
      | None \<Rightarrow> if st_ReceiveTimeout c > 0 then Some (now + st_ReceiveTimeout c) else None)"

text \<open>
  The deadline of one read, of the prefix and of the rest; \<open>None\<close> when the context's own has passed.
  \<open>now\<close> is the clock of \<open>time.Until\<close>, \<open>now'\<close> that of \<open>time.Now\<close>.
\<close>

definition prefix_read_deadline :: "socket_times \<Rightarrow> int \<Rightarrow> int \<Rightarrow> int option \<Rightarrow> int option" where
  "prefix_read_deadline c now now' deadline =
     (case deadline of
        Some d \<Rightarrow> if d - now \<le> 0 then None else Some d
      | None \<Rightarrow> Some (now' +
          (if st_ReceiveTimeout c > 0 then st_ReceiveTimeout c
           else if st_ReceiveDeadline c > 0 then st_ReceiveDeadline c
           else 5 * Minute)))"

definition body_read_deadline :: "socket_times \<Rightarrow> int \<Rightarrow> int \<Rightarrow> int option \<Rightarrow> int option" where
  "body_read_deadline c now now' deadline =
     (case deadline of
        Some d \<Rightarrow>
          if d - now \<le> 0 then None
          else let perReadTimeout = (if d - now > 60 * Second then 60 * Second else d - now);
                   calculated = now' + perReadTimeout
               in Some (if calculated > d then d else calculated)
      | None \<Rightarrow> Some (now' + or_default (st_ReceiveDeadline c) (60 * Second)))"

section \<open>The activity timeout\<close>

text \<open>\<open>d.Seconds()\<close> of a positive duration.\<close>

definition duration_seconds :: "(rat \<Rightarrow> rat) \<Rightarrow> int \<Rightarrow> rat" where
  "duration_seconds rnd d =
     rnd (rnd (of_int (d div Second)) + rnd (rnd (of_int (d mod Second)) / rnd (of_int Second)))"

text \<open>
  The time one chunk takes at the expected rate, and the timeout: \<open>remaining\<close> is the number of bytes
  still to come and \<open>left\<close> the time until the deadline. For the chunks of the client, 512 bytes, no
  product leaves the range of \<open>int64\<close>.
\<close>

definition expected_rate :: "(rat \<Rightarrow> rat) \<Rightarrow> nat \<Rightarrow> int \<Rightarrow> rat" where
  "expected_rate rnd remaining left =
     (let rate = rnd (rnd (of_nat remaining) / duration_seconds rnd left)
      in if rate < 1024 then 1024 else rate)"

definition chunk_transfer_time :: "(rat \<Rightarrow> rat) \<Rightarrow> nat \<Rightarrow> rat \<Rightarrow> int" where
  "chunk_transfer_time rnd chunk rate = \<lfloor>rnd (rnd (rnd (of_nat chunk) / rate) * rnd (of_int Second))\<rfloor>"

definition activity_timeout :: "(rat \<Rightarrow> rat) \<Rightarrow> nat \<Rightarrow> nat \<Rightarrow> int option \<Rightarrow> int" where
  "activity_timeout rnd chunk remaining deadline_left =
     (case deadline_left of
        None \<Rightarrow> 2 * Minute
      | Some left \<Rightarrow>
          if left > 0 then
            let a = chunk_transfer_time rnd chunk (expected_rate rnd remaining left) * 3;
                a = (if a < 30 * Second then 30 * Second else a);
                a = (if a > 2 * Minute then 2 * Minute else a)
            in if a > left then left else a
          else 10 * Second)"

text \<open>What the rounding of IEEE 754 promises: it is monotone and leaves small multiples of a half alone.\<close>

definition rounding :: "(rat \<Rightarrow> rat) \<Rightarrow> bool" where
  "rounding rnd \<longleftrightarrow> mono rnd \<and> (\<forall>x\<in>{1/2, 512, 500000000, 1000000000}. rnd x = x)"

lemma chunk_transfer_time_le:
  assumes "rounding rnd" "1024 \<le> rate"
  shows "chunk_transfer_time rnd 512 rate \<le> 500000000"
proof -
  have m: "mono rnd" and r: "rnd (1/2) = 1/2" "rnd 512 = 512" "rnd 500000000 = 500000000" "rnd 1000000000 = 1000000000"
    using assms(1) by (auto simp: rounding_def)
  have "512 / rate \<le> 1/2" using assms(2) by (simp add: field_simps)
  then have "rnd (512 / rate) \<le> 1/2" using monoD [OF m] r(1) by metis
  then have "rnd (512 / rate) * 1000000000 \<le> 500000000" by simp
  then have "rnd (rnd (512 / rate) * 1000000000) \<le> 500000000" using monoD [OF m] r(3) by metis
  then show ?thesis using r by (simp add: chunk_transfer_time_def Second_def floor_le_iff)
qed

lemma activity_timeout_eq:
  assumes "rounding rnd" "0 < left"
  shows "activity_timeout rnd 512 remaining (Some left) = min (30 * Second) left"
proof -
  have "1024 \<le> expected_rate rnd remaining left" by (simp add: expected_rate_def Let_def)
  from chunk_transfer_time_le [OF assms(1) this] assms(2) show ?thesis
    by (simp add: activity_timeout_def Let_def duration_defs)
qed

text \<open>
  Claim C11. Inside a frame a read timeout ends the receive. With a deadline the activity timeout is
  thirty seconds, or the time left, whatever the transfer rate; a read waits up to a minute, or to the
  deadline. So when a read times out, at \<open>t\<close>, either the deadline has passed or there was no data for
  longer than the activity timeout: the loop never goes on with a fresh deadline.
\<close>

theorem timed_out_read_is_final:
  assumes "rounding rnd"
    and "start \<le> now" "now \<le> now'" "lastActivity \<le> now'"
    and "body_read_deadline c now now' (Some deadline) = Some readDeadline"
    and "readDeadline \<le> t"
  shows "activity_timeout rnd 512 remaining (Some (deadline - start)) = min (30 * Second) (deadline - start) \<and>
    readDeadline \<le> deadline \<and> readDeadline \<le> now' + Minute \<and>
    (deadline \<le> t \<or> t - lastActivity > activity_timeout rnd 512 remaining (Some (deadline - start)))"
proof -
  have now: "0 < deadline - now"
    using assms(5) by (simp add: body_read_deadline_def split: if_splits)
  have rd: "readDeadline = min deadline (now' + min (60 * Second) (deadline - now))"
    using assms(5) now by (auto simp: body_read_deadline_def Let_def)
  have at: "activity_timeout rnd 512 remaining (Some (deadline - start)) = min (30 * Second) (deadline - start)"
    using now assms(2) by (intro activity_timeout_eq [OF assms(1)]) simp
  have "deadline \<le> t \<or> now' + 60 * Second \<le> t"
    using rd assms(3,6) by (auto simp: min_def split: if_splits)
  then have "deadline \<le> t \<or> t - lastActivity > 30 * Second"
    using assms(4) by (auto simp: Second_def)
  then show ?thesis
    using at rd by (auto simp: Minute_def)
qed

theorem timed_out_read_is_final_witness:
  "activity_timeout id 512 100000000 (Some (300 * Second)) = 30 * Second \<and>
   body_read_deadline (NewClient_times zero_Config) 0 0 (Some (300 * Second)) = Some (60 * Second) \<and>
   60 * Second - 0 > activity_timeout id 512 100000000 (Some (300 * Second))"
proof -
  have d: "body_read_deadline (NewClient_times zero_Config) 0 0 (Some (300 * Second)) = Some (60 * Second)"
    by (simp add: body_read_deadline_def duration_defs)
  have "rounding id" by (simp add: rounding_def mono_def)
  from timed_out_read_is_final [OF this _ _ _ d, of 0 0 "60 * Second" 100000000] d show ?thesis
    by (simp add: duration_defs)
qed

end
