(* ===== verification/Logging.thy ===== *)
theory Logging
  imports Config
begin

text \<open>
  The logger of a client (\<open>log/logger.go\<close>, \<open>log/slog.go\<close>): the choice between the injected logger, the
  one over \<open>log/slog\<close> and the silent one, the two level filters a record passes, and the fields
  attached with \<open>With\<close>. A logger the application injects is given by what it answers and writes;
  the record \<open>log/slog\<close> writes is its level, its message and its fields, without time and layout.
\<close>

section \<open>Levels\<close>

type_synonym Level = int

definition LevelDisabled :: Level where "LevelDisabled = 0"
definition LevelError :: Level where "LevelError = 1"
definition LevelWarn :: Level where "LevelWarn = 2"
definition LevelInfo :: Level where "LevelInfo = 3"
definition LevelDebug :: Level where "LevelDebug = 4"

lemmas level_defs = LevelDisabled_def LevelError_def LevelWarn_def LevelInfo_def LevelDebug_def

text \<open>The levels of \<open>log/slog\<close>, with their documented order.\<close>

datatype slog_level = SlogDebug | SlogInfo | SlogWarn | SlogError

primrec slog_value :: "slog_level \<Rightarrow> int" where
  "slog_value SlogDebug = - 4"
| "slog_value SlogInfo = 0"
| "slog_value SlogWarn = 4"
| "slog_value SlogError = 8"

definition levelToSlog :: "Level \<Rightarrow> slog_level" where
  "levelToSlog l =
     (if l = LevelDebug then SlogDebug
      else if l = LevelInfo then SlogInfo
      else if l = LevelWarn then SlogWarn
      else if l = LevelError then SlogError
      else SlogError)"

section \<open>Loggers\<close>

record log_record =
  lr_level :: slog_level
  lr_msg :: string
  lr_keyvals :: "(string \<times> string) list"

text \<open>An \<open>slog.Logger\<close>: the threshold of its handler and the fields attached to it.\<close>

record slog_logger =
  slog_threshold :: slog_level
  slog_attrs :: "(string \<times> string) list"

definition slog_log :: "slog_logger \<Rightarrow> slog_level \<Rightarrow> string \<Rightarrow> (string \<times> string) list \<Rightarrow> log_record list" where
  "slog_log l lv msg kvs =
     (if slog_value (slog_threshold l) \<le> slog_value lv
      then [\<lparr>lr_level = lv, lr_msg = msg, lr_keyvals = slog_attrs l @ kvs\<rparr>] else [])"

datatype logger =
    InjectedLogger "Level \<Rightarrow> bool" "(string \<times> string) list \<Rightarrow> Level \<Rightarrow> string \<Rightarrow> (string \<times> string) list \<Rightarrow> log_record list"
      "(string \<times> string) list"
  | SlogLogger slog_logger Level
  | NoOpLogger

definition NewSlogLogger :: "Level \<Rightarrow> logger" where
  "NewSlogLogger level = SlogLogger \<lparr>slog_threshold = levelToSlog level, slog_attrs = []\<rparr> level"

fun log_Enabled :: "logger \<Rightarrow> Level \<Rightarrow> bool" where
  "log_Enabled (InjectedLogger enabled write attrs) level = enabled level"
| "log_Enabled (SlogLogger l lv) level = (if level = LevelDisabled then False else level \<le> lv)"
| "log_Enabled NoOpLogger level = False"

text \<open>\<open>Debug\<close>, \<open>Info\<close>, \<open>Warn\<close> and \<open>Error\<close>: the call at a level, and what it writes.\<close>

fun log_at :: "logger \<Rightarrow> Level \<Rightarrow> string \<Rightarrow> (string \<times> string) list \<Rightarrow> log_record list" where
  "log_at (InjectedLogger enabled write attrs) level msg kvs = write attrs level msg kvs"
| "log_at (SlogLogger l lv) level msg kvs =
     (if log_Enabled (SlogLogger l lv) level then slog_log l (levelToSlog level) msg kvs else [])"
| "log_at NoOpLogger level msg kvs = []"

fun log_With :: "logger \<Rightarrow> (string \<times> string) list \<Rightarrow> logger" where
  "log_With (InjectedLogger enabled write attrs) kvs = InjectedLogger enabled write (attrs @ kvs)"
| "log_With (SlogLogger l lv) kvs = SlogLogger (l\<lparr>slog_attrs := slog_attrs l @ kvs\<rparr>) lv"
| "log_With NoOpLogger kvs = NoOpLogger"

definition LoggerOrNoOp :: "logger option \<Rightarrow> logger" where
  "LoggerOrNoOp l = (case l of None \<Rightarrow> NoOpLogger | Some l' \<Rightarrow> l')"

definition LoggerFromConfig :: "logger option \<Rightarrow> Level \<Rightarrow> logger" where
  "LoggerFromConfig l level =
     (case l of
        Some l' \<Rightarrow> l'
      | None \<Rightarrow> if LevelDisabled < level then NewSlogLogger level else NoOpLogger)"

section \<open>What is written\<close>

definition call_levels :: "Level list" where
  "call_levels = [LevelError, LevelWarn, LevelInfo, LevelDebug]"

lemma call_level_cases:
  "k \<in> set call_levels \<Longrightarrow> k = 1 \<or> k = 2 \<or> k = 3 \<or> k = 4"
  by (auto simp: call_levels_def level_defs)

text \<open>The handler lets a record of a call level pass that the level test of the logger lets pass.\<close>

lemma thresholds_agree:
  assumes "k \<in> set call_levels" "1 \<le> L" "L \<le> 4"
  shows "slog_value (levelToSlog L) \<le> slog_value (levelToSlog k) \<longleftrightarrow> k \<le> L"
proof -
  have "L = 1 \<or> L = 2 \<or> L = 3 \<or> L = 4" using assms(2,3) by arith
  then show ?thesis using call_level_cases [OF assms(1)]
    by (elim disjE) (simp_all add: levelToSlog_def level_defs)
qed

lemma log_at_slog:
  "log_at (log_With (NewSlogLogger L) ctx) k msg kvs =
     (if k \<noteq> LevelDisabled \<and> k \<le> L \<and> slog_value (levelToSlog L) \<le> slog_value (levelToSlog k)
      then [\<lparr>lr_level = levelToSlog k, lr_msg = msg, lr_keyvals = ctx @ kvs\<rparr>] else [])"
  by (simp add: NewSlogLogger_def slog_log_def)

lemma log_Enabled_With [simp]: "log_Enabled (log_With l kvs) k = log_Enabled l k"
  by (cases l) simp_all

text \<open>
  Claim C40. Without an injected logger, a documented level, 0 to 4, decides alone what is written: a
  call writes one record, with the attached fields before its own, exactly when its level is not above
  the configured one, and \<open>Enabled\<close> announces it. A negative level, like 0, silences the client. Above
  4 the two filters part: \<open>Enabled\<close> answers yes at every level, but only errors are written.
\<close>

theorem log_level_decides:
  assumes "k \<in> set call_levels"
    and "l = log_With (LoggerFromConfig None (cf_LogLevel cfg)) ctx"
  shows "log_Enabled l k = (k \<le> cf_LogLevel cfg) \<and>
    (cf_LogLevel cfg \<le> 4 \<longrightarrow> log_at l k msg kvs =
       (if k \<le> cf_LogLevel cfg then [\<lparr>lr_level = levelToSlog k, lr_msg = msg, lr_keyvals = ctx @ kvs\<rparr>] else [])) \<and>
    (4 < cf_LogLevel cfg \<longrightarrow> (log_at l k msg kvs \<noteq> [] \<longleftrightarrow> k = LevelError))"
proof (cases "1 \<le> cf_LogLevel cfg")
  case True
  have l: "l = log_With (NewSlogLogger (cf_LogLevel cfg)) ctx"
    using assms(2) True by (simp add: LoggerFromConfig_def level_defs)
  have k: "k \<noteq> LevelDisabled" using call_level_cases [OF assms(1)] by (auto simp: level_defs)
  show ?thesis
  proof (intro conjI impI)
    show "log_Enabled l k = (k \<le> cf_LogLevel cfg)"
      using k by (simp add: l) (simp add: NewSlogLogger_def)
    show "log_at l k msg kvs =
       (if k \<le> cf_LogLevel cfg then [\<lparr>lr_level = levelToSlog k, lr_msg = msg, lr_keyvals = ctx @ kvs\<rparr>] else [])"
      if "cf_LogLevel cfg \<le> 4"
      using k thresholds_agree [OF assms(1) True that] by (simp add: l log_at_slog)
    show "log_at l k msg kvs \<noteq> [] \<longleftrightarrow> k = LevelError" if "4 < cf_LogLevel cfg"
      using call_level_cases [OF assms(1)] that
      by (elim disjE) (simp_all add: l log_at_slog levelToSlog_def level_defs)
  qed
next
  case False
  then have "l = NoOpLogger"
    using assms(2) by (simp add: LoggerFromConfig_def level_defs)
  with False show ?thesis using call_level_cases [OF assms(1)] by auto
qed

theorem log_level_decides_witness:
  "log_at (log_With (LoggerFromConfig None (cf_LogLevel (zero_Config\<lparr>cf_LogLevel := 3\<rparr>))) [(''key'', ''me:gw'')])
     LevelInfo ''connected'' [] = [\<lparr>lr_level = SlogInfo, lr_msg = ''connected'', lr_keyvals = [(''key'', ''me:gw'')]\<rparr>] \<and>
   log_at (log_With (LoggerFromConfig None (cf_LogLevel (zero_Config\<lparr>cf_LogLevel := 5\<rparr>))) []) LevelWarn ''slow'' [] = []"
proof (rule conjI)
  show "log_at (log_With (LoggerFromConfig None (cf_LogLevel (zero_Config\<lparr>cf_LogLevel := 3\<rparr>))) [(''key'', ''me:gw'')])
     LevelInfo ''connected'' [] = [\<lparr>lr_level = SlogInfo, lr_msg = ''connected'', lr_keyvals = [(''key'', ''me:gw'')]\<rparr>]"
    using log_level_decides [of LevelInfo _ "zero_Config\<lparr>cf_LogLevel := 3\<rparr>" "[(''key'', ''me:gw'')]" "''connected''" "[]", OF _ refl]
    by (simp add: call_levels_def level_defs levelToSlog_def)
  show "log_at (log_With (LoggerFromConfig None (cf_LogLevel (zero_Config\<lparr>cf_LogLevel := 5\<rparr>))) []) LevelWarn ''slow'' [] = []"
    using log_level_decides [of LevelWarn _ "zero_Config\<lparr>cf_LogLevel := 5\<rparr>" "[]" "''slow''" "[]", OF _ refl]
    by (simp add: call_levels_def level_defs)
qed

end
