(* ===== verification/Knowledge.thy ===== *)
theory Knowledge
  imports GatewayErrors
begin

text \<open>
  The documents embedded in the library and their names (\<open>knowledge/access.go\<close>). Their texts are files
  that are no code, and arguments here.
\<close>

record knowledge_texts =
  CommunicationPrompts :: string
  MessageHandlingPrompts :: string
  NeuralMemoryEventPrompts :: string
  NeuralMemoryRetrievalPrompts :: string

definition GetDocument :: "knowledge_texts \<Rightarrow> string \<Rightarrow> go_error + string" where
  "GetDocument D name =
     (if name = ''communication'' then Inr (CommunicationPrompts D)
      else if name = ''message-handling'' then Inr (MessageHandlingPrompts D)
      else if name = ''neural-memory'' then Inr (NeuralMemoryEventPrompts D)
      else if name = ''neural-memory-retrieval'' then Inr (NeuralMemoryRetrievalPrompts D)
      else Inl (OtherError (''unknown document: '' @ name) None))"

definition ListDocuments :: "string list" where
  "ListDocuments =
     [''communication'', ''message-handling'', ''neural-memory'', ''neural-memory-retrieval'', ''plan'', ''prompts'']"

text \<open>Every document is listed; two of the listed names are unknown to \<open>GetDocument\<close>.\<close>

lemma documents_are_listed: "GetDocument D name = Inr text \<Longrightarrow> name \<in> set ListDocuments"
  by (auto simp: GetDocument_def ListDocuments_def split: if_splits)

lemma listed_documents_missing:
  "filter (\<lambda>name. \<forall>text. GetDocument D name \<noteq> Inr text) ListDocuments = [''plan'', ''prompts'']"
  by (simp add: ListDocuments_def GetDocument_def)

end
