(* ===== verification/CodecErrors.thy ===== *)
theory CodecErrors
  imports Types
begin

text \<open>
  Chains of codec errors (\<open>message/errors.go\<close>): the constructors that wrap any error, \<open>Unwrap\<close> and the
  two classifiers, which look for a type along the chain. The records of \<open>Types\<close> are the errors the
  encoder and the decoder make, with what they wrap.
\<close>

datatype chained =
    ChainDecode ErrCode string string "chained option"
  | ChainEncode ErrCode string string "chained option"
  | ChainOther string "chained option"

definition NewDecodeError :: "ErrCode \<Rightarrow> string \<Rightarrow> chained" where
  "NewDecodeError c msg = ChainDecode c msg [] None"

definition WrapDecodeError_chain :: "ErrCode \<Rightarrow> string \<Rightarrow> chained option \<Rightarrow> chained" where
  "WrapDecodeError_chain c msg e = ChainDecode c msg [] e"

definition WrapEncodeError :: "ErrCode \<Rightarrow> string \<Rightarrow> chained option \<Rightarrow> chained" where
  "WrapEncodeError c msg e = ChainEncode c msg [] e"

fun Unwrap_chain :: "chained \<Rightarrow> chained option" where
  "Unwrap_chain (ChainDecode c msg f e) = e"
| "Unwrap_chain (ChainEncode c msg f e) = e"
| "Unwrap_chain (ChainOther msg e) = e"

text \<open>\<open>errors.As\<close> for one type: the first error of the chain that has it.\<close>

fun errors_As :: "(chained \<Rightarrow> bool) \<Rightarrow> chained \<Rightarrow> chained option" where
  "errors_As has (ChainDecode c msg f e) = (if has (ChainDecode c msg f e) then Some (ChainDecode c msg f e)
     else case e of None \<Rightarrow> None | Some w \<Rightarrow> errors_As has w)"
| "errors_As has (ChainEncode c msg f e) = (if has (ChainEncode c msg f e) then Some (ChainEncode c msg f e)
     else case e of None \<Rightarrow> None | Some w \<Rightarrow> errors_As has w)"
| "errors_As has (ChainOther msg e) = (if has (ChainOther msg e) then Some (ChainOther msg e)
     else case e of None \<Rightarrow> None | Some w \<Rightarrow> errors_As has w)"

fun is_decode :: "chained \<Rightarrow> bool" where
  "is_decode (ChainDecode c msg f e) = True"
| "is_decode _ = False"

fun is_encode :: "chained \<Rightarrow> bool" where
  "is_encode (ChainEncode c msg f e) = True"
| "is_encode _ = False"

definition IsDecodeError :: "chained option \<Rightarrow> bool" where
  "IsDecodeError e \<longleftrightarrow> Option.bind e (errors_As is_decode) \<noteq> None"

definition IsEncodeError :: "chained option \<Rightarrow> bool" where
  "IsEncodeError e \<longleftrightarrow> Option.bind e (errors_As is_encode) \<noteq> None"

text \<open>A wrapper keeps both answers, but for the one it gives itself: an error may be of both kinds.\<close>

lemma errors_As_Some_iff:
  "errors_As has e \<noteq> None \<longleftrightarrow> has e \<or> (case Unwrap_chain e of None \<Rightarrow> False | Some w \<Rightarrow> errors_As has w \<noteq> None)"
  by (cases e) (auto split: option.splits)

lemma codec_errors_of_wrapped:
  "IsDecodeError (Some (WrapEncodeError c msg e)) = IsDecodeError e"
  "IsEncodeError (Some (WrapDecodeError_chain c msg e)) = IsEncodeError e"
  "IsDecodeError (Some (WrapDecodeError_chain c msg e))" "IsEncodeError (Some (WrapEncodeError c msg e))"
  by (cases e; simp add: IsDecodeError_def IsEncodeError_def WrapEncodeError_def WrapDecodeError_chain_def)+

end
